(* ===== verification/WhatapPrelude.thy ===== *)
theory WhatapPrelude
  imports Main "HOL-Library.AList" "HOL-Library.Multiset"
begin

text \<open>
  What every component of the operator model shares: Go maps, lists of named entries and
  the loops over them.

  A Go map is its entries as an association list; the position of an entry stands for the
  position at which a \<open>range\<close> loop visits it, so a theorem about every list of entries is
  a theorem about every iteration order.  The nil map is told apart from the empty one
  (\<open>None\<close> against \<open>Some []\<close>), because the operator tests \<open>m != nil\<close> in some places and
  \<open>len(m) == 0\<close> in others.

  Kubernetes lists (environment variables, volumes, containers, pull secrets) are keyed by a
  name field but are lists to Go: duplicates are possible and their order matters.  The
  locale \<open>add_absent\<close> is the contract of the loops that add an entry unless its name is
  taken; each of them is interpreted in the theory that models it.
\<close>

section \<open>Collections of rewrite rules\<close>

named_theorems go_map_simps
  \<open>lookups in maps written by the range loops of the source\<close>

named_theorems named_simps
  \<open>what the loops over named entries leave under one name\<close>

section \<open>Values the operator only copies\<close>

text \<open>
  A Kubernetes value whose inside the operator never looks at is kept as an opaque token;
  the empty token is the Go zero value.
\<close>

type_synonym opaque = string

section \<open>Go maps\<close>

type_synonym 'v entries = "(string \<times> 'v) list"

type_synonym 'v gomap = "'v entries option"

definition entries :: "'v gomap \<Rightarrow> 'v entries" where
  "entries m = (case m of None \<Rightarrow> [] | Some es \<Rightarrow> es)"

definition mget :: "'v gomap \<Rightarrow> string \<Rightarrow> 'v option" where
  "mget m k = map_of (entries m) k"

text \<open>Reading a missing key of a \<open>map[string]string\<close> gives the zero value.\<close>

definition mget_str :: "string gomap \<Rightarrow> string \<Rightarrow> string" where
  "mget_str m k = (case mget m k of None \<Rightarrow> '''' | Some v \<Rightarrow> v)"

lemma entries_simps [simp]: "entries None = []" "entries (Some es) = es"
  by (simp_all add: entries_def)

lemma mget_None [simp]: "mget None k = None"
  by (simp add: mget_def)

text \<open>\<open>m[k] = v\<close> on a map that was made first when it was nil.\<close>

definition mput :: "string \<Rightarrow> 'v \<Rightarrow> 'v gomap \<Rightarrow> 'v gomap" where
  "mput k v m = Some (AList.update k v (entries m))"

lemma mget_mput [simp]: "mget (mput k v m) j = (if j = k then Some v else mget m j)"
  by (simp add: mget_def mput_def update_conv')

text \<open>
  \<open>for k, v := range extra { base[k] = v }\<close>: later entries win over earlier ones and over
  the base.
\<close>

definition overlay :: "'v entries \<Rightarrow> 'v entries \<Rightarrow> 'v entries" where
  "overlay base extra = foldl (\<lambda>m (k, v). AList.update k v m) base extra"

text \<open>
  \<open>for k, v := range extra { if _, ok := base[k]; !ok { base[k] = v } }\<close>: only missing keys
  are written.
\<close>

definition fill_absent :: "'v entries \<Rightarrow> 'v entries \<Rightarrow> 'v entries" where
  "fill_absent base extra =
     foldl (\<lambda>m (k, v). if map_of m k = None then AList.update k v m else m) base extra"

lemma overlay_simps [simp]:
  "overlay base [] = base"
  "overlay base ((k, v) # es) = overlay (AList.update k v base) es"
  by (simp_all add: overlay_def)

lemma fill_absent_simps [simp]:
  "fill_absent base [] = base"
  "fill_absent base ((k, v) # es) =
     fill_absent (if map_of base k = None then AList.update k v base else base) es"
  by (simp_all add: fill_absent_def)

lemma map_of_overlay_rev: "map_of (overlay base es) = map_of base ++ map_of (rev es)"
proof (induction es arbitrary: base)
  case Nil
  then show ?case by simp
next
  case (Cons e es)
  obtain k v where e: "e = (k, v)" by (cases e)
  show ?case
    by (simp add: e Cons.IH update_conv' map_of_append map_add_def fun_eq_iff
        split: option.splits)
qed

lemma map_of_rev_distinct: "distinct (map fst es) \<Longrightarrow> map_of (rev es) = map_of es"
proof (induction es)
  case Nil
  then show ?case by simp
next
  case (Cons e es)
  then have "fst e \<notin> dom (map_of es)" by (simp add: dom_map_of_conv_image_fst)
  with Cons show ?case
    by (auto simp: map_of_append map_add_def fun_eq_iff split: option.splits)
qed

lemma map_of_overlay [go_map_simps]:
  assumes "distinct (map fst es)"
  shows "map_of (overlay base es) = map_of base ++ map_of es"
  using assms by (simp add: map_of_overlay_rev map_of_rev_distinct)

lemma map_of_fill_absent [go_map_simps]:
  "map_of (fill_absent base es) = map_of es ++ map_of base"
proof (induction es arbitrary: base)
  case Nil
  then show ?case by simp
next
  case (Cons e es)
  obtain k v where e: "e = (k, v)" by (cases e)
  show ?case
  proof (cases "map_of base k")
    case None
    then show ?thesis
      by (auto simp: e Cons.IH update_conv' map_add_def fun_eq_iff split: option.splits)
  next
    case (Some w)
    then show ?thesis
      by (auto simp: e Cons.IH map_add_def fun_eq_iff split: option.splits)
  qed
qed

lemma distinct_overlay: "distinct (map fst base) \<Longrightarrow> distinct (map fst (overlay base es))"
  by (induction es arbitrary: base) (auto simp: distinct_update)

lemma distinct_fill_absent:
  "distinct (map fst base) \<Longrightarrow> distinct (map fst (fill_absent base es))"
  by (induction es arbitrary: base) (auto simp: distinct_update)

text \<open>A fill leaves every key the base already has as it was.\<close>

lemma fill_absent_keeps:
  "map_of base k = Some v \<Longrightarrow> map_of (fill_absent base es) k = Some v"
  by (simp add: map_of_fill_absent map_add_Some_iff)

section \<open>Lists of named entries\<close>

text \<open>The entries of a list that carry one name, in order.\<close>

definition named :: "('a \<Rightarrow> string) \<Rightarrow> string \<Rightarrow> 'a list \<Rightarrow> 'a list" where
  "named nm n xs = filter (\<lambda>x. nm x = n) xs"

definition names :: "('a \<Rightarrow> string) \<Rightarrow> 'a list \<Rightarrow> string set" where
  "names nm xs = nm ` set xs"

lemma named_Nil [simp]: "named nm n [] = []"
  by (simp add: named_def)

lemma named_Cons [simp]:
  "named nm n (x # xs) = (if nm x = n then x # named nm n xs else named nm n xs)"
  by (simp add: named_def)

lemma named_append [simp]: "named nm n (xs @ ys) = named nm n xs @ named nm n ys"
  by (simp add: named_def)

lemma names_simps [simp]:
  "names nm [] = {}"
  "names nm (x # xs) = insert (nm x) (names nm xs)"
  "names nm (xs @ ys) = names nm xs \<union> names nm ys"
  by (auto simp: names_def)

lemma named_empty_iff: "named nm n xs = [] \<longleftrightarrow> n \<notin> names nm xs"
  by (auto simp: named_def names_def filter_empty_conv)

lemma named_not_in [named_simps]: "n \<notin> names nm xs \<Longrightarrow> named nm n xs = []"
  by (simp add: named_empty_iff)

lemma set_named: "x \<in> set (named nm n xs) \<longleftrightarrow> x \<in> set xs \<and> nm x = n"
  by (auto simp: named_def)

lemma named_filter_keep:
  "(\<And>x. nm x = n \<Longrightarrow> P x) \<Longrightarrow> named nm n (filter P xs) = named nm n xs"
  by (induction xs) auto

lemma named_filter_drop:
  "(\<And>x. nm x = n \<Longrightarrow> \<not> P x) \<Longrightarrow> named nm n (filter P xs) = []"
  by (induction xs) auto

lemma named_distinct:
  "distinct (map nm xs) \<Longrightarrow> x \<in> set xs \<Longrightarrow> named nm (nm x) xs = [x]"
  by (induction xs) (auto simp: named_empty_iff names_def)

text \<open>The first entry under a name.\<close>

definition first_named :: "('a \<Rightarrow> string) \<Rightarrow> string \<Rightarrow> 'a list \<Rightarrow> 'a option" where
  "first_named nm n xs = (case named nm n xs of [] \<Rightarrow> None | x # _ \<Rightarrow> Some x)"

text \<open>
  The loop \<open>for i, e := range xs { if e.Name == n { xs[i] = ...; found = true; break } }\<close>: edits
  the first entry under a name and reports whether there was one.
\<close>

fun edit_first :: "('a \<Rightarrow> string) \<Rightarrow> string \<Rightarrow> ('a \<Rightarrow> 'a) \<Rightarrow> 'a list \<Rightarrow> bool \<times> 'a list" where
  "edit_first nm n f [] = (False, [])"
| "edit_first nm n f (x # xs) =
     (if nm x = n then (True, f x # xs)
      else (case edit_first nm n f xs of (found, ys) \<Rightarrow> (found, x # ys)))"

lemma edit_first_found: "fst (edit_first nm n f xs) \<longleftrightarrow> n \<in> names nm xs"
  by (induction xs) (auto split: prod.splits)

lemma edit_first_absent: "n \<notin> names nm xs \<Longrightarrow> edit_first nm n f xs = (False, xs)"
  by (induction xs) auto

lemma edit_first_named:
  assumes "\<And>x. nm (f x) = nm x"
  shows "named nm m (snd (edit_first nm n f xs)) =
           (if m = n then (case named nm n xs of [] \<Rightarrow> [] | y # ys \<Rightarrow> f y # ys)
            else named nm m xs)"
  using assms by (induction xs) (auto split: prod.splits)

lemma edit_first_names:
  assumes "\<And>x. nm (f x) = nm x"
  shows "names nm (snd (edit_first nm n f xs)) = names nm xs"
  using assms by (induction xs) (auto split: prod.splits)

lemma edit_first_length: "length (snd (edit_first nm n f xs)) = length xs"
  by (induction xs) (auto split: prod.splits)

lemma edit_first_cases:
  "(case edit_first nm n f xs of (found, ys) \<Rightarrow> if found then ys else zs) =
     (if n \<in> names nm xs then snd (edit_first nm n f xs) else zs)"
  using edit_first_found [of nm n f xs] by (auto split: prod.splits)

section \<open>Adding entries whose name is not taken\<close>

text \<open>
  The contract shared by the loops that add entries unless the name is present: the base
  list stays as a prefix, a name the base has keeps exactly its entries, a new name gets the
  first entry offered for it.
\<close>

locale add_absent =
  fixes nm :: "'a \<Rightarrow> string"
    and add :: "'a list \<Rightarrow> 'a list \<Rightarrow> 'a list"
  assumes add_prefix: "\<exists>ys. add base extras = base @ ys"
    and add_present:
      "n \<noteq> '''' \<Longrightarrow> n \<in> names nm base \<Longrightarrow> named nm n (add base extras) = named nm n base"
    and add_new:
      "n \<noteq> '''' \<Longrightarrow> n \<notin> names nm base \<Longrightarrow>
        named nm n (add base extras) = take 1 (named nm n extras)"
begin

lemma named_add:
  "n \<noteq> '''' \<Longrightarrow> named nm n (add base extras) =
     (if n \<in> names nm base then named nm n base else take 1 (named nm n extras))"
  by (simp add: add_present add_new)

lemma names_add:
  "n \<noteq> '''' \<Longrightarrow> n \<in> names nm (add base extras) \<longleftrightarrow> n \<in> names nm base \<or> n \<in> names nm extras"
  using named_add [of n base extras]
  by (metis named_empty_iff take_eq_Nil one_neq_zero)

lemma first_named_add:
  "n \<noteq> '''' \<Longrightarrow> first_named nm n (add base extras) =
     (case first_named nm n base of None \<Rightarrow> first_named nm n extras | Some x \<Rightarrow> Some x)"
  by (auto simp: first_named_def named_add named_empty_iff [symmetric] split: list.splits)

lemma add_keeps_single:
  assumes "n \<noteq> ''''" and "length (named nm n base) \<le> 1"
  shows "length (named nm n (add base extras)) \<le> 1"
  using assms by (simp add: named_add)

lemma add_again:
  assumes "n \<noteq> ''''"
  shows "named nm n (add (add base extras) extras) = named nm n (add base extras)"
proof (cases "n \<in> names nm (add base extras)")
  case True
  with assms show ?thesis by (simp add: add_present)
next
  case False
  with assms have "n \<notin> names nm extras" by (simp add: names_add)
  with assms False show ?thesis by (simp add: add_new named_not_in)
qed

end

section \<open>Strings\<close>

text \<open>The value with a default for the empty string.\<close>

definition or_default :: "string \<Rightarrow> string \<Rightarrow> string" where
  "or_default s d = (if s = '''' then d else s)"

lemma or_default_simps [simp]:
  "or_default '''' d = d"
  "s \<noteq> '''' \<Longrightarrow> or_default s d = s"
  by (simp_all add: or_default_def)

text \<open>\<open>strings.Join\<close>.\<close>

fun join :: "string \<Rightarrow> string list \<Rightarrow> string" where
  "join sep [] = ''''"
| "join sep [x] = x"
| "join sep (x # y # ys) = x @ sep @ join sep (y # ys)"


end
