(* ===== verification/KubeTypes.thy ===== *)
theory KubeTypes
  imports WhatapPrelude
begin

text \<open>
  The Kubernetes API objects the operator reads and writes (packages \<open>corev1\<close>, \<open>appsv1\<close>,
  \<open>metav1\<close>): one record per struct with the fields the operator's code names.  Fields no
  operator code names are carried along in one opaque \<open>rest\<close> field where an existing object
  of the cluster is updated in place, so that a theorem can say they are kept.  A Go pointer
  is an option, a slice a list, a string-typed enum a string.  These are declarations of a
  library, not code under \<open>src/\<close>; no behaviour is attached to them here.
\<close>

section \<open>Environment variables\<close>

datatype env_source =
    FieldRef string
  | SecretKeyRef string string
  | ResourceFieldRef string string
  | OtherEnvSource opaque

record env_var =
  ev_name :: string
  ev_value :: string
  ev_from :: "env_source option"

abbreviation EnvVal :: "string \<Rightarrow> string \<Rightarrow> env_var" where
  "EnvVal n v \<equiv> \<lparr>ev_name = n, ev_value = v, ev_from = None\<rparr>"

abbreviation EnvFrom :: "string \<Rightarrow> env_source \<Rightarrow> env_var" where
  "EnvFrom n s \<equiv> \<lparr>ev_name = n, ev_value = '''', ev_from = Some s\<rparr>"

text \<open>The API server refuses a variable that has both a value and a source.\<close>

definition env_var_valid :: "env_var \<Rightarrow> bool" where
  "env_var_valid e \<longleftrightarrow> ev_from e = None \<or> ev_value e = ''''"

section \<open>Volumes and mounts\<close>

datatype volume_source =
    EmptyDir
  | ConfigMapVolume string "int option"
  | HostPathVolume string "string option"
  | SecretVolume string "bool option" "(string \<times> string) list"
  | OtherVolume opaque

record volume =
  vol_name :: string
  vol_source :: volume_source

record volume_mount =
  vm_name :: string
  vm_path :: string
  vm_sub_path :: string
  vm_read_only :: bool
  vm_propagation :: "string option"

abbreviation Mount :: "string \<Rightarrow> string \<Rightarrow> volume_mount" where
  "Mount n p \<equiv> \<lparr>vm_name = n, vm_path = p, vm_sub_path = '''', vm_read_only = False,
                 vm_propagation = None\<rparr>"

section \<open>Containers\<close>

record resource_reqs =
  rr_limits :: "string gomap"
  rr_requests :: "string gomap"

definition no_resources :: resource_reqs where
  "no_resources = \<lparr>rr_limits = None, rr_requests = None\<rparr>"

record security_context =
  sc_run_as_non_root :: "bool option"
  sc_run_as_user :: "int option"
  sc_allow_priv_esc :: "bool option"
  sc_capabilities_add :: "string list"
  sc_rest :: opaque

definition no_security_context :: security_context where
  "no_security_context =
     \<lparr>sc_run_as_non_root = None, sc_run_as_user = None, sc_allow_priv_esc = None,
      sc_capabilities_add = [], sc_rest = ''''\<rparr>"

record container_port =
  cp_name :: string
  cp_container_port :: int
  cp_host_port :: int
  cp_protocol :: string

record probe =
  pr_tcp_port :: int
  pr_initial_delay :: int
  pr_period :: int
  pr_rest :: opaque

record container =
  ct_name :: string
  ct_image :: string
  ct_pull_policy :: string
  ct_command :: "string list"
  ct_args :: "string list"
  ct_ports :: "container_port list"
  ct_env :: "env_var list"
  ct_resources :: resource_reqs
  ct_mounts :: "volume_mount list"
  ct_security :: "security_context option"
  ct_liveness :: "probe option"
  ct_readiness :: "probe option"
  ct_term_path :: string
  ct_term_policy :: string
  ct_rest :: opaque

text \<open>The Go zero value of \<open>corev1.Container\<close>: the fields a literal leaves out.\<close>

definition zero_container :: container where
  "zero_container =
     \<lparr>ct_name = '''', ct_image = '''', ct_pull_policy = '''', ct_command = [], ct_args = [],
      ct_ports = [], ct_env = [], ct_resources = no_resources, ct_mounts = [],
      ct_security = None, ct_liveness = None, ct_readiness = None, ct_term_path = '''',
      ct_term_policy = '''', ct_rest = ''''\<rparr>"

section \<open>Scheduling\<close>

record node_req =
  nr_key :: string
  nr_op :: string
  nr_values :: "string list"

record node_term =
  nt_exprs :: "node_req list"
  nt_fields :: opaque

text \<open>
  \<open>corev1.Affinity\<close>: the node affinity with its required terms; the pod affinities and the
  preferred terms are only copied.  The three nested pointers are three options.
\<close>

record node_affinity =
  naf_required :: "node_term list option"
  naf_preferred :: opaque

record affinity =
  af_node :: "node_affinity option"
  af_rest :: opaque

section \<open>Pods\<close>

record pod_security =
  psc_selinux :: "opaque option"
  psc_windows :: "opaque option"
  psc_run_as_user :: "int option"
  psc_run_as_group :: "int option"
  psc_run_as_non_root :: "bool option"
  psc_supplemental_groups :: "int list option"
  psc_fs_group :: "int option"
  psc_sysctls :: "opaque list option"
  psc_fs_group_change_policy :: "string option"
  psc_seccomp :: "string option"

definition no_pod_security :: pod_security where
  "no_pod_security =
     \<lparr>psc_selinux = None, psc_windows = None, psc_run_as_user = None,
      psc_run_as_group = None, psc_run_as_non_root = None, psc_supplemental_groups = None,
      psc_fs_group = None, psc_sysctls = None, psc_fs_group_change_policy = None,
      psc_seccomp = None\<rparr>"

record pod_spec =
  ps_init_containers :: "container list"
  ps_containers :: "container list"
  ps_volumes :: "volume list"
  ps_pull_secrets :: "string list"
  ps_restart_policy :: string
  ps_grace_period :: "int option"
  ps_dns_policy :: string
  ps_scheduler :: string
  ps_host_network :: bool
  ps_host_pid :: bool
  ps_runtime_class :: "string option"
  ps_service_account :: string
  ps_tolerations :: "opaque list"
  ps_affinity :: "affinity option"
  ps_node_selector :: "string gomap"
  ps_node_name :: string
  ps_priority_class :: string
  ps_security :: "pod_security option"
  ps_rest :: opaque

definition zero_pod_spec :: pod_spec where
  "zero_pod_spec =
     \<lparr>ps_init_containers = [], ps_containers = [], ps_volumes = [], ps_pull_secrets = [],
      ps_restart_policy = '''', ps_grace_period = None, ps_dns_policy = '''',
      ps_scheduler = '''', ps_host_network = False, ps_host_pid = False,
      ps_runtime_class = None, ps_service_account = '''', ps_tolerations = [],
      ps_affinity = None, ps_node_selector = None, ps_node_name = '''',
      ps_priority_class = '''', ps_security = None, ps_rest = ''''\<rparr>"

text \<open>
  What the API server checks of the volumes: names are unique and every mount of a container
  has a volume.
\<close>

definition pod_volumes_ok :: "pod_spec \<Rightarrow> bool" where
  "pod_volumes_ok ps \<longleftrightarrow>
     distinct (map vol_name (ps_volumes ps)) \<and>
     (\<forall>c\<in>set (ps_init_containers ps @ ps_containers ps).
        \<forall>m\<in>set (ct_mounts c). vm_name m \<in> names vol_name (ps_volumes ps))"

text \<open>\<open>metav1.ObjectMeta\<close> and the pod the webhook receives.\<close>

record object_meta =
  om_name :: string
  om_generate_name :: string
  om_namespace :: string
  om_labels :: "string gomap"
  om_annotations :: "string gomap"
  om_finalizers :: "string list"
  om_deleting :: bool
  om_generation :: int

record pod =
  pod_meta :: object_meta
  pod_spec_of :: pod_spec

record pod_template =
  pt_labels :: "string gomap"
  pt_annotations :: "string gomap"
  pt_spec :: pod_spec

lemmas kube_zero_defs =
  zero_container_def no_resources_def no_security_context_def no_pod_security_def
  zero_pod_spec_def

end
