(* ===== verification/AgentApi.thy ===== *)
theory AgentApi
  imports KubeTypes
begin

text \<open>
  The custom resources of the operator (\<open>src/api/v2alpha1\<close>): one record per Go struct, one
  field per Go field, in the order of the source.  \<open>omitempty\<close> strings and lists are plain
  strings and lists, pointers are options, \<open>map[string]string\<close> is a \<open>gomap\<close> because the
  operator tells a nil map from an empty one.
\<close>

section \<open>Selectors\<close>

record label_selector_requirement =
  lsr_key :: string
  lsr_operator :: string
  lsr_values :: "string list"

record pod_selector =
  psel_match_labels :: "string gomap"
  psel_match_exprs :: "label_selector_requirement list"

record namespace_selector =
  nsel_match_names :: "string list"
  nsel_match_labels :: "string gomap"
  nsel_match_exprs :: "label_selector_requirement list"

section \<open>APM injection\<close>

text \<open>\<open>ConfigMapRef\<close> is its name.\<close>

record config_spec =
  cfg_mode :: string
  cfg_config_map_ref :: "string option"
  cfg_volume_name :: string
  cfg_mount_path :: string
  cfg_plugin_config_map_ref :: "string option"

record init_container_security =
  ics_run_as_non_root :: "bool option"
  ics_run_as_user :: "int option"

record target_spec =
  tg_name :: string
  tg_enabled :: bool
  tg_language :: string
  tg_versions :: "string gomap"
  tg_custom_image_full_name :: string
  tg_custom_image_name :: string
  tg_additional_args :: "string gomap"
  tg_envs :: "env_var list"
  tg_namespace_selector :: namespace_selector
  tg_pod_selector :: pod_selector
  tg_config :: config_spec
  tg_init_security :: "init_container_security option"
  tg_init_resources :: "resource_reqs option"
  tg_pull_secrets :: "string list"

record instrumentation_spec =
  ins_enabled :: bool
  ins_init_security :: "init_container_security option"
  ins_init_resources :: "resource_reqs option"
  ins_targets :: "target_spec list"

section \<open>OpenAgent scraping\<close>

record secret_key_selector =
  sks_name :: string
  sks_key :: string
  sks_namespace :: string

record basic_auth_config =
  ba_username :: "secret_key_selector option"
  ba_password :: "secret_key_selector option"

record authorization_config =
  au_type :: string
  au_credentials :: string
  au_credentials_env :: string
  au_credentials_file :: string
  au_credentials_secret :: "secret_key_selector option"

record tls_config =
  tls_insecure_skip_verify :: bool
  tls_ca_secret :: "secret_key_selector option"
  tls_cert_secret :: "secret_key_selector option"
  tls_key_secret :: "secret_key_selector option"
  tls_ca_file :: string
  tls_cert_file :: string
  tls_key_file :: string
  tls_server_name :: string

text \<open>\<open>Modulus\<close> is a \<open>uint64\<close> that is only compared with 0 and copied.\<close>

record metric_relabel_config =
  mr_source_labels :: "string list"
  mr_separator :: string
  mr_regex :: string
  mr_modulus :: nat
  mr_target_label :: string
  mr_replacement :: string
  mr_action :: string

record open_agent_endpoint =
  oe_port :: string
  oe_address :: string
  oe_path :: string
  oe_interval :: string
  oe_scheme :: string
  oe_tls :: "tls_config option"
  oe_basic_auth :: "basic_auth_config option"
  oe_authorization :: "authorization_config option"
  oe_metric_relabel :: "metric_relabel_config list"
  oe_params :: "string list gomap"
  oe_add_node_label :: bool

record open_agent_target_spec =
  ot_target_name :: string
  ot_type :: string
  ot_namespace_selector :: namespace_selector
  ot_selector :: pod_selector
  ot_relabel :: "metric_relabel_config list"
  ot_endpoints :: "open_agent_endpoint list"
  ot_enabled :: bool

record open_agent_spec =
  oa_enabled :: bool
  oa_targets :: "open_agent_target_spec list"
  oa_image_name :: string
  oa_image_version :: string
  oa_custom_image_full_name :: string
  oa_labels :: "string gomap"
  oa_annotations :: "string gomap"
  oa_pod_labels :: "string gomap"
  oa_pod_annotations :: "string gomap"
  oa_pull_secrets :: "string list"
  oa_priority_class :: string
  oa_node_selector :: "string gomap"
  oa_affinity :: "affinity option"
  oa_tolerations :: "opaque list"
  oa_node_name :: string
  oa_pod_security :: "pod_security option"
  oa_envs :: "env_var list"
  oa_disable_foreground :: bool

section \<open>Kubernetes agents\<close>

record container_spec =
  cs_image :: string
  cs_resources :: resource_reqs
  cs_envs :: "env_var list"
  cs_security :: "security_context option"

record master_agent_spec =
  ma_enabled :: bool
  ma_resources :: resource_reqs
  ma_envs :: "env_var list"
  ma_tolerations :: "opaque list"
  ma_affinity :: "affinity option"
  ma_node_selector :: "string gomap"
  ma_pull_secrets :: "string list"
  ma_priority_class :: string
  ma_labels :: "string gomap"
  ma_annotations :: "string gomap"
  ma_pod_labels :: "string gomap"
  ma_pod_annotations :: "string gomap"
  ma_pod_security :: "pod_security option"
  ma_runtime_class :: string
  ma_host_pid :: bool
  ma_container :: "container_spec option"

record node_agent_spec =
  na_enabled :: bool
  na_resources :: resource_reqs
  na_envs :: "env_var list"
  na_tolerations :: "opaque list"
  na_affinity :: "affinity option"
  na_node_selector :: "string gomap"
  na_pull_secrets :: "string list"
  na_priority_class :: string
  na_labels :: "string gomap"
  na_annotations :: "string gomap"
  na_pod_labels :: "string gomap"
  na_pod_annotations :: "string gomap"
  na_pod_security :: "pod_security option"
  na_container :: "container_spec option"
  na_helper :: "container_spec option"
  na_runtime :: string
  na_runtime_socket_path :: string
  na_host_network :: "bool option"
  na_runtime_class :: string
  na_host_pid :: bool

record gpu_service_spec =
  gs_enabled :: bool
  gs_type :: string
  gs_node_port :: int
  gs_port :: int

record host_engine_spec =
  he_enabled :: bool
  he_custom_image_full_name :: string
  he_port :: int
  he_resources :: resource_reqs

record gpu_monitoring_spec =
  gpu_enabled :: bool
  gpu_custom_image_full_name :: string
  gpu_service :: "gpu_service_spec option"
  gpu_resources :: resource_reqs
  gpu_envs :: "env_var list"
  gpu_node_selector :: "string gomap"
  gpu_affinity :: "affinity option"
  gpu_interval :: string
  gpu_relabel :: "metric_relabel_config list"
  gpu_metric_relabel :: "metric_relabel_config list"
  gpu_group_label :: string
  gpu_group_label_regex :: string
  gpu_cluster_name :: string
  gpu_devices :: string
  gpu_remote_host_engine :: string
  gpu_host_engine :: "host_engine_spec option"

text \<open>\<open>AgentComponentSpec\<close> (the three monitors with an empty installer) is its \<open>Enabled\<close> flag.\<close>

record k8s_agent_spec =
  ka_namespace :: string
  ka_agent_image_name :: string
  ka_agent_image_version :: string
  ka_custom_image_full_name :: string
  ka_custom_agent_image_full_name :: string
  ka_pull_secrets :: "string list"
  ka_master :: master_agent_spec
  ka_node :: node_agent_spec
  ka_gpu :: gpu_monitoring_spec
  ka_apiserver_enabled :: bool
  ka_etcd_enabled :: bool
  ka_scheduler_enabled :: bool

section \<open>The custom resource\<close>

record features_spec =
  ft_apm :: instrumentation_spec
  ft_open_agent :: open_agent_spec
  ft_k8s_agent :: k8s_agent_spec

record whatap_agent_spec =
  ws_license :: string
  ws_host :: string
  ws_port :: string
  ws_features :: features_spec

record condition =
  cd_type :: string
  cd_status :: string
  cd_reason :: string
  cd_message :: string

record whatap_agent_status =
  st_conditions :: "condition list"
  st_observed_generation :: int

record whatap_agent =
  wa_meta :: object_meta
  wa_spec :: whatap_agent_spec
  wa_status :: whatap_agent_status

abbreviation instrumentation :: "whatap_agent \<Rightarrow> instrumentation_spec" where
  "instrumentation cr \<equiv> ft_apm (ws_features (wa_spec cr))"

abbreviation open_agent :: "whatap_agent \<Rightarrow> open_agent_spec" where
  "open_agent cr \<equiv> ft_open_agent (ws_features (wa_spec cr))"

abbreviation k8s_agent :: "whatap_agent \<Rightarrow> k8s_agent_spec" where
  "k8s_agent cr \<equiv> ft_k8s_agent (ws_features (wa_spec cr))"

text \<open>The monitors declared as resources of their own; \<open>metav1.LabelSelector\<close> has the shape of
  the pod selector.\<close>

record monitor =
  mo_namespace :: string
  mo_name :: string
  mo_selector :: pod_selector
  mo_namespace_selector :: "namespace_selector option"
  mo_endpoints :: "open_agent_endpoint list"
  mo_relabel :: "metric_relabel_config list"
  mo_job_label :: string

type_synonym pod_monitor = monitor
type_synonym service_monitor = monitor

record static_endpoint =
  se_namespace :: string
  se_name :: string
  se_endpoints :: "open_agent_endpoint list"
  se_relabel :: "metric_relabel_config list"
  se_job_label :: string

end
