(* ===== verification/EnvVars.thy ===== *)
theory EnvVars
  imports AgentApi
begin

text \<open>
  The environment-variable helpers of the webhook
  (\<open>src/internal/webhook/v2alpha1/utils.go\<close>): a slice of variables may carry a name more than
  once, and which duplicate a container then sees is the platform's business, so the lemmas
  speak of \<open>named ev_name n\<close>, all entries under a name.  A variable with the empty name is
  skipped by the source wherever it is added.
\<close>

section \<open>Lookup\<close>

text \<open>The inner loop of \<open>findEnvValueByKeys\<close>, then the loop over the keys.\<close>

fun env_value :: "env_var list \<Rightarrow> string \<Rightarrow> string option" where
  "env_value [] key = None"
| "env_value (e # es) key = (if ev_name e = key then Some (ev_value e) else env_value es key)"

fun findEnvValueByKeys :: "env_var list \<Rightarrow> string list \<Rightarrow> string option" where
  "findEnvValueByKeys envs [] = None"
| "findEnvValueByKeys envs (key # keys) =
     (case env_value envs key of
        Some v \<Rightarrow> Some v
      | None \<Rightarrow> findEnvValueByKeys envs keys)"

lemma env_value_None: "env_value envs key = None \<longleftrightarrow> key \<notin> names ev_name envs"
  by (induction envs) auto

lemma findEnvValueByKeys_None:
  "findEnvValueByKeys envs keys = None \<longleftrightarrow> (\<forall>k\<in>set keys. k \<notin> names ev_name envs)"
  by (induction keys) (auto simp: env_value_None [symmetric] split: option.splits)

text \<open>The order of the keys decides, not the order of the variables.\<close>

lemma findEnvValueByKeys_first_key:
  assumes "\<forall>k\<in>set ks. k \<notin> names ev_name envs" and "env_value envs key = Some v"
  shows "findEnvValueByKeys envs (ks @ key # ks') = Some v"
  using assms by (induction ks) (auto simp: env_value_None [symmetric])

section \<open>Volumes\<close>

definition appendIfNotExists :: "volume list \<Rightarrow> volume \<Rightarrow> volume list" where
  "appendIfNotExists volumes newVol =
     (if \<exists>v\<in>set volumes. vol_name v = vol_name newVol then volumes else volumes @ [newVol])"

section \<open>Merging: an existing name wins\<close>

fun merge_loop :: "string set \<Rightarrow> env_var list \<Rightarrow> env_var list \<Rightarrow> env_var list" where
  "merge_loop existing base [] = base"
| "merge_loop existing base (e # es) =
     (if ev_name e = '''' then merge_loop existing base es
      else if ev_name e \<in> existing then merge_loop existing base es
      else merge_loop (insert (ev_name e) existing) (base @ [e]) es)"

definition mergeEnvVars :: "env_var list \<Rightarrow> env_var list \<Rightarrow> env_var list" where
  "mergeEnvVars base extras =
     merge_loop {n \<in> ev_name ` set base. n \<noteq> ''''} base extras"

lemma merge_loop_prefix: "\<exists>ys. merge_loop existing base es = base @ ys"
proof (induction es arbitrary: existing base)
  case Nil
  then show ?case by simp
next
  case (Cons e es)
  show ?case
    using Cons.IH [of existing base] Cons.IH [of "insert (ev_name e) existing" "base @ [e]"]
    by auto
qed

lemma merge_loop_named:
  assumes "n \<noteq> ''''"
  shows "named ev_name n (merge_loop existing base es) =
           named ev_name n base @ (if n \<in> existing then [] else take 1 (named ev_name n es))"
proof (induction es arbitrary: existing base)
  case Nil
  then show ?case by simp
next
  case (Cons e es)
  then show ?case using assms by auto
qed

interpretation merge_env: add_absent ev_name mergeEnvVars
proof unfold_locales
  fix n :: string and base extras
  show "\<exists>ys. mergeEnvVars base extras = base @ ys"
    by (simp add: mergeEnvVars_def merge_loop_prefix)
  assume n: "n \<noteq> ''''"
  show "n \<in> names ev_name base \<Longrightarrow>
      named ev_name n (mergeEnvVars base extras) = named ev_name n base"
    using n by (simp add: mergeEnvVars_def merge_loop_named names_def)
  show "n \<notin> names ev_name base \<Longrightarrow>
      named ev_name n (mergeEnvVars base extras) = take 1 (named ev_name n extras)"
    using n by (simp add: mergeEnvVars_def merge_loop_named named_not_in)
       (simp add: names_def)
qed

definition appendAllIfNotExist :: "volume list \<Rightarrow> volume list \<Rightarrow> volume list" where
  "appendAllIfNotExist volumes news = foldl appendIfNotExists volumes news"

lemma appendAll_simps [simp]:
  "appendAllIfNotExist vs [] = vs"
  "appendAllIfNotExist vs (w # ws) = appendAllIfNotExist (appendIfNotExists vs w) ws"
  by (simp_all add: appendAllIfNotExist_def)

lemma appendIfNotExists_names:
  "appendIfNotExists vs w = (if vol_name w \<in> names vol_name vs then vs else vs @ [w])"
  by (auto simp: appendIfNotExists_def names_def image_iff) metis

lemma appendAll_named:
  "named vol_name n (appendAllIfNotExist vs ws) =
     (if n \<in> names vol_name vs then named vol_name n vs else take 1 (named vol_name n ws))"
  by (induction ws arbitrary: vs) (auto simp: appendIfNotExists_names named_not_in)

lemma appendAll_prefix: "\<exists>ys. appendAllIfNotExist vs ws = vs @ ys"
proof (induction ws arbitrary: vs)
  case Nil
  then show ?case by simp
next
  case (Cons w ws)
  then show ?case by (metis append_assoc appendAll_simps(2) appendIfNotExists_names)
qed

interpretation append_volume: add_absent vol_name appendAllIfNotExist
  by unfold_locales (simp_all add: appendAll_prefix appendAll_named)

section \<open>Upserting: an override wins\<close>

definition upsertEnvVars :: "env_var list \<Rightarrow> env_var list \<Rightarrow> env_var list" where
  "upsertEnvVars base overrides =
     (let overrideNames = {n \<in> ev_name ` set overrides. n \<noteq> ''''}
      in filter (\<lambda>e. ev_name e \<notin> overrideNames) base @ filter (\<lambda>e. ev_name e \<noteq> '''') overrides)"

lemma upsert_named:
  assumes "n \<noteq> ''''"
  shows "named ev_name n (upsertEnvVars base overrides) =
           (if n \<in> names ev_name overrides then named ev_name n overrides
            else named ev_name n base)"
  using assms
  by (auto simp: upsertEnvVars_def Let_def names_def named_filter_keep named_filter_drop
      named_empty_iff)

lemma upsert_unnamed:
  "named ev_name '''' (upsertEnvVars base overrides) = named ev_name '''' base"
  by (simp add: upsertEnvVars_def named_filter_keep named_filter_drop)

lemma names_upsert:
  "n \<noteq> '''' \<Longrightarrow> n \<in> names ev_name (upsertEnvVars base overrides) \<longleftrightarrow>
     n \<in> names ev_name base \<or> n \<in> names ev_name overrides"
  using upsert_named [of n base overrides] by (metis named_empty_iff)

section \<open>Combining: forced names win, the others only fill\<close>

definition combineEnvVars ::
  "env_var list \<Rightarrow> env_var list \<Rightarrow> (string \<Rightarrow> bool) \<Rightarrow> env_var list" where
  "combineEnvVars base incoming force =
     (let forced = filter (\<lambda>e. ev_name e \<noteq> '''' \<and> force (ev_name e)) incoming;
          additive = filter (\<lambda>e. \<not> (ev_name e \<noteq> '''' \<and> force (ev_name e))) incoming
      in mergeEnvVars (upsertEnvVars base forced) additive)"

lemma names_filter_name:
  "n \<in> names ev_name (filter (\<lambda>e. P (ev_name e)) es) \<longleftrightarrow> n \<in> names ev_name es \<and> P n"
  by (auto simp: names_def)

lemma named_filter_name:
  "named ev_name n (filter (\<lambda>e. P (ev_name e)) es) = (if P n then named ev_name n es else [])"
  by (simp add: named_filter_keep named_filter_drop)

lemma combine_named:
  assumes "n \<noteq> ''''"
  shows "named ev_name n (combineEnvVars base incoming force) =
           (if force n \<and> n \<in> names ev_name incoming then named ev_name n incoming
            else if n \<in> names ev_name base then named ev_name n base
            else take 1 (named ev_name n incoming))"
  using assms
  by (simp add: combineEnvVars_def Let_def merge_env.named_add names_upsert upsert_named
      names_filter_name [of _ "\<lambda>m. m \<noteq> '''' \<and> force m"]
      named_filter_name [of _ "\<lambda>m. m \<noteq> '''' \<and> force m"]
      named_filter_name [of _ "\<lambda>m. m = '''' \<or> \<not> force m"] named_not_in)

lemma names_combine:
  assumes "n \<noteq> ''''"
  shows "n \<in> names ev_name (combineEnvVars base incoming force) \<longleftrightarrow>
           n \<in> names ev_name base \<or> n \<in> names ev_name incoming"
  using combine_named [OF assms, of base incoming force]
  by (metis named_empty_iff take_eq_Nil one_neq_zero)

definition toNameSet :: "string list \<Rightarrow> string list" where
  "toNameSet ns = remdups ns"

lemma set_toNameSet [simp]: "set (toNameSet ns) = set ns"
  by (simp add: toNameSet_def)

end
