(* ===== verification/EnvConfig.thy ===== *)
theory EnvConfig
  imports WhatapPrelude
begin

text \<open>
  The operator's own environment (\<open>src/internal/config/env.go\<close>): six variables read once
  (\<open>sync.Once\<close>) into a struct that every later call returns.  The state is the cached
  struct, \<open>None\<close> before the first call; the process environment at the time of a call is an
  argument, \<open>os.Getenv\<close> of an unset variable being the empty string.
\<close>

record env_config =
  ec_license :: string
  ec_host :: string
  ec_port :: string
  ec_default_namespace :: string
  ec_enable_webhooks :: string
  ec_debug_mode :: string

definition getenv :: "(string \<rightharpoonup> string) \<Rightarrow> string \<Rightarrow> string" where
  "getenv os k = (case os k of None \<Rightarrow> '''' | Some v \<Rightarrow> v)"

text \<open>The body of \<open>once.Do\<close>.\<close>

definition read_env_config :: "(string \<rightharpoonup> string) \<Rightarrow> env_config" where
  "read_env_config os =
     (let debugVal = getenv os ''DEBUG'';
          debugVal = (if debugVal = '''' then getenv os ''debug'' else debugVal)
      in \<lparr>ec_license = getenv os ''WHATAP_LICENSE'',
          ec_host = getenv os ''WHATAP_HOST'',
          ec_port = getenv os ''WHATAP_PORT'',
          ec_default_namespace = getenv os ''WHATAP_DEFAULT_NAMESPACE'',
          ec_enable_webhooks = getenv os ''ENABLE_WEBHOOKS'',
          ec_debug_mode = debugVal\<rparr>)"

definition GetEnvConfig ::
  "(string \<rightharpoonup> string) \<Rightarrow> env_config option \<Rightarrow> env_config \<times> env_config option" where
  "GetEnvConfig os once =
     (case once of
        Some cfg \<Rightarrow> (cfg, Some cfg)
      | None \<Rightarrow> (let cfg = read_env_config os in (cfg, Some cfg)))"

definition GetWhatapDefaultNamespace ::
  "(string \<rightharpoonup> string) \<Rightarrow> env_config option \<Rightarrow> string \<times> env_config option" where
  "GetWhatapDefaultNamespace os once =
     (case GetEnvConfig os once of (cfg, once') \<Rightarrow> (ec_default_namespace cfg, once'))"

definition GetDebugMode ::
  "(string \<rightharpoonup> string) \<Rightarrow> env_config option \<Rightarrow> string \<times> env_config option" where
  "GetDebugMode os once =
     (case GetEnvConfig os once of (cfg, once') \<Rightarrow> (ec_debug_mode cfg, once'))"

definition GetWhatapLicense ::
  "(string \<rightharpoonup> string) \<Rightarrow> env_config option \<Rightarrow> string \<times> env_config option" where
  "GetWhatapLicense os once =
     (case GetEnvConfig os once of (cfg, once') \<Rightarrow> (ec_license cfg, once'))"

definition GetWhatapHost ::
  "(string \<rightharpoonup> string) \<Rightarrow> env_config option \<Rightarrow> string \<times> env_config option" where
  "GetWhatapHost os once =
     (case GetEnvConfig os once of (cfg, once') \<Rightarrow> (ec_host cfg, once'))"

definition GetWhatapPort ::
  "(string \<rightharpoonup> string) \<Rightarrow> env_config option \<Rightarrow> string \<times> env_config option" where
  "GetWhatapPort os once =
     (case GetEnvConfig os once of (cfg, once') \<Rightarrow> (ec_port cfg, once'))"

definition GetEnableWebhooks ::
  "(string \<rightharpoonup> string) \<Rightarrow> env_config option \<Rightarrow> string \<times> env_config option" where
  "GetEnableWebhooks os once =
     (case GetEnvConfig os once of (cfg, once') \<Rightarrow> (ec_enable_webhooks cfg, once'))"

text \<open>A sequence of calls, each under the environment of its moment.\<close>

fun env_config_calls ::
  "(string \<rightharpoonup> string) list \<Rightarrow> env_config option \<Rightarrow> env_config list \<times> env_config option" where
  "env_config_calls [] once = ([], once)"
| "env_config_calls (os # rest) once =
     (case GetEnvConfig os once of
        (cfg, once') \<Rightarrow>
          (case env_config_calls rest once' of (cfgs, once'') \<Rightarrow> (cfg # cfgs, once'')))"

lemma env_config_calls_cached:
  "env_config_calls oss (Some cfg) = (replicate (length oss) cfg, Some cfg)"
  by (induction oss) (simp_all add: GetEnvConfig_def)

text \<open>
  The configuration is a singleton: whatever the process environment becomes, every
  call after the first returns what the first call read.
\<close>

theorem env_config_once:
  "env_config_calls (os # later) None =
     (replicate (Suc (length later)) (read_env_config os), Some (read_env_config os))"
  by (simp add: GetEnvConfig_def Let_def env_config_calls_cached)

end
