(* ===== verification/AgentConstants.thy ===== *)
theory AgentConstants
  imports WhatapPrelude
begin

text \<open>The constants of \<open>src/internal/webhook/v2alpha1/constants.go\<close>, under their names.\<close>

abbreviation EnvWhatapLicense :: string where "EnvWhatapLicense \<equiv> ''WHATAP_LICENSE''"
abbreviation EnvWhatapHost :: string where "EnvWhatapHost \<equiv> ''WHATAP_HOST''"
abbreviation EnvWhatapPort :: string where "EnvWhatapPort \<equiv> ''WHATAP_PORT''"

abbreviation EnvNodeIP :: string where "EnvNodeIP \<equiv> ''NODE_IP''"
abbreviation EnvNodeName :: string where "EnvNodeName \<equiv> ''NODE_NAME''"
abbreviation EnvPodName :: string where "EnvPodName \<equiv> ''POD_NAME''"

abbreviation EnvWhatapMicroEnabled :: string where
  "EnvWhatapMicroEnabled \<equiv> ''whatap.micro.enabled''"
abbreviation ValTrue :: string where "ValTrue \<equiv> ''true''"

abbreviation EnvJavaLicense :: string where "EnvJavaLicense \<equiv> ''license''"
abbreviation EnvJavaWhatapHost :: string where "EnvJavaWhatapHost \<equiv> ''whatap.server.host''"
abbreviation EnvJavaWhatapPort :: string where "EnvJavaWhatapPort \<equiv> ''whatap.server.port''"
abbreviation EnvJavaAgentPath :: string where "EnvJavaAgentPath \<equiv> ''WHATAP_JAVA_AGENT_PATH''"
abbreviation EnvJavaToolOptions :: string where "EnvJavaToolOptions \<equiv> ''JAVA_TOOL_OPTIONS''"
abbreviation ValJavaAgentPath :: string where
  "ValJavaAgentPath \<equiv> ''/whatap-agent/whatap.agent.java.jar''"
abbreviation ValJavaAgentOptionPrefix :: string where
  "ValJavaAgentOptionPrefix \<equiv> ''-javaagent:''"

abbreviation EnvPythonLicense :: string where "EnvPythonLicense \<equiv> ''license''"
abbreviation EnvPythonWhatapHost :: string where "EnvPythonWhatapHost \<equiv> ''whatap_server_host''"
abbreviation EnvPythonWhatapPort :: string where "EnvPythonWhatapPort \<equiv> ''whatap_server_port''"
abbreviation EnvPythonAgentPath :: string where
  "EnvPythonAgentPath \<equiv> ''WHATAP_PYTHON_AGENT_PATH''"
abbreviation EnvWhatapHome :: string where "EnvWhatapHome \<equiv> ''WHATAP_HOME''"
abbreviation EnvAppName :: string where "EnvAppName \<equiv> ''app_name''"
abbreviation EnvAppProcessName :: string where "EnvAppProcessName \<equiv> ''app_process_name''"
abbreviation EnvOkind :: string where "EnvOkind \<equiv> ''OKIND''"
abbreviation EnvPythonPath :: string where "EnvPythonPath \<equiv> ''PYTHONPATH''"
abbreviation ValWhatapHome :: string where "ValWhatapHome \<equiv> ''/whatap-agent''"
abbreviation ValPythonBootstrap :: string where
  "ValPythonBootstrap \<equiv> ''/whatap-agent/whatap/bootstrap''"
abbreviation ValPythonAgentPath :: string where
  "ValPythonAgentPath \<equiv> ''/whatap-agent/whatap_python''"

abbreviation EnvNodejsLicense :: string where "EnvNodejsLicense \<equiv> ''WHATAP_LICENSE''"
abbreviation EnvNodejsWhatapHost :: string where "EnvNodejsWhatapHost \<equiv> ''WHATAP_SERVER_HOST''"
abbreviation EnvNodejsWhatapPort :: string where "EnvNodejsWhatapPort \<equiv> ''WHATAP_SERVER_PORT''"
abbreviation EnvNodejsAgentPath :: string where
  "EnvNodejsAgentPath \<equiv> ''WHATAP_NODEJS_AGENT_PATH''"
abbreviation EnvNodejsOptions :: string where "EnvNodejsOptions \<equiv> ''NODE_OPTIONS''"
abbreviation EnvNodejsPath :: string where "EnvNodejsPath \<equiv> ''NODE_PATH''"
abbreviation ValNodejsAgentPath :: string where
  "ValNodejsAgentPath \<equiv> ''/whatap-agent/node_modules/whatap/agent/whatap_nodejs''"
abbreviation ValNodejsModules :: string where
  "ValNodejsModules \<equiv> ''/whatap-agent/node_modules''"
abbreviation ValNodejsRequire :: string where "ValNodejsRequire \<equiv> ''-r whatap''"

abbreviation InitContainerName :: string where "InitContainerName \<equiv> ''whatap-agent-init''"
abbreviation VolumeNameWhatapAgent :: string where
  "VolumeNameWhatapAgent \<equiv> ''whatap-agent-volume''"
abbreviation MountPathWhatapAgent :: string where "MountPathWhatapAgent \<equiv> ''/whatap-agent''"

end
