(* ===== verification/Samples.thy ===== *)
theory Samples
  imports AgentApi EnvConfig
begin

text \<open>
  The Go zero values of the custom resource's structs, and the concrete configuration the
  witnesses use.  A custom resource of a witness is a zero value with the fields that matter
  updated.
\<close>

definition zero_meta :: object_meta where
  "zero_meta = \<lparr>om_name = '''', om_generate_name = '''', om_namespace = '''', om_labels = None,
     om_annotations = None, om_finalizers = [], om_deleting = False, om_generation = 0\<rparr>"

definition zero_pod_selector :: pod_selector where
  "zero_pod_selector = \<lparr>psel_match_labels = None, psel_match_exprs = []\<rparr>"

definition zero_namespace_selector :: namespace_selector where
  "zero_namespace_selector =
     \<lparr>nsel_match_names = [], nsel_match_labels = None, nsel_match_exprs = []\<rparr>"

definition zero_target :: target_spec where
  "zero_target =
     \<lparr>tg_name = '''', tg_enabled = False, tg_language = '''', tg_versions = None,
      tg_custom_image_full_name = '''', tg_custom_image_name = '''', tg_additional_args = None,
      tg_envs = [], tg_namespace_selector = zero_namespace_selector,
      tg_pod_selector = zero_pod_selector,
      tg_config = \<lparr>cfg_mode = '''', cfg_config_map_ref = None, cfg_volume_name = '''',
        cfg_mount_path = '''', cfg_plugin_config_map_ref = None\<rparr>,
      tg_init_security = None, tg_init_resources = None, tg_pull_secrets = []\<rparr>"

definition zero_instrumentation :: instrumentation_spec where
  "zero_instrumentation = \<lparr>ins_enabled = False, ins_init_security = None,
     ins_init_resources = None, ins_targets = []\<rparr>"

definition zero_endpoint :: open_agent_endpoint where
  "zero_endpoint =
     \<lparr>oe_port = '''', oe_address = '''', oe_path = '''', oe_interval = '''', oe_scheme = '''',
      oe_tls = None, oe_basic_auth = None, oe_authorization = None, oe_metric_relabel = [],
      oe_params = None, oe_add_node_label = False\<rparr>"

definition zero_tls :: tls_config where
  "zero_tls =
     \<lparr>tls_insecure_skip_verify = False, tls_ca_secret = None, tls_cert_secret = None,
      tls_key_secret = None, tls_ca_file = '''', tls_cert_file = '''', tls_key_file = '''',
      tls_server_name = ''''\<rparr>"

definition zero_open_target :: open_agent_target_spec where
  "zero_open_target =
     \<lparr>ot_target_name = '''', ot_type = '''', ot_namespace_selector = zero_namespace_selector,
      ot_selector = zero_pod_selector, ot_relabel = [], ot_endpoints = [], ot_enabled = False\<rparr>"

definition zero_open_agent :: open_agent_spec where
  "zero_open_agent =
     \<lparr>oa_enabled = False, oa_targets = [], oa_image_name = '''', oa_image_version = '''',
      oa_custom_image_full_name = '''', oa_labels = None, oa_annotations = None,
      oa_pod_labels = None, oa_pod_annotations = None, oa_pull_secrets = [],
      oa_priority_class = '''', oa_node_selector = None, oa_affinity = None,
      oa_tolerations = [], oa_node_name = '''', oa_pod_security = None, oa_envs = [],
      oa_disable_foreground = False\<rparr>"

definition zero_master :: master_agent_spec where
  "zero_master =
     \<lparr>ma_enabled = False, ma_resources = no_resources, ma_envs = [], ma_tolerations = [],
      ma_affinity = None, ma_node_selector = None, ma_pull_secrets = [],
      ma_priority_class = '''', ma_labels = None, ma_annotations = None, ma_pod_labels = None,
      ma_pod_annotations = None, ma_pod_security = None, ma_runtime_class = '''',
      ma_host_pid = False, ma_container = None\<rparr>"

definition zero_node :: node_agent_spec where
  "zero_node =
     \<lparr>na_enabled = False, na_resources = no_resources, na_envs = [], na_tolerations = [],
      na_affinity = None, na_node_selector = None, na_pull_secrets = [],
      na_priority_class = '''', na_labels = None, na_annotations = None, na_pod_labels = None,
      na_pod_annotations = None, na_pod_security = None, na_container = None,
      na_helper = None, na_runtime = '''', na_runtime_socket_path = '''',
      na_host_network = None, na_runtime_class = '''', na_host_pid = False\<rparr>"

definition zero_gpu :: gpu_monitoring_spec where
  "zero_gpu =
     \<lparr>gpu_enabled = False, gpu_custom_image_full_name = '''', gpu_service = None,
      gpu_resources = no_resources, gpu_envs = [], gpu_node_selector = None,
      gpu_affinity = None, gpu_interval = '''', gpu_relabel = [], gpu_metric_relabel = [],
      gpu_group_label = '''', gpu_group_label_regex = '''', gpu_cluster_name = '''',
      gpu_devices = '''', gpu_remote_host_engine = '''', gpu_host_engine = None\<rparr>"

definition zero_k8s_agent :: k8s_agent_spec where
  "zero_k8s_agent =
     \<lparr>ka_namespace = '''', ka_agent_image_name = '''', ka_agent_image_version = '''',
      ka_custom_image_full_name = '''', ka_custom_agent_image_full_name = '''',
      ka_pull_secrets = [], ka_master = zero_master, ka_node = zero_node, ka_gpu = zero_gpu,
      ka_apiserver_enabled = False, ka_etcd_enabled = False, ka_scheduler_enabled = False\<rparr>"

definition zero_agent :: whatap_agent where
  "zero_agent =
     \<lparr>wa_meta = zero_meta,
      wa_spec = \<lparr>ws_license = '''', ws_host = '''', ws_port = '''',
        ws_features = \<lparr>ft_apm = zero_instrumentation, ft_open_agent = zero_open_agent,
          ft_k8s_agent = zero_k8s_agent\<rparr>\<rparr>,
      wa_status = \<lparr>st_conditions = [], st_observed_generation = 0\<rparr>\<rparr>"

lemmas zero_defs =
  zero_meta_def zero_pod_selector_def zero_namespace_selector_def zero_target_def
  zero_instrumentation_def zero_endpoint_def zero_tls_def zero_open_target_def
  zero_open_agent_def zero_master_def zero_node_def zero_gpu_def zero_k8s_agent_def
  zero_agent_def

section \<open>A concrete configuration\<close>

definition sample_config :: env_config where
  "sample_config =
     \<lparr>ec_license = ''lic'', ec_host = ''10.0.0.1'', ec_port = ''6600'',
      ec_default_namespace = '''', ec_enable_webhooks = '''', ec_debug_mode = ''''\<rparr>"

definition sample_container :: "env_var list \<Rightarrow> container" where
  "sample_container es = zero_container\<lparr>ct_name := ''app'', ct_env := es\<rparr>"

end
