(* ===== verification/Injectors.thy ===== *)
theory Injectors
  imports EnvVars EnvConfig AgentConstants Samples
begin

text \<open>
  The per-language injectors of the webhook (\<open>injector_java.go\<close>, \<open>injector_python.go\<close>,
  \<open>injector_nodejs.go\<close>, the \<open>getWhatap*EnvVar\<close> helpers of \<open>utils.go\<close> and
  \<open>injectLanguageSpecificEnvVars\<close> of \<open>process_deployments.go\<close>).  The operator's configuration
  singleton is the argument \<open>cfg\<close>; the custom resource, which these functions take and never
  read, is left out.  Go appends to and edits \<open>container.Env\<close> through a slice that shares the
  pod's array; the caller overwrites that field with the result, so only the result matters.

  The locale \<open>env_injector\<close> is the contract the caller needs from an injector.
\<close>

section \<open>Connection values\<close>

definition getWhatapLicenseEnvVar :: "env_config \<Rightarrow> target_spec \<Rightarrow> env_var" where
  "getWhatapLicenseEnvVar cfg target =
     (case findEnvValueByKeys (tg_envs target) [EnvWhatapLicense, EnvJavaLicense] of
        Some val \<Rightarrow> EnvVal EnvWhatapLicense val
      | None \<Rightarrow> EnvVal EnvWhatapLicense (ec_license cfg))"

definition getWhatapHostEnvVar :: "env_config \<Rightarrow> target_spec \<Rightarrow> env_var" where
  "getWhatapHostEnvVar cfg target =
     (case findEnvValueByKeys (tg_envs target)
             [EnvWhatapHost, EnvJavaWhatapHost, EnvPythonWhatapHost, EnvNodejsWhatapHost] of
        Some val \<Rightarrow> EnvVal EnvWhatapHost val
      | None \<Rightarrow> EnvVal EnvWhatapHost (ec_host cfg))"

definition getWhatapPortEnvVar :: "env_config \<Rightarrow> target_spec \<Rightarrow> env_var" where
  "getWhatapPortEnvVar cfg target =
     (case findEnvValueByKeys (tg_envs target)
             [EnvWhatapPort, EnvJavaWhatapPort, EnvPythonWhatapPort, EnvNodejsWhatapPort] of
        Some val \<Rightarrow> EnvVal EnvWhatapPort val
      | None \<Rightarrow> EnvVal EnvWhatapPort (ec_port cfg))"

lemma connection_env_literal [simp]:
  "ev_from (getWhatapLicenseEnvVar cfg t) = None"
  "ev_from (getWhatapHostEnvVar cfg t) = None"
  "ev_from (getWhatapPortEnvVar cfg t) = None"
  by (simp_all add: getWhatapLicenseEnvVar_def getWhatapHostEnvVar_def getWhatapPortEnvVar_def
      split: option.split)

definition pythonForceEnvNames :: "string list" where
  "pythonForceEnvNames = toNameSet
     [EnvPythonLicense, EnvPythonWhatapHost, EnvPythonWhatapPort, EnvWhatapHome,
      EnvWhatapMicroEnabled, EnvNodeIP, EnvNodeName, EnvPodName]"

definition nodejsForceEnvNames :: "string list" where
  "nodejsForceEnvNames = toNameSet
     [EnvNodejsLicense, EnvNodejsWhatapHost, EnvNodejsWhatapPort, EnvWhatapHome,
      EnvWhatapMicroEnabled, EnvNodeIP, EnvNodeName, EnvPodName]"

definition operatorManagedEnvNames :: "string list" where
  "operatorManagedEnvNames = toNameSet
     [EnvWhatapLicense, EnvWhatapHost, EnvWhatapPort,
      EnvNodeIP, EnvNodeName, EnvPodName, EnvWhatapMicroEnabled,
      EnvJavaLicense, EnvJavaWhatapHost, EnvJavaWhatapPort, EnvJavaAgentPath, EnvJavaToolOptions,
      EnvPythonLicense, EnvPythonWhatapHost, EnvPythonWhatapPort, EnvPythonAgentPath,
      EnvWhatapHome, EnvPythonPath,
      EnvAppName, EnvAppProcessName, EnvOkind,
      EnvNodejsLicense, EnvNodejsWhatapHost, EnvNodejsWhatapPort, EnvNodejsAgentPath,
      EnvNodejsOptions, EnvNodejsPath]"

text \<open>The three downward-API variables every injector sets.\<close>

definition downward_env :: "env_var list" where
  "downward_env =
     [EnvFrom EnvNodeIP (FieldRef ''status.hostIP''),
      EnvFrom EnvNodeName (FieldRef ''spec.nodeName''),
      EnvFrom EnvPodName (FieldRef ''metadata.name'')]"

section \<open>Java\<close>

definition injectJavaToolOptions :: "env_var list \<Rightarrow> string \<Rightarrow> env_var list" where
  "injectJavaToolOptions envVars agentOption =
     (case edit_first ev_name EnvJavaToolOptions
             (\<lambda>e. e\<lparr>ev_value := ev_value e @ '' '' @ agentOption\<rparr>) envVars of
        (found, envs) \<Rightarrow>
          if found then envs else envVars @ [EnvVal EnvJavaToolOptions agentOption])"

text \<open>
  The block that adds an agent path unless the container or the list built so far has it:
  the same code in the three injectors.
\<close>

definition add_agent_path ::
  "string \<Rightarrow> string \<Rightarrow> container \<Rightarrow> env_var list \<Rightarrow> env_var list" where
  "add_agent_path key path container envVars =
     (let hasAgentPath = (\<exists>e\<in>set (ct_env container). ev_name e = key)
      in if \<not> hasAgentPath then
           (let hasAgentPath = (\<exists>e\<in>set envVars. ev_name e = key)
            in if \<not> hasAgentPath then envVars @ [EnvVal key path] else envVars)
         else envVars)"

definition java_owned :: "env_config \<Rightarrow> target_spec \<Rightarrow> env_var list" where
  "java_owned cfg target =
     (let licenseEnv = (getWhatapLicenseEnvVar cfg target)\<lparr>ev_name := EnvJavaLicense\<rparr>;
          hostEnv = (getWhatapHostEnvVar cfg target)\<lparr>ev_name := EnvJavaWhatapHost\<rparr>;
          portEnv = (getWhatapPortEnvVar cfg target)\<lparr>ev_name := EnvJavaWhatapPort\<rparr>
      in [licenseEnv, hostEnv, portEnv, EnvVal EnvWhatapMicroEnabled ValTrue] @ downward_env)"

definition injectJavaEnvVars :: "env_config \<Rightarrow> container \<Rightarrow> target_spec \<Rightarrow> env_var list" where
  "injectJavaEnvVars cfg container target =
     (let agentOption = ValJavaAgentOptionPrefix @ ValJavaAgentPath;
          envVars = injectJavaToolOptions (ct_env container) agentOption;
          envVars = add_agent_path EnvJavaAgentPath ValJavaAgentPath container envVars
      in upsertEnvVars envVars (java_owned cfg target))"

section \<open>Python\<close>

text \<open>
  \<open>getPythonAppConfig\<close> and \<open>getNodejsAppConfig\<close>, line for line the same loop: the last value
  of each of the three names.
\<close>

fun app_config_loop ::
  "env_var list \<Rightarrow> string \<times> string \<times> string \<Rightarrow> string \<times> string \<times> string" where
  "app_config_loop [] acc = acc"
| "app_config_loop (e # es) (appName, appProcessName, okind) =
     app_config_loop es
       (if ev_name e = EnvAppName then (ev_value e, appProcessName, okind)
        else if ev_name e = EnvAppProcessName then (appName, ev_value e, okind)
        else if ev_name e = EnvOkind then (appName, appProcessName, ev_value e)
        else (appName, appProcessName, okind))"

definition getPythonAppConfig :: "env_var list \<Rightarrow> string \<times> string \<times> string" where
  "getPythonAppConfig envs = app_config_loop envs ('''', '''', '''')"

definition getNodejsAppConfig :: "env_var list \<Rightarrow> string \<times> string \<times> string" where
  "getNodejsAppConfig envs = app_config_loop envs ('''', '''', '''')"

text \<open>
  The prepending loop of \<open>injectPythonPath\<close>, \<open>injectNodejsPath\<close> and \<open>injectNodejsOptions\<close>: a
  variable set from a source is left alone, a literal one gets the new part in front.
\<close>

definition prepend_env :: "string \<Rightarrow> string \<Rightarrow> string \<Rightarrow> env_var list \<Rightarrow> env_var list" where
  "prepend_env key sep part envVars =
     (case edit_first ev_name key
             (\<lambda>e. if ev_from e \<noteq> None then e else e\<lparr>ev_value := part @ sep @ ev_value e\<rparr>)
             envVars of
        (found, envs) \<Rightarrow> if found then envs else envVars @ [EnvVal key part])"

definition injectPythonPath :: "env_var list \<Rightarrow> string \<Rightarrow> env_var list" where
  "injectPythonPath envVars bootstrapPath =
     prepend_env EnvPythonPath '':'' bootstrapPath envVars"

definition python_owned :: "env_config \<Rightarrow> target_spec \<Rightarrow> env_var list" where
  "python_owned cfg target =
     [(getWhatapLicenseEnvVar cfg target)\<lparr>ev_name := EnvPythonLicense\<rparr>,
      (getWhatapHostEnvVar cfg target)\<lparr>ev_name := EnvPythonWhatapHost\<rparr>,
      (getWhatapPortEnvVar cfg target)\<lparr>ev_name := EnvPythonWhatapPort\<rparr>,
      EnvVal EnvWhatapHome ValWhatapHome,
      EnvVal EnvWhatapMicroEnabled ValTrue] @ downward_env"

definition python_env_vars :: "env_config \<Rightarrow> container \<Rightarrow> target_spec \<Rightarrow> env_var list" where
  "python_env_vars cfg container target =
     (case getPythonAppConfig (tg_envs target) of (appName, appProcessName, okind) \<Rightarrow>
        (let appName = (if appName = '''' then ct_name container else appName);
             licenseEnv = (getWhatapLicenseEnvVar cfg target)\<lparr>ev_name := EnvPythonLicense\<rparr>;
             hostEnv = (getWhatapHostEnvVar cfg target)\<lparr>ev_name := EnvPythonWhatapHost\<rparr>;
             portEnv = (getWhatapPortEnvVar cfg target)\<lparr>ev_name := EnvPythonWhatapPort\<rparr>;
             envVars = [licenseEnv, hostEnv, portEnv,
                        EnvVal EnvAppName appName, EnvVal EnvAppProcessName appProcessName,
                        EnvVal EnvWhatapHome ValWhatapHome,
                        EnvVal EnvWhatapMicroEnabled ValTrue] @ downward_env;
             envVars = (if okind \<noteq> '''' then envVars @ [EnvVal EnvOkind okind] else envVars);
             envVars = injectPythonPath envVars ValPythonBootstrap
         in add_agent_path EnvPythonAgentPath ValPythonAgentPath container envVars))"

definition injectPythonEnvVars :: "env_config \<Rightarrow> container \<Rightarrow> target_spec \<Rightarrow> env_var list" where
  "injectPythonEnvVars cfg container target =
     combineEnvVars (ct_env container) (python_env_vars cfg container target)
       (\<lambda>name. name \<in> set pythonForceEnvNames)"

section \<open>Node.js\<close>

definition injectNodejsPath :: "env_var list \<Rightarrow> string \<Rightarrow> env_var list" where
  "injectNodejsPath envVars modulesPath = prepend_env EnvNodejsPath '':'' modulesPath envVars"

definition injectNodejsOptions :: "env_var list \<Rightarrow> string \<Rightarrow> env_var list" where
  "injectNodejsOptions envVars requireOption =
     prepend_env EnvNodejsOptions '' '' requireOption envVars"

definition nodejs_owned :: "env_config \<Rightarrow> target_spec \<Rightarrow> env_var list" where
  "nodejs_owned cfg target =
     [(getWhatapLicenseEnvVar cfg target)\<lparr>ev_name := EnvNodejsLicense\<rparr>,
      (getWhatapHostEnvVar cfg target)\<lparr>ev_name := EnvNodejsWhatapHost\<rparr>,
      (getWhatapPortEnvVar cfg target)\<lparr>ev_name := EnvNodejsWhatapPort\<rparr>,
      EnvVal EnvWhatapHome ValWhatapHome,
      EnvVal EnvWhatapMicroEnabled ValTrue] @ downward_env"

definition nodejs_env_vars :: "env_config \<Rightarrow> container \<Rightarrow> target_spec \<Rightarrow> env_var list" where
  "nodejs_env_vars cfg container target =
     (case getNodejsAppConfig (tg_envs target) of (appName, appProcessName, okind) \<Rightarrow>
        (let appName = (if appName = '''' then ct_name container else appName);
             licenseEnv = (getWhatapLicenseEnvVar cfg target)\<lparr>ev_name := EnvNodejsLicense\<rparr>;
             hostEnv = (getWhatapHostEnvVar cfg target)\<lparr>ev_name := EnvNodejsWhatapHost\<rparr>;
             portEnv = (getWhatapPortEnvVar cfg target)\<lparr>ev_name := EnvNodejsWhatapPort\<rparr>;
             envVars = [licenseEnv, hostEnv, portEnv,
                        EnvVal EnvAppName appName, EnvVal EnvAppProcessName appProcessName,
                        EnvVal EnvWhatapHome ValWhatapHome,
                        EnvVal EnvWhatapMicroEnabled ValTrue] @ downward_env;
             envVars = (if okind \<noteq> '''' then envVars @ [EnvVal EnvOkind okind] else envVars);
             envVars = injectNodejsPath envVars ValNodejsModules;
             envVars = injectNodejsOptions envVars ValNodejsRequire
         in add_agent_path EnvNodejsAgentPath ValNodejsAgentPath container envVars))"

definition injectNodejsEnvVars :: "env_config \<Rightarrow> container \<Rightarrow> target_spec \<Rightarrow> env_var list" where
  "injectNodejsEnvVars cfg container target =
     combineEnvVars (ct_env container) (nodejs_env_vars cfg container target)
       (\<lambda>name. name \<in> set nodejsForceEnvNames)"

section \<open>The dispatch\<close>

definition language_env_vars ::
  "env_config \<Rightarrow> string \<Rightarrow> container \<Rightarrow> target_spec \<Rightarrow> env_var list" where
  "language_env_vars cfg lang container target =
     (if lang = ''java'' then injectJavaEnvVars cfg container target
      else if lang = ''python'' then injectPythonEnvVars cfg container target
      else if lang = ''nodejs'' then injectNodejsEnvVars cfg container target
      else ct_env container)"

definition injectLanguageSpecificEnvVars ::
  "env_config \<Rightarrow> container \<Rightarrow> target_spec \<Rightarrow> string \<Rightarrow> env_var list" where
  "injectLanguageSpecificEnvVars cfg container target lang =
     (let envs = language_env_vars cfg lang container target
      in if tg_envs target \<noteq> [] then
           combineEnvVars envs (tg_envs target) (\<lambda>name. name \<notin> set operatorManagedEnvNames)
         else envs)"

text \<open>Two functions nobody calls.  The wrapped command line runs the original one.\<close>

definition wrapPythonCommand :: "container \<Rightarrow> container" where
  "wrapPythonCommand c =
     (if ct_command c \<noteq> [] then
        c\<lparr>ct_command := [''/whatap-agent/bin/whatap-start-agent''],
          ct_args := ct_command c @ ct_args c\<rparr>
      else c)"

definition injectBasicKubernetesEnvVars :: "container \<Rightarrow> env_var list" where
  "injectBasicKubernetesEnvVars c = ct_env c"

lemma wrapped_command_line:
  "ct_command c \<noteq> [] \<Longrightarrow>
     ct_command (wrapPythonCommand c) @ ct_args (wrapPythonCommand c) =
       ''/whatap-agent/bin/whatap-start-agent'' # ct_command c @ ct_args c"
  by (simp add: wrapPythonCommand_def)

section \<open>The contract of an injector\<close>

text \<open>
  \<open>owned\<close> are the variables an injector forces, \<open>touched\<close> the names it edits in place.  Every
  forced variable ends up as the only entry under its name; every other variable of the
  container keeps its entries; and an injector brings in managed names only.
\<close>

locale env_injector =
  fixes inject :: "container \<Rightarrow> target_spec \<Rightarrow> env_var list"
    and owned :: "target_spec \<Rightarrow> env_var list"
    and touched :: "string set"
  assumes owned_unique: "e \<in> set (owned t) \<Longrightarrow> named ev_name (ev_name e) (owned t) = [e]"
    and owned_managed: "names ev_name (owned t) \<subseteq> set operatorManagedEnvNames"
    and touched_managed: "touched \<subseteq> set operatorManagedEnvNames"
    and inject_owned:
      "n \<in> names ev_name (owned t) \<Longrightarrow> named ev_name n (inject c t) = named ev_name n (owned t)"
    and inject_frame:
      "n \<noteq> '''' \<Longrightarrow> n \<notin> names ev_name (owned t) \<Longrightarrow> n \<notin> touched \<Longrightarrow>
        n \<in> names ev_name (ct_env c) \<Longrightarrow> named ev_name n (inject c t) = named ev_name n (ct_env c)"
    and inject_names:
      "n \<noteq> '''' \<Longrightarrow> n \<in> names ev_name (inject c t) \<Longrightarrow>
        n \<in> names ev_name (ct_env c) \<or> n \<in> set operatorManagedEnvNames"
    and inject_keeps:
      "n \<noteq> '''' \<Longrightarrow> n \<in> names ev_name (ct_env c) \<Longrightarrow> n \<in> names ev_name (inject c t)"
begin

lemma owned_nonempty: "n \<in> names ev_name (owned t) \<Longrightarrow> n \<noteq> ''''"
  using owned_managed [of t] by (auto simp: operatorManagedEnvNames_def)

text \<open>What is left of the injector's result after the custom resource's own variables.\<close>

lemma user_env_keeps_owned:
  assumes e: "e \<in> set (owned t)"
  shows "named ev_name (ev_name e)
           (combineEnvVars (inject c t) user (\<lambda>n. n \<notin> set operatorManagedEnvNames)) = [e]"
proof -
  have n: "ev_name e \<in> names ev_name (owned t)" using e by (auto simp: names_def)
  then have one: "named ev_name (ev_name e) (inject c t) = [e]"
    using e by (simp add: inject_owned owned_unique)
  then have "ev_name e \<in> names ev_name (inject c t)"
    by (metis named_empty_iff list.distinct(1))
  moreover have "ev_name e \<in> set operatorManagedEnvNames"
    using n owned_managed by blast
  ultimately show ?thesis
    using one owned_nonempty [OF n] by (simp add: combine_named)
qed

lemma user_env_overrides:
  assumes "n \<noteq> ''''" and "n \<notin> set operatorManagedEnvNames" and "n \<in> names ev_name user"
  shows "named ev_name n
           (combineEnvVars (inject c t) user (\<lambda>n. n \<notin> set operatorManagedEnvNames)) =
         named ev_name n user"
  using assms by (simp add: combine_named)

lemma unmanaged_env_kept:
  assumes "n \<noteq> ''''" and "n \<notin> set operatorManagedEnvNames"
  shows "named ev_name n (inject c t) = named ev_name n (ct_env c)"
proof (cases "n \<in> names ev_name (ct_env c)")
  case True
  have "n \<notin> names ev_name (owned t)" "n \<notin> touched"
    using assms(2) owned_managed touched_managed by blast+
  with True assms show ?thesis by (simp add: inject_frame)
next
  case False
  with assms have "n \<notin> names ev_name (inject c t)" by (metis inject_names)
  with False show ?thesis by (simp add: named_not_in)
qed

lemma other_env_kept:
  assumes "n \<noteq> ''''" and "n \<notin> set operatorManagedEnvNames" and "n \<notin> names ev_name user"
  shows "named ev_name n
           (combineEnvVars (inject c t) user (\<lambda>n. n \<notin> set operatorManagedEnvNames)) =
         named ev_name n (ct_env c)"
  using assms unmanaged_env_kept [OF assms(1,2), of c t]
  by (simp add: combine_named named_not_in) (metis named_empty_iff)

end

section \<open>The three injectors meet the contract\<close>

lemmas managed_simps =
  operatorManagedEnvNames_def pythonForceEnvNames_def nodejsForceEnvNames_def

lemma getenv_names [simp]:
  "ev_name (getWhatapLicenseEnvVar cfg t) = EnvWhatapLicense"
  "ev_name (getWhatapHostEnvVar cfg t) = EnvWhatapHost"
  "ev_name (getWhatapPortEnvVar cfg t) = EnvWhatapPort"
  by (simp_all add: getWhatapLicenseEnvVar_def getWhatapHostEnvVar_def getWhatapPortEnvVar_def
      split: option.split)

lemma env_names:
  "ev_name (EnvVal n v) = n" "ev_name (EnvFrom n s) = n" "ev_name (e\<lparr>ev_name := n\<rparr>) = n"
  by simp_all

lemma names_java_owned:
  "names ev_name (java_owned cfg t) =
     {EnvJavaLicense, EnvJavaWhatapHost, EnvJavaWhatapPort, EnvWhatapMicroEnabled,
      EnvNodeIP, EnvNodeName, EnvPodName}"
  by (simp add: java_owned_def downward_env_def Let_def)

lemma names_python_owned:
  "names ev_name (python_owned cfg t) = set pythonForceEnvNames"
  by (simp add: python_owned_def downward_env_def pythonForceEnvNames_def)

lemma names_nodejs_owned:
  "names ev_name (nodejs_owned cfg t) = set nodejsForceEnvNames"
  by (simp add: nodejs_owned_def downward_env_def nodejsForceEnvNames_def)

lemma owned_distinct:
  "distinct (map ev_name (java_owned cfg t))"
  "distinct (map ev_name (python_owned cfg t))"
  "distinct (map ev_name (nodejs_owned cfg t))"
  by (simp_all add: java_owned_def python_owned_def nodejs_owned_def downward_env_def Let_def)

lemmas owned_singletons = owned_distinct [THEN named_distinct]

lemma injectJavaToolOptions_eq:
  "injectJavaToolOptions es opt =
     (if EnvJavaToolOptions \<in> names ev_name es
      then snd (edit_first ev_name EnvJavaToolOptions
                 (\<lambda>e. e\<lparr>ev_value := ev_value e @ '' '' @ opt\<rparr>) es)
      else es @ [EnvVal EnvJavaToolOptions opt])"
  by (simp add: injectJavaToolOptions_def edit_first_cases)

lemma prepend_env_eq:
  "prepend_env key sep part es =
     (if key \<in> names ev_name es
      then snd (edit_first ev_name key
                 (\<lambda>e. if ev_from e \<noteq> None then e else e\<lparr>ev_value := part @ sep @ ev_value e\<rparr>) es)
      else es @ [EnvVal key part])"
  by (simp add: prepend_env_def edit_first_cases)

lemma prepend_env_absent:
  "key \<notin> names ev_name es \<Longrightarrow> prepend_env key sep part es = es @ [EnvVal key part]"
  by (simp add: prepend_env_eq)

lemma injectJavaToolOptions_named:
  "n \<noteq> EnvJavaToolOptions \<Longrightarrow>
     named ev_name n (injectJavaToolOptions es opt) = named ev_name n es"
  by (simp add: injectJavaToolOptions_eq edit_first_named)

lemma names_injectJavaToolOptions:
  "names ev_name (injectJavaToolOptions es opt) = insert EnvJavaToolOptions (names ev_name es)"
  by (auto simp: injectJavaToolOptions_eq edit_first_names)

lemma add_agent_path_eq:
  "add_agent_path key path c es =
     (if key \<in> names ev_name (ct_env c) \<or> key \<in> names ev_name es then es
      else es @ [EnvVal key path])"
  by (auto simp: add_agent_path_def names_def Let_def image_iff)

lemma add_agent_path_named:
  "n \<in> names ev_name (ct_env c) \<Longrightarrow>
     named ev_name n (add_agent_path key path c es) = named ev_name n es"
  by (auto simp: add_agent_path_eq)

lemma add_agent_path_other:
  "n \<noteq> key \<Longrightarrow> named ev_name n (add_agent_path key path c es) = named ev_name n es"
  by (auto simp: add_agent_path_eq)

lemma names_add_agent_path:
  "names ev_name (add_agent_path key path c es) \<subseteq> insert key (names ev_name es)"
  "names ev_name es \<subseteq> names ev_name (add_agent_path key path c es)"
  by (auto simp: add_agent_path_eq)

lemma java_list_names:
  "names ev_name (add_agent_path key path c (injectJavaToolOptions es opt)) \<subseteq>
     {EnvJavaToolOptions, key} \<union> names ev_name es"
  "names ev_name es \<subseteq> names ev_name (add_agent_path key path c (injectJavaToolOptions es opt))"
  using names_add_agent_path [where es = "injectJavaToolOptions es opt"]
  unfolding names_injectJavaToolOptions by blast+

lemma java_names_managed:
  "{EnvJavaToolOptions, EnvJavaAgentPath} \<subseteq> set operatorManagedEnvNames"
  "names ev_name (java_owned cfg t) \<subseteq> set operatorManagedEnvNames"
  by (simp_all add: names_java_owned managed_simps)

lemma managed_nonempty: "n \<in> set operatorManagedEnvNames \<Longrightarrow> n \<noteq> ''''"
proof -
  have "'''' \<notin> set operatorManagedEnvNames" by (simp add: managed_simps)
  then show "n \<in> set operatorManagedEnvNames \<Longrightarrow> n \<noteq> ''''" by metis
qed

lemma tool_options_owned_distinct:
  "EnvJavaToolOptions \<notin> names ev_name (java_owned cfg t)"
  by (simp add: names_java_owned)

interpretation java: env_injector "injectJavaEnvVars cfg" "java_owned cfg" "{EnvJavaToolOptions}"
  for cfg
proof unfold_locales
  fix e :: env_var and t :: target_spec and c :: container and n :: string
  define es where "es = add_agent_path EnvJavaAgentPath ValJavaAgentPath c
    (injectJavaToolOptions (ct_env c) (ValJavaAgentOptionPrefix @ ValJavaAgentPath))"
  have inj: "injectJavaEnvVars cfg c t = upsertEnvVars es (java_owned cfg t)"
    by (simp only: injectJavaEnvVars_def Let_def es_def)
  have es_names: "names ev_name es \<subseteq>
      {EnvJavaToolOptions, EnvJavaAgentPath} \<union> names ev_name (ct_env c)"
    "names ev_name (ct_env c) \<subseteq> names ev_name es"
    unfolding es_def
    by (rule java_list_names)+
  show "e \<in> set (java_owned cfg t) \<Longrightarrow> named ev_name (ev_name e) (java_owned cfg t) = [e]"
    by (rule owned_singletons)
  show "names ev_name (java_owned cfg t) \<subseteq> set operatorManagedEnvNames"
    by (rule java_names_managed)
  show "{EnvJavaToolOptions} \<subseteq> set operatorManagedEnvNames"
    using java_names_managed(1) by blast
  show "n \<in> names ev_name (java_owned cfg t) \<Longrightarrow>
      named ev_name n (injectJavaEnvVars cfg c t) = named ev_name n (java_owned cfg t)"
    using upsert_named [of n es "java_owned cfg t"] java_names_managed(2) managed_nonempty
    unfolding inj by (metis subsetD)
  assume n: "n \<noteq> ''''"
  show "named ev_name n (injectJavaEnvVars cfg c t) = named ev_name n (ct_env c)"
    if out: "n \<notin> names ev_name (java_owned cfg t)" "n \<notin> {EnvJavaToolOptions}"
      and c: "n \<in> names ev_name (ct_env c)"
  proof -
    have t: "n \<noteq> EnvJavaToolOptions" using out by (simp only: singleton_iff simp_thms)
    have "named ev_name n es = named ev_name n (ct_env c)"
      unfolding es_def
      by (simp only: add_agent_path_named [OF c] injectJavaToolOptions_named [OF t])
    with out show ?thesis by (simp only: inj upsert_named [OF n] if_False)
  qed
  show "n \<in> names ev_name (injectJavaEnvVars cfg c t) \<Longrightarrow>
      n \<in> names ev_name (ct_env c) \<or> n \<in> set operatorManagedEnvNames"
    unfolding inj names_upsert [OF n] using es_names(1) java_names_managed by blast
  show "n \<in> names ev_name (ct_env c) \<Longrightarrow> n \<in> names ev_name (injectJavaEnvVars cfg c t)"
    unfolding inj names_upsert [OF n] using es_names(2) by blast
qed

text \<open>
  The Python and Node.js injectors share a shape: a list of variables, of which exactly the
  forced ones are the owned ones, combined onto the container's.
\<close>

lemma combine_injector:
  assumes single: "\<And>t e. e \<in> set (owned t) \<Longrightarrow> named ev_name (ev_name e) (owned t) = [e]"
    and forced: "\<And>t. names ev_name (owned t) = set force"
    and managed: "set force \<subseteq> set operatorManagedEnvNames"
    and env_owned: "\<And>c t n. n \<in> set force \<Longrightarrow>
      named ev_name n (envVars c t) = named ev_name n (owned t)"
    and env_managed: "\<And>c t. names ev_name (envVars c t) \<subseteq> set operatorManagedEnvNames"
  shows "env_injector (\<lambda>c t. combineEnvVars (ct_env c) (envVars c t) (\<lambda>n. n \<in> set force))
           owned {}"
proof unfold_locales
  fix e :: env_var and t :: target_spec and c :: container and n :: string
  let ?inject = "combineEnvVars (ct_env c) (envVars c t) (\<lambda>n. n \<in> set force)"
  show "e \<in> set (owned t) \<Longrightarrow> named ev_name (ev_name e) (owned t) = [e]" by (rule single)
  show "names ev_name (owned t) \<subseteq> set operatorManagedEnvNames" by (simp add: forced managed)
  show "{} \<subseteq> set operatorManagedEnvNames" by simp
  show "n \<in> names ev_name (owned t) \<Longrightarrow> named ev_name n ?inject = named ev_name n (owned t)"
  proof -
    assume n: "n \<in> names ev_name (owned t)"
    then have f: "n \<in> set force" by (simp add: forced)
    with managed have ne: "n \<noteq> ''''" by (auto simp: operatorManagedEnvNames_def)
    have "n \<in> names ev_name (envVars c t)"
      using n env_owned [OF f] by (metis named_empty_iff)
    with f ne show ?thesis by (simp add: combine_named env_owned)
  qed
  assume n: "n \<noteq> ''''"
  show "n \<notin> names ev_name (owned t) \<Longrightarrow> n \<in> names ev_name (ct_env c) \<Longrightarrow>
      named ev_name n ?inject = named ev_name n (ct_env c)"
    using n by (simp add: combine_named forced)
  show "n \<in> names ev_name ?inject \<Longrightarrow>
      n \<in> names ev_name (ct_env c) \<or> n \<in> set operatorManagedEnvNames"
    using n env_managed by (auto simp: names_combine)
  show "n \<in> names ev_name (ct_env c) \<Longrightarrow> n \<in> names ev_name ?inject"
    using n by (simp add: names_combine)
qed

lemma force_names_managed:
  "set pythonForceEnvNames \<subseteq> set operatorManagedEnvNames"
  "set nodejsForceEnvNames \<subseteq> set operatorManagedEnvNames"
  by (simp_all add: managed_simps)

text \<open>
  Both lists of variables are a fixed part, which the prepending loops and the agent path only
  extend, because none of their keys occurs in it.
\<close>

definition fixed_part :: "env_var list \<Rightarrow> string \<Rightarrow> string \<Rightarrow> env_var list" where
  "fixed_part conn appName appProcessName =
     conn @ [EnvVal EnvAppName appName, EnvVal EnvAppProcessName appProcessName,
             EnvVal EnvWhatapHome ValWhatapHome, EnvVal EnvWhatapMicroEnabled ValTrue] @
     downward_env"

lemma prepend_env_extends:
  "key \<notin> names ev_name es \<Longrightarrow>
     prepend_env key sep part (es @ xs) = es @ prepend_env key sep part xs"
  by (induction es) (auto simp: prepend_env_def split: prod.splits)

lemma names_prepend_env:
  "names ev_name (prepend_env key sep part es) = insert key (names ev_name es)"
  by (auto simp: prepend_env_eq edit_first_names)

lemma add_agent_path_extends:
  "\<exists>ys. add_agent_path key path c (es @ xs) = es @ ys \<and>
     names ev_name ys \<subseteq> insert key (names ev_name xs)"
  by (auto simp: add_agent_path_eq)

lemma agent_env_shape:
  assumes "key \<notin> names ev_name base" and "names ev_name xs \<subseteq> N"
  shows "\<exists>ys. prepend_env key sep part (base @ xs) = base @ ys \<and>
           names ev_name ys \<subseteq> insert key N"
  using assms by (auto simp: prepend_env_extends names_prepend_env)

definition python_conn :: "env_config \<Rightarrow> target_spec \<Rightarrow> env_var list" where
  "python_conn cfg target =
     [(getWhatapLicenseEnvVar cfg target)\<lparr>ev_name := EnvPythonLicense\<rparr>,
      (getWhatapHostEnvVar cfg target)\<lparr>ev_name := EnvPythonWhatapHost\<rparr>,
      (getWhatapPortEnvVar cfg target)\<lparr>ev_name := EnvPythonWhatapPort\<rparr>]"

definition nodejs_conn :: "env_config \<Rightarrow> target_spec \<Rightarrow> env_var list" where
  "nodejs_conn cfg target =
     [(getWhatapLicenseEnvVar cfg target)\<lparr>ev_name := EnvNodejsLicense\<rparr>,
      (getWhatapHostEnvVar cfg target)\<lparr>ev_name := EnvNodejsWhatapHost\<rparr>,
      (getWhatapPortEnvVar cfg target)\<lparr>ev_name := EnvNodejsWhatapPort\<rparr>]"

lemma names_fixed_part:
  "names ev_name (fixed_part (python_conn cfg t) a p) =
     {EnvAppName, EnvAppProcessName} \<union> set pythonForceEnvNames"
  "names ev_name (fixed_part (nodejs_conn cfg t) a p) =
     {EnvAppName, EnvAppProcessName} \<union> set nodejsForceEnvNames"
  by (simp_all only: fixed_part_def python_conn_def nodejs_conn_def downward_env_def
      pythonForceEnvNames_def nodejsForceEnvNames_def set_toNameSet names_simps
      env_names list.set Un_insert_left Un_insert_right Un_empty_left Un_empty_right)
    (simp_all only: insert_commute)

lemma fixed_part_named:
  assumes "n \<noteq> EnvAppName" and "n \<noteq> EnvAppProcessName"
  shows "named ev_name n (fixed_part (python_conn cfg t) a p) = named ev_name n (python_owned cfg t)"
    and "named ev_name n (fixed_part (nodejs_conn cfg t) a p) = named ev_name n (nodejs_owned cfg t)"
  using assms [symmetric]
  by (simp_all only: fixed_part_def python_conn_def nodejs_conn_def python_owned_def
      nodejs_owned_def named_append named_Cons named_Nil env_names if_False
      append_Nil append_assoc append_Cons)

lemma fixed_names_managed:
  "{EnvAppName, EnvAppProcessName, EnvOkind, EnvPythonPath, EnvPythonAgentPath,
    EnvNodejsPath, EnvNodejsOptions, EnvNodejsAgentPath} \<subseteq> set operatorManagedEnvNames"
  by (simp add: managed_simps)

lemma app_names_not_forced:
  "EnvAppName \<notin> set pythonForceEnvNames" "EnvAppProcessName \<notin> set pythonForceEnvNames"
  "EnvAppName \<notin> set nodejsForceEnvNames" "EnvAppProcessName \<notin> set nodejsForceEnvNames"
  by (simp_all add: pythonForceEnvNames_def nodejsForceEnvNames_def)

lemma python_extra_not_forced:
  "EnvOkind \<notin> set pythonForceEnvNames" "EnvPythonPath \<notin> set pythonForceEnvNames"
  "EnvPythonAgentPath \<notin> set pythonForceEnvNames"
  by (simp_all add: pythonForceEnvNames_def)

lemma nodejs_extra_not_forced:
  "EnvOkind \<notin> set nodejsForceEnvNames" "EnvNodejsPath \<notin> set nodejsForceEnvNames"
  "EnvNodejsOptions \<notin> set nodejsForceEnvNames" "EnvNodejsAgentPath \<notin> set nodejsForceEnvNames"
  by (simp_all add: nodejsForceEnvNames_def)

lemma prepended_keys_new:
  "EnvPythonPath \<notin> {EnvAppName, EnvAppProcessName}"
  "EnvNodejsPath \<notin> {EnvAppName, EnvAppProcessName}"
  "EnvNodejsOptions \<notin> {EnvAppName, EnvAppProcessName}"
  by simp_all

lemma okind_part:
  "\<exists>xs. (if okind \<noteq> '''' then es @ [EnvVal EnvOkind okind] else es) = es @ xs \<and>
     names ev_name xs \<subseteq> {EnvOkind}"
  by (cases "okind = ''''") auto

lemma python_env_vars_shape:
  "\<exists>app proc xs. python_env_vars cfg c t = fixed_part (python_conn cfg t) app proc @ xs \<and>
     names ev_name xs \<subseteq> {EnvPythonAgentPath, EnvPythonPath, EnvOkind}"
proof -
  obtain app proc okind where cfg: "getPythonAppConfig (tg_envs t) = (app, proc, okind)"
    by (cases "getPythonAppConfig (tg_envs t)")
  define base where "base = fixed_part (python_conn cfg t)
    (if app = '''' then ct_name c else app) proc"
  have new: "EnvPythonPath \<notin> names ev_name base"
    using prepended_keys_new(1) python_extra_not_forced(2)
    unfolding base_def names_fixed_part by blast
  obtain xs where xs: "(if okind \<noteq> '''' then base @ [EnvVal EnvOkind okind] else base) = base @ xs"
    "names ev_name xs \<subseteq> {EnvOkind}" using okind_part by blast
  obtain ys where ys: "prepend_env EnvPythonPath '':'' ValPythonBootstrap (base @ xs) = base @ ys"
    "names ev_name ys \<subseteq> {EnvPythonPath, EnvOkind}"
    using agent_env_shape [OF new xs(2)] by blast
  obtain zs where zs: "add_agent_path EnvPythonAgentPath ValPythonAgentPath c (base @ ys) = base @ zs"
    "names ev_name zs \<subseteq> insert EnvPythonAgentPath (names ev_name ys)"
    using add_agent_path_extends by blast
  have "python_env_vars cfg c t = base @ zs"
    unfolding python_env_vars_def cfg prod.case Let_def injectPythonPath_def
    using zs(1) ys(1) xs(1) unfolding base_def fixed_part_def python_conn_def
    by (simp only: append_Cons append_Nil)
  with zs(2) ys(2) show ?thesis unfolding base_def by blast
qed

lemma nodejs_env_vars_shape:
  "\<exists>app proc xs. nodejs_env_vars cfg c t = fixed_part (nodejs_conn cfg t) app proc @ xs \<and>
     names ev_name xs \<subseteq> {EnvNodejsAgentPath, EnvNodejsOptions, EnvNodejsPath, EnvOkind}"
proof -
  obtain app proc okind where cfg: "getNodejsAppConfig (tg_envs t) = (app, proc, okind)"
    by (cases "getNodejsAppConfig (tg_envs t)")
  define base where "base = fixed_part (nodejs_conn cfg t)
    (if app = '''' then ct_name c else app) proc"
  have new: "EnvNodejsPath \<notin> names ev_name base" "EnvNodejsOptions \<notin> names ev_name base"
    using prepended_keys_new(2,3) nodejs_extra_not_forced(2,3)
    unfolding base_def names_fixed_part by blast+
  obtain xs where xs: "(if okind \<noteq> '''' then base @ [EnvVal EnvOkind okind] else base) = base @ xs"
    "names ev_name xs \<subseteq> {EnvOkind}" using okind_part by blast
  obtain ys where ys: "prepend_env EnvNodejsPath '':'' ValNodejsModules (base @ xs) = base @ ys"
    "names ev_name ys \<subseteq> {EnvNodejsPath, EnvOkind}"
    using agent_env_shape [OF new(1) xs(2)] by blast
  obtain ws where ws: "prepend_env EnvNodejsOptions '' '' ValNodejsRequire (base @ ys) = base @ ws"
    "names ev_name ws \<subseteq> {EnvNodejsOptions, EnvNodejsPath, EnvOkind}"
    using agent_env_shape [OF new(2) ys(2)] by blast
  obtain zs where zs: "add_agent_path EnvNodejsAgentPath ValNodejsAgentPath c (base @ ws) = base @ zs"
    "names ev_name zs \<subseteq> insert EnvNodejsAgentPath (names ev_name ws)"
    using add_agent_path_extends by blast
  have "nodejs_env_vars cfg c t = base @ zs"
    unfolding nodejs_env_vars_def cfg prod.case Let_def injectNodejsPath_def injectNodejsOptions_def
    using zs(1) ws(1) ys(1) xs(1) unfolding base_def fixed_part_def nodejs_conn_def
    by (simp only: append_Cons append_Nil)
  with zs(2) ws(2) show ?thesis unfolding base_def by blast
qed

lemma shape_named:
  assumes "names ev_name xs \<subseteq> N" and "n \<notin> N"
  shows "named ev_name n (base @ xs) = named ev_name n base"
proof -
  from assms have "n \<notin> names ev_name xs" by blast
  then show ?thesis by (simp add: named_not_in)
qed

lemma python_env_vars_named:
  assumes n: "n \<in> set pythonForceEnvNames"
  shows "named ev_name n (python_env_vars cfg c t) = named ev_name n (python_owned cfg t)"
proof -
  obtain app proc xs where eq: "python_env_vars cfg c t = fixed_part (python_conn cfg t) app proc @ xs"
    and xs: "names ev_name xs \<subseteq> {EnvPythonAgentPath, EnvPythonPath, EnvOkind}"
    using python_env_vars_shape by blast
  have "n \<noteq> EnvAppName" "n \<noteq> EnvAppProcessName" using n app_names_not_forced by metis+
  moreover have "n \<notin> {EnvPythonAgentPath, EnvPythonPath, EnvOkind}"
    using n python_extra_not_forced by blast
  ultimately show ?thesis unfolding eq by (metis shape_named [OF xs] fixed_part_named)
qed

lemma nodejs_env_vars_named:
  assumes n: "n \<in> set nodejsForceEnvNames"
  shows "named ev_name n (nodejs_env_vars cfg c t) = named ev_name n (nodejs_owned cfg t)"
proof -
  obtain app proc xs where eq: "nodejs_env_vars cfg c t = fixed_part (nodejs_conn cfg t) app proc @ xs"
    and xs: "names ev_name xs \<subseteq> {EnvNodejsAgentPath, EnvNodejsOptions, EnvNodejsPath, EnvOkind}"
    using nodejs_env_vars_shape by blast
  have "n \<noteq> EnvAppName" "n \<noteq> EnvAppProcessName" using n app_names_not_forced by metis+
  moreover have "n \<notin> {EnvNodejsAgentPath, EnvNodejsOptions, EnvNodejsPath, EnvOkind}"
    using n nodejs_extra_not_forced by blast
  ultimately show ?thesis unfolding eq by (metis shape_named [OF xs] fixed_part_named)
qed

lemma names_python_env_vars:
  "names ev_name (python_env_vars cfg c t) \<subseteq> set operatorManagedEnvNames"
proof -
  obtain app proc xs where eq: "python_env_vars cfg c t = fixed_part (python_conn cfg t) app proc @ xs"
    and xs: "names ev_name xs \<subseteq> {EnvPythonAgentPath, EnvPythonPath, EnvOkind}"
    using python_env_vars_shape by blast
  show ?thesis unfolding eq names_simps names_fixed_part
    using xs fixed_names_managed force_names_managed(1) by blast
qed

lemma names_nodejs_env_vars:
  "names ev_name (nodejs_env_vars cfg c t) \<subseteq> set operatorManagedEnvNames"
proof -
  obtain app proc xs where eq: "nodejs_env_vars cfg c t = fixed_part (nodejs_conn cfg t) app proc @ xs"
    and xs: "names ev_name xs \<subseteq> {EnvNodejsAgentPath, EnvNodejsOptions, EnvNodejsPath, EnvOkind}"
    using nodejs_env_vars_shape by blast
  show ?thesis unfolding eq names_simps names_fixed_part
    using xs fixed_names_managed force_names_managed(2) by blast
qed

interpretation python: env_injector "injectPythonEnvVars cfg" "python_owned cfg" "{}" for cfg
  unfolding injectPythonEnvVars_def [abs_def]
  by (rule combine_injector [OF owned_singletons(2) names_python_owned force_names_managed(1)
        python_env_vars_named names_python_env_vars])

interpretation nodejs: env_injector "injectNodejsEnvVars cfg" "nodejs_owned cfg" "{}" for cfg
  unfolding injectNodejsEnvVars_def [abs_def]
  by (rule combine_injector [OF owned_singletons(3) names_nodejs_owned force_names_managed(2)
        nodejs_env_vars_named names_nodejs_env_vars])

section \<open>What a container ends up with\<close>

lemma combine_nil: "combineEnvVars base [] force = base"
  by (simp add: combineEnvVars_def Let_def mergeEnvVars_def upsertEnvVars_def)

lemma injectLanguageSpecific_eq:
  "injectLanguageSpecificEnvVars cfg c t lang =
     combineEnvVars (language_env_vars cfg lang c t) (tg_envs t)
       (\<lambda>n. n \<notin> set operatorManagedEnvNames)"
  by (simp add: injectLanguageSpecificEnvVars_def Let_def combine_nil)

text \<open>The variables the operator forces, by language.\<close>

definition owned_env_vars :: "env_config \<Rightarrow> string \<Rightarrow> target_spec \<Rightarrow> env_var list" where
  "owned_env_vars cfg lang target =
     (if lang = ''java'' then java_owned cfg target
      else if lang = ''python'' then python_owned cfg target
      else if lang = ''nodejs'' then nodejs_owned cfg target
      else [])"

lemma languages_distinct:
  "''python'' \<noteq> ''java''" "''nodejs'' \<noteq> ''java''" "''nodejs'' \<noteq> ''python''"
  by simp_all

lemma language_cases:
  obtains (java) "lang = ''java''" | (python) "lang = ''python''" | (nodejs) "lang = ''nodejs''"
    | (other) "lang \<noteq> ''java''" "lang \<noteq> ''python''" "lang \<noteq> ''nodejs''"
  by blast

lemma language_env_vars_simps:
  "language_env_vars cfg ''java'' c t = injectJavaEnvVars cfg c t"
  "language_env_vars cfg ''python'' c t = injectPythonEnvVars cfg c t"
  "language_env_vars cfg ''nodejs'' c t = injectNodejsEnvVars cfg c t"
  "lang \<noteq> ''java'' \<Longrightarrow> lang \<noteq> ''python'' \<Longrightarrow> lang \<noteq> ''nodejs'' \<Longrightarrow>
     language_env_vars cfg lang c t = ct_env c"
  unfolding language_env_vars_def using languages_distinct by presburger+

lemma owned_env_vars_simps:
  "owned_env_vars cfg ''java'' t = java_owned cfg t"
  "owned_env_vars cfg ''python'' t = python_owned cfg t"
  "owned_env_vars cfg ''nodejs'' t = nodejs_owned cfg t"
  "lang \<noteq> ''java'' \<Longrightarrow> lang \<noteq> ''python'' \<Longrightarrow> lang \<noteq> ''nodejs'' \<Longrightarrow>
     owned_env_vars cfg lang t = []"
  unfolding owned_env_vars_def using languages_distinct by presburger+

lemma language_unmanaged_kept:
  assumes "n \<noteq> ''''" and "n \<notin> set operatorManagedEnvNames"
  shows "named ev_name n (language_env_vars cfg lang c t) = named ev_name n (ct_env c)"
  using java.unmanaged_env_kept [OF assms] python.unmanaged_env_kept [OF assms]
    nodejs.unmanaged_env_kept [OF assms]
  by (cases rule: language_cases [of lang]) (simp_all only: language_env_vars_simps simp_thms)

text \<open>C6. Whatever variables a pod's container already has and whatever the custom resource
  lists in \<open>target.Envs\<close>, after the injection each variable the operator owns for the language
  (licence, host, port, home, micro flag, node and pod identity) is present exactly once, with
  the operator's value or source.\<close>

theorem operator_values_win:
  assumes "e \<in> set (owned_env_vars cfg lang t)"
  shows "named ev_name (ev_name e) (injectLanguageSpecificEnvVars cfg c t lang) = [e]"
  using assms java.user_env_keeps_owned [of e cfg t c "tg_envs t"]
    python.user_env_keeps_owned [of e cfg t c "tg_envs t"]
    nodejs.user_env_keeps_owned [of e cfg t c "tg_envs t"]
  unfolding injectLanguageSpecific_eq
  by (cases rule: language_cases [of lang])
    (simp_all only: language_env_vars_simps owned_env_vars_simps list.set empty_iff simp_thms)

text \<open>C33. For every name the operator does not manage, the custom resource decides if it lists
  the name (all its entries replace the container's), and the container keeps exactly its own
  entries otherwise; for every language, known or not.\<close>

theorem user_env_decides_unmanaged:
  assumes "n \<noteq> ''''" and "n \<notin> set operatorManagedEnvNames"
  shows "named ev_name n (injectLanguageSpecificEnvVars cfg c t lang) =
           (if n \<in> names ev_name (tg_envs t) then named ev_name n (tg_envs t)
            else named ev_name n (ct_env c))"
  using assms language_unmanaged_kept [OF assms, of cfg lang c t]
  unfolding injectLanguageSpecific_eq
  by (simp add: combine_named named_not_in) (metis named_empty_iff)


text \<open>The Java option string and the search paths, which the operator does not force.\<close>

lemma java_options_named:
  "named ev_name EnvJavaToolOptions (injectJavaToolOptions es opt) =
     (case named ev_name EnvJavaToolOptions es of
        [] \<Rightarrow> [EnvVal EnvJavaToolOptions opt]
      | e # rest \<Rightarrow> e\<lparr>ev_value := ev_value e @ '' '' @ opt\<rparr> # rest)"
proof (cases "EnvJavaToolOptions \<in> names ev_name es")
  case True
  then have "named ev_name EnvJavaToolOptions es \<noteq> []" by (simp add: named_empty_iff)
  with True show ?thesis
    by (auto simp: injectJavaToolOptions_eq edit_first_named split: list.splits)
next
  case False
  then show ?thesis by (simp add: injectJavaToolOptions_eq named_not_in)
qed

lemma java_tool_options_managed:
  "EnvJavaToolOptions \<in> set operatorManagedEnvNames"
  by (simp add: managed_simps)

lemma managed_name_kept:
  assumes "n \<in> set operatorManagedEnvNames" and "n \<in> names ev_name (language_env_vars cfg lang c t)"
  shows "named ev_name n (injectLanguageSpecificEnvVars cfg c t lang) =
           named ev_name n (language_env_vars cfg lang c t)"
  using assms managed_nonempty [OF assms(1)]
  unfolding injectLanguageSpecific_eq by (simp add: combine_named)

lemma java_language_options:
  "named ev_name EnvJavaToolOptions (language_env_vars cfg ''java'' c t) =
     (case named ev_name EnvJavaToolOptions (ct_env c) of
        [] \<Rightarrow> [EnvVal EnvJavaToolOptions (ValJavaAgentOptionPrefix @ ValJavaAgentPath)]
      | e # rest \<Rightarrow>
          e\<lparr>ev_value := ev_value e @ '' '' @ ValJavaAgentOptionPrefix @ ValJavaAgentPath\<rparr> # rest)"
proof -
  let ?opt = "ValJavaAgentOptionPrefix @ ValJavaAgentPath"
  let ?n = EnvJavaToolOptions
  have ne: "?n \<noteq> ''''" by simp
  have path: "?n \<noteq> EnvJavaAgentPath" by simp
  have "named ev_name ?n (injectJavaEnvVars cfg c t) =
      named ev_name ?n (add_agent_path EnvJavaAgentPath ValJavaAgentPath c
        (injectJavaToolOptions (ct_env c) ?opt))"
    unfolding injectJavaEnvVars_def Let_def upsert_named [OF ne]
    using tool_options_owned_distinct [of cfg t] by (simp only: if_False)
  also have "\<dots> = named ev_name ?n (injectJavaToolOptions (ct_env c) ?opt)"
    by (rule add_agent_path_other [OF path])
  finally show ?thesis by (simp only: language_env_vars_simps java_options_named)
qed

text \<open>A Java container's first \<open>''java''_TOOL_OPTIONS\<close> gets the agent option appended to its
  value, its other duplicates stay, and a container without the variable gets it with the
  agent option alone; \<open>target.Envs\<close> cannot change that.\<close>

theorem java_tool_options_appended:
  "named ev_name EnvJavaToolOptions (injectLanguageSpecificEnvVars cfg c t ''java'') =
     (case named ev_name EnvJavaToolOptions (ct_env c) of
        [] \<Rightarrow> [EnvVal EnvJavaToolOptions (ValJavaAgentOptionPrefix @ ValJavaAgentPath)]
      | e # rest \<Rightarrow>
          e\<lparr>ev_value := ev_value e @ '' '' @ ValJavaAgentOptionPrefix @ ValJavaAgentPath\<rparr> # rest)"
proof -
  have "named ev_name EnvJavaToolOptions (language_env_vars cfg ''java'' c t) \<noteq> []"
    unfolding java_language_options by (simp split: list.split)
  then have "EnvJavaToolOptions \<in> names ev_name (language_env_vars cfg ''java'' c t)"
    by (metis named_empty_iff)
  from managed_name_kept [OF java_tool_options_managed this]
  show ?thesis by (simp only: java_language_options)
qed

text \<open>The search path each injector adds, by language: the variable and the agent's entry.\<close>

definition search_paths :: "string \<Rightarrow> (string \<times> string) list" where
  "search_paths lang =
     (if lang = ''python'' then [(EnvPythonPath, ValPythonBootstrap)]
      else if lang = ''nodejs'' then
        [(EnvNodejsPath, ValNodejsModules), (EnvNodejsOptions, ValNodejsRequire)]
      else [])"

lemma prepend_env_new:
  "key \<notin> names ev_name es \<Longrightarrow> named ev_name key (prepend_env key sep part es) = [EnvVal key part]"
  by (simp add: prepend_env_eq named_not_in)

lemma prepend_env_other:
  "n \<noteq> key \<Longrightarrow> named ev_name n (prepend_env key sep part es) = named ev_name n es"
  by (auto simp: prepend_env_eq edit_first_named)

lemma search_key_facts:
  "EnvPythonPath \<noteq> EnvPythonAgentPath" "EnvNodejsPath \<noteq> EnvNodejsAgentPath"
  "EnvNodejsOptions \<noteq> EnvNodejsAgentPath" "EnvNodejsPath \<noteq> EnvNodejsOptions"
  "EnvNodejsOptions \<noteq> EnvNodejsPath"
  "EnvPythonPath \<noteq> EnvOkind" "EnvNodejsPath \<noteq> EnvOkind" "EnvNodejsOptions \<noteq> EnvOkind"
  "EnvPythonPath \<noteq> ''''" "EnvNodejsPath \<noteq> ''''" "EnvNodejsOptions \<noteq> ''''"
  by simp_all

lemma names_with_okind:
  assumes "n \<noteq> EnvOkind" and "n \<notin> names ev_name es"
  shows "n \<notin> names ev_name (if okind \<noteq> '''' then es @ [EnvVal EnvOkind okind] else es)"
  using assms by (cases "okind = ''''") simp_all

lemma python_path_offered:
  "named ev_name EnvPythonPath (python_env_vars cfg c t) = [EnvVal EnvPythonPath ValPythonBootstrap]"
proof -
  obtain app proc okind where cfg: "getPythonAppConfig (tg_envs t) = (app, proc, okind)"
    by (cases "getPythonAppConfig (tg_envs t)")
  define base where "base = fixed_part (python_conn cfg t)
    (if app = '''' then ct_name c else app) proc"
  have "EnvPythonPath \<notin> names ev_name base"
    using prepended_keys_new(1) python_extra_not_forced(2)
    unfolding base_def names_fixed_part by blast
  from names_with_okind [OF search_key_facts(6) this, of okind] show ?thesis
    unfolding python_env_vars_def cfg prod.case Let_def injectPythonPath_def
      add_agent_path_other [OF search_key_facts(1)]
    unfolding base_def fixed_part_def python_conn_def
    by (simp only: prepend_env_new append_Cons append_Nil simp_thms)
qed

lemma nodejs_paths_offered:
  "named ev_name EnvNodejsPath (nodejs_env_vars cfg c t) = [EnvVal EnvNodejsPath ValNodejsModules]"
  "named ev_name EnvNodejsOptions (nodejs_env_vars cfg c t) =
     [EnvVal EnvNodejsOptions ValNodejsRequire]"
proof -
  obtain app proc okind where cfg: "getNodejsAppConfig (tg_envs t) = (app, proc, okind)"
    by (cases "getNodejsAppConfig (tg_envs t)")
  define base where "base = fixed_part (nodejs_conn cfg t)
    (if app = '''' then ct_name c else app) proc"
  define es where "es = (if okind \<noteq> '''' then base @ [EnvVal EnvOkind okind] else base)"
  have "EnvNodejsPath \<notin> names ev_name base" "EnvNodejsOptions \<notin> names ev_name base"
    using prepended_keys_new(2,3) nodejs_extra_not_forced(2,3)
    unfolding base_def names_fixed_part by blast+
  then have new: "EnvNodejsPath \<notin> names ev_name es" "EnvNodejsOptions \<notin> names ev_name es"
    unfolding es_def by (simp_all only: names_with_okind search_key_facts simp_thms)
  have new2: "EnvNodejsOptions \<notin> names ev_name (prepend_env EnvNodejsPath sep part es)" for sep part
    using new(2) search_key_facts(5) unfolding names_prepend_env by blast
  have vars: "nodejs_env_vars cfg c t = add_agent_path EnvNodejsAgentPath ValNodejsAgentPath c
      (prepend_env EnvNodejsOptions '' '' ValNodejsRequire
        (prepend_env EnvNodejsPath '':'' ValNodejsModules es))"
    unfolding nodejs_env_vars_def cfg prod.case Let_def injectNodejsPath_def
      injectNodejsOptions_def es_def base_def fixed_part_def nodejs_conn_def
    by (simp only: append_Cons append_Nil)
  show "named ev_name EnvNodejsPath (nodejs_env_vars cfg c t) = [EnvVal EnvNodejsPath ValNodejsModules]"
    unfolding vars add_agent_path_other [OF search_key_facts(2)]
      prepend_env_other [OF search_key_facts(4)] by (rule prepend_env_new [OF new(1)])
  show "named ev_name EnvNodejsOptions (nodejs_env_vars cfg c t) =
      [EnvVal EnvNodejsOptions ValNodejsRequire]"
    unfolding vars add_agent_path_other [OF search_key_facts(3)]
    by (rule prepend_env_new [OF new2])
qed


lemma combine_offered:
  assumes "n \<noteq> ''''" and "n \<notin> set force" and "named ev_name n incoming = [e]"
  shows "named ev_name n (combineEnvVars base incoming (\<lambda>n. n \<in> set force)) =
           (if n \<in> names ev_name base then named ev_name n base else [e])"
  using assms by (simp add: combine_named)

lemma search_paths_cases:
  assumes "(key, part) \<in> set (search_paths lang)"
  obtains "lang = ''python''" "key = EnvPythonPath" "part = ValPythonBootstrap"
    | "lang = ''nodejs''" "key = EnvNodejsPath" "part = ValNodejsModules"
    | "lang = ''nodejs''" "key = EnvNodejsOptions" "part = ValNodejsRequire"
proof (cases "lang = ''python''")
  case True
  with assms show ?thesis
    using that(1) unfolding search_paths_def by simp
next
  case False
  show ?thesis
  proof (cases "lang = ''nodejs''")
    case True
    with False assms have "(key, part) \<in> {(EnvNodejsPath, ValNodejsModules),
        (EnvNodejsOptions, ValNodejsRequire)}"
      by (simp only: search_paths_def if_False if_True list.set simp_thms)
    with True that(2,3) show ?thesis by (simp only: insert_iff empty_iff prod.inject) metis
  next
    case other: False
    with False assms show ?thesis by (simp only: search_paths_def if_False list.set empty_iff)
  qed
qed

lemma language_search_path:
  assumes "(key, part) \<in> set (search_paths lang)"
  shows "named ev_name key (language_env_vars cfg lang c t) =
           (if key \<in> names ev_name (ct_env c) then named ev_name key (ct_env c)
            else [EnvVal key part])"
  using assms
proof (cases rule: search_paths_cases)
  case 1
  show ?thesis
    unfolding 1 language_env_vars_simps injectPythonEnvVars_def
    by (rule combine_offered [OF search_key_facts(9) python_extra_not_forced(2)
          python_path_offered])
next
  case 2
  show ?thesis
    unfolding 2 language_env_vars_simps injectNodejsEnvVars_def
    by (rule combine_offered [OF search_key_facts(10) nodejs_extra_not_forced(2)
          nodejs_paths_offered(1)])
next
  case 3
  show ?thesis
    unfolding 3 language_env_vars_simps injectNodejsEnvVars_def
    by (rule combine_offered [OF search_key_facts(11) nodejs_extra_not_forced(3)
          nodejs_paths_offered(2)])
qed

lemma search_paths_managed:
  assumes "(key, part) \<in> set (search_paths lang)"
  shows "key \<in> set operatorManagedEnvNames"
  using assms fixed_names_managed by (cases rule: search_paths_cases) blast+

text \<open>C39. \<open>PYTHONPATH\<close>, \<open>NODE_PATH\<close> and \<open>NODE_OPTIONS\<close>: a container that has the variable keeps
  exactly its own entries, without the agent's directory or option; only a container without
  it gets the agent's entry.  The prepending loops run on the operator's fresh list, never on
  the container's variables, so their prepending branch has no effect.\<close>

theorem search_paths_only_added:
  assumes "(key, part) \<in> set (search_paths lang)"
  shows "named ev_name key (injectLanguageSpecificEnvVars cfg c t lang) =
           (if key \<in> names ev_name (ct_env c) then named ev_name key (ct_env c)
            else [EnvVal key part])"
proof -
  note lang = language_search_path [OF assms, of cfg c t]
  then have "named ev_name key (language_env_vars cfg lang c t) \<noteq> []"
    by (simp add: named_empty_iff)
  then have "key \<in> names ev_name (language_env_vars cfg lang c t)" by (metis named_empty_iff)
  from managed_name_kept [OF search_paths_managed [OF assms] this] lang show ?thesis by simp
qed

section \<open>Validity of the injected variables\<close>

lemma combine_valid:
  assumes "\<forall>e\<in>set base. P e" and "\<forall>e\<in>set incoming. P e"
  shows "\<forall>e\<in>set (combineEnvVars base incoming force). P e"
proof -
  have merge: "set (merge_loop ex b es) \<subseteq> set b \<union> set es" for ex b es
    by (induction ex b es rule: merge_loop.induct) auto
  have "set (combineEnvVars base incoming force) \<subseteq> set base \<union> set incoming"
    unfolding combineEnvVars_def Let_def mergeEnvVars_def
    by (rule order_trans [OF merge]) (auto simp: upsertEnvVars_def Let_def)
  with assms show ?thesis by blast
qed

lemma fixed_part_valid:
  "(\<forall>e\<in>set conn. env_var_valid e) \<Longrightarrow> \<forall>e\<in>set (fixed_part conn a p). env_var_valid e"
  by (simp add: fixed_part_def downward_env_def env_var_valid_def)

lemma prepend_env_valid:
  "(\<forall>e\<in>set es. env_var_valid e) \<Longrightarrow> \<forall>e\<in>set (prepend_env key sep part es). env_var_valid e"
proof -
  let ?f = "\<lambda>e. if ev_from e \<noteq> None then e else e\<lparr>ev_value := part @ sep @ ev_value e\<rparr>"
  have "(\<forall>e\<in>set es. env_var_valid e) \<Longrightarrow> \<forall>e\<in>set (snd (edit_first ev_name key ?f es)). env_var_valid e"
    by (induction es) (auto simp: env_var_valid_def split: prod.splits)
  then show "(\<forall>e\<in>set es. env_var_valid e) \<Longrightarrow> \<forall>e\<in>set (prepend_env key sep part es). env_var_valid e"
    by (auto simp: prepend_env_eq env_var_valid_def)
qed

lemma add_agent_path_valid:
  "(\<forall>e\<in>set es. env_var_valid e) \<Longrightarrow> \<forall>e\<in>set (add_agent_path key path c es). env_var_valid e"
  by (auto simp: add_agent_path_eq env_var_valid_def)


lemma conn_valid:
  "\<forall>e\<in>set (python_conn cfg t). env_var_valid e" "\<forall>e\<in>set (nodejs_conn cfg t). env_var_valid e"
  by (simp_all add: python_conn_def nodejs_conn_def env_var_valid_def)

lemma okind_valid:
  "(\<forall>e\<in>set es. env_var_valid e) \<Longrightarrow>
     \<forall>e\<in>set (if okind \<noteq> '''' then es @ [EnvVal EnvOkind okind] else es). env_var_valid e"
  by (auto simp: env_var_valid_def)

lemma python_env_vars_valid: "\<forall>e\<in>set (python_env_vars cfg c t). env_var_valid e"
proof -
  obtain app proc okind where cfg: "getPythonAppConfig (tg_envs t) = (app, proc, okind)"
    by (cases "getPythonAppConfig (tg_envs t)")
  define base where "base = fixed_part (python_conn cfg t)
    (if app = '''' then ct_name c else app) proc"
  have base: "\<forall>e\<in>set base. env_var_valid e"
    unfolding base_def by (rule fixed_part_valid [OF conn_valid(1)])
  have "python_env_vars cfg c t = add_agent_path EnvPythonAgentPath ValPythonAgentPath c
      (prepend_env EnvPythonPath '':'' ValPythonBootstrap
        (if okind \<noteq> '''' then base @ [EnvVal EnvOkind okind] else base))"
    unfolding python_env_vars_def cfg prod.case Let_def injectPythonPath_def base_def
      fixed_part_def python_conn_def by (simp only: append_Cons append_Nil)
  then show ?thesis
    by (simp only:) (intro add_agent_path_valid prepend_env_valid okind_valid base)
qed

lemma nodejs_env_vars_valid: "\<forall>e\<in>set (nodejs_env_vars cfg c t). env_var_valid e"
proof -
  obtain app proc okind where cfg: "getNodejsAppConfig (tg_envs t) = (app, proc, okind)"
    by (cases "getNodejsAppConfig (tg_envs t)")
  define base where "base = fixed_part (nodejs_conn cfg t)
    (if app = '''' then ct_name c else app) proc"
  have base: "\<forall>e\<in>set base. env_var_valid e"
    unfolding base_def by (rule fixed_part_valid [OF conn_valid(2)])
  have "nodejs_env_vars cfg c t = add_agent_path EnvNodejsAgentPath ValNodejsAgentPath c
      (prepend_env EnvNodejsOptions '' '' ValNodejsRequire
        (prepend_env EnvNodejsPath '':'' ValNodejsModules
          (if okind \<noteq> '''' then base @ [EnvVal EnvOkind okind] else base)))"
    unfolding nodejs_env_vars_def cfg prod.case Let_def injectNodejsPath_def
      injectNodejsOptions_def base_def fixed_part_def nodejs_conn_def
    by (simp only: append_Cons append_Nil)
  then show ?thesis
    by (simp only:) (intro add_agent_path_valid prepend_env_valid okind_valid base)
qed

lemma java_owned_valid: "\<forall>e\<in>set (java_owned cfg t). env_var_valid e"
  by (simp add: java_owned_def downward_env_def Let_def env_var_valid_def)

lemma java_options_valid:
  assumes "\<forall>e\<in>set es. env_var_valid e"
    and "\<forall>e\<in>set es. ev_name e = EnvJavaToolOptions \<longrightarrow> ev_from e = None"
  shows "\<forall>e\<in>set (injectJavaToolOptions es opt). env_var_valid e"
proof -
  let ?f = "\<lambda>e. e\<lparr>ev_value := ev_value e @ '' '' @ opt\<rparr>"
  have "\<forall>e\<in>set (snd (edit_first ev_name EnvJavaToolOptions ?f es)). env_var_valid e"
    using assms by (induction es) (auto simp: env_var_valid_def split: prod.splits)
  with assms show ?thesis by (auto simp: injectJavaToolOptions_eq env_var_valid_def)
qed

text \<open>A variable with both a value and a source is what the API server refuses a pod for.\<close>

lemma java_valid:
  assumes "\<forall>e\<in>set (ct_env c). env_var_valid e"
    and "\<forall>e\<in>set (ct_env c). ev_name e = EnvJavaToolOptions \<longrightarrow> ev_from e = None"
  shows "\<forall>e\<in>set (injectJavaEnvVars cfg c t). env_var_valid e"
proof -
  have "set (upsertEnvVars es ov) \<subseteq> set es \<union> set ov" for es ov
    by (auto simp: upsertEnvVars_def Let_def)
  with add_agent_path_valid [OF java_options_valid [OF assms]] java_owned_valid [of cfg t]
  show ?thesis unfolding injectJavaEnvVars_def Let_def by blast
qed

text \<open>C40. If no variable of the container or of \<open>target.Envs\<close> has both a value and a source,
  no variable after the injection has, provided, for Java, that no \<open>JAVA_TOOL_OPTIONS\<close> of the
  container comes from a source.\<close>

theorem injected_env_valid:
  assumes "\<forall>e\<in>set (ct_env c). env_var_valid e"
    and "\<forall>e\<in>set (tg_envs t). env_var_valid e"
    and "lang = ''java'' \<Longrightarrow>
      \<forall>e\<in>set (ct_env c). ev_name e = EnvJavaToolOptions \<longrightarrow> ev_from e = None"
  shows "\<forall>e\<in>set (injectLanguageSpecificEnvVars cfg c t lang). env_var_valid e"
  unfolding injectLanguageSpecific_eq
proof (rule combine_valid [OF _ assms(2)])
  show "\<forall>e\<in>set (language_env_vars cfg lang c t). env_var_valid e"
  proof (cases rule: language_cases [of lang])
    case java
    then show ?thesis
      unfolding java language_env_vars_simps
      by (intro java_valid assms(1) assms(3) [OF java])
  next
    case python
    show ?thesis
      unfolding python language_env_vars_simps injectPythonEnvVars_def
      by (rule combine_valid [OF assms(1) python_env_vars_valid])
  next
    case nodejs
    show ?thesis
      unfolding nodejs language_env_vars_simps injectNodejsEnvVars_def
      by (rule combine_valid [OF assms(1) nodejs_env_vars_valid])
  next
    case other
    with assms(1) show ?thesis by (simp only: language_env_vars_simps simp_thms)
  qed
qed

text \<open>The provision is needed: a Java container whose \<open>JAVA_TOOL_OPTIONS\<close> comes from a
  ConfigMap, a Secret or a field ends up with a variable that has both that source and the
  agent option as its value, which the API server refuses; Python and Node.js check for the
  source first.\<close>

theorem java_options_from_source_invalid:
  assumes "named ev_name EnvJavaToolOptions (ct_env c) = e # rest" and "ev_from e \<noteq> None"
  shows "\<exists>e'\<in>set (injectLanguageSpecificEnvVars cfg c t ''java'').
           ev_name e' = EnvJavaToolOptions \<and> ev_from e' = ev_from e \<and> \<not> env_var_valid e'"
proof -
  let ?e = "e\<lparr>ev_value := ev_value e @ '' '' @ ValJavaAgentOptionPrefix @ ValJavaAgentPath\<rparr>"
  have name: "ev_name e = EnvJavaToolOptions"
    using assms(1) by (metis list.set_intros(1) set_named)
  have lang: "named ev_name EnvJavaToolOptions (language_env_vars cfg ''java'' c t) = ?e # rest"
    by (simp only: java_language_options assms(1) list.case)
  then have "EnvJavaToolOptions \<in> names ev_name (language_env_vars cfg ''java'' c t)"
    by (metis named_empty_iff list.distinct(1))
  from managed_name_kept [OF java_tool_options_managed this] lang
  have "?e \<in> set (injectLanguageSpecificEnvVars cfg c t ''java'')"
    by (metis list.set_intros(1) set_named)
  moreover have "\<not> env_var_valid ?e" using assms(2) by (simp add: env_var_valid_def)
  ultimately show ?thesis using name by (intro bexI [of _ ?e]) simp_all
qed


section \<open>Concrete injections\<close>

lemma sample_license: "getWhatapLicenseEnvVar sample_config zero_target = EnvVal EnvWhatapLicense ''lic''"
  "getWhatapHostEnvVar sample_config zero_target = EnvVal EnvWhatapHost ''10.0.0.1''"
  "getWhatapPortEnvVar sample_config zero_target = EnvVal EnvWhatapPort ''6600''"
  by (simp_all add: getWhatapLicenseEnvVar_def getWhatapHostEnvVar_def getWhatapPortEnvVar_def
      zero_target_def sample_config_def)

text \<open>Another webhook left a loopback server address; the operator's address replaces it.\<close>

lemma operator_values_win_witness:
  "named ev_name EnvJavaWhatapHost
     (injectLanguageSpecificEnvVars sample_config
       (sample_container [EnvVal EnvJavaWhatapHost ''127.0.0.1'']) zero_target ''java'') =
     [EnvVal EnvJavaWhatapHost ''10.0.0.1'']"
proof -
  have "EnvVal EnvJavaWhatapHost ''10.0.0.1'' \<in> set (owned_env_vars sample_config ''java'' zero_target)"
    by (simp add: owned_env_vars_def java_owned_def Let_def sample_license)
  from operator_values_win [OF this] show ?thesis by simp
qed

lemma user_env_decides_unmanaged_witness:
  "named ev_name ''whatap.name''
     (injectLanguageSpecificEnvVars sample_config
       (sample_container [EnvVal ''whatap.name'' ''stale''])
       (zero_target\<lparr>tg_envs := [EnvVal ''whatap.name'' ''shop'']\<rparr>) ''java'') =
     [EnvVal ''whatap.name'' ''shop'']"
proof -
  have "''whatap.name'' \<notin> set operatorManagedEnvNames" by (simp add: managed_simps)
  from user_env_decides_unmanaged [OF _ this] show ?thesis by simp
qed

lemma search_paths_only_added_witness:
  "named ev_name EnvPythonPath
     (injectLanguageSpecificEnvVars sample_config
       (sample_container [EnvVal EnvPythonPath ''/srv'']) zero_target ''python'') =
     [EnvVal EnvPythonPath ''/srv'']"
proof -
  have "(EnvPythonPath, ValPythonBootstrap) \<in> set (search_paths ''python'')"
    by (simp add: search_paths_def)
  from search_paths_only_added [OF this] show ?thesis by (simp add: sample_container_def)
qed

lemma injected_env_valid_witness:
  "list_all env_var_valid (injectLanguageSpecificEnvVars sample_config
      (sample_container [EnvFrom EnvPythonPath (FieldRef ''x'')]) zero_target ''python'')"
  unfolding list_all_iff
  by (rule injected_env_valid)
    (simp_all add: sample_container_def zero_target_def env_var_valid_def)

lemma java_options_from_source_invalid_witness:
  "\<exists>e'\<in>set (injectLanguageSpecificEnvVars sample_config
      (sample_container [EnvFrom EnvJavaToolOptions (SecretKeyRef ''s'' ''k'')]) zero_target ''java'').
    ev_name e' = EnvJavaToolOptions \<and> ev_from e' = Some (SecretKeyRef ''s'' ''k'') \<and>
    \<not> env_var_valid e'"
  using java_options_from_source_invalid
    [of "sample_container [EnvFrom EnvJavaToolOptions (SecretKeyRef ''s'' ''k'')]"
      "EnvFrom EnvJavaToolOptions (SecretKeyRef ''s'' ''k'')" "[]" sample_config zero_target]
  by (simp add: sample_container_def)

end
