(* ===== verification/PodPatch.thy ===== *)
theory PodPatch
  imports Injectors
begin

text \<open>
  What the webhook does to a pod's specification
  (\<open>src/internal/webhook/v2alpha1/process_deployments.go\<close>): the agent's init container, the
  optional copies of a custom \<open>whatap.conf\<close> and of plugin files, the shared volume, and the
  variables and mount of every container.  The Go function edits the specification in place;
  here it returns the new one.  Log output is left out.
\<close>

section \<open>The init container\<close>

definition getAgentImage :: "target_spec \<Rightarrow> string \<Rightarrow> string \<Rightarrow> string" where
  "getAgentImage target lang version =
     (if tg_custom_image_full_name target \<noteq> '''' then tg_custom_image_full_name target
      else if tg_custom_image_name target \<noteq> '''' then tg_custom_image_name target
      else ''public.ecr.aws/whatap/apm-init-'' @ lang @ '':'' @ version)"

definition security_overrides ::
  "init_container_security option \<Rightarrow> bool option \<times> int option" where
  "security_overrides s =
     (case s of None \<Rightarrow> (None, None)
      | Some ics \<Rightarrow> (ics_run_as_non_root ics, ics_run_as_user ics))"

definition init_security_context :: "target_spec \<Rightarrow> whatap_agent \<Rightarrow> security_context" where
  "init_security_context target cr =
     (let overrides = security_overrides (tg_init_security target);
          overrides = (if overrides = (None, None)
                       then security_overrides (ins_init_security (instrumentation cr))
                       else overrides)
      in if overrides = (None, None)
         then no_security_context\<lparr>sc_run_as_non_root := Some True\<rparr>
         else no_security_context\<lparr>sc_run_as_non_root := fst overrides,
                                  sc_run_as_user := snd overrides\<rparr>)"

definition init_default_resources :: resource_reqs where
  "init_default_resources =
     no_resources\<lparr>rr_limits := Some [(''cpu'', ''200m''), (''memory'', ''256Mi'')]\<rparr>"

definition init_resources :: "target_spec \<Rightarrow> whatap_agent \<Rightarrow> resource_reqs" where
  "init_resources target cr =
     (case tg_init_resources target of
        Some r \<Rightarrow> r
      | None \<Rightarrow> (case ins_init_resources (instrumentation cr) of
                  Some r \<Rightarrow> r
                | None \<Rightarrow> init_default_resources))"

definition createAgentInitContainers ::
  "env_config \<Rightarrow> target_spec \<Rightarrow> whatap_agent \<Rightarrow> string \<Rightarrow> string \<Rightarrow> container list" where
  "createAgentInitContainers cfg target cr lang version =
     (let base = zero_container\<lparr>
            ct_name := InitContainerName,
            ct_image := getAgentImage target lang version,
            ct_pull_policy := ''Always'',
            ct_mounts := [Mount VolumeNameWhatapAgent MountPathWhatapAgent],
            ct_security := Some (init_security_context target cr),
            ct_resources := init_resources target cr\<rparr>;
          conn = [getWhatapLicenseEnvVar cfg target, getWhatapHostEnvVar cfg target,
                  getWhatapPortEnvVar cfg target]
      in if lang = ''python'' then
           (case getPythonAppConfig (tg_envs target) of (appName, appProcessName, okind) \<Rightarrow>
              [base\<lparr>ct_env := conn @ [EnvVal EnvAppName appName,
                 EnvVal EnvAppProcessName appProcessName, EnvVal EnvOkind okind]\<rparr>])
         else if lang = ''java'' then [base\<lparr>ct_env := conn\<rparr>]
         else if lang = ''nodejs'' then
           (case getNodejsAppConfig (tg_envs target) of (appName, appProcessName, okind) \<Rightarrow>
              [base\<lparr>ct_env := conn @ [EnvVal EnvAppName appName,
                 EnvVal EnvAppProcessName appProcessName, EnvVal EnvOkind okind]\<rparr>])
         else [base])"

section \<open>Pull secrets\<close>

fun pull_secrets_loop :: "string set \<Rightarrow> string list \<Rightarrow> string list \<Rightarrow> string list" where
  "pull_secrets_loop existing secrets [] = secrets"
| "pull_secrets_loop existing secrets (s # ss) =
     (if s \<notin> existing then pull_secrets_loop (insert s existing) (secrets @ [s]) ss
      else pull_secrets_loop existing secrets ss)"

definition add_pull_secrets :: "string list \<Rightarrow> string list \<Rightarrow> string list" where
  "add_pull_secrets secrets news = pull_secrets_loop (set secrets) secrets news"

section \<open>Custom configuration and plugins\<close>

definition volumeExists :: "volume list \<Rightarrow> string \<Rightarrow> bool" where
  "volumeExists volumes name = (\<exists>v\<in>set volumes. vol_name v = name)"

definition mount_first :: "volume_mount \<Rightarrow> container list \<Rightarrow> container list" where
  "mount_first m cs =
     (case cs of [] \<Rightarrow> [] | c # rest \<Rightarrow> c\<lparr>ct_mounts := ct_mounts c @ [m]\<rparr> # rest)"

definition custom_config_step ::
  "target_spec \<Rightarrow> volume list \<times> container list \<Rightarrow>
     volume list \<times> container list \<times> string list" where
  "custom_config_step target st =
     (case st of (volumes, inits) \<Rightarrow>
        (case (cfg_mode (tg_config target) = ''custom'', cfg_config_map_ref (tg_config target)) of
           (True, Some ref) \<Rightarrow>
             (let volName = or_default (cfg_volume_name (tg_config target)) ''config-volume'';
                  mountPath = or_default (cfg_mount_path (tg_config target)) ''/config-volume''
              in if volumeExists volumes volName then (volumes, inits, [])
                 else (volumes @ [\<lparr>vol_name = volName, vol_source = ConfigMapVolume ref None\<rparr>],
                       mount_first (Mount volName mountPath) inits,
                       [''cp '' @ mountPath @ ''/whatap.conf '' @ MountPathWhatapAgent @ ''/'',
                        ''chmod 644 '' @ MountPathWhatapAgent @ ''/whatap.conf'']))
         | _ \<Rightarrow> (volumes, inits, [])))"

abbreviation PluginVolume :: string where "PluginVolume \<equiv> ''whatap-plugin-volume''"
abbreviation PluginMountPath :: string where "PluginMountPath \<equiv> ''/whatap-plugin''"

definition plugin_step ::
  "target_spec \<Rightarrow> volume list \<times> container list \<Rightarrow>
     volume list \<times> container list \<times> string list" where
  "plugin_step target st =
     (case st of (volumes, inits) \<Rightarrow>
        (case cfg_plugin_config_map_ref (tg_config target) of
           Some ref \<Rightarrow>
             (let pluginDir = MountPathWhatapAgent @ ''/plugin''
              in if volumeExists volumes PluginVolume then (volumes, inits, [])
                 else (volumes @
                         [\<lparr>vol_name = PluginVolume, vol_source = ConfigMapVolume ref None\<rparr>],
                       mount_first (Mount PluginVolume PluginMountPath) inits,
                       [''mkdir -p '' @ pluginDir,
                        ''cp -L '' @ PluginMountPath @ ''/* '' @ pluginDir @
                          ''/ 2>/dev/null || true'',
                        ''chmod 644 '' @ pluginDir @ ''/* 2>/dev/null || true'']))
         | None \<Rightarrow> (volumes, inits, [])))"

definition set_command :: "string list \<Rightarrow> container list \<Rightarrow> container list" where
  "set_command steps cs =
     (case cs of [] \<Rightarrow> []
      | c # rest \<Rightarrow> c\<lparr>ct_command := [''sh'', ''-c''], ct_args := [join '' && '' steps]\<rparr> # rest)"

definition config_copies ::
  "target_spec \<Rightarrow> volume list \<Rightarrow> container list \<Rightarrow> volume list \<times> container list" where
  "config_copies target volumes inits =
     (if (cfg_mode (tg_config target) = ''custom'' \<and> cfg_config_map_ref (tg_config target) \<noteq> None) \<or>
         cfg_plugin_config_map_ref (tg_config target) \<noteq> None
      then (case custom_config_step target (volumes, inits) of (volumes, inits, preInit) \<Rightarrow>
             (case plugin_step target (volumes, inits) of (volumes, inits, postInit) \<Rightarrow>
                if inits \<noteq> [] \<and> (preInit \<noteq> [] \<or> postInit \<noteq> [])
                then (volumes,
                      set_command (preInit @ [''if [ -x /init.sh ]; then /init.sh; fi''] @ postInit)
                        inits)
                else (volumes, inits)))
      else (volumes, inits))"

section \<open>The whole patch\<close>

definition target_version :: "target_spec \<Rightarrow> string" where
  "target_version target =
     or_default (mget_str (tg_versions target) (tg_language target)) ''latest''"

definition patch_container ::
  "env_config \<Rightarrow> target_spec \<Rightarrow> string \<Rightarrow> container \<Rightarrow> container" where
  "patch_container cfg target lang c =
     c\<lparr>ct_env := injectLanguageSpecificEnvVars cfg c target lang,
       ct_mounts := ct_mounts c @ [Mount VolumeNameWhatapAgent MountPathWhatapAgent]\<rparr>"

definition patchPodTemplateSpec ::
  "env_config \<Rightarrow> pod_spec \<Rightarrow> whatap_agent \<Rightarrow> target_spec \<Rightarrow> pod_spec" where
  "patchPodTemplateSpec cfg podSpec cr target =
     (let lang = tg_language target;
          version = target_version target;
          podSpec = podSpec\<lparr>ps_pull_secrets :=
            add_pull_secrets (ps_pull_secrets podSpec) (tg_pull_secrets target)\<rparr>;
          inits = createAgentInitContainers cfg target cr lang version;
          (volumes, inits) = config_copies target (ps_volumes podSpec) inits;
          podSpec = podSpec\<lparr>ps_init_containers := ps_init_containers podSpec @ inits,
            ps_volumes := appendIfNotExists volumes
              \<lparr>vol_name = VolumeNameWhatapAgent, vol_source = EmptyDir\<rparr>\<rparr>
      in podSpec\<lparr>ps_containers := map (patch_container cfg target lang) (ps_containers podSpec)\<rparr>)"

section \<open>Pull secrets are added once\<close>

lemma pull_secrets_named:
  "named id n (pull_secrets_loop existing secrets ss) =
     named id n secrets @ (if n \<in> existing then [] else take 1 (named id n ss))"
  by (induction ss arbitrary: existing secrets) auto

lemma pull_secrets_prefix: "\<exists>ys. pull_secrets_loop existing secrets ss = secrets @ ys"
proof (induction ss arbitrary: existing secrets)
  case Nil
  then show ?case by simp
next
  case (Cons s ss)
  then show ?case by (metis append_assoc pull_secrets_loop.simps(2))
qed

interpretation pull_secret: add_absent id add_pull_secrets
  by unfold_locales
    (auto simp: add_pull_secrets_def pull_secrets_prefix pull_secrets_named names_def named_not_in)

section \<open>The shape of the copies\<close>

text \<open>
  Both steps add either nothing, or one volume under a new name together with its mount and
  the commands that copy from it.
\<close>

definition config_mount :: "target_spec \<Rightarrow> volume_mount" where
  "config_mount target =
     Mount (or_default (cfg_volume_name (tg_config target)) ''config-volume'')
           (or_default (cfg_mount_path (tg_config target)) ''/config-volume'')"

definition config_steps :: "target_spec \<Rightarrow> string list" where
  "config_steps target =
     [''cp '' @ vm_path (config_mount target) @ ''/whatap.conf '' @ MountPathWhatapAgent @ ''/'',
      ''chmod 644 '' @ MountPathWhatapAgent @ ''/whatap.conf'']"

definition plugin_mount :: volume_mount where
  "plugin_mount = Mount PluginVolume PluginMountPath"

definition plugin_steps :: "string list" where
  "plugin_steps =
     [''mkdir -p '' @ MountPathWhatapAgent @ ''/plugin'',
      ''cp -L '' @ PluginMountPath @ ''/* '' @ (MountPathWhatapAgent @ ''/plugin'') @
        ''/ 2>/dev/null || true'',
      ''chmod 644 '' @ (MountPathWhatapAgent @ ''/plugin'') @ ''/* 2>/dev/null || true'']"

lemma volumeExists_names: "volumeExists vols n \<longleftrightarrow> n \<in> names vol_name vols"
  by (auto simp: volumeExists_def names_def)

text \<open>
  When each copy happens, and what it leaves: the mounts with the sources of their volumes,
  and the init container's command, which copies exactly from what was mounted.
\<close>

definition config_copied :: "target_spec \<Rightarrow> volume list \<Rightarrow> bool" where
  "config_copied t vols \<longleftrightarrow>
     cfg_mode (tg_config t) = ''custom'' \<and> cfg_config_map_ref (tg_config t) \<noteq> None \<and>
     vm_name (config_mount t) \<notin> names vol_name vols"

definition plugin_copied :: "target_spec \<Rightarrow> volume list \<Rightarrow> bool" where
  "plugin_copied t vols \<longleftrightarrow>
     cfg_plugin_config_map_ref (tg_config t) \<noteq> None \<and> PluginVolume \<notin> names vol_name vols \<and>
     \<not> (config_copied t vols \<and> vm_name (config_mount t) = PluginVolume)"

definition copied_mounts :: "target_spec \<Rightarrow> volume list \<Rightarrow> (volume_mount \<times> volume_source) list" where
  "copied_mounts t vols =
     (if config_copied t vols
      then [(config_mount t, ConfigMapVolume (the (cfg_config_map_ref (tg_config t))) None)]
      else []) @
     (if plugin_copied t vols
      then [(plugin_mount, ConfigMapVolume (the (cfg_plugin_config_map_ref (tg_config t))) None)]
      else [])"

definition copied_volumes :: "target_spec \<Rightarrow> volume list \<Rightarrow> volume list" where
  "copied_volumes t vols =
     map (\<lambda>(m, s). \<lparr>vol_name = vm_name m, vol_source = s\<rparr>) (copied_mounts t vols)"

definition copied_command :: "target_spec \<Rightarrow> volume list \<Rightarrow> string list" where
  "copied_command t vols =
     (if config_copied t vols then config_steps t else []) @
     [''if [ -x /init.sh ]; then /init.sh; fi''] @
     (if plugin_copied t vols then plugin_steps else [])"

definition with_copies :: "target_spec \<Rightarrow> volume list \<Rightarrow> container \<Rightarrow> container" where
  "with_copies t vols c =
     (if copied_mounts t vols = [] then c
      else c\<lparr>ct_mounts := ct_mounts c @ map fst (copied_mounts t vols),
             ct_command := [''sh'', ''-c''],
             ct_args := [join '' && '' (copied_command t vols)]\<rparr>)"

lemma custom_config_step_eq:
  "custom_config_step t (vols, [c]) =
     (if config_copied t vols
      then (vols @ [\<lparr>vol_name = vm_name (config_mount t),
              vol_source = ConfigMapVolume (the (cfg_config_map_ref (tg_config t))) None\<rparr>],
            [c\<lparr>ct_mounts := ct_mounts c @ [config_mount t]\<rparr>], config_steps t)
      else (vols, [c], []))"
  unfolding custom_config_step_def
  by (auto simp: config_copied_def config_mount_def config_steps_def mount_first_def
      volumeExists_names Let_def split: bool.split option.split)

lemma plugin_step_eq:
  "plugin_step t (vols, [c]) =
     (if cfg_plugin_config_map_ref (tg_config t) \<noteq> None \<and> PluginVolume \<notin> names vol_name vols
      then (vols @ [\<lparr>vol_name = PluginVolume,
              vol_source = ConfigMapVolume (the (cfg_plugin_config_map_ref (tg_config t))) None\<rparr>],
            [c\<lparr>ct_mounts := ct_mounts c @ [plugin_mount]\<rparr>], plugin_steps)
      else (vols, [c], []))"
  unfolding plugin_step_def
  by (auto simp: plugin_mount_def plugin_steps_def mount_first_def volumeExists_names Let_def
      split: option.split)

lemma steps_nonempty: "config_steps t \<noteq> []" "plugin_steps \<noteq> []"
  by (simp_all add: config_steps_def plugin_steps_def)

lemma config_copies_closed:
  "config_copies t vols [c] = (vols @ copied_volumes t vols, [with_copies t vols c])"
proof (cases "(cfg_mode (tg_config t) = ''custom'' \<and> cfg_config_map_ref (tg_config t) \<noteq> None) \<or>
         cfg_plugin_config_map_ref (tg_config t) \<noteq> None")
  case False
  then have "\<not> config_copied t vols" "\<not> plugin_copied t vols"
    by (simp_all add: config_copied_def plugin_copied_def)
  then show ?thesis
    unfolding config_copies_def if_not_P [OF False]
    by (simp add: copied_volumes_def with_copies_def copied_mounts_def)
next
  case True
  have plugin: "plugin_copied t vols \<longleftrightarrow> cfg_plugin_config_map_ref (tg_config t) \<noteq> None \<and>
      PluginVolume \<notin> names vol_name vols \<and>
      \<not> (config_copied t vols \<and> vm_name (config_mount t) = PluginVolume)"
    by (simp only: plugin_copied_def)
  have mount: "vm_name plugin_mount = PluginVolume" by (simp add: plugin_mount_def)
  show ?thesis
    unfolding config_copies_def if_P [OF True] prod.case custom_config_step_eq
    using plugin mount
    by (cases "config_copied t vols"; cases "plugin_copied t vols")
      (auto simp: plugin_step_eq copied_volumes_def with_copies_def copied_mounts_def
        copied_command_def set_command_def steps_nonempty)
qed


section \<open>The whole patch, in closed form\<close>

definition agent_init :: "env_config \<Rightarrow> target_spec \<Rightarrow> whatap_agent \<Rightarrow> container" where
  "agent_init cfg t cr = hd (createAgentInitContainers cfg t cr (tg_language t) (target_version t))"

lemma createAgentInitContainers_single:
  "createAgentInitContainers cfg t cr (tg_language t) (target_version t) = [agent_init cfg t cr]"
  by (simp add: agent_init_def createAgentInitContainers_def Let_def split: prod.split)

lemma agent_init_fields:
  "ct_name (agent_init cfg t cr) = InitContainerName"
  "ct_image (agent_init cfg t cr) = getAgentImage t (tg_language t) (target_version t)"
  "ct_mounts (agent_init cfg t cr) = [Mount VolumeNameWhatapAgent MountPathWhatapAgent]"
  "ct_security (agent_init cfg t cr) = Some (init_security_context t cr)"
  "ct_resources (agent_init cfg t cr) = init_resources t cr"
  "ct_command (agent_init cfg t cr) = []"
  by (simp_all add: agent_init_def createAgentInitContainers_def Let_def kube_zero_defs
      split: prod.split)

lemma patch_closed:
  "patchPodTemplateSpec cfg ps cr t =
     ps\<lparr>ps_pull_secrets := add_pull_secrets (ps_pull_secrets ps) (tg_pull_secrets t),
        ps_init_containers := ps_init_containers ps @
          [with_copies t (ps_volumes ps) (agent_init cfg t cr)],
        ps_volumes := appendIfNotExists (ps_volumes ps @ copied_volumes t (ps_volumes ps))
          \<lparr>vol_name = VolumeNameWhatapAgent, vol_source = EmptyDir\<rparr>,
        ps_containers := map (patch_container cfg t (tg_language t)) (ps_containers ps)\<rparr>"
  unfolding patchPodTemplateSpec_def Let_def createAgentInitContainers_single
  by (simp add: config_copies_closed)

lemma with_copies_mounts:
  "ct_mounts (with_copies t vols c) = ct_mounts c @ map fst (copied_mounts t vols)"
  "ct_name (with_copies t vols c) = ct_name c"
  "ct_image (with_copies t vols c) = ct_image c"
  "ct_security (with_copies t vols c) = ct_security c"
  "ct_resources (with_copies t vols c) = ct_resources c"
  by (simp_all add: with_copies_def)

lemma copied_volumes_names:
  "map vol_name (copied_volumes t vols) = map (vm_name \<circ> fst) (copied_mounts t vols)"
  by (simp add: copied_volumes_def split_beta)

lemma copied_names_new:
  "distinct (map vol_name (copied_volumes t vols))"
  "v \<in> set (copied_volumes t vols) \<Longrightarrow> vol_name v \<notin> names vol_name vols"
  unfolding copied_volumes_def copied_mounts_def
  by (auto simp: config_copied_def plugin_copied_def plugin_mount_def split: if_splits)

lemma copied_names_disjoint:
  "names vol_name vols \<inter> names vol_name (copied_volumes t vols) = {}"
proof -
  have "n \<notin> names vol_name vols" if n: "n \<in> names vol_name (copied_volumes t vols)" for n
  proof -
    from n obtain v where "v \<in> set (copied_volumes t vols)" "n = vol_name v"
      by (auto simp: names_def)
    with copied_names_new(2) show ?thesis by simp
  qed
  then show ?thesis by blast
qed

lemma names_copied_volumes:
  "names vol_name (copied_volumes t vols) = (vm_name \<circ> fst) ` set (copied_mounts t vols)"
  by (force simp: names_def copied_volumes_def)

lemma set_appendIfNotExists:
  "v \<in> set (appendIfNotExists vs w) \<Longrightarrow>
     v \<in> set vs \<or> v = w \<and> vol_name w \<notin> names vol_name vs"
  by (auto simp: appendIfNotExists_names split: if_splits)

lemma set_add_pull_secrets: "set (add_pull_secrets xs ss) = set xs \<union> set ss"
proof -
  have "n \<in> set (add_pull_secrets xs ss) \<longleftrightarrow> n \<in> set xs \<union> set ss" for n
    using named_empty_iff [of id n "add_pull_secrets xs ss"] named_empty_iff [of id n ss]
      named_empty_iff [of id n xs]
    by (auto simp: add_pull_secrets_def pull_secrets_named names_def split: if_splits)
  then show ?thesis by blast
qed

section \<open>A patched pod is well formed\<close>

lemma names_appendIfNotExists:
  "names vol_name (appendIfNotExists vs w) = insert (vol_name w) (names vol_name vs)"
  by (auto simp: appendIfNotExists_names)

lemma distinct_appendIfNotExists:
  "distinct (map vol_name vs) \<Longrightarrow> distinct (map vol_name (appendIfNotExists vs w))"
  by (auto simp: appendIfNotExists_names names_def)

text \<open>C30. The patch keeps a pod's volumes well formed: if volume names were unique and every
  mount had a volume, so it is afterwards, for every target; custom volume names that collide
  with a volume of the pod, or with the plugin volume, do not break it.\<close>

theorem patch_keeps_volumes_ok:
  assumes "pod_volumes_ok ps"
  shows "pod_volumes_ok (patchPodTemplateSpec cfg ps cr t)"
proof -
  let ?vols = "ps_volumes ps @ copied_volumes t (ps_volumes ps)"
  let ?agent = "\<lparr>vol_name = VolumeNameWhatapAgent, vol_source = EmptyDir\<rparr>"
  have "distinct (map vol_name ?vols)"
    using assms copied_names_new(1) copied_names_disjoint
    unfolding pod_volumes_ok_def names_def map_append distinct_append set_map by blast
  then have d: "distinct (map vol_name (appendIfNotExists ?vols ?agent))"
    by (rule distinct_appendIfNotExists)
  have names: "names vol_name (appendIfNotExists ?vols ?agent) =
      insert VolumeNameWhatapAgent (names vol_name (ps_volumes ps) \<union>
        (vm_name \<circ> fst) ` set (copied_mounts t (ps_volumes ps)))"
    by (simp add: names_appendIfNotExists names_copied_volumes)
  show ?thesis
    using assms
    unfolding pod_volumes_ok_def patch_closed
    by (auto simp: d names with_copies_mounts agent_init_fields patch_container_def) blast
qed



text \<open>What the patch leaves alone: the pod's own init containers, volumes and pull secrets
  stay in place in front of what is added, each container changes in its variables and gains
  one mount, and the target's pull secrets are each present.\<close>

theorem patch_extends:
  "\<exists>init vols secrets.
     ps_init_containers (patchPodTemplateSpec cfg ps cr t) = ps_init_containers ps @ [init] \<and>
     ct_name init = InitContainerName \<and>
     ps_volumes (patchPodTemplateSpec cfg ps cr t) = ps_volumes ps @ vols \<and>
     VolumeNameWhatapAgent \<in> names vol_name (ps_volumes ps @ vols) \<and>
     ps_pull_secrets (patchPodTemplateSpec cfg ps cr t) = ps_pull_secrets ps @ secrets \<and>
     set (ps_pull_secrets ps @ secrets) = set (ps_pull_secrets ps) \<union> set (tg_pull_secrets t) \<and>
     ps_containers (patchPodTemplateSpec cfg ps cr t) =
       map (\<lambda>c. c\<lparr>ct_env := injectLanguageSpecificEnvVars cfg c t (tg_language t),
                  ct_mounts := ct_mounts c @ [Mount VolumeNameWhatapAgent MountPathWhatapAgent]\<rparr>)
         (ps_containers ps) \<and>
     ps_security (patchPodTemplateSpec cfg ps cr t) = ps_security ps \<and>
     ps_service_account (patchPodTemplateSpec cfg ps cr t) = ps_service_account ps \<and>
     ps_rest (patchPodTemplateSpec cfg ps cr t) = ps_rest ps"
proof -
  obtain ys where ys: "add_pull_secrets (ps_pull_secrets ps) (tg_pull_secrets t) =
      ps_pull_secrets ps @ ys"
    using pull_secret.add_prefix by blast
  then have secrets: "set (ps_pull_secrets ps @ ys) =
      set (ps_pull_secrets ps) \<union> set (tg_pull_secrets t)"
    by (metis set_add_pull_secrets)
  obtain vs where vs: "appendIfNotExists (ps_volumes ps @ copied_volumes t (ps_volumes ps))
      \<lparr>vol_name = VolumeNameWhatapAgent, vol_source = EmptyDir\<rparr> = ps_volumes ps @ vs"
    using that by (simp only: appendIfNotExists_names append_assoc split: if_split_asm)
      (metis append_assoc)
  then have "VolumeNameWhatapAgent \<in> names vol_name (ps_volumes ps @ vs)"
    by (metis names_appendIfNotExists insertI1 volume.select_convs(1))
  with ys secrets vs show ?thesis
    unfolding patch_closed
    by (intro exI [of _ "with_copies t (ps_volumes ps) (agent_init cfg t cr)"] exI [of _ vs]
        exI [of _ ys] conjI)
      (simp_all add: with_copies_mounts agent_init_fields patch_container_def)
qed

text \<open>The security context of the init container: a target that sets either field decides
  both, otherwise the instrumentation section does, and with neither the container must not
  run as root and leaves the user to the platform.\<close>

theorem init_security_levels:
  "init_security_context t cr =
     (case (tg_init_security t, ins_init_security (instrumentation cr)) of
        (Some s, i) \<Rightarrow>
          (if ics_run_as_non_root s = None \<and> ics_run_as_user s = None
           then init_security_context (t\<lparr>tg_init_security := None\<rparr>) cr
           else no_security_context\<lparr>sc_run_as_non_root := ics_run_as_non_root s,
                                    sc_run_as_user := ics_run_as_user s\<rparr>)
      | (None, Some i) \<Rightarrow>
          (if ics_run_as_non_root i = None \<and> ics_run_as_user i = None
           then no_security_context\<lparr>sc_run_as_non_root := Some True\<rparr>
           else no_security_context\<lparr>sc_run_as_non_root := ics_run_as_non_root i,
                                    sc_run_as_user := ics_run_as_user i\<rparr>)
      | (None, None) \<Rightarrow> no_security_context\<lparr>sc_run_as_non_root := Some True\<rparr>)"
  by (auto simp: init_security_context_def security_overrides_def Let_def split: option.split)


section \<open>Concrete patches\<close>

definition sample_pod_spec :: pod_spec where
  "sample_pod_spec = zero_pod_spec\<lparr>
     ps_volumes := [\<lparr>vol_name = ''config-volume'', vol_source = EmptyDir\<rparr>],
     ps_containers := [(sample_container [])\<lparr>ct_mounts := [Mount ''config-volume'' ''/etc/app'']\<rparr>]\<rparr>"

lemma patch_keeps_volumes_ok_witness:
  "pod_volumes_ok (patchPodTemplateSpec sample_config sample_pod_spec zero_agent zero_target)"
  by (rule patch_keeps_volumes_ok)
    (simp add: pod_volumes_ok_def sample_pod_spec_def sample_container_def kube_zero_defs)


end
