(* ===== verification/Selectors.thy ===== *)
theory Selectors
  imports AgentApi
begin

text \<open>
  Which pods a target applies to (\<open>matchesSelector\<close>, \<open>matchesNamespaceSelector\<close> and their
  helpers in \<open>src/internal/webhook/v2alpha1/utils.go\<close>).  Labels are a Go map, looked up with
  \<open>mget\<close>.
\<close>

section \<open>The code\<close>

fun has_labels_loop :: "string gomap \<Rightarrow> string entries \<Rightarrow> bool" where
  "has_labels_loop labels [] = True"
| "has_labels_loop labels ((key, val) # rest) =
     (case mget labels key of
        None \<Rightarrow> False
      | Some v \<Rightarrow> if v \<noteq> val then False else has_labels_loop labels rest)"

definition hasLabels :: "string gomap \<Rightarrow> string gomap \<Rightarrow> bool" where
  "hasLabels labels selector = has_labels_loop labels (entries selector)"

fun value_in :: "string \<Rightarrow> string list \<Rightarrow> bool" where
  "value_in v [] = False"
| "value_in v (w # ws) = (if v = w then True else value_in v ws)"

definition matchesInOperator :: "string gomap \<Rightarrow> label_selector_requirement \<Rightarrow> bool" where
  "matchesInOperator labels req =
     (case mget labels (lsr_key req) of
        None \<Rightarrow> False
      | Some v \<Rightarrow> value_in v (lsr_values req))"

definition matchesNotInOperator :: "string gomap \<Rightarrow> label_selector_requirement \<Rightarrow> bool" where
  "matchesNotInOperator labels req =
     (case mget labels (lsr_key req) of
        None \<Rightarrow> True
      | Some v \<Rightarrow> \<not> value_in v (lsr_values req))"

definition matchesExistsOperator :: "string gomap \<Rightarrow> label_selector_requirement \<Rightarrow> bool" where
  "matchesExistsOperator labels req = (mget labels (lsr_key req) \<noteq> None)"

definition matchesDoesNotExistOperator ::
  "string gomap \<Rightarrow> label_selector_requirement \<Rightarrow> bool" where
  "matchesDoesNotExistOperator labels req = (mget labels (lsr_key req) = None)"

definition matchesLabelExpression :: "string gomap \<Rightarrow> label_selector_requirement \<Rightarrow> bool" where
  "matchesLabelExpression labels req =
     (if lsr_operator req = ''In'' then matchesInOperator labels req
      else if lsr_operator req = ''NotIn'' then matchesNotInOperator labels req
      else if lsr_operator req = ''Exists'' then matchesExistsOperator labels req
      else if lsr_operator req = ''DoesNotExist'' then matchesDoesNotExistOperator labels req
      else False)"

fun matchesLabelExpressions ::
  "string gomap \<Rightarrow> label_selector_requirement list \<Rightarrow> bool" where
  "matchesLabelExpressions labels [] = True"
| "matchesLabelExpressions labels (req # reqs) =
     (if \<not> matchesLabelExpression labels req then False else matchesLabelExpressions labels reqs)"

definition matchesSelector :: "string gomap \<Rightarrow> pod_selector \<Rightarrow> bool" where
  "matchesSelector labels selector =
     (if \<not> hasLabels labels (psel_match_labels selector) then False
      else matchesLabelExpressions labels (psel_match_exprs selector))"

definition matchesNamespaceNames :: "string \<Rightarrow> string list \<Rightarrow> bool" where
  "matchesNamespaceNames namespaceName matchNames =
     (if matchNames = [] then True else value_in namespaceName matchNames)"

definition matchesNamespaceSelector ::
  "string \<Rightarrow> string gomap \<Rightarrow> namespace_selector \<Rightarrow> bool" where
  "matchesNamespaceSelector namespaceName namespaceLabels selector =
     (if \<not> matchesNamespaceNames namespaceName (nsel_match_names selector) then False
      else if \<not> hasLabels namespaceLabels (nsel_match_labels selector) then False
      else matchesLabelExpressions namespaceLabels (nsel_match_exprs selector))"

section \<open>The reference semantics\<close>

text \<open>
  A selector denotes a set of label maps: the documented semantics of a Kubernetes label
  selector, in which a \<open>matchLabels\<close> entry is the requirement \<open>key In [value]\<close> and all
  requirements are conjoined.  An operator outside the four is no requirement anything
  satisfies.
\<close>

definition req_denotes :: "label_selector_requirement \<Rightarrow> (string \<rightharpoonup> string) \<Rightarrow> bool" where
  "req_denotes r l \<longleftrightarrow>
     lsr_operator r = ''In'' \<and> l (lsr_key r) \<in> Some ` set (lsr_values r)
   \<or> lsr_operator r = ''NotIn'' \<and> l (lsr_key r) \<notin> Some ` set (lsr_values r)
   \<or> lsr_operator r = ''Exists'' \<and> lsr_key r \<in> dom l
   \<or> lsr_operator r = ''DoesNotExist'' \<and> lsr_key r \<notin> dom l"

definition labels_as_reqs :: "string gomap \<Rightarrow> label_selector_requirement list" where
  "labels_as_reqs m =
     map (\<lambda>(k, v). \<lparr>lsr_key = k, lsr_operator = ''In'', lsr_values = [v]\<rparr>) (entries m)"

lemma value_in_iff [simp]: "value_in v ws \<longleftrightarrow> v \<in> set ws"
  by (induction ws) auto

lemma hasLabels_iff: "hasLabels labels sel \<longleftrightarrow> (\<forall>(k, v)\<in>set (entries sel). mget labels k = Some v)"
proof -
  have "has_labels_loop labels es \<longleftrightarrow> (\<forall>(k, v)\<in>set es. mget labels k = Some v)" for es
    by (induction labels es rule: has_labels_loop.induct) (auto split: option.splits)
  then show ?thesis by (simp add: hasLabels_def)
qed

lemma hasLabels_reqs:
  "hasLabels labels sel \<longleftrightarrow> (\<forall>r\<in>set (labels_as_reqs sel). req_denotes r (mget labels))"
  by (auto simp: hasLabels_iff labels_as_reqs_def req_denotes_def)

lemma matchesLabelExpression_denotes:
  "matchesLabelExpression labels r \<longleftrightarrow> req_denotes r (mget labels)"
  by (auto simp: matchesLabelExpression_def req_denotes_def matchesInOperator_def
      matchesNotInOperator_def matchesExistsOperator_def matchesDoesNotExistOperator_def dom_def
      split: option.splits)

lemma matchesLabelExpressions_all:
  "matchesLabelExpressions labels rs \<longleftrightarrow> (\<forall>r\<in>set rs. req_denotes r (mget labels))"
  by (induction rs) (auto simp: matchesLabelExpression_denotes)

lemma matchesSelector_denotes:
  "matchesSelector labels sel \<longleftrightarrow>
     (\<forall>r\<in>set (labels_as_reqs (psel_match_labels sel) @ psel_match_exprs sel).
        req_denotes r (mget labels))"
  by (auto simp: matchesSelector_def hasLabels_reqs matchesLabelExpressions_all)

lemma matchesNamespaceSelector_denotes:
  "matchesNamespaceSelector name labels sel \<longleftrightarrow>
     (nsel_match_names sel = [] \<or> name \<in> set (nsel_match_names sel)) \<and>
     (\<forall>r\<in>set (labels_as_reqs (nsel_match_labels sel) @ nsel_match_exprs sel).
        req_denotes r (mget labels))"
  by (auto simp: matchesNamespaceSelector_def matchesNamespaceNames_def hasLabels_reqs
      matchesLabelExpressions_all)

text \<open>
  Only what a lookup returns matters, so the order in which the Go runtime iterates a map
  (and so the order of the entries) cannot change a decision.
\<close>

lemma hasLabels_order:
  assumes "mset (entries sel) = mset (entries sel')"
  shows "hasLabels labels sel = hasLabels labels sel'"
  using assms by (simp add: hasLabels_iff set_mset_mset [symmetric] del: set_mset_mset)

end
