(* ===== verification/Admission.thy ===== *)
theory Admission
  imports PodPatch Selectors
begin

text \<open>
  The admission handlers (\<open>src/internal/webhook/v2alpha1/whatapagent_webhook.go\<close>).  The cluster
  answers through two arguments: \<open>cr\<close>, the reply to the lookup of the custom resource
  \<open>whatap\<close>, and \<open>ns\<close>, the labels that the n-th lookup of the pod's namespace returns
  (\<open>None\<close> when it fails); the handler looks the namespace up anew for every target whose pod
  selector matches.  An admission object is a pod, a custom resource, or something else.
\<close>

datatype admission_object = PodObject pod | AgentObject whatap_agent | OtherObject opaque

section \<open>Injection into pods\<close>

abbreviation AnnInjected :: string where "AnnInjected \<equiv> ''whatap-apm-injected''"
abbreviation AnnLanguage :: string where "AnnLanguage \<equiv> ''whatap-apm-language''"
abbreviation AnnVersion :: string where "AnnVersion \<equiv> ''whatap-apm-version''"

definition inject_pod :: "env_config \<Rightarrow> whatap_agent \<Rightarrow> target_spec \<Rightarrow> pod \<Rightarrow> pod" where
  "inject_pod cfg cr target p =
     (let spec = patchPodTemplateSpec cfg (pod_spec_of p) cr target;
          anns = om_annotations (pod_meta p);
          anns = mput AnnInjected ''true'' anns;
          anns = mput AnnLanguage (tg_language target) anns;
          anns = mput AnnVersion (target_version target) anns
      in \<lparr>pod_meta = (pod_meta p)\<lparr>om_annotations := anns\<rparr>, pod_spec_of = spec\<rparr>)"

fun targets_loop ::
  "env_config \<Rightarrow> whatap_agent \<Rightarrow> (nat \<Rightarrow> string gomap option) \<Rightarrow> nat \<Rightarrow> pod \<Rightarrow>
     target_spec list \<Rightarrow> pod" where
  "targets_loop cfg cr ns i p [] = p"
| "targets_loop cfg cr ns i p (target # rest) =
     (if \<not> tg_enabled target then targets_loop cfg cr ns i p rest
      else if \<not> matchesSelector (om_labels (pod_meta p)) (tg_pod_selector target)
      then targets_loop cfg cr ns i p rest
      else case ns i of
             None \<Rightarrow> targets_loop cfg cr ns (Suc i) p rest
           | Some labels \<Rightarrow>
               if \<not> matchesNamespaceSelector (om_namespace (pod_meta p)) labels
                      (tg_namespace_selector target)
               then targets_loop cfg cr ns (Suc i) p rest
               else inject_pod cfg cr target p)"

definition already_injected :: "pod \<Rightarrow> bool" where
  "already_injected p \<longleftrightarrow> mget (om_annotations (pod_meta p)) AnnInjected = Some ''true''"

definition pod_default ::
  "env_config \<Rightarrow> whatap_agent option \<Rightarrow> (nat \<Rightarrow> string gomap option) \<Rightarrow>
     admission_object \<Rightarrow> admission_object" where
  "pod_default cfg reply ns obj =
     (case obj of
        PodObject p \<Rightarrow>
          (case reply of
             None \<Rightarrow> PodObject p
           | Some cr \<Rightarrow>
               if \<not> ins_enabled (instrumentation cr) then PodObject p
               else if ins_targets (instrumentation cr) = [] then PodObject p
               else if already_injected p then PodObject p
               else PodObject (targets_loop cfg cr ns 0 p (ins_targets (instrumentation cr))))
      | _ \<Rightarrow> obj)"

section \<open>Defaulting and validation of the custom resource\<close>

text \<open>
  The credential defaulter only logs: it returns its object as it is, and no error.  The
  validators return an error text or nothing; their warnings are always nil.
\<close>

definition credential_default :: "admission_object \<Rightarrow> admission_object" where
  "credential_default obj = obj"

definition validateAgentConfigurations :: "whatap_agent \<Rightarrow> string option" where
  "validateAgentConfigurations cr =
     (if om_name (wa_meta cr) \<noteq> ''whatap'' then Some ''agent configuration is not valid'' else None)"

definition ValidateCreate :: "admission_object \<Rightarrow> string option" where
  "ValidateCreate obj =
     (case obj of
        AgentObject cr \<Rightarrow> validateAgentConfigurations cr
      | _ \<Rightarrow> Some ''expected a WhatapAgent object'')"

definition ValidateUpdate :: "admission_object \<Rightarrow> admission_object \<Rightarrow> string option" where
  "ValidateUpdate oldObj newObj =
     (case newObj of
        AgentObject cr \<Rightarrow> validateAgentConfigurations cr
      | _ \<Rightarrow> Some ''expected a WhatapAgent object for the newObj'')"

definition ValidateDelete :: "admission_object \<Rightarrow> string option" where
  "ValidateDelete obj =
     (case obj of
        AgentObject cr \<Rightarrow> None
      | _ \<Rightarrow> Some ''expected a WhatapAgent object'')"

definition quoted :: "string \<Rightarrow> string" where
  "quoted s = [CHR 0x27] @ s @ [CHR 0x27]"

text \<open>Two validators that the handlers have commented out; the error carries the index.\<close>

definition validateRequiredFields :: "whatap_agent \<Rightarrow> string option" where
  "validateRequiredFields cr =
     (if ws_license (wa_spec cr) = '''' then Some ''license is required''
      else if ws_host (wa_spec cr) = '''' then Some ''host is required''
      else if ws_port (wa_spec cr) = '''' then Some ''port is required''
      else None)"

fun validate_targets_loop :: "nat \<Rightarrow> target_spec list \<Rightarrow> (nat \<times> string) option" where
  "validate_targets_loop i [] = None"
| "validate_targets_loop i (target # rest) =
     (if \<not> tg_enabled target then validate_targets_loop (Suc i) rest
      else if tg_name target = '''' then Some (i, ''name is required'')
      else if tg_language target = '''' then Some (i, ''language is required'')
      else if cfg_mode (tg_config target) = ''custom'' \<and> cfg_config_map_ref (tg_config target) = None
      then Some (i, ''configMapRef is required when config mode is '' @ quoted ''custom'')
      else if cfg_mode (tg_config target) = ''custom'' \<and>
              cfg_config_map_ref (tg_config target) = Some ''''
      then Some (i, ''configMapRef.name is required when config mode is '' @ quoted ''custom'')
      else validate_targets_loop (Suc i) rest)"

definition validateApmTargets :: "whatap_agent \<Rightarrow> (nat \<times> string) option" where
  "validateApmTargets cr = validate_targets_loop 0 (ins_targets (instrumentation cr))"

section \<open>Which pods are injected\<close>

text \<open>A target selects a pod of a namespace: the selectors in their denotational reading.\<close>

definition target_selects :: "target_spec \<Rightarrow> pod \<Rightarrow> string gomap \<Rightarrow> bool" where
  "target_selects t p ns_labels \<longleftrightarrow>
     (\<forall>r\<in>set (labels_as_reqs (psel_match_labels (tg_pod_selector t)) @
             psel_match_exprs (tg_pod_selector t)).
        req_denotes r (mget (om_labels (pod_meta p)))) \<and>
     (nsel_match_names (tg_namespace_selector t) = [] \<or>
        om_namespace (pod_meta p) \<in> set (nsel_match_names (tg_namespace_selector t))) \<and>
     (\<forall>r\<in>set (labels_as_reqs (nsel_match_labels (tg_namespace_selector t)) @
             nsel_match_exprs (tg_namespace_selector t)).
        req_denotes r (mget ns_labels))"

lemma target_selects_iff:
  "target_selects t p l \<longleftrightarrow>
     matchesSelector (om_labels (pod_meta p)) (tg_pod_selector t) \<and>
     matchesNamespaceSelector (om_namespace (pod_meta p)) l (tg_namespace_selector t)"
  by (simp only: target_selects_def matchesSelector_denotes matchesNamespaceSelector_denotes)

lemma targets_loop_first:
  assumes "\<forall>n. ns n = Some l"
  shows "targets_loop cfg cr ns i p ts =
           (case find (\<lambda>t. tg_enabled t \<and> target_selects t p l) ts of
              None \<Rightarrow> p
            | Some t \<Rightarrow> inject_pod cfg cr t p)"
  using assms by (induction ts arbitrary: i) (auto simp: target_selects_iff)

lemma targets_loop_cases:
  "targets_loop cfg cr ns i p ts = p \<or>
     (\<exists>t\<in>set ts. tg_enabled t \<and> targets_loop cfg cr ns i p ts = inject_pod cfg cr t p)"
  by (induction ts arbitrary: i) (auto split: option.splits)

lemma pod_default_cases:
  "pod_default cfg reply ns (PodObject p) = PodObject p \<or>
     (\<exists>cr t. reply = Some cr \<and> t \<in> set (ins_targets (instrumentation cr)) \<and> tg_enabled t \<and>
        pod_default cfg reply ns (PodObject p) = PodObject (inject_pod cfg cr t p))"
proof (cases reply)
  case None
  then show ?thesis by (simp add: pod_default_def)
next
  case (Some cr)
  show ?thesis
    using targets_loop_cases [of cfg cr ns 0 p "ins_targets (instrumentation cr)"]
    unfolding Some pod_default_def by simp blast
qed

lemma inject_pod_annotations:
  "mget (om_annotations (pod_meta (inject_pod cfg cr t p))) k =
     (if k = AnnVersion then Some (target_version t)
      else if k = AnnLanguage then Some (tg_language t)
      else if k = AnnInjected then Some ''true''
      else mget (om_annotations (pod_meta p)) k)"
  by (simp add: inject_pod_def Let_def)

lemma inject_pod_marks: "already_injected (inject_pod cfg cr t p)"
  by (simp add: already_injected_def inject_pod_annotations)


text \<open>C27. Admission is idempotent: whatever the handler did to an object, running it again, with
  any configuration, custom resource and cluster state, changes nothing more, unless the first
  run changed nothing.\<close>

theorem pod_default_idempotent:
  "pod_default cfg reply ns obj = obj \<or>
     (\<forall>cfg' reply' ns'.
        pod_default cfg' reply' ns' (pod_default cfg reply ns obj) = pod_default cfg reply ns obj)"
proof (cases obj)
  case (PodObject p)
  show ?thesis
  proof (cases "pod_default cfg reply ns obj = obj")
    case False
    then obtain cr where cr: "pod_default cfg reply ns obj =
        PodObject (targets_loop cfg cr ns 0 p (ins_targets (instrumentation cr)))"
      by (auto simp: PodObject pod_default_def split: option.splits if_splits)
    with False obtain t where "pod_default cfg reply ns obj = PodObject (inject_pod cfg cr t p)"
      using targets_loop_cases [of cfg cr ns 0 p "ins_targets (instrumentation cr)"]
      by (auto simp: PodObject)
    then show ?thesis by (simp add: pod_default_def inject_pod_marks split: option.split)
  qed simp
qed (simp_all add: pod_default_def)

text \<open>The pod admitted differs from the one received by at most one patch: its name, labels
  and other metadata are untouched, every annotation besides the handler's three keeps its
  value, and its specification is the patch of an enabled target or unchanged.\<close>

theorem pod_default_frame:
  "\<exists>p'. pod_default cfg reply ns (PodObject p) = PodObject p' \<and>
     pod_meta p' = (pod_meta p)\<lparr>om_annotations := om_annotations (pod_meta p')\<rparr> \<and>
     mget (om_annotations (pod_meta p')) |` (- {AnnInjected, AnnLanguage, AnnVersion}) =
       mget (om_annotations (pod_meta p)) |` (- {AnnInjected, AnnLanguage, AnnVersion}) \<and>
     (pod_spec_of p' = pod_spec_of p \<or>
      (\<exists>cr t. reply = Some cr \<and> t \<in> set (ins_targets (instrumentation cr)) \<and> tg_enabled t \<and>
         pod_spec_of p' = patchPodTemplateSpec cfg (pod_spec_of p) cr t \<and>
         mget (om_annotations (pod_meta p')) AnnInjected = Some ''true'' \<and>
         mget (om_annotations (pod_meta p')) AnnLanguage = Some (tg_language t) \<and>
         mget (om_annotations (pod_meta p')) AnnVersion = Some (target_version t)))"
  using pod_default_cases [of cfg reply ns p]
proof (elim disjE exE conjE)
  assume "pod_default cfg reply ns (PodObject p) = PodObject p"
  then show ?thesis by simp
next
  fix cr t
  assume *: "reply = Some cr" "t \<in> set (ins_targets (instrumentation cr))" "tg_enabled t"
    "pod_default cfg reply ns (PodObject p) = PodObject (inject_pod cfg cr t p)"
  have meta: "pod_meta (inject_pod cfg cr t p) = (pod_meta p)\<lparr>om_annotations :=
      om_annotations (pod_meta (inject_pod cfg cr t p))\<rparr>"
    "pod_spec_of (inject_pod cfg cr t p) = patchPodTemplateSpec cfg (pod_spec_of p) cr t"
    by (simp_all add: inject_pod_def Let_def)
  show ?thesis
    by (intro exI [of _ "inject_pod cfg cr t p"] conjI disjI2 exI [of _ cr] exI [of _ t])
      (use * meta in \<open>simp_all add: inject_pod_annotations restrict_map_def fun_eq_iff\<close>)
qed

text \<open>The validators accept exactly the custom resources named \<open>whatap\<close> on creation and
  update, whatever else the resource holds, and every custom resource on deletion.\<close>

theorem validators_accept:
  "(ValidateCreate obj = None \<longleftrightarrow> (\<exists>cr. obj = AgentObject cr \<and> om_name (wa_meta cr) = ''whatap'')) \<and>
   (ValidateUpdate old obj = None \<longleftrightarrow> ValidateCreate obj = None) \<and>
   (ValidateDelete obj = None \<longleftrightarrow> (\<exists>cr. obj = AgentObject cr))"
  by (auto simp: ValidateCreate_def ValidateUpdate_def ValidateDelete_def
      validateAgentConfigurations_def split: admission_object.split)



end
