(* ===== verification/ContainerMerge.thy ===== *)
theory ContainerMerge
  imports Samples
begin

text \<open>
  How the reconciler updates a workload that exists
  (\<open>setDefaultResource\<close>, \<open>applyContainerDefaults\<close>, \<open>mergePodSpec\<close> and the block "Preserve
  sidecars and reconcile resources" of \<open>createOrUpdateMasterAgent\<close>,
  \<open>reconcileNodeAgentDaemonSet\<close> and \<open>installOpenAgent\<close> in
  \<open>src/internal/controller/install_agents.go\<close>).  The three copies of the block differ in which
  containers keep their existing resources and which are removed; these are the arguments
  \<open>adapt\<close> and \<open>managed\<close>.  The final loop over the map of the containers that did not exist
  visits them in an order of the runtime's choosing, the argument \<open>rng\<close>.
\<close>

section \<open>Defaults\<close>

definition setDefaultResource ::
  "resource_reqs \<Rightarrow> string entries \<Rightarrow> string entries \<Rightarrow> resource_reqs" where
  "setDefaultResource res defReq defLim =
     \<lparr>rr_limits = Some (fill_absent (entries (rr_limits res)) defLim),
      rr_requests = Some (fill_absent (entries (rr_requests res)) defReq)\<rparr>"

definition applyContainerDefaults :: "container \<Rightarrow> container" where
  "applyContainerDefaults c =
     c\<lparr>ct_term_path := or_default (ct_term_path c) ''/dev/termination-log'',
       ct_term_policy := or_default (ct_term_policy c) ''File'',
       ct_pull_policy := or_default (ct_pull_policy c) ''IfNotPresent''\<rparr>"

definition isResourceEmpty :: "resource_reqs \<Rightarrow> bool" where
  "isResourceEmpty res \<longleftrightarrow> entries (rr_limits res) = [] \<and> entries (rr_requests res) = []"

section \<open>Pod security context\<close>

definition fill_nil :: "'a option \<Rightarrow> 'a option \<Rightarrow> 'a option" where
  "fill_nil new old = (if new = None then old else new)"

definition merge_pod_security :: "pod_security \<Rightarrow> pod_security \<Rightarrow> pod_security" where
  "merge_pod_security new old =
     \<lparr>psc_selinux = fill_nil (psc_selinux new) (psc_selinux old),
      psc_windows = fill_nil (psc_windows new) (psc_windows old),
      psc_run_as_user = fill_nil (psc_run_as_user new) (psc_run_as_user old),
      psc_run_as_group = fill_nil (psc_run_as_group new) (psc_run_as_group old),
      psc_run_as_non_root = fill_nil (psc_run_as_non_root new) (psc_run_as_non_root old),
      psc_supplemental_groups =
        fill_nil (psc_supplemental_groups new) (psc_supplemental_groups old),
      psc_fs_group = fill_nil (psc_fs_group new) (psc_fs_group old),
      psc_sysctls = fill_nil (psc_sysctls new) (psc_sysctls old),
      psc_fs_group_change_policy =
        fill_nil (psc_fs_group_change_policy new) (psc_fs_group_change_policy old),
      psc_seccomp = fill_nil (psc_seccomp new) (psc_seccomp old)\<rparr>"

definition mergePodSpec :: "pod_spec \<Rightarrow> pod_spec \<Rightarrow> pod_spec" where
  "mergePodSpec newSpec oldSpec =
     (case ps_security oldSpec of
        None \<Rightarrow> newSpec
      | Some old \<Rightarrow>
          (case ps_security newSpec of
             None \<Rightarrow> newSpec\<lparr>ps_security := Some old\<rparr>
           | Some new \<Rightarrow> newSpec\<lparr>ps_security := Some (merge_pod_security new old)\<rparr>))"

section \<open>Containers\<close>

type_synonym container_map = "container entries"

definition newContainersMap :: "container list \<Rightarrow> container_map" where
  "newContainersMap cs =
     foldl (\<lambda>m c. let c = applyContainerDefaults c in AList.update (ct_name c) c m) [] cs"

fun container_loop ::
  "(container \<Rightarrow> container \<Rightarrow> container) \<Rightarrow> (string \<Rightarrow> bool) \<Rightarrow> container_map \<Rightarrow>
     container list \<Rightarrow> container list \<times> container_map" where
  "container_loop adapt managed m [] = ([], m)"
| "container_loop adapt managed m (existingC # rest) =
     (case map_of m (ct_name existingC) of
        Some newC \<Rightarrow>
          (case container_loop adapt managed (AList.delete (ct_name existingC) m) rest of
             (final, left_over) \<Rightarrow> (adapt newC existingC # final, left_over))
      | None \<Rightarrow>
          if managed (ct_name existingC) then container_loop adapt managed m rest
          else (case container_loop adapt managed m rest of
                  (final, left_over) \<Rightarrow> (existingC # final, left_over)))"

definition merge_containers ::
  "(container \<Rightarrow> container \<Rightarrow> container) \<Rightarrow> (string \<Rightarrow> bool) \<Rightarrow>
     (container_map \<Rightarrow> container_map) \<Rightarrow> container list \<Rightarrow> container list \<Rightarrow> container list" where
  "merge_containers adapt managed rng new existing =
     (case container_loop adapt managed (newContainersMap new) existing of
        (final, left_over) \<Rightarrow> final @ map snd (rng left_over))"

text \<open>The whole block: \<open>existing\<close> is the template in the cluster, \<open>None\<close> on creation.\<close>

definition reconcile_template ::
  "(container \<Rightarrow> container \<Rightarrow> container) \<Rightarrow> (string \<Rightarrow> bool) \<Rightarrow>
     (container_map \<Rightarrow> container_map) \<Rightarrow> pod_template \<Rightarrow> pod_template option \<Rightarrow> pod_template" where
  "reconcile_template adapt managed rng new existing =
     (case existing of
        Some old \<Rightarrow>
          (let labels = Some (fill_absent (entries (pt_labels new)) (entries (pt_labels old)));
               spec = mergePodSpec (pt_spec new) (pt_spec old);
               final = merge_containers adapt managed rng (ps_containers spec)
                         (ps_containers (pt_spec old));
               inits = (if ps_init_containers (pt_spec old) \<noteq> []
                        then ps_init_containers (pt_spec old) else ps_init_containers spec)
           in new\<lparr>pt_labels := labels,
                  pt_spec := spec\<lparr>ps_containers := final, ps_init_containers := inits\<rparr>\<rparr>)
      | None \<Rightarrow>
          new\<lparr>pt_spec := (pt_spec new)\<lparr>ps_containers :=
            map applyContainerDefaults (ps_containers (pt_spec new))\<rparr>\<rparr>)"

text \<open>The three policies.\<close>

definition keep_resources :: "container \<Rightarrow> container \<Rightarrow> container" where
  "keep_resources newC existingC = newC\<lparr>ct_resources := ct_resources existingC\<rparr>"

definition master_adapt :: "master_agent_spec \<Rightarrow> container \<Rightarrow> container \<Rightarrow> container" where
  "master_adapt spec newC existingC =
     (let userSetResources = \<not> isResourceEmpty (ma_resources spec)
      in if \<not> userSetResources then keep_resources newC existingC else newC)"

definition node_adapt :: "node_agent_spec \<Rightarrow> container \<Rightarrow> container \<Rightarrow> container" where
  "node_adapt spec newC existingC =
     (let userSetResources = \<not> isResourceEmpty (na_resources spec)
      in if ct_name newC = ''whatap-node-agent''
         then if \<not> userSetResources then keep_resources newC existingC else newC
         else newC)"

definition operatorManagedContainers :: "string \<Rightarrow> bool" where
  "operatorManagedContainers n \<longleftrightarrow>
     n \<in> set [''dcgm-exporter'', ''dcgm-hostengine'', ''whatap-node-agent'']"

section \<open>What the containers become\<close>

lemma defaults_name [simp]: "ct_name (applyContainerDefaults c) = ct_name c"
  by (simp add: applyContainerDefaults_def)

lemma newContainersMap_eq:
  assumes "distinct (map ct_name cs)"
  shows "newContainersMap cs =
           map (\<lambda>c. (ct_name c, applyContainerDefaults c)) cs"
proof -
  have "foldl (\<lambda>m c. let c = applyContainerDefaults c in AList.update (ct_name c) c m) m cs =
      m @ map (\<lambda>c. (ct_name c, applyContainerDefaults c)) cs"
    if "distinct (map fst m @ map ct_name cs)" for m :: container_map
    using that
  proof (induction cs arbitrary: m)
    case Nil
    then show ?case by simp
  next
    case (Cons c cs)
    have upd: "AList.update k v m = m @ [(k, v)]" if "k \<notin> fst ` set m"
      for k and v :: container and m :: container_map
      using that by (induction m) auto
    have "ct_name c \<notin> fst ` set m" using Cons.prems by auto
    with Cons.IH [of "m @ [(ct_name c, applyContainerDefaults c)]"] Cons.prems
    show ?case by (simp add: upd Let_def)
  qed
  from this [of "[]"] assms show ?thesis by (simp add: newContainersMap_def)
qed

lemma map_of_delete_other: "k \<noteq> j \<Longrightarrow> map_of (AList.delete j m) k = map_of m k"
  by (simp add: delete_conv')

lemma container_loop_eq:
  assumes "distinct (map ct_name es)"
  shows "container_loop adapt managed m es =
           (map (\<lambda>e. case map_of m (ct_name e) of Some c \<Rightarrow> adapt c e | None \<Rightarrow> e)
              (filter (\<lambda>e. map_of m (ct_name e) \<noteq> None \<or> \<not> managed (ct_name e)) es),
            filter (\<lambda>(k, c). k \<notin> ct_name ` set es) m)"
  using assms
proof (induction es arbitrary: m)
  case Nil
  then show ?case by simp
next
  case (Cons e es)
  let ?d = "AList.delete (ct_name e) m"
  have other: "map_of ?d (ct_name x) = map_of m (ct_name x)" if "x \<in> set es" for x
    using Cons.prems that
    by (intro map_of_delete_other) (metis distinct.simps(2) image_eqI list.map(2) set_map)
  have kept: "filter (\<lambda>x. map_of ?d (ct_name x) \<noteq> None \<or> \<not> managed (ct_name x)) es =
      filter (\<lambda>x. map_of m (ct_name x) \<noteq> None \<or> \<not> managed (ct_name x)) es"
    by (rule filter_cong) (simp_all add: other)
  have mapped: "map (\<lambda>x. case map_of ?d (ct_name x) of Some c \<Rightarrow> adapt c x | None \<Rightarrow> x)
      (filter P es) =
      map (\<lambda>x. case map_of m (ct_name x) of Some c \<Rightarrow> adapt c x | None \<Rightarrow> x) (filter P es)" for P
    by (rule map_cong) (auto simp: other)
  have rest: "filter (\<lambda>(k, c). k \<notin> ct_name ` set es) ?d =
      filter (\<lambda>(k, c). k \<notin> ct_name ` set (e # es)) m"
    by (auto simp: AList.delete_eq filter_filter intro!: filter_cong)
  have absent: "filter (\<lambda>(k, c). k \<notin> ct_name ` set es) m =
      filter (\<lambda>(k, c). k \<notin> ct_name ` set (e # es)) m" if "map_of m (ct_name e) = None"
    using that by (intro filter_cong) (auto simp: map_of_eq_None_iff image_iff)
  show ?case
  proof (cases "map_of m (ct_name e)")
    case None
    with Cons show ?thesis by (simp add: absent)
  next
    case (Some c)
    have "distinct (map ct_name es)" using Cons.prems by simp
    then show ?thesis
      unfolding container_loop.simps Some option.case Cons.IH [OF \<open>distinct (map ct_name es)\<close>]
        prod.case kept mapped rest
      by (simp add: Some)
  qed
qed

section \<open>Filling again changes nothing\<close>

lemma fill_absent_append:
  "fill_absent base (xs @ ys) = fill_absent (fill_absent base xs) ys"
  by (simp add: fill_absent_def)

lemma fill_absent_skip:
  "(\<And>k. k \<in> fst ` set es \<Longrightarrow> k \<in> fst ` set base) \<Longrightarrow> fill_absent base es = base"
  by (induction es) (auto simp: map_of_eq_None_iff)

lemma fill_absent_same: "fill_absent base base = base"
  by (rule fill_absent_skip)

lemma update_new: "k \<notin> fst ` set m \<Longrightarrow> AList.update k v m = m @ [(k, v)]"
  by (induction m) auto

lemma fill_absent_shape:
  "\<exists>ys. fill_absent base es = base @ ys \<and> distinct (map fst ys) \<and>
     fst ` set base \<inter> fst ` set ys = {}"
proof (induction es arbitrary: base)
  case Nil
  then show ?case by (intro exI [of _ "[]"]) simp
next
  case (Cons e es)
  obtain k v where e: "e = (k, v)" by (cases e)
  show ?case
  proof (cases "map_of base k")
    case None
    then have "k \<notin> fst ` set base" by (simp add: map_of_eq_None_iff)
    moreover obtain ys where "fill_absent (base @ [(k, v)]) es = (base @ [(k, v)]) @ ys"
      "distinct (map fst ys)" "fst ` set (base @ [(k, v)]) \<inter> fst ` set ys = {}"
      using Cons.IH by blast
    ultimately show ?thesis
      by (intro exI [of _ "(k, v) # ys"]) (auto simp: e None update_new)
  next
    case (Some w)
    then show ?thesis using Cons.IH [of base] by (simp add: e)
  qed
qed

lemma fill_absent_new:
  "distinct (map fst ys) \<Longrightarrow> fst ` set base \<inter> fst ` set ys = {} \<Longrightarrow>
     fill_absent base ys = base @ ys"
proof (induction ys arbitrary: base)
  case Nil
  then show ?case by simp
next
  case (Cons y ys)
  obtain k v where y: "y = (k, v)" by (cases y)
  have "k \<notin> fst ` set base" using Cons.prems(2) by (auto simp: y)
  moreover from this have "map_of base k = None" by (simp add: map_of_eq_None_iff)
  moreover have "fill_absent (base @ [(k, v)]) ys = (base @ [(k, v)]) @ ys"
    using Cons.prems by (intro Cons.IH) (auto simp: y)
  ultimately show ?case by (simp add: y update_new)
qed

lemma fill_absent_again: "fill_absent base (fill_absent base es) = fill_absent base es"
proof -
  obtain ys where ys: "fill_absent base es = base @ ys" "distinct (map fst ys)"
    "fst ` set base \<inter> fst ` set ys = {}"
    using fill_absent_shape by blast
  then show ?thesis by (simp add: fill_absent_append fill_absent_same fill_absent_new)
qed

lemma mergePodSpec_containers [simp]:
  "ps_containers (mergePodSpec new old) = ps_containers new"
  "ps_init_containers (mergePodSpec new old) = ps_init_containers new"
  "ps_volumes (mergePodSpec new old) = ps_volumes new"
  by (simp_all add: mergePodSpec_def split: option.split)

lemma merge_pod_security_again:
  "merge_pod_security new (merge_pod_security new old) = merge_pod_security new old"
  "merge_pod_security new new = new"
  by (simp_all add: merge_pod_security_def fill_nil_def)

lemma mergePodSpec_again:
  "mergePodSpec new ((mergePodSpec new old)\<lparr>ps_containers := cs, ps_init_containers := inits\<rparr>) =
     mergePodSpec new old"
  by (simp add: mergePodSpec_def merge_pod_security_again split: option.split)

lemma mergePodSpec_same:
  "mergePodSpec new (new\<lparr>ps_containers := cs\<rparr>) = new"
  by (simp add: mergePodSpec_def merge_pod_security_again split: option.split)

section \<open>The contract of a policy\<close>

text \<open>
  A policy may change nothing of the desired container but its resources, takes them from the
  desired or the existing container, and does not look at anything else of the latter.
\<close>

locale container_policy =
  fixes adapt :: "container \<Rightarrow> container \<Rightarrow> container"
  assumes adapt_frame: "adapt c e = c\<lparr>ct_resources := ct_resources (adapt c e)\<rparr>"
    and adapt_source: "ct_resources (adapt c e) \<in> {ct_resources c, ct_resources e}"
    and adapt_again: "adapt c (adapt c e) = adapt c e"
begin

lemma adapt_name [simp]: "ct_name (adapt c e) = ct_name c"
  by (subst adapt_frame) simp

lemma adapt_self: "adapt c c = c"
  using adapt_frame [of c c] adapt_source [of c c] by simp

text \<open>Existing containers come first, in their order, then the new ones.\<close>

lemma merge_containers_eq:
  assumes "distinct (map ct_name new)" and "distinct (map ct_name es)"
  shows "merge_containers adapt managed rng new es =
           map (\<lambda>e. case map_of (newContainersMap new) (ct_name e) of
                      Some c \<Rightarrow> adapt c e | None \<Rightarrow> e)
             (filter (\<lambda>e. ct_name e \<in> ct_name ` set new \<or> \<not> managed (ct_name e)) es) @
           map snd (rng (filter (\<lambda>(k, c). k \<notin> ct_name ` set es) (newContainersMap new)))"
proof -
  have "map_of (newContainersMap new) n \<noteq> None \<longleftrightarrow> n \<in> ct_name ` set new" for n
    by (simp add: newContainersMap_eq [OF assms(1)] map_of_eq_None_iff image_image)
  then show ?thesis
    by (simp add: merge_containers_def container_loop_eq [OF assms(2)] split: prod.split)
qed

lemma left_over_set:
  "distinct (map ct_name new) \<Longrightarrow>
     snd ` {x \<in> set (newContainersMap new). case x of (k, c) \<Rightarrow> k \<notin> N} =
       {applyContainerDefaults c | c. c \<in> set new \<and> ct_name c \<notin> N}"
  by (force simp: newContainersMap_eq)

lemma new_map_of:
  "distinct (map ct_name new) \<Longrightarrow> map_of (newContainersMap new) n = Some c \<longleftrightarrow>
     (\<exists>c0\<in>set new. ct_name c0 = n \<and> c = applyContainerDefaults c0)"
  by (auto simp: newContainersMap_eq map_of_eq_Some_iff comp_def)

lemma new_map_None:
  "distinct (map ct_name new) \<Longrightarrow>
     map_of (newContainersMap new) n = None \<longleftrightarrow> n \<notin> ct_name ` set new"
  by (simp add: newContainersMap_eq map_of_eq_None_iff image_image)

text \<open>The names after a merge: the desired ones and those of the unmanaged existing containers.\<close>

lemma set_merge:
  assumes "distinct (map ct_name new)" and "distinct (map ct_name es)"
    and rng: "\<And>m. mset (rng m) = mset m"
  shows "set (merge_containers adapt managed rng new es) =
           {adapt (applyContainerDefaults c) e | c e.
              c \<in> set new \<and> e \<in> set es \<and> ct_name c = ct_name e} \<union>
           {e \<in> set es. ct_name e \<notin> ct_name ` set new \<and> \<not> managed (ct_name e)} \<union>
           {applyContainerDefaults c | c. c \<in> set new \<and> ct_name c \<notin> ct_name ` set es}"
    (is "?l = ?a \<union> ?b \<union> ?c")
proof -
  let ?f = "\<lambda>e. case map_of (newContainersMap new) (ct_name e) of
    Some c \<Rightarrow> adapt c e | None \<Rightarrow> e"
  have "set (rng m) = set m" for m using rng by (metis set_mset_mset)
  then have l: "?l = ?f ` {e \<in> set es. ct_name e \<in> ct_name ` set new \<or> \<not> managed (ct_name e)} \<union> ?c"
    unfolding merge_containers_eq [OF assms(1,2)] set_append set_map set_filter
    by (simp only: set_filter left_over_set [OF assms(1)])
  have old: "?f e = adapt (applyContainerDefaults c) e" if "c \<in> set new" "ct_name c = ct_name e" for c e
    using new_map_of [OF assms(1), of "ct_name e" "applyContainerDefaults c"] that by auto
  have side: "?f e = e" if "ct_name e \<notin> ct_name ` set new" for e
    using new_map_None [OF assms(1), of "ct_name e"] that by simp
  have "?f ` {e \<in> set es. ct_name e \<in> ct_name ` set new \<or> \<not> managed (ct_name e)} = ?a \<union> ?b"
  proof (intro equalityI subsetI)
    fix x assume "x \<in> ?f ` {e \<in> set es. ct_name e \<in> ct_name ` set new \<or> \<not> managed (ct_name e)}"
    then obtain e where e: "e \<in> set es" "x = ?f e"
      "ct_name e \<in> ct_name ` set new \<or> \<not> managed (ct_name e)" by blast
    show "x \<in> ?a \<union> ?b"
    proof (cases "ct_name e \<in> ct_name ` set new")
      case True
      then obtain c where "c \<in> set new" "ct_name c = ct_name e" by force
      with e old show ?thesis by blast
    next
      case False
      with e side show ?thesis by simp
    qed
  next
    fix x assume "x \<in> ?a \<union> ?b"
    then show "x \<in> ?f ` {e \<in> set es. ct_name e \<in> ct_name ` set new \<or> \<not> managed (ct_name e)}"
    proof
      assume "x \<in> ?a"
      then obtain c e where ce: "c \<in> set new" "e \<in> set es" "ct_name c = ct_name e"
        "x = adapt (applyContainerDefaults c) e" by blast
      then have "x = ?f e" using old by simp
      moreover have "ct_name e \<in> ct_name ` set new" using ce(1,3) by (metis image_eqI)
      ultimately show ?thesis using ce(2) by blast
    next
      assume "x \<in> ?b"
      then have "x = ?f x" "x \<in> set es" "\<not> managed (ct_name x)" using side by simp_all
      then show ?thesis by blast
    qed
  qed
  with l show ?thesis by simp
qed

lemma merged_names:
  assumes "distinct (map ct_name new)" and "distinct (map ct_name es)"
  shows "map ct_name (merge_containers adapt managed rng new es) =
           map ct_name (filter (\<lambda>e. ct_name e \<in> ct_name ` set new \<or> \<not> managed (ct_name e)) es) @
           map (ct_name \<circ> snd) (rng (filter (\<lambda>(k, c). k \<notin> ct_name ` set es) (newContainersMap new)))"
proof -
  have "ct_name (case map_of (newContainersMap new) (ct_name e) of
      Some c \<Rightarrow> adapt c e | None \<Rightarrow> e) = ct_name e" for e
    using new_map_of [OF assms(1), of "ct_name e"] by (auto split: option.split)
  then show ?thesis by (simp add: merge_containers_eq [OF assms] comp_def)
qed

lemma merged_name_set:
  assumes "distinct (map ct_name new)" and "distinct (map ct_name es)"
    and rng: "\<And>m. mset (rng m) = mset m"
  shows "ct_name ` set (merge_containers adapt managed rng new es) =
           {n. n \<in> ct_name ` set new \<or> (n \<in> ct_name ` set es \<and> \<not> managed n)}"
proof -
  let ?left = "filter (\<lambda>(k, c). k \<notin> ct_name ` set es) (newContainersMap new)"
  have fresh: "ct_name ` {applyContainerDefaults c | c. c \<in> set new \<and> ct_name c \<notin> N} =
      ct_name ` set new - N" for N
    by (auto simp: setcompr_eq_image image_image)
  have "set (rng ?left) = set ?left" using rng by (metis set_mset_mset)
  then have "(ct_name \<circ> snd) ` set (rng ?left) = ct_name ` set new - ct_name ` set es"
    by (simp only: image_comp [symmetric] set_filter left_over_set [OF assms(1)] fresh)
  then have "set (map ct_name (merge_containers adapt managed rng new es)) =
      ct_name ` {e \<in> set es. ct_name e \<in> ct_name ` set new \<or> \<not> managed (ct_name e)} \<union>
      (ct_name ` set new - ct_name ` set es)"
    unfolding merged_names [OF assms(1,2)] by simp
  moreover have "ct_name ` {e \<in> set es. ct_name e \<in> N \<or> \<not> managed (ct_name e)} =
      {n \<in> ct_name ` set es. n \<in> N \<or> \<not> managed n}" for N by blast
  ultimately show ?thesis by auto
qed

lemma merged_distinct:
  assumes "distinct (map ct_name new)" and "distinct (map ct_name es)"
    and rng: "\<And>m. mset (rng m) = mset m"
  shows "distinct (map ct_name (merge_containers adapt managed rng new es))"
proof -
  let ?left = "filter (\<lambda>(k, c). k \<notin> ct_name ` set es) (newContainersMap new)"
  have "distinct (map (ct_name \<circ> snd) (newContainersMap new))"
    using assms(1) by (simp add: newContainersMap_eq comp_def)
  then have "distinct (map (ct_name \<circ> snd) ?left)" by (rule distinct_map_filter)
  then have "distinct (map (ct_name \<circ> snd) (rng ?left))"
    using rng by (metis mset_eq_imp_distinct_iff mset_map)
  moreover have "set (rng ?left) = set ?left" using rng by (metis set_mset_mset)
  then have "(ct_name \<circ> snd) ` set (rng ?left) \<inter> ct_name ` set es = {}"
    by (auto simp: newContainersMap_eq [OF assms(1)])
  ultimately show ?thesis
    unfolding merged_names [OF assms(1,2)]
    using assms(2) by (auto simp: distinct_map_filter)
qed

text \<open>
  Reconciling again changes nothing: every container of a merged list is what the policy makes
  of it.
\<close>

lemma merge_fixpoint:
  assumes "distinct (map ct_name new)" and "distinct (map ct_name es)"
    and fixed: "\<And>c e. c \<in> set new \<Longrightarrow> e \<in> set es \<Longrightarrow> ct_name c = ct_name e \<Longrightarrow>
      adapt (applyContainerDefaults c) e = e"
    and all: "ct_name ` set new \<subseteq> ct_name ` set es"
    and unmanaged: "\<And>e. e \<in> set es \<Longrightarrow> ct_name e \<in> ct_name ` set new \<or> \<not> managed (ct_name e)"
    and rng: "\<And>m. mset (rng m) = mset m"
  shows "merge_containers adapt managed rng new es = es"
proof -
  have none: "filter (\<lambda>(k, c). k \<notin> ct_name ` set es) (newContainersMap new) = []"
    using all by (auto simp: newContainersMap_eq [OF assms(1)] filter_empty_conv)
  have "rng [] = []" using rng [of "[]"] by simp
  moreover have "(case map_of (newContainersMap new) (ct_name e) of
      Some c \<Rightarrow> adapt c e | None \<Rightarrow> e) = e" if "e \<in> set es" for e
    using fixed that new_map_of [OF assms(1), of "ct_name e"] by (auto split: option.split)
  moreover have "filter (\<lambda>e. ct_name e \<in> ct_name ` set new \<or> \<not> managed (ct_name e)) es = es"
    using unmanaged by (simp add: filter_id_conv)
  ultimately show ?thesis
    unfolding merge_containers_eq [OF assms(1,2)] none by (simp add: map_idI)
qed

lemma merge_stable:
  assumes "distinct (map ct_name new)" and "distinct (map ct_name es)"
    and rng: "\<And>m. mset (rng m) = mset m"
  shows "merge_containers adapt managed rng new (merge_containers adapt managed rng new es) =
           merge_containers adapt managed rng new es"
proof (rule merge_fixpoint [OF assms(1) merged_distinct [OF assms] _ _ _ rng])
  note result = set_merge [where managed = managed, OF assms]
  let ?r = "merge_containers adapt managed rng new es"
  have inj: "c = c'" if "c \<in> set new" "c' \<in> set new" "ct_name c = ct_name c'" for c c'
    using assms(1) that by (metis distinct_map inj_onD)
  fix c e
  assume c: "c \<in> set new" and e: "e \<in> set ?r" and name: "ct_name c = ct_name e"
  from e consider (old) c' x where "c' \<in> set new" "ct_name c' = ct_name x"
      "e = adapt (applyContainerDefaults c') x"
    | (side) "ct_name e \<notin> ct_name ` set new"
    | (fresh) c' where "c' \<in> set new" "e = applyContainerDefaults c'"
    unfolding result by blast
  then show "adapt (applyContainerDefaults c) e = e"
  proof cases
    case old
    with name inj [OF c] have "c' = c" by simp
    with old show ?thesis by (simp add: adapt_again)
  next
    case side
    with c name show ?thesis by (metis image_eqI)
  next
    case fresh
    with name inj [OF c] have "c' = c" by simp
    with fresh show ?thesis by (simp add: adapt_self)
  qed
next
  have img: "ct_name ` set (merge_containers adapt managed rng new es) =
      {n. n \<in> ct_name ` set new \<or> (n \<in> ct_name ` set es \<and> \<not> managed n)}"
    by (rule merged_name_set [OF assms])
  then show "ct_name ` set new \<subseteq> ct_name ` set (merge_containers adapt managed rng new es)"
    by blast
  fix e assume "e \<in> set (merge_containers adapt managed rng new es)"
  with img show "ct_name e \<in> ct_name ` set new \<or> \<not> managed (ct_name e)" by blast
qed

lemma merge_stable_created:
  assumes "distinct (map ct_name new)" and rng: "\<And>m. mset (rng m) = mset m"
  shows "merge_containers adapt managed rng new (map applyContainerDefaults new) =
           map applyContainerDefaults new"
proof (rule merge_fixpoint [OF assms(1) _ _ _ _ rng])
  show "distinct (map ct_name (map applyContainerDefaults new))"
    using assms(1) by (simp add: comp_def)
  fix c e
  assume "c \<in> set new" "e \<in> set (map applyContainerDefaults new)" "ct_name c = ct_name e"
  then have "e = applyContainerDefaults c"
    using assms(1) by (auto simp: distinct_map dest: inj_onD)
  then show "adapt (applyContainerDefaults c) e = e" by (simp add: adapt_self)
qed (auto simp: image_iff)

lemma template_stable:
  assumes "distinct (map ct_name (ps_containers (pt_spec new)))"
    and "\<And>old. existing = Some old \<Longrightarrow> distinct (map ct_name (ps_containers (pt_spec old)))"
    and "pt_labels new \<noteq> None"
    and rng: "\<And>m. mset (rng m) = mset m"
  shows "reconcile_template adapt managed rng new (Some (reconcile_template adapt managed rng new existing)) =
           reconcile_template adapt managed rng new existing"
proof (cases existing)
  case None
  obtain ls where ls: "pt_labels new = Some ls" using assms(3) by blast
  show ?thesis
    unfolding None reconcile_template_def option.case Let_def
    by (simp add: merge_stable_created [OF assms(1) rng] mergePodSpec_same ls fill_absent_same)
next
  case (Some old)
  have d: "distinct (map ct_name (ps_containers (pt_spec old)))" by (rule assms(2) [OF Some])
  show ?thesis
    unfolding Some reconcile_template_def option.case Let_def
    by (simp add: merge_stable [OF assms(1) d rng] mergePodSpec_containers fill_absent_again
        mergePodSpec_again)
qed

end

interpretation master: container_policy "master_adapt spec" for spec
  by unfold_locales (simp_all add: master_adapt_def keep_resources_def)

interpretation node: container_policy "node_adapt spec" for spec
  by unfold_locales (simp_all add: node_adapt_def keep_resources_def)

interpretation open_agent: container_policy keep_resources
  by unfold_locales (simp_all add: keep_resources_def)


section \<open>What an update does\<close>

definition workload_policies :: "(container \<Rightarrow> container \<Rightarrow> container) set" where
  "workload_policies = range master_adapt \<union> range node_adapt \<union> {keep_resources}"

lemma workload_policy: "adapt \<in> workload_policies \<Longrightarrow> container_policy adapt"
  using master.container_policy_axioms node.container_policy_axioms
    open_agent.container_policy_axioms
  by (auto simp: workload_policies_def)

text \<open>Reconciling is a fixed point: for the master agent, the node agent and the open agent,
  the template one pass computes from any existing workload, or for a new one, is what the next
  pass computes again, whatever order the runtime iterates its maps in; an unchanged custom
  resource causes no further update.\<close>

theorem update_stable:
  assumes "adapt \<in> workload_policies"
    and "distinct (map ct_name (ps_containers (pt_spec new)))"
    and "\<And>old. existing = Some old \<Longrightarrow> distinct (map ct_name (ps_containers (pt_spec old)))"
    and "pt_labels new \<noteq> None" and "\<And>m. mset (rng m) = mset m"
  shows "reconcile_template adapt managed rng new
           (Some (reconcile_template adapt managed rng new existing)) =
         reconcile_template adapt managed rng new existing"
  by (rule container_policy.template_stable [OF workload_policy]) fact+

lemma updated_containers:
  "ps_containers (pt_spec (reconcile_template adapt managed rng new (Some old))) =
     merge_containers adapt managed rng (ps_containers (pt_spec new)) (ps_containers (pt_spec old))"
  "ps_init_containers (pt_spec (reconcile_template adapt managed rng new (Some old))) =
     (if ps_init_containers (pt_spec old) \<noteq> [] then ps_init_containers (pt_spec old)
      else ps_init_containers (pt_spec new))"
  "ps_volumes (pt_spec (reconcile_template adapt managed rng new (Some old))) =
     ps_volumes (pt_spec new)"
  by (simp_all add: reconcile_template_def Let_def)

context container_policy
begin

lemma merge_summary:
  assumes "distinct (map ct_name new)" and "distinct (map ct_name es)"
    and rng: "\<And>m. mset (rng m) = mset m"
  shows "\<exists>fresh. set fresh = ct_name ` set new - ct_name ` set es \<and>
           map ct_name (merge_containers adapt managed rng new es) =
             filter (\<lambda>n. n \<in> ct_name ` set new \<or> \<not> managed n) (map ct_name es) @ fresh"
    and "e \<in> set es \<Longrightarrow> ct_name e \<notin> ct_name ` set new \<Longrightarrow> \<not> managed (ct_name e) \<Longrightarrow>
           e \<in> set (merge_containers adapt managed rng new es)"
    and "c \<in> set new \<Longrightarrow> \<exists>r. (applyContainerDefaults c)\<lparr>ct_resources := r\<rparr> \<in>
           set (merge_containers adapt managed rng new es)"
proof -
  let ?left = "filter (\<lambda>(k, c). k \<notin> ct_name ` set es) (newContainersMap new)"
  have fresh: "ct_name ` {applyContainerDefaults c | c. c \<in> set new \<and> ct_name c \<notin> N} =
      ct_name ` set new - N" for N
    by (auto simp: setcompr_eq_image image_image)
  have "set (rng ?left) = set ?left" using rng by (metis set_mset_mset)
  then have "(ct_name \<circ> snd) ` set (rng ?left) = ct_name ` set new - ct_name ` set es"
    by (simp only: image_comp [symmetric] set_filter left_over_set [OF assms(1)] fresh)
  then show "\<exists>fresh. set fresh = ct_name ` set new - ct_name ` set es \<and>
           map ct_name (merge_containers adapt managed rng new es) =
             filter (\<lambda>n. n \<in> ct_name ` set new \<or> \<not> managed n) (map ct_name es) @ fresh"
    unfolding merged_names [OF assms(1,2)] filter_map comp_def set_map [symmetric] by blast
  show "e \<in> set es \<Longrightarrow> ct_name e \<notin> ct_name ` set new \<Longrightarrow> \<not> managed (ct_name e) \<Longrightarrow>
           e \<in> set (merge_containers adapt managed rng new es)"
    unfolding set_merge [OF assms] by blast
  assume c: "c \<in> set new"
  show "\<exists>r. (applyContainerDefaults c)\<lparr>ct_resources := r\<rparr> \<in>
           set (merge_containers adapt managed rng new es)"
  proof (cases "ct_name c \<in> ct_name ` set es")
    case True
    then obtain e where "e \<in> set es" "ct_name c = ct_name e" by blast
    with c have "adapt (applyContainerDefaults c) e \<in>
        set (merge_containers adapt managed rng new es)"
      unfolding set_merge [OF assms] by blast
    then show ?thesis by (metis adapt_frame)
  next
    case False
    with c have "applyContainerDefaults c \<in> set (merge_containers adapt managed rng new es)"
      unfolding set_merge [OF assms] by blast
    then show ?thesis
      by (intro exI [of _ "ct_resources (applyContainerDefaults c)"]) simp
  qed
qed

end

text \<open>C28. Sidecars survive an update: the names of the new template are the existing ones, in their
  order, without the operator's own containers that are no longer wanted, followed by the
  wanted ones that did not exist; a container the operator neither wants nor manages is kept
  as it is, and a wanted one differs from what the operator asks for in its resources only.\<close>

theorem update_keeps_sidecars:
  fixes new old :: pod_template
  defines "wanted \<equiv> ps_containers (pt_spec new)" and "present \<equiv> ps_containers (pt_spec old)"
  assumes policy: "adapt \<in> workload_policies"
    and "distinct (map ct_name wanted)" and "distinct (map ct_name present)"
    and rng: "\<And>m. mset (rng m) = mset m"
  shows "let result = ps_containers (pt_spec (reconcile_template adapt managed rng new (Some old)))
    in (\<exists>fresh. set fresh = ct_name ` set wanted - ct_name ` set present \<and>
          map ct_name result =
            filter (\<lambda>n. n \<in> ct_name ` set wanted \<or> \<not> managed n) (map ct_name present) @ fresh) \<and>
       (\<forall>e\<in>set present. ct_name e \<notin> ct_name ` set wanted \<and> \<not> managed (ct_name e) \<longrightarrow>
          e \<in> set result) \<and>
       (\<forall>c\<in>set wanted. \<exists>r. (applyContainerDefaults c)\<lparr>ct_resources := r\<rparr> \<in> set result)"
proof -
  note summary = container_policy.merge_summary [OF workload_policy [OF policy] assms(4,5) rng]
  show ?thesis
    unfolding Let_def updated_containers wanted_def [symmetric] present_def [symmetric]
    by (intro conjI ballI impI summary) auto
qed


text \<open>
  The containers an update keeps from the cluster: the sidecars, and the init containers if
  there are any.
\<close>

definition kept_containers :: "(string \<Rightarrow> bool) \<Rightarrow> pod_template \<Rightarrow> pod_template \<Rightarrow> container set" where
  "kept_containers managed new old =
     set (ps_init_containers (pt_spec old)) \<union>
     {e \<in> set (ps_containers (pt_spec old)).
        ct_name e \<notin> ct_name ` set (ps_containers (pt_spec new)) \<and> \<not> managed (ct_name e)}"

context container_policy
begin

lemma union_shuffle: "A \<union> C = N \<Longrightarrow> A \<union> B \<union> C = N \<union> B"
  by blast

lemma merged_mounts:
  assumes "distinct (map ct_name new)" and "distinct (map ct_name es)"
    and rng: "\<And>m. mset (rng m) = mset m"
  shows "ct_mounts ` set (merge_containers adapt managed rng new es) =
           ct_mounts ` set new \<union>
           ct_mounts ` {e \<in> set es. ct_name e \<notin> ct_name ` set new \<and> \<not> managed (ct_name e)}"
proof -
  have defaults: "ct_mounts (applyContainerDefaults c) = ct_mounts c" for c
    by (simp add: applyContainerDefaults_def)
  have adapted: "ct_mounts (adapt c e) = ct_mounts c" for c e by (subst adapt_frame) simp
  let ?a = "{adapt (applyContainerDefaults c) e | c e.
          c \<in> set new \<and> e \<in> set es \<and> ct_name c = ct_name e}"
  let ?c = "{applyContainerDefaults c | c. c \<in> set new \<and> ct_name c \<notin> ct_name ` set es}"
  have down: "ct_mounts c \<in> ct_mounts ` ?a \<union> ct_mounts ` ?c" if c: "c \<in> set new" for c
  proof (cases "ct_name c \<in> ct_name ` set es")
    case True
    then obtain e where "e \<in> set es" "ct_name c = ct_name e" by blast
    with c have "adapt (applyContainerDefaults c) e \<in> ?a" by blast
    from imageI [OF this, of ct_mounts] have "ct_mounts c \<in> ct_mounts ` ?a"
      unfolding adapted defaults .
    then show ?thesis ..
  next
    case False
    with c have "applyContainerDefaults c \<in> ?c" by blast
    from imageI [OF this, of ct_mounts] have "ct_mounts c \<in> ct_mounts ` ?c"
      unfolding defaults .
    then show ?thesis ..
  qed
  have up: "ct_mounts x \<in> ct_mounts ` set new" if "x \<in> ?a \<union> ?c" for x
    using that by (auto simp: defaults adapted)
  have "ct_mounts ` ?a \<union> ct_mounts ` ?c = ct_mounts ` set new"
  proof (rule equalityI)
    show "ct_mounts ` ?a \<union> ct_mounts ` ?c \<subseteq> ct_mounts ` set new"
      unfolding image_Un [symmetric] by (rule image_subsetI) (rule up)
    show "ct_mounts ` set new \<subseteq> ct_mounts ` ?a \<union> ct_mounts ` ?c"
      by (rule image_subsetI) (rule down)
  qed
  then show ?thesis unfolding set_merge [OF assms] image_Un by (rule union_shuffle)
qed

end

text \<open>C34. An update keeps the sidecars and the init containers of the cluster but not their
  volumes: the updated pod's volumes are exactly the operator's, so the result is well formed
  if and only if everything that is kept mounts the operator's volumes only.\<close>

theorem update_volumes_ok_iff:
  assumes policy: "adapt \<in> workload_policies"
    and new: "distinct (map ct_name (ps_containers (pt_spec new)))"
    and old: "distinct (map ct_name (ps_containers (pt_spec old)))"
    and rng: "\<And>m. mset (rng m) = mset m"
    and ok: "pod_volumes_ok (pt_spec new)" and no_init: "ps_init_containers (pt_spec new) = []"
  shows "pod_volumes_ok (pt_spec (reconcile_template adapt managed rng new (Some old))) \<longleftrightarrow>
           (\<forall>c\<in>kept_containers managed new old. \<forall>m\<in>set (ct_mounts c).
              vm_name m \<in> names vol_name (ps_volumes (pt_spec new)))"
proof -
  let ?V = "names vol_name (ps_volumes (pt_spec new))"
  let ?good = "\<lambda>ms. \<forall>m\<in>set ms. vm_name m \<in> ?V"
  have over: "(\<forall>c\<in>A. ?good (ct_mounts c)) \<longleftrightarrow> (\<forall>ms\<in>ct_mounts ` A. ?good ms)" for A by blast
  have new_ok: "\<forall>c\<in>set (ps_containers (pt_spec new)). ?good (ct_mounts c)"
    and distinct: "distinct (map vol_name (ps_volumes (pt_spec new)))"
    using ok by (auto simp: pod_volumes_ok_def)
  have inits: "set (ps_init_containers (pt_spec (reconcile_template adapt managed rng new (Some old)))) =
      set (ps_init_containers (pt_spec old))"
    by (simp add: updated_containers no_init)
  have "(\<forall>c\<in>set (ps_containers (pt_spec (reconcile_template adapt managed rng new (Some old)))).
      ?good (ct_mounts c)) \<longleftrightarrow>
    (\<forall>c\<in>{e \<in> set (ps_containers (pt_spec old)).
        ct_name e \<notin> ct_name ` set (ps_containers (pt_spec new)) \<and> \<not> managed (ct_name e)}.
      ?good (ct_mounts c))"
    unfolding over updated_containers
      container_policy.merged_mounts [OF workload_policy [OF policy] new old rng]
    using new_ok by blast
  then show ?thesis
    unfolding pod_volumes_ok_def kept_containers_def set_append ball_Un inits
      updated_containers(3)
    using distinct by blast
qed

text \<open>Labels are only ever added to an existing template: a label the operator or the custom
  resource no longer sets keeps its old value in every later update.\<close>

theorem update_keeps_labels:
  "mget (pt_labels (reconcile_template adapt managed rng new (Some old))) k =
     (case mget (pt_labels new) k of
        Some v \<Rightarrow> Some v
      | None \<Rightarrow> mget (pt_labels old) k)"
  by (simp add: reconcile_template_def Let_def mget_def map_of_fill_absent map_add_def
      split: option.split)

section \<open>Concrete updates\<close>

definition sample_template :: "container list \<Rightarrow> pod_template" where
  "sample_template cs = \<lparr>pt_labels = Some [], pt_annotations = None,
     pt_spec = zero_pod_spec\<lparr>ps_containers := cs\<rparr>\<rparr>"

abbreviation sample_sidecar :: container where
  "sample_sidecar \<equiv> zero_container\<lparr>ct_name := ''proxy'', ct_mounts := [Mount ''certs'' ''/certs'']\<rparr>"

lemma keep_resources_policy: "keep_resources \<in> workload_policies"
  by (simp add: workload_policies_def)

lemma update_stable_witness:
  "reconcile_template keep_resources (\<lambda>_. False) id (sample_template [sample_container []])
     (Some (reconcile_template keep_resources (\<lambda>_. False) id (sample_template [sample_container []])
       (Some (sample_template [sample_sidecar])))) =
   reconcile_template keep_resources (\<lambda>_. False) id (sample_template [sample_container []])
     (Some (sample_template [sample_sidecar]))"
  by (rule update_stable [OF keep_resources_policy])
    (auto simp: sample_template_def)

lemma sample_template_facts:
  "ps_containers (pt_spec (sample_template cs)) = cs"
  "ps_init_containers (pt_spec (sample_template cs)) = []"
  "ps_volumes (pt_spec (sample_template cs)) = []"
  "distinct (map ct_name [c])"
  "mset (id m) = mset m"
  by (simp_all add: sample_template_def zero_pod_spec_def)

lemma update_keeps_sidecars_witness:
  "sample_sidecar \<in> set (ps_containers (pt_spec (reconcile_template keep_resources (\<lambda>_. False) id
     (sample_template [sample_container []]) (Some (sample_template [sample_sidecar])))))"
proof -
  let ?new = "sample_template [sample_container []]" and ?old = "sample_template [sample_sidecar]"
  note facts = update_keeps_sidecars [where adapt = keep_resources and rng = id and new = ?new
      and old = ?old and managed = "\<lambda>_. False", OF keep_resources_policy]
  have "ct_name sample_sidecar \<notin> ct_name ` set [sample_container []]"
    by (simp add: sample_container_def)
  with facts show ?thesis
    unfolding sample_template_facts Let_def by (simp only: sample_template_facts) force
qed

lemma update_volumes_ok_iff_witness:
  "\<not> pod_volumes_ok (pt_spec (reconcile_template keep_resources (\<lambda>_. False) id
     (sample_template [sample_container []]) (Some (sample_template [sample_sidecar]))))"
proof -
  let ?new = "sample_template [sample_container []]" and ?old = "sample_template [sample_sidecar]"
  have ok: "pod_volumes_ok (pt_spec ?new)"
    by (simp add: pod_volumes_ok_def sample_template_facts sample_container_def zero_container_def)
  have "sample_sidecar \<in> kept_containers (\<lambda>_. False) ?new ?old"
    by (simp add: kept_containers_def sample_template_facts sample_container_def)
  moreover have "Mount ''certs'' ''/certs'' \<in> set (ct_mounts sample_sidecar)" by simp
  moreover have "vm_name (Mount ''certs'' ''/certs'') \<notin> names vol_name (ps_volumes (pt_spec ?new))"
    by (simp add: sample_template_facts)
  ultimately have "\<not> (\<forall>c\<in>kept_containers (\<lambda>_. False) ?new ?old. \<forall>m\<in>set (ct_mounts c).
      vm_name m \<in> names vol_name (ps_volumes (pt_spec ?new)))" by blast
  with update_volumes_ok_iff [where adapt = keep_resources and rng = id and new = ?new
      and old = ?old and managed = "\<lambda>_. False", OF keep_resources_policy _ _ _ ok]
  show ?thesis by (simp only: sample_template_facts simp_thms)
qed

end
