(* ===== verification/AgentSpecs.thy ===== *)
theory AgentSpecs
  imports ContainerMerge EnvVars
begin

text \<open>
  The workloads the reconciler asks for (\<open>src/internal/controller/install_agents.go\<close>): the master
  agent's Deployment, the node agent's DaemonSet with the optional GPU exporter and host
  engine, and the exporter's Service.  A toleration the code writes itself is the token
  \<open>key:operator:effect\<close>.
\<close>

section \<open>Numbers in strings\<close>

text \<open>\<open>%d\<close> and \<open>regexp.QuoteMeta\<close>.\<close>

fun nat_digits :: "nat \<Rightarrow> string" where
  "nat_digits n =
     (if n < 10 then [char_of (48 + n)] else nat_digits (n div 10) @ [char_of (48 + n mod 10)])"

declare nat_digits.simps [simp del]

definition itoa :: "int \<Rightarrow> string" where
  "itoa i = (if i < 0 then ''-'' @ nat_digits (nat (- i)) else nat_digits (nat i))"

definition quote_meta :: "string \<Rightarrow> string" where
  "quote_meta s =
     concat (map (\<lambda>c. if c \<in> set (CHR 0x5C # ''.+*?()|[]{}^$'') then [CHR 0x5C, c] else [c]) s)"

section \<open>Workloads\<close>

datatype int_or_string = IntValue int | StrValue string

record workload =
  wl_replicas :: "int option"
  wl_selector :: "string entries"
  wl_max_unavailable :: int_or_string
  wl_max_surge :: "int_or_string option"
  wl_revision_history :: int
  wl_progress_deadline :: "int option"
  wl_template :: pod_template

section \<open>Connection variables of the agents\<close>

definition cr_getWhatapLicenseEnvVar :: "whatap_agent \<Rightarrow> env_var" where
  "cr_getWhatapLicenseEnvVar cr =
     (if ws_license (wa_spec cr) \<noteq> '''' then EnvVal ''WHATAP_LICENSE'' (ws_license (wa_spec cr))
      else EnvFrom ''WHATAP_LICENSE'' (SecretKeyRef ''whatap-credentials'' ''WHATAP_LICENSE''))"

definition cr_getWhatapHostEnvVar :: "whatap_agent \<Rightarrow> env_var" where
  "cr_getWhatapHostEnvVar cr =
     (if ws_host (wa_spec cr) \<noteq> '''' then EnvVal ''WHATAP_HOST'' (ws_host (wa_spec cr))
      else EnvFrom ''WHATAP_HOST'' (SecretKeyRef ''whatap-credentials'' ''WHATAP_HOST''))"

definition cr_getWhatapPortEnvVar :: "whatap_agent \<Rightarrow> env_var" where
  "cr_getWhatapPortEnvVar cr =
     (if ws_port (wa_spec cr) \<noteq> '''' then EnvVal ''WHATAP_PORT'' (ws_port (wa_spec cr))
      else EnvFrom ''WHATAP_PORT'' (SecretKeyRef ''whatap-credentials'' ''WHATAP_PORT''))"

section \<open>Shared pieces\<close>

definition agent_image :: "k8s_agent_spec \<Rightarrow> string" where
  "agent_image ka =
     (if ka_custom_image_full_name ka \<noteq> '''' then ka_custom_image_full_name ka
      else if ka_custom_agent_image_full_name ka \<noteq> '''' then ka_custom_agent_image_full_name ka
      else or_default (ka_agent_image_name ka) ''public.ecr.aws/whatap/kube_agent'' @ '':'' @
           or_default (ka_agent_image_version ka) ''latest'')"

definition agent_resources :: "resource_reqs \<Rightarrow> resource_reqs" where
  "agent_resources res =
     setDefaultResource res [(''cpu'', ''100m''), (''memory'', ''300Mi'')]
       [(''cpu'', ''200m''), (''memory'', ''350Mi'')]"

definition pod_labels :: "string entries \<Rightarrow> string gomap \<Rightarrow> string gomap" where
  "pod_labels base custom = Some (overlay base (entries custom))"

definition copy_annotations :: "string gomap \<Rightarrow> string gomap" where
  "copy_annotations custom =
     (case custom of None \<Rightarrow> None | Some es \<Rightarrow> Some (overlay [] es))"

definition opt_string :: "string \<Rightarrow> string option" where
  "opt_string s = (if s \<noteq> '''' then Some s else None)"

definition root_pod_security :: pod_security where
  "root_pod_security = no_pod_security\<lparr>psc_run_as_user := Some 0, psc_run_as_group := Some 0,
     psc_fs_group := Some 0, psc_seccomp := Some ''RuntimeDefault''\<rparr>"

definition or_else :: "'a option \<Rightarrow> 'a \<Rightarrow> 'a" where
  "or_else m d = (case m of Some x \<Rightarrow> x | None \<Rightarrow> d)"

text \<open>The container-level overrides of image, resources, variables and security context.\<close>

definition container_image :: "container_spec option \<Rightarrow> string \<Rightarrow> string" where
  "container_image c img =
     (case c of Some cs \<Rightarrow> or_default (cs_image cs) img | None \<Rightarrow> img)"

definition container_resources :: "container_spec option \<Rightarrow> resource_reqs \<Rightarrow> resource_reqs" where
  "container_resources c res =
     (case c of
        Some cs \<Rightarrow> if rr_limits (cs_resources cs) \<noteq> None then cs_resources cs else res
      | None \<Rightarrow> res)"

definition container_envs :: "container_spec option \<Rightarrow> env_var list \<Rightarrow> env_var list" where
  "container_envs c envs =
     (case c of
        Some cs \<Rightarrow> if cs_envs cs \<noteq> [] then cs_envs cs else envs
      | None \<Rightarrow> envs)"

definition container_security :: "container_spec option \<Rightarrow> security_context option" where
  "container_security c = (case c of Some cs \<Rightarrow> cs_security cs | None \<Rightarrow> None)"

definition pull_secrets :: "string list \<Rightarrow> k8s_agent_spec \<Rightarrow> string list" where
  "pull_secrets secrets ka = (if secrets = [] then ka_pull_secrets ka else secrets)"

section \<open>Master agent\<close>

definition getMasterAgentDeploymentSpec :: "string \<Rightarrow> resource_reqs \<Rightarrow> whatap_agent \<Rightarrow> workload" where
  "getMasterAgentDeploymentSpec img res cr =
     (let masterSpec = ka_master (k8s_agent cr);
          masterEnvs =
            [cr_getWhatapLicenseEnvVar cr, cr_getWhatapHostEnvVar cr, cr_getWhatapPortEnvVar cr,
             EnvFrom ''WHATAP_MEM_LIMIT'' (ResourceFieldRef ''whatap-master-agent'' ''limits.memory''),
             EnvVal ''collect_custom_resources'' ''true''] @
            container_envs (ma_container masterSpec) (ma_envs masterSpec)
      in \<lparr>wl_replicas = Some 1,
          wl_selector = [(''name'', ''whatap-master-agent'')],
          wl_max_unavailable = StrValue ''25%'',
          wl_max_surge = Some (StrValue ''25%''),
          wl_revision_history = 10,
          wl_progress_deadline = Some 600,
          wl_template =
            \<lparr>pt_labels = pod_labels [(''name'', ''whatap-master-agent'')] (ma_pod_labels masterSpec),
             pt_annotations = copy_annotations (ma_pod_annotations masterSpec),
             pt_spec = zero_pod_spec\<lparr>
               ps_restart_policy := ''Always'',
               ps_grace_period := Some 30,
               ps_dns_policy := ''ClusterFirst'',
               ps_scheduler := ''default-scheduler'',
               ps_runtime_class := opt_string (ma_runtime_class masterSpec),
               ps_host_pid := ma_host_pid masterSpec,
               ps_service_account := ''whatap'',
               ps_tolerations := ma_tolerations masterSpec,
               ps_affinity := ma_affinity masterSpec,
               ps_node_selector := ma_node_selector masterSpec,
               ps_priority_class := ma_priority_class masterSpec,
               ps_pull_secrets := pull_secrets (ma_pull_secrets masterSpec) (k8s_agent cr),
               ps_security := Some (or_else (ma_pod_security masterSpec) root_pod_security),
               ps_containers := [zero_container\<lparr>
                 ct_name := ''whatap-master-agent'',
                 ct_image := container_image (ma_container masterSpec) img,
                 ct_pull_policy := ''IfNotPresent'',
                 ct_command := [''/bin/entrypoint.sh''],
                 ct_ports := [\<lparr>cp_name = '''', cp_container_port = 6600, cp_host_port = 0,
                               cp_protocol = ''TCP''\<rparr>],
                 ct_env := masterEnvs,
                 ct_security := container_security (ma_container masterSpec),
                 ct_mounts :=
                   [(Mount ''start-script-volume'' ''/bin/entrypoint.sh'')\<lparr>
                      vm_sub_path := ''entrypoint.sh'', vm_read_only := True\<rparr>,
                    Mount ''whatap-config-volume'' ''/whatap_conf''],
                 ct_resources := container_resources (ma_container masterSpec) res\<rparr>],
               ps_volumes :=
                 [\<lparr>vol_name = ''start-script-volume'',
                   vol_source = ConfigMapVolume ''master-start-script'' (Some 365)\<rparr>,
                  \<lparr>vol_name = ''whatap-config-volume'', vol_source = EmptyDir\<rparr>]\<rparr>\<rparr>\<rparr>)"

section \<open>Node agent\<close>

definition runtime_socket :: "string \<Rightarrow> string \<times> string \<times> string" where
  "runtime_socket rt =
     (if rt = ''docker'' then
        (''dockerdomainsocket'', ''/var/run/docker.sock'', ''/var/run/docker.sock'')
      else if rt = ''crio'' then
        (''criodomainsocket'', ''/var/run/crio/crio.sock'', ''/var/run/crio/crio.sock'')
      else (''containerddomainsocket'', ''/run/containerd/containerd.sock'',
            ''/run/containerd/containerd.sock''))"

definition boolValueOrDefault :: "bool option \<Rightarrow> bool \<Rightarrow> bool" where
  "boolValueOrDefault v d = (case v of None \<Rightarrow> d | Some b \<Rightarrow> b)"

definition helper_default_resources :: resource_reqs where
  "helper_default_resources =
     \<lparr>rr_limits = Some [(''memory'', ''350Mi''), (''cpu'', ''200m'')],
      rr_requests = Some [(''memory'', ''100Mi''), (''cpu'', ''100m'')]\<rparr>"

definition rootfs_mount :: volume_mount where
  "rootfs_mount = (Mount ''rootfs'' ''/rootfs'')\<lparr>vm_read_only := True,
     vm_propagation := Some ''HostToContainer''\<rparr>"

definition read_only_mount :: "string \<Rightarrow> string \<Rightarrow> volume_mount" where
  "read_only_mount n p = (Mount n p)\<lparr>vm_read_only := True\<rparr>"

definition tcp_port :: "string \<Rightarrow> int \<Rightarrow> int \<Rightarrow> container_port" where
  "tcp_port n p h = \<lparr>cp_name = n, cp_container_port = p, cp_host_port = h, cp_protocol = ''TCP''\<rparr>"

abbreviation helper_envs :: "node_agent_spec \<Rightarrow> env_var list" where
  "helper_envs nodeSpec \<equiv>
     EnvFrom ''NODE_NAME'' (FieldRef ''spec.nodeName'') # container_envs (na_helper nodeSpec) []"

definition node_helper_container ::
  "node_agent_spec \<Rightarrow> string \<Rightarrow> volume_mount \<Rightarrow> container" where
  "node_helper_container nodeSpec img runtimeMount =
     zero_container\<lparr>
       ct_name := ''whatap-node-helper'',
       ct_image := container_image (na_helper nodeSpec) img,
       ct_pull_policy := ''IfNotPresent'',
       ct_command := [''/data/agent/node/cadvisor_helper'', ''-port'', ''6801''],
       ct_ports := [tcp_port ''helperport'' 6801 0],
       ct_env := helper_envs nodeSpec,
       ct_resources := container_resources (na_helper nodeSpec) helper_default_resources,
       ct_security := container_security (na_helper nodeSpec),
       ct_mounts := [rootfs_mount, read_only_mount ''hostsys'' ''/sys'',
         read_only_mount ''hostdiskdevice'' ''/dev/disk'', runtimeMount]\<rparr>"

definition node_agent_container ::
  "whatap_agent \<Rightarrow> string \<Rightarrow> resource_reqs \<Rightarrow> container" where
  "node_agent_container cr img res =
     (let nodeSpec = ka_node (k8s_agent cr)
      in zero_container\<lparr>
        ct_name := ''whatap-node-agent'',
        ct_image := container_image (na_container nodeSpec) img,
        ct_pull_policy := ''IfNotPresent'',
        ct_command := [''/bin/entrypoint.sh''],
        ct_ports := [tcp_port ''nodeport'' 6600 0],
        ct_env :=
          [EnvFrom ''NODE_IP'' (FieldRef ''status.hostIP''),
           EnvFrom ''NODE_NAME'' (FieldRef ''spec.nodeName''),
           cr_getWhatapLicenseEnvVar cr, cr_getWhatapHostEnvVar cr, cr_getWhatapPortEnvVar cr,
           EnvFrom ''WHATAP_MEM_LIMIT'' (ResourceFieldRef ''whatap-node-agent'' ''limits.memory''),
           EnvVal ''HOST_PREFIX'' ''/rootfs'', EnvVal ''whatap_server_agent_enabled'' ''true''] @
          container_envs (na_container nodeSpec) (na_envs nodeSpec),
        ct_resources := container_resources (na_container nodeSpec) res,
        ct_security := container_security (na_container nodeSpec),
        ct_mounts := [rootfs_mount,
          (read_only_mount ''start-script-volume'' ''/bin/entrypoint.sh'')\<lparr>
             vm_sub_path := ''entrypoint.sh''\<rparr>,
          Mount ''whatap-config-volume'' ''/whatap_conf'']\<rparr>)"

definition node_volumes :: "string \<Rightarrow> string \<Rightarrow> volume list" where
  "node_volumes volName hostPath =
     [\<lparr>vol_name = ''rootfs'', vol_source = HostPathVolume ''/'' None\<rparr>,
      \<lparr>vol_name = ''hostsys'', vol_source = HostPathVolume ''/sys'' None\<rparr>,
      \<lparr>vol_name = ''hostdiskdevice'', vol_source = HostPathVolume ''/dev/disk'' None\<rparr>,
      \<lparr>vol_name = ''start-script-volume'',
       vol_source = ConfigMapVolume ''node-start-script'' (Some 365)\<rparr>,
      \<lparr>vol_name = ''whatap-config-volume'', vol_source = EmptyDir\<rparr>,
      \<lparr>vol_name = volName, vol_source = HostPathVolume hostPath (Some ''Socket'')\<rparr>]"

text \<open>The affinity is the custom resource's object itself; see theory \<open>NodeAffinity\<close>.\<close>

text \<open>The node agent's tolerations and the labels its pods start from.\<close>

abbreviation node_tolerations :: "node_agent_spec \<Rightarrow> opaque list" where
  "node_tolerations nodeSpec \<equiv>
     [''node-role.kubernetes.io/master:Exists:NoSchedule'',
      ''node-role.kubernetes.io/control-plane:Exists:NoSchedule''] @ na_tolerations nodeSpec"

abbreviation node_base_labels :: "string \<Rightarrow> bool \<Rightarrow> string entries" where
  "node_base_labels dsName includeDcgm \<equiv>
     (if includeDcgm then [(''name'', dsName), (''whatap-gpu'', ''true'')] else [(''name'', dsName)])"

definition getNodeAgentDaemonSetSpec ::
  "string \<Rightarrow> resource_reqs \<Rightarrow> whatap_agent \<Rightarrow> string \<Rightarrow> bool \<Rightarrow> workload" where
  "getNodeAgentDaemonSetSpec img res cr dsName includeDcgm =
     (let nodeSpec = ka_node (k8s_agent cr);
          base = node_base_labels dsName includeDcgm;
          rt = or_default (na_runtime nodeSpec) ''containerd'';
          (volName, mountPath, hostPath) = runtime_socket rt;
          hostPath = or_default (na_runtime_socket_path nodeSpec) hostPath;
          hostNetwork = boolValueOrDefault (na_host_network nodeSpec) True
      in \<lparr>wl_replicas = None,
          wl_selector = [(''name'', dsName)],
          wl_max_unavailable = IntValue 1,
          wl_max_surge = None,
          wl_revision_history = 10,
          wl_progress_deadline = None,
          wl_template =
            \<lparr>pt_labels = pod_labels base (na_pod_labels nodeSpec),
             pt_annotations = copy_annotations (na_pod_annotations nodeSpec),
             pt_spec = zero_pod_spec\<lparr>
               ps_restart_policy := ''Always'',
               ps_grace_period := Some 30,
               ps_scheduler := ''default-scheduler'',
               ps_host_network := hostNetwork,
               ps_runtime_class := opt_string (na_runtime_class nodeSpec),
               ps_host_pid := na_host_pid nodeSpec,
               ps_dns_policy := (if hostNetwork then ''ClusterFirstWithHostNet''
                                 else ''ClusterFirst''),
               ps_service_account := ''whatap'',
               ps_affinity := na_affinity nodeSpec,
               ps_node_selector := na_node_selector nodeSpec,
               ps_priority_class := na_priority_class nodeSpec,
               ps_security := Some (or_else (na_pod_security nodeSpec) root_pod_security),
               ps_containers :=
                 [node_helper_container nodeSpec img (Mount volName mountPath),
                  node_agent_container cr img res],
               ps_tolerations := node_tolerations nodeSpec,
               ps_pull_secrets := pull_secrets (na_pull_secrets nodeSpec) (k8s_agent cr),
               ps_volumes := node_volumes volName hostPath\<rparr>\<rparr>\<rparr>)"

section \<open>GPU exporter\<close>

abbreviation RemoteHostEngine :: string where "RemoteHostEngine \<equiv> ''DCGM_REMOTE_HOSTENGINE_INFO''"

definition host_engine :: "gpu_monitoring_spec \<Rightarrow> host_engine_spec option" where
  "host_engine gpu =
     (case gpu_host_engine gpu of
        Some he \<Rightarrow> if he_enabled he then Some he else None
      | None \<Rightarrow> None)"

definition host_engine_port :: "host_engine_spec \<Rightarrow> int" where
  "host_engine_port he = (if he_port he \<noteq> 0 then he_port he else 5555)"

definition dcgm_default_envs :: "gpu_monitoring_spec \<Rightarrow> env_var list" where
  "dcgm_default_envs gpu =
     [EnvVal ''DCGM_EXPORTER_LISTEN'' '':9400'',
      EnvVal ''DCGM_EXPORTER_KUBERNETES'' ''true'',
      EnvVal ''DCGM_EXPORTER_COLLECTORS'' ''/etc/dcgm-exporter/whatap-dcgm-exporter.csv'',
      EnvFrom ''NODE_NAME'' (FieldRef ''spec.nodeName'')] @
     (if gpu_group_label gpu \<noteq> '''' then
        [EnvVal ''DCGM_EXPORTER_KUBERNETES_ENABLE_POD_LABELS'' ''true'',
         EnvVal ''DCGM_EXPORTER_KUBERNETES_POD_LABEL_ALLOWLIST_REGEX''
           (or_default (gpu_group_label_regex gpu)
             (''^('' @ quote_meta (gpu_group_label gpu) @ '')$''))]
      else []) @
     (if gpu_cluster_name gpu \<noteq> ''''
      then [EnvVal ''DCGM_EXPORTER_KUBERNETES_CLUSTER_NAME'' (gpu_cluster_name gpu)] else []) @
     (if gpu_devices gpu \<noteq> '''' \<and> gpu_devices gpu \<noteq> ''f''
      then [EnvVal ''DCGM_EXPORTER_DEVICES_STR'' (gpu_devices gpu)] else []) @
     (case host_engine gpu of
        Some he \<Rightarrow> [EnvVal RemoteHostEngine (''localhost:'' @ itoa (host_engine_port he))]
      | None \<Rightarrow> if gpu_remote_host_engine gpu \<noteq> ''''
                then [EnvVal RemoteHostEngine (gpu_remote_host_engine gpu)] else [])"

definition opts_out :: "env_var \<Rightarrow> bool" where
  "opts_out e \<longleftrightarrow> ev_name e = RemoteHostEngine \<and> ev_value e = '''' \<and> ev_from e = None"

fun override_envs :: "env_var list \<Rightarrow> env_var list \<Rightarrow> env_var list" where
  "override_envs envVars [] = envVars"
| "override_envs envVars (userEnv # rest) =
     (if opts_out userEnv
      then override_envs (filter (\<lambda>e. ev_name e \<noteq> ev_name userEnv) envVars) rest
      else (case edit_first ev_name (ev_name userEnv) (\<lambda>_. userEnv) envVars of
              (found, envs) \<Rightarrow>
                override_envs (if found then envs else envVars @ [userEnv]) rest))"

definition dcgm_container :: "gpu_monitoring_spec \<Rightarrow> container" where
  "dcgm_container gpu =
     zero_container\<lparr>
       ct_name := ''dcgm-exporter'',
       ct_image := or_default (gpu_custom_image_full_name gpu)
         ''public.ecr.aws/whatap/dcgm-exporter:4.6.0-4.8.3-distroless'',
       ct_pull_policy := ''IfNotPresent'',
       ct_env := override_envs (dcgm_default_envs gpu) (gpu_envs gpu),
       ct_ports := [tcp_port ''metrics'' 9400 0],
       ct_resources := gpu_resources gpu,
       ct_security := Some (no_security_context\<lparr>sc_run_as_non_root := Some False,
         sc_run_as_user := Some 0, sc_capabilities_add := [''SYS_ADMIN'']\<rparr>),
       ct_mounts :=
         [read_only_mount ''pod-gpu-resources'' ''/var/lib/kubelet/pod-resources'',
          (read_only_mount ''whatap-dcgm-exporter-csv''
             ''/etc/dcgm-exporter/whatap-dcgm-exporter.csv'')\<lparr>vm_sub_path := ''whatap-gpu.csv''\<rparr>]\<rparr>"

definition host_engine_container :: "host_engine_spec \<Rightarrow> container" where
  "host_engine_container he =
     (let port = host_engine_port he
      in zero_container\<lparr>
        ct_name := ''dcgm-hostengine'',
        ct_image := or_default (he_custom_image_full_name he)
          ''nvcr.io/nvidia/cloud-native/dcgm:4.6.0-1-ubuntu24.04'',
        ct_pull_policy := ''IfNotPresent'',
        ct_ports := [tcp_port ''he'' port port],
        ct_resources := he_resources he,
        ct_security := Some (no_security_context\<lparr>sc_run_as_non_root := Some False,
          sc_run_as_user := Some 0, sc_allow_priv_esc := Some True,
          sc_capabilities_add := [''SYS_ADMIN'']\<rparr>),
        ct_liveness := Some \<lparr>pr_tcp_port = port, pr_initial_delay = 5, pr_period = 10, pr_rest = ''''\<rparr>,
        ct_readiness := Some \<lparr>pr_tcp_port = port, pr_initial_delay = 3, pr_period = 5, pr_rest = ''''\<rparr>\<rparr>)"

definition addDcgmExporterToNodeAgent :: "pod_spec \<Rightarrow> whatap_agent \<Rightarrow> pod_spec" where
  "addDcgmExporterToNodeAgent podSpec cr =
     (let gpuSpec = ka_gpu (k8s_agent cr)
      in podSpec\<lparr>
        ps_containers := ps_containers podSpec @ [dcgm_container gpuSpec] @
          (case host_engine gpuSpec of Some he \<Rightarrow> [host_engine_container he] | None \<Rightarrow> []),
        ps_volumes := ps_volumes podSpec @
          [\<lparr>vol_name = ''pod-gpu-resources'',
            vol_source = HostPathVolume ''/var/lib/kubelet/pod-resources'' None\<rparr>,
           \<lparr>vol_name = ''whatap-dcgm-exporter-csv'',
            vol_source = ConfigMapVolume ''dcgm-exporter-csv'' None\<rparr>]\<rparr>)"


section \<open>The exporter's Service\<close>

record service_port =
  sp_name :: string
  sp_port :: int
  sp_target_port :: int
  sp_protocol :: string
  sp_node_port :: int

record service_spec =
  ss_selector :: "string entries"
  ss_type :: string
  ss_ports :: "service_port list"
  ss_cluster_ip :: string
  ss_external_policy :: string
  ss_internal_policy :: "string option"

record service =
  sv_labels :: "string gomap"
  sv_spec :: service_spec

text \<open>The function \<open>CreateOrUpdate\<close> applies to the Service found in the cluster (or to a new one).\<close>

definition dcgm_service_mutate :: "gpu_monitoring_spec \<Rightarrow> service \<Rightarrow> service" where
  "dcgm_service_mutate gpu svc =
     (let labels = mput ''app.kubernetes.io/managed-by'' ''whatap-operator''
            (mput ''app.kubernetes.io/name'' ''dcgm-exporter'' (sv_labels svc));
          (serviceType, port, nodePort) =
            (case gpu_service gpu of
               None \<Rightarrow> (''NodePort'', 9400, 30400)
             | Some s \<Rightarrow>
                 (or_default (gs_type s) ''NodePort'',
                  if gs_port s \<noteq> 0 then gs_port s else 9400,
                  if gs_node_port s \<noteq> 0 then gs_node_port s else 30400));
          clusterIP = ss_cluster_ip (sv_spec svc);
          isNodePort = (serviceType = ''NodePort'')
      in \<lparr>sv_labels = labels,
          sv_spec =
            \<lparr>ss_selector = [(''whatap-gpu'', ''true'')],
             ss_type = serviceType,
             ss_ports = [\<lparr>sp_name = ''metrics'', sp_port = port, sp_target_port = 9400,
               sp_protocol = ''TCP'',
               sp_node_port = (if isNodePort \<and> nodePort \<noteq> 0 then nodePort else 0)\<rparr>],
             ss_cluster_ip = clusterIP,
             ss_external_policy = (if isNodePort then ''Local'' else ''''),
             ss_internal_policy = (if isNodePort then Some ''Local'' else None)\<rparr>\<rparr>)"

text \<open>Whether and where \<open>ensureDcgmExporterService\<close> maintains it.\<close>

definition dcgm_service_wanted :: "gpu_monitoring_spec \<Rightarrow> bool" where
  "dcgm_service_wanted gpu \<longleftrightarrow>
     gpu_enabled gpu \<and>
     (case gpu_service gpu of None \<Rightarrow> True | Some s \<Rightarrow> gs_enabled s)"

definition dcgm_service_namespace :: "string \<Rightarrow> k8s_agent_spec \<Rightarrow> string" where
  "dcgm_service_namespace default_ns ka = or_default (ka_namespace ka) default_ns"

section \<open>Open agent\<close>

definition getOpenAgentCommand :: "open_agent_spec \<Rightarrow> string list" where
  "getOpenAgentCommand spec = []"

definition getOpenAgentArgs :: "open_agent_spec \<Rightarrow> string list" where
  "getOpenAgentArgs spec = (if oa_disable_foreground spec then [''-d''] else [])"

definition getOpenAgentImage :: "open_agent_spec \<Rightarrow> string" where
  "getOpenAgentImage spec =
     (if oa_custom_image_full_name spec \<noteq> '''' then oa_custom_image_full_name spec
      else or_default (oa_image_name spec) ''public.ecr.aws/whatap/open_agent'' @ '':'' @
           or_default (oa_image_version spec) ''latest'')"

section \<open>The exporter's variables\<close>

lemma edit_first_replace:
  assumes "nm u = n"
  shows "named nm m (snd (edit_first nm n (\<lambda>_. u) xs)) =
           (if m = n then (case named nm n xs of [] \<Rightarrow> [] | y # ys \<Rightarrow> u # ys) else named nm m xs)"
  using assms by (induction xs) (auto split: prod.splits)

lemma override_step:
  assumes "length (named ev_name n base) \<le> 1"
  shows "named ev_name n (if opts_out u then filter (\<lambda>e. ev_name e \<noteq> ev_name u) base
           else (case edit_first ev_name (ev_name u) (\<lambda>_. u) base of
                   (found, envs) \<Rightarrow> if found then envs else base @ [u])) =
         (if n = ev_name u then (if opts_out u then [] else [u]) else named ev_name n base)"
proof (cases "opts_out u")
  case True
  then show ?thesis by (auto simp: named_filter_keep named_filter_drop)
next
  case False
  show ?thesis
  proof (cases "ev_name u \<in> names ev_name base")
    case True
    then have "named ev_name (ev_name u) base \<noteq> []" by (simp add: named_empty_iff)
    with True False assms show ?thesis
      by (cases "named ev_name n base") (auto simp: edit_first_cases edit_first_replace)
  next
    case absent: False
    with False show ?thesis by (auto simp: edit_first_cases named_not_in)
  qed
qed

lemma override_envs_step:
  "override_envs base (u # us) =
     override_envs (if opts_out u then filter (\<lambda>e. ev_name e \<noteq> ev_name u) base
        else (case edit_first ev_name (ev_name u) (\<lambda>_. u) base of
                (found, envs) \<Rightarrow> if found then envs else base @ [u])) us"
  by (simp split: prod.split)

lemma override_envs_named:
  assumes "length (named ev_name n base) \<le> 1"
  shows "named ev_name n (override_envs base us) =
           (if n \<in> names ev_name us
            then (let u = last (named ev_name n us) in if opts_out u then [] else [u])
            else named ev_name n base)"
  using assms
proof (induction us arbitrary: base)
  case Nil
  then show ?case by simp
next
  case (Cons u us)
  note step = override_step [OF Cons.prems, of u]
  have "length (named ev_name n (if opts_out u then filter (\<lambda>e. ev_name e \<noteq> ev_name u) base
      else (case edit_first ev_name (ev_name u) (\<lambda>_. u) base of
              (found, envs) \<Rightarrow> if found then envs else base @ [u]))) \<le> 1"
    unfolding step using Cons.prems by simp
  from Cons.IH [OF this] show ?case
    unfolding override_envs_step step
    by (auto simp: Let_def named_empty_iff)
qed


lemma distinct_optional:
  "distinct (xs @ ys @ zs) \<Longrightarrow> ys' \<in> {[], ys} \<Longrightarrow> distinct (xs @ ys' @ zs)"
  by auto

lemma distinct_optional_parts:
  assumes "distinct (as @ bs @ cs @ ds @ es)"
    and "as' = as" and "bs' \<in> {[], bs}" and "cs' \<in> {[], cs}" and "ds' \<in> {[], ds}"
    and "es' \<in> {[], es}"
  shows "distinct (as' @ bs' @ cs' @ ds' @ es')"
proof -
  have "distinct (as @ bs' @ cs @ ds @ es)" by (rule distinct_optional [OF assms(1,3)])
  then have "distinct ((as @ bs') @ cs @ ds @ es)" by (simp only: append_assoc)
  from distinct_optional [OF this assms(4)]
  have "distinct ((as @ bs' @ cs') @ ds @ es)" by (simp only: append_assoc)
  from distinct_optional [OF this assms(5)]
  have "distinct ((as @ bs' @ cs' @ ds') @ es @ [])" by (simp only: append_assoc append_Nil2)
  from distinct_optional [OF this assms(6)]
  show ?thesis unfolding assms(2) by (simp only: append_assoc append_Nil2)
qed

lemma dcgm_container_env:
  "ct_env (dcgm_container gpu) = override_envs (dcgm_default_envs gpu) (gpu_envs gpu)"
  by (simp add: dcgm_container_def)

lemma dcgm_default_names: "distinct (map ev_name (dcgm_default_envs gpu))"
proof -
  let ?names = "[''DCGM_EXPORTER_LISTEN'', ''DCGM_EXPORTER_KUBERNETES'', ''DCGM_EXPORTER_COLLECTORS'',
    ''NODE_NAME''] @ [''DCGM_EXPORTER_KUBERNETES_ENABLE_POD_LABELS'',
    ''DCGM_EXPORTER_KUBERNETES_POD_LABEL_ALLOWLIST_REGEX''] @
    [''DCGM_EXPORTER_KUBERNETES_CLUSTER_NAME''] @ [''DCGM_EXPORTER_DEVICES_STR''] @
    [RemoteHostEngine]"
  have "distinct ?names" by simp
  then show ?thesis
    unfolding dcgm_default_envs_def map_append
    by (rule distinct_optional_parts) (simp_all split: option.split)
qed

lemma dcgm_default_single: "length (named ev_name n (dcgm_default_envs gpu)) \<le> 1"
proof (cases "n \<in> names ev_name (dcgm_default_envs gpu)")
  case True
  then obtain e where "e \<in> set (dcgm_default_envs gpu)" "ev_name e = n" by (auto simp: names_def)
  with named_distinct [OF dcgm_default_names] show ?thesis by fastforce
next
  case False
  then show ?thesis by (simp add: named_not_in)
qed

text \<open>The exporter's variables: for every name the custom resource lists, the last entry it
  lists decides, replacing the operator's default, and an explicitly empty remote host engine
  removes the variable; every other default stays, and no name occurs twice.\<close>

theorem dcgm_env_last_wins:
  "named ev_name n (ct_env (dcgm_container gpu)) =
     (if n \<in> names ev_name (gpu_envs gpu)
      then (let u = last (named ev_name n (gpu_envs gpu)) in if opts_out u then [] else [u])
      else named ev_name n (dcgm_default_envs gpu)) \<and>
   length (named ev_name n (ct_env (dcgm_container gpu))) \<le> 1"
  using override_envs_named [OF dcgm_default_single] dcgm_default_single [of n gpu]
  by (simp add: dcgm_container_env Let_def)

text \<open>With the host engine enabled and its address not overridden, the exporter connects to
  the very port the host engine's container declares and is probed on; no argument, command or
  variable of that container carries the port, so the process inside is not told of it.\<close>

theorem host_engine_port_agrees:
  assumes "host_engine gpu = Some he" and "RemoteHostEngine \<notin> names ev_name (gpu_envs gpu)"
  shows "named ev_name RemoteHostEngine (ct_env (dcgm_container gpu)) =
           [EnvVal RemoteHostEngine (''localhost:'' @ itoa (host_engine_port he))] \<and>
         map cp_container_port (ct_ports (host_engine_container he)) = [host_engine_port he] \<and>
         map_option pr_tcp_port (ct_readiness (host_engine_container he)) = Some (host_engine_port he) \<and>
         ct_command (host_engine_container he) = [] \<and> ct_args (host_engine_container he) = [] \<and>
         ct_env (host_engine_container he) = []"
proof -
  let ?e = "EnvVal RemoteHostEngine (''localhost:'' @ itoa (host_engine_port he))"
  have "?e \<in> set (dcgm_default_envs gpu)" using assms(1) by (simp add: dcgm_default_envs_def)
  from named_distinct [OF dcgm_default_names this]
  have "named ev_name RemoteHostEngine (dcgm_default_envs gpu) = [?e]" by (simp only: env_var.select_convs)
  then have "named ev_name RemoteHostEngine (ct_env (dcgm_container gpu)) = [?e]"
    using assms(2) override_envs_named [OF dcgm_default_single, of RemoteHostEngine gpu "gpu_envs gpu"]
    by (simp only: dcgm_container_env if_False)
  then show ?thesis
    by (simp add: host_engine_container_def Let_def tcp_port_def zero_container_def)
qed

section \<open>Rendered pods are well formed\<close>

lemma runtime_socket_fresh:
  "''rootfs'' \<noteq> fst (runtime_socket rt)" "''hostsys'' \<noteq> fst (runtime_socket rt)"
  "''hostdiskdevice'' \<noteq> fst (runtime_socket rt)"
  "''start-script-volume'' \<noteq> fst (runtime_socket rt)"
  "''whatap-config-volume'' \<noteq> fst (runtime_socket rt)"
  by (simp_all add: runtime_socket_def)

lemma master_pod_ok:
  "pod_volumes_ok (pt_spec (wl_template (getMasterAgentDeploymentSpec img res cr)))"
  by (simp add: getMasterAgentDeploymentSpec_def Let_def pod_volumes_ok_def zero_pod_spec_def)

lemma node_template_parts:
  "ps_containers (pt_spec (wl_template (getNodeAgentDaemonSetSpec img res cr ds dcgm))) =
     [node_helper_container (ka_node (k8s_agent cr)) img
        (Mount (fst (runtime_socket (or_default (na_runtime (ka_node (k8s_agent cr))) ''containerd'')))
          (fst (snd (runtime_socket (or_default (na_runtime (ka_node (k8s_agent cr))) ''containerd''))))),
      node_agent_container cr img res]"
  "ps_init_containers (pt_spec (wl_template (getNodeAgentDaemonSetSpec img res cr ds dcgm))) = []"
  "\<exists>host. ps_volumes (pt_spec (wl_template (getNodeAgentDaemonSetSpec img res cr ds dcgm))) =
     node_volumes (fst (runtime_socket (or_default (na_runtime (ka_node (k8s_agent cr))) ''containerd'')))
       host"
  by (simp_all add: getNodeAgentDaemonSetSpec_def Let_def zero_pod_spec_def split_beta) blast

lemma node_volumes_names:
  "map vol_name (node_volumes v h) =
     [''rootfs'', ''hostsys'', ''hostdiskdevice'', ''start-script-volume'', ''whatap-config-volume'', v]"
  by (simp add: node_volumes_def)

lemma names_map: "names nm xs = set (map nm xs)"
  by (simp add: names_def)

lemma node_pod_ok:
  "pod_volumes_ok (pt_spec (wl_template (getNodeAgentDaemonSetSpec img res cr ds dcgm)))"
proof -
  let ?w = "pt_spec (wl_template (getNodeAgentDaemonSetSpec img res cr ds dcgm))"
  obtain h where vols: "ps_volumes ?w = node_volumes
      (fst (runtime_socket (or_default (na_runtime (ka_node (k8s_agent cr))) ''containerd''))) h"
    using node_template_parts(3) by blast
  show ?thesis
    unfolding pod_volumes_ok_def names_map vols node_volumes_names node_template_parts(1,2)
    by (simp add: node_helper_container_def node_agent_container_def rootfs_mount_def
        read_only_mount_def Let_def runtime_socket_fresh)
qed


lemma dcgm_pod_parts:
  "ps_containers (addDcgmExporterToNodeAgent ps cr) =
     ps_containers ps @ dcgm_container (ka_gpu (k8s_agent cr)) #
       (case host_engine (ka_gpu (k8s_agent cr)) of
          Some he \<Rightarrow> [host_engine_container he] | None \<Rightarrow> [])"
  "ps_init_containers (addDcgmExporterToNodeAgent ps cr) = ps_init_containers ps"
  "map vol_name (ps_volumes (addDcgmExporterToNodeAgent ps cr)) =
     map vol_name (ps_volumes ps) @ [''pod-gpu-resources'', ''whatap-dcgm-exporter-csv'']"
  by (simp_all add: addDcgmExporterToNodeAgent_def Let_def)

lemma dcgm_container_fields:
  "ct_name (dcgm_container gpu) = ''dcgm-exporter''"
  "map vm_name (ct_mounts (dcgm_container gpu)) = [''pod-gpu-resources'', ''whatap-dcgm-exporter-csv'']"
  "ct_name (host_engine_container he) = ''dcgm-hostengine''"
  "ct_mounts (host_engine_container he) = []"
  by (simp_all add: dcgm_container_def host_engine_container_def read_only_mount_def Let_def
      zero_container_def)

lemma runtime_socket_not_gpu:
  "fst (runtime_socket rt) \<noteq> ''pod-gpu-resources''"
  "fst (runtime_socket rt) \<noteq> ''whatap-dcgm-exporter-csv''"
  by (simp_all add: runtime_socket_def)

lemma add_dcgm_ok:
  assumes "pod_volumes_ok ps"
    and "''pod-gpu-resources'' \<notin> names vol_name (ps_volumes ps)"
    and "''whatap-dcgm-exporter-csv'' \<notin> names vol_name (ps_volumes ps)"
  shows "pod_volumes_ok (addDcgmExporterToNodeAgent ps cr)"
proof -
  let ?ps = "addDcgmExporterToNodeAgent ps cr"
  have names: "names vol_name (ps_volumes ?ps) = names vol_name (ps_volumes ps) \<union>
      {''pod-gpu-resources'', ''whatap-dcgm-exporter-csv''}"
    unfolding names_map dcgm_pod_parts by simp
  have "vm_name ` set (ct_mounts (dcgm_container (ka_gpu (k8s_agent cr)))) =
      {''pod-gpu-resources'', ''whatap-dcgm-exporter-csv''}"
    by (simp only: set_map [symmetric] dcgm_container_fields list.set)
  then have exporter: "\<forall>m\<in>set (ct_mounts (dcgm_container (ka_gpu (k8s_agent cr)))).
      vm_name m \<in> {''pod-gpu-resources'', ''whatap-dcgm-exporter-csv''}" by blast
  have engine: "\<forall>c\<in>set (case host_engine (ka_gpu (k8s_agent cr)) of
      Some he \<Rightarrow> [host_engine_container he] | None \<Rightarrow> []). ct_mounts c = []"
    by (auto simp: dcgm_container_fields split: option.splits)
  have "distinct (map vol_name (ps_volumes ?ps))"
    using assms unfolding dcgm_pod_parts by (simp add: pod_volumes_ok_def names_map)
  moreover have "\<forall>c\<in>set (ps_init_containers ?ps @ ps_containers ?ps).
      \<forall>m\<in>set (ct_mounts c). vm_name m \<in> names vol_name (ps_volumes ?ps)"
    unfolding names dcgm_pod_parts(1,2)
    using assms(1) exporter engine by (auto simp: pod_volumes_ok_def)
  ultimately show ?thesis by (simp add: pod_volumes_ok_def)
qed

text \<open>C35. The pods the operator asks for are well formed for every custom resource: the master
  agent's, and the node agent's with any container runtime, socket path, GPU exporter and host
  engine; volume names are unique, every mount has its volume, and container names are unique.\<close>

theorem rendered_pods_ok:
  "pod_volumes_ok (pt_spec (wl_template (getMasterAgentDeploymentSpec img res cr))) \<and>
   (let node = pt_spec (wl_template (getNodeAgentDaemonSetSpec img res cr ds dcgm));
        gpu = addDcgmExporterToNodeAgent node cr
    in pod_volumes_ok node \<and> pod_volumes_ok gpu \<and>
       distinct (map ct_name (ps_containers node)) \<and> distinct (map ct_name (ps_containers gpu)))"
proof -
  let ?node = "pt_spec (wl_template (getNodeAgentDaemonSetSpec img res cr ds dcgm))"
  obtain h where vols: "ps_volumes ?node = node_volumes
      (fst (runtime_socket (or_default (na_runtime (ka_node (k8s_agent cr))) ''containerd''))) h"
    using node_template_parts(3) by blast
  have "pod_volumes_ok (addDcgmExporterToNodeAgent ?node cr)"
    by (rule add_dcgm_ok [OF node_pod_ok])
      (simp_all add: names_map vols node_volumes_names runtime_socket_not_gpu [symmetric])
  moreover have "map ct_name (ps_containers ?node) = [''whatap-node-helper'', ''whatap-node-agent'']"
    by (simp add: node_template_parts node_helper_container_def node_agent_container_def Let_def)
  moreover from this have "distinct (map ct_name (ps_containers (addDcgmExporterToNodeAgent ?node cr)))"
    unfolding dcgm_pod_parts map_append
    by (simp add: dcgm_container_fields split: option.split)
  ultimately show ?thesis by (simp add: Let_def master_pod_ok node_pod_ok)
qed

section \<open>Labels and the selector\<close>

lemma master_labels:
  "pt_labels (wl_template (getMasterAgentDeploymentSpec img res cr)) =
     pod_labels [(''name'', ''whatap-master-agent'')] (ma_pod_labels (ka_master (k8s_agent cr)))"
  "wl_selector (getMasterAgentDeploymentSpec img res cr) = [(''name'', ''whatap-master-agent'')]"
  by (simp_all add: getMasterAgentDeploymentSpec_def Let_def)

lemma node_labels:
  "pt_labels (wl_template (getNodeAgentDaemonSetSpec img res cr ds dcgm)) =
     pod_labels (if dcgm then [(''name'', ds), (''whatap-gpu'', ''true'')] else [(''name'', ds)])
       (na_pod_labels (ka_node (k8s_agent cr)))"
  "wl_selector (getNodeAgentDaemonSetSpec img res cr ds dcgm) = [(''name'', ds)]"
  by (simp_all add: getNodeAgentDaemonSetSpec_def Let_def split_beta)

lemma pod_labels_get:
  assumes "distinct (map fst (entries custom))"
  shows "mget (pod_labels base custom) k =
           (case mget custom k of Some v \<Rightarrow> Some v | None \<Rightarrow> map_of base k)"
  using assms by (simp add: pod_labels_def mget_def map_of_overlay map_add_def)

definition selector_matches :: "workload \<Rightarrow> bool" where
  "selector_matches w \<longleftrightarrow>
     (\<forall>(k, v)\<in>set (wl_selector w). mget (pt_labels (wl_template w)) k = Some v)"

text \<open>The selector of each workload matches its own pods, which the API server requires, if and
  only if the custom pod labels leave the label \<open>name\<close> alone or repeat its value: custom labels
  are laid over the operator's, including the one it selects by.\<close>

theorem selector_matches_iff:
  assumes "distinct (map fst (entries (ma_pod_labels (ka_master (k8s_agent cr)))))"
    and "distinct (map fst (entries (na_pod_labels (ka_node (k8s_agent cr)))))"
  shows "(selector_matches (getMasterAgentDeploymentSpec img res cr) \<longleftrightarrow>
            mget (ma_pod_labels (ka_master (k8s_agent cr))) ''name'' \<in>
              {None, Some ''whatap-master-agent''}) \<and>
         (selector_matches (getNodeAgentDaemonSetSpec img res cr ds dcgm) \<longleftrightarrow>
            mget (na_pod_labels (ka_node (k8s_agent cr))) ''name'' \<in> {None, Some ds})"
  unfolding selector_matches_def master_labels node_labels
  by (auto simp: pod_labels_get [OF assms(1)] pod_labels_get [OF assms(2)] split: option.splits)


section \<open>Updates of an agent that exists\<close>

definition update_master ::
  "(container_map \<Rightarrow> container_map) \<Rightarrow> whatap_agent \<Rightarrow> pod_template option \<Rightarrow> pod_template" where
  "update_master rng cr existing =
     (let ka = k8s_agent cr
      in reconcile_template (master_adapt (ka_master ka)) (\<lambda>_. False) rng
           (wl_template (getMasterAgentDeploymentSpec (agent_image ka)
              (agent_resources (ma_resources (ka_master ka))) cr)) existing)"

text \<open>A container-level resource setting of the master agent never reaches a Deployment that
  exists: while the component-level resources are empty, an update keeps the resources the
  container has in the cluster, whatever \<open>masterAgentContainer.resources\<close> says.\<close>

theorem update_ignores_container_resources:
  assumes "isResourceEmpty (ma_resources (ka_master (k8s_agent cr)))"
    and old: "distinct (map ct_name (ps_containers (pt_spec old)))"
    and e: "e \<in> set (ps_containers (pt_spec old))" "ct_name e = ''whatap-master-agent''"
    and rng: "\<And>m. mset (rng m) = mset m"
    and c: "c \<in> set (ps_containers (pt_spec (update_master rng cr (Some old))))"
      "ct_name c = ''whatap-master-agent''"
  shows "ct_resources c = ct_resources e"
proof -
  let ?spec = "ka_master (k8s_agent cr)"
  let ?new = "ps_containers (pt_spec (wl_template (getMasterAgentDeploymentSpec
    (agent_image (k8s_agent cr)) (agent_resources (ma_resources ?spec)) cr)))"
  have name: "map ct_name ?new = [''whatap-master-agent'']"
    by (simp add: getMasterAgentDeploymentSpec_def Let_def)
  then have new: "distinct (map ct_name ?new)" "ct_name ` set ?new = {''whatap-master-agent''}"
    by (simp_all only: distinct.simps list.set set_map [symmetric] empty_iff simp_thms)
  have adapt: "ct_resources (master_adapt ?spec n x) = ct_resources x" for n x
    using assms(1) by (simp add: master_adapt_def keep_resources_def)
  have "c \<in> set (merge_containers (master_adapt ?spec) (\<lambda>_. False) rng ?new
      (ps_containers (pt_spec old)))"
    using c(1) by (simp only: update_master_def Let_def updated_containers)
  then consider n x where "x \<in> set (ps_containers (pt_spec old))" "ct_name n = ct_name x"
      "c = master_adapt ?spec (applyContainerDefaults n) x"
    | "ct_name c \<notin> ct_name ` set ?new"
    | n where "c = applyContainerDefaults n" "ct_name n \<notin> ct_name ` set (ps_containers (pt_spec old))"
    unfolding master.set_merge [OF new(1) old rng] by blast
  then show ?thesis
  proof cases
    case (1 n x)
    then have "ct_name x = ct_name e" using c(2) e(2) by simp
    with 1(1) e(1) old have "x = e" by (metis distinct_map inj_onD)
    with 1 show ?thesis by (simp add: adapt)
  next
    case 2
    with c(2) new(2) show ?thesis by simp
  next
    case (3 n)
    with c(2) e show ?thesis by (metis defaults_name image_eqI)
  qed
qed

definition update_node ::
  "(container_map \<Rightarrow> container_map) \<Rightarrow> whatap_agent \<Rightarrow> string \<Rightarrow> bool \<Rightarrow>
     (pod_spec \<Rightarrow> pod_spec) \<Rightarrow> pod_template option \<Rightarrow> pod_template" where
  "update_node rng cr dsName includeDcgm place existing =
     (let ka = k8s_agent cr;
          tmpl = wl_template (getNodeAgentDaemonSetSpec (agent_image ka)
            (agent_resources (na_resources (ka_node ka))) cr dsName includeDcgm);
          spec = place (pt_spec tmpl);
          spec = (if includeDcgm then addDcgmExporterToNodeAgent spec cr else spec)
      in reconcile_template (node_adapt (ka_node ka)) operatorManagedContainers rng
           (tmpl\<lparr>pt_spec := spec\<rparr>) existing)"

text \<open>A DaemonSet that once carried the GPU exporter keeps the pod label \<open>whatap-gpu\<close> after the
  exporter is taken out of it: the Service and the scrape target that select by this label go
  on selecting pods in which no exporter runs.\<close>

theorem gpu_label_outlives_exporter:
  assumes "mget (pt_labels old) ''whatap-gpu'' = Some ''true''"
    and "distinct (map fst (entries (na_pod_labels (ka_node (k8s_agent cr)))))"
    and "mget (na_pod_labels (ka_node (k8s_agent cr))) ''whatap-gpu'' = None"
    and old: "distinct (map ct_name (ps_containers (pt_spec old)))"
    and rng: "\<And>m. mset (rng m) = mset m"
    and place: "\<And>s. ps_containers (place s) = ps_containers s"
  shows "mget (pt_labels (update_node rng cr ds False place (Some old))) ''whatap-gpu'' = Some ''true'' \<and>
         (\<forall>(k, v)\<in>set (ss_selector (sv_spec (dcgm_service_mutate (ka_gpu (k8s_agent cr)) svc))).
            mget (pt_labels (update_node rng cr ds False place (Some old))) k = Some v) \<and>
         ''dcgm-exporter'' \<notin>
           ct_name ` set (ps_containers (pt_spec (update_node rng cr ds False place (Some old))))"
proof -
  let ?t = "wl_template (getNodeAgentDaemonSetSpec (agent_image (k8s_agent cr))
    (agent_resources (na_resources (ka_node (k8s_agent cr)))) cr ds False)"
  let ?new = "ps_containers (pt_spec ?t)"
  have "mget (pt_labels ?t) ''whatap-gpu'' = None"
    using assms(3) by (simp add: node_labels pod_labels_get [OF assms(2)])
  then have label: "mget (pt_labels (update_node rng cr ds False place (Some old))) ''whatap-gpu'' =
      Some ''true''"
    unfolding update_node_def Let_def update_keeps_labels using assms(1) by simp
  have sel: "ss_selector (sv_spec (dcgm_service_mutate gpu svc)) = [(''whatap-gpu'', ''true'')]" for gpu
    by (simp add: dcgm_service_mutate_def Let_def split_beta)
  have names: "map ct_name ?new = [''whatap-node-helper'', ''whatap-node-agent'']"
    by (simp add: node_template_parts node_helper_container_def node_agent_container_def Let_def)
  then have new: "distinct (map ct_name ?new)" by simp
  have img: "ct_name ` set ?new = {''whatap-node-helper'', ''whatap-node-agent''}"
    by (simp only: set_map [symmetric] names list.set)
  have "''dcgm-exporter'' \<notin> ct_name ` set (merge_containers (node_adapt (ka_node (k8s_agent cr)))
      operatorManagedContainers rng ?new (ps_containers (pt_spec old)))"
    unfolding node.merged_name_set [OF new old rng] img by (simp add: operatorManagedContainers_def)
  then have "''dcgm-exporter'' \<notin>
      ct_name ` set (ps_containers (pt_spec (update_node rng cr ds False place (Some old))))"
    unfolding update_node_def Let_def updated_containers by (simp add: place)
  with label sel show ?thesis by simp
qed


section \<open>Concrete agents\<close>

lemma host_engine_port_agrees_witness:
  "map cp_container_port (ct_ports (host_engine_container
     \<lparr>he_enabled = True, he_custom_image_full_name = '''', he_port = 6666,
      he_resources = no_resources\<rparr>)) = [6666]"
proof -
  let ?he = "\<lparr>he_enabled = True, he_custom_image_full_name = '''', he_port = 6666,
      he_resources = no_resources\<rparr>"
  have "host_engine (zero_gpu\<lparr>gpu_host_engine := Some ?he\<rparr>) = Some ?he"
    "RemoteHostEngine \<notin> names ev_name (gpu_envs (zero_gpu\<lparr>gpu_host_engine := Some ?he\<rparr>))"
    by (simp_all add: host_engine_def zero_gpu_def)
  from host_engine_port_agrees [OF this] show ?thesis by (simp add: host_engine_port_def)
qed

lemma selector_matches_iff_witness:
  "selector_matches (getMasterAgentDeploymentSpec ''i'' no_resources zero_agent)"
proof -
  have "ma_pod_labels (ka_master (k8s_agent zero_agent)) = None"
    "na_pod_labels (ka_node (k8s_agent zero_agent)) = None"
    by (simp_all add: zero_agent_def zero_k8s_agent_def zero_master_def zero_node_def)
  with selector_matches_iff [of zero_agent "''i''" no_resources] show ?thesis by simp
qed

abbreviation sample_old_master :: container where
  "sample_old_master \<equiv> zero_container\<lparr>ct_name := ''whatap-master-agent'',
     ct_resources := no_resources\<lparr>rr_limits := Some [(''memory'', ''1Gi'')]\<rparr>\<rparr>"

lemma master_container_names:
  "map ct_name (ps_containers (pt_spec (wl_template (getMasterAgentDeploymentSpec img res cr)))) =
     [''whatap-master-agent'']"
  by (simp add: getMasterAgentDeploymentSpec_def Let_def)

lemma update_ignores_container_resources_witness:
  "ct_resources (hd (ps_containers (pt_spec (update_master id zero_agent
       (Some (sample_template [sample_old_master])))))) = ct_resources sample_old_master"
proof -
  let ?old = "sample_template [sample_old_master]"
  let ?new = "ps_containers (pt_spec (wl_template (getMasterAgentDeploymentSpec
    (agent_image (k8s_agent zero_agent))
    (agent_resources (ma_resources (ka_master (k8s_agent zero_agent)))) zero_agent)))"
  let ?result = "ps_containers (pt_spec (update_master id zero_agent (Some ?old)))"
  have d: "distinct (map ct_name ?new)" "distinct (map ct_name (ps_containers (pt_spec ?old)))"
    by (simp_all only: master_container_names sample_template_facts distinct_singleton)
  have "ct_name ` set ?new = {''whatap-master-agent''}"
    by (simp only: set_map [symmetric] master_container_names list.set)
  then have "map ct_name (filter (\<lambda>e. ct_name e \<in> ct_name ` set ?new \<or> \<not> (\<lambda>_. False) (ct_name e))
      (ps_containers (pt_spec ?old))) = [''whatap-master-agent'']"
    by (simp add: sample_template_facts)
  then obtain rest where names: "map ct_name ?result = ''whatap-master-agent'' # rest"
    unfolding update_master_def Let_def updated_containers master.merged_names [OF d] by simp
  then have c: "hd ?result \<in> set ?result" "ct_name (hd ?result) = ''whatap-master-agent''"
    by (cases ?result; simp)+
  have "isResourceEmpty (ma_resources (ka_master (k8s_agent zero_agent)))"
    by (simp add: zero_agent_def zero_k8s_agent_def zero_master_def no_resources_def
        isResourceEmpty_def)
  moreover have "sample_old_master \<in> set (ps_containers (pt_spec ?old))"
    by (simp add: sample_template_facts)
  moreover have "ct_name sample_old_master = ''whatap-master-agent''" by simp
  moreover have "\<And>m :: container_map. mset (id m) = mset m" by simp
  ultimately show ?thesis
    by (rule update_ignores_container_resources [where rng = id, OF _ d(2)]) (fact c)+
qed

lemma gpu_label_outlives_exporter_witness:
  "mget (pt_labels (update_node id zero_agent ''whatap-node-agent'' False (\<lambda>s. s)
     (Some ((sample_template [])\<lparr>pt_labels := Some [(''whatap-gpu'', ''true'')]\<rparr>)))) ''whatap-gpu'' =
   Some ''true''"
proof -
  let ?old = "(sample_template [])\<lparr>pt_labels := Some [(''whatap-gpu'', ''true'')]\<rparr>"
  have labels: "na_pod_labels (ka_node (k8s_agent zero_agent)) = None"
    by (simp add: zero_agent_def zero_k8s_agent_def zero_node_def)
  have "mget (pt_labels ?old) ''whatap-gpu'' = Some ''true''" by (simp add: mget_def)
  moreover have "distinct (map fst (entries (na_pod_labels (ka_node (k8s_agent zero_agent)))))"
    "mget (na_pod_labels (ka_node (k8s_agent zero_agent))) ''whatap-gpu'' = None"
    by (simp_all add: labels)
  moreover have "distinct (map ct_name (ps_containers (pt_spec ?old)))"
    by (simp add: sample_template_def zero_pod_spec_def)
  ultimately show ?thesis
    using gpu_label_outlives_exporter [where rng = id and place = "\<lambda>s. s" and old = ?old
        and cr = zero_agent and ds = "''whatap-node-agent''"] by simp
qed

end
