(* ===== verification/GpuMemCheck.thy ===== *)
theory GpuMemCheck
  imports AgentSpecs "HOL-Library.Word" "HOL-Library.Log_Nat"
begin

text \<open>
  The memory watchdog of the GPU exporter (\<open>src/internal/controller/gpu_mem_check.go\<close>): it asks
  the node agent of each GPU pod for the exporter's memory statistics and deletes the pod when
  the working set exceeds 70 percent of the limit.  The counters are 64-bit words; the ratio is
  a \<open>float64\<close> division, modelled with its rounding.  The HTTP client, the JSON decoder and
  \<open>resource.ParseQuantity\<close> are parameters.
\<close>

section \<open>Double precision\<close>

text \<open>
  IEEE round to nearest, ties to even, with 53 bits of significand.  The values here are zero
  or between \<open>2 powi -64\<close> and \<open>2 powi 64\<close>, so neither overflow nor subnormal numbers occur.
\<close>

definition round_half_even :: "rat \<Rightarrow> int" where
  "round_half_even r =
     (let f = \<lfloor>r\<rfloor>; d = r - of_int f
      in if d < 1 / 2 then f else if 1 / 2 < d then f + 1 else if even f then f else f + 1)"

definition double_exp :: "rat \<Rightarrow> int" where
  "double_exp q =
     (case quotient_of q of (a, b) \<Rightarrow>
        let d = bitlen a - bitlen b in if 2 powi d \<le> q then d else d - 1)"

definition round_double :: "rat \<Rightarrow> rat" where
  "round_double q =
     (if q = 0 then 0
      else let s = 2 powi (double_exp q - 52) in of_int (round_half_even (q / s)) * s)"

definition float64 :: "64 word \<Rightarrow> rat" where
  "float64 w = round_double (of_nat (unat w))"

text \<open>The constant \<open>0.7\<close> of the source is a \<open>float64\<close> too.\<close>

definition exceeds :: "64 word \<Rightarrow> 64 word \<Rightarrow> bool" where
  "exceeds workingSet limit \<longleftrightarrow>
     round_double (float64 workingSet / float64 limit) > round_double (7 / 10)"

section \<open>The kubelet's answers\<close>

record memory_stats_details =
  md_inactive_file :: "64 word"
  md_rss :: "64 word"

record memory_stats =
  ms_usage :: "64 word"
  ms_limit :: "64 word"
  ms_stats :: memory_stats_details

record container_meta =
  cm_id :: string
  cm_memory_limit :: string

text \<open>
  The parameters: creating a request may fail on a malformed URL, sending it fails or gives a
  status code and a body.  \<open>Value()\<close> of a quantity is an \<open>int64\<close>; its conversion to \<open>uint64\<close>
  keeps the 64 bits.
\<close>

record node_api =
  api_new_request :: "string \<Rightarrow> string option"
  api_do :: "string \<Rightarrow> string + int \<times> string"
  api_decode_stats :: "string \<Rightarrow> string + memory_stats"
  api_decode_containers :: "string \<Rightarrow> string + container_meta list"
  api_parse_quantity :: "string \<Rightarrow> string + 64 word"

text \<open>The part the two requests share, as far as the body.\<close>

definition http_get :: "node_api \<Rightarrow> string \<Rightarrow> string + string" where
  "http_get api url =
     (case api_new_request api url of
        Some err \<Rightarrow> Inl err
      | None \<Rightarrow>
          (case api_do api url of
             Inl err \<Rightarrow> Inl err
           | Inr (status, body) \<Rightarrow>
               if status \<noteq> 200 then Inl (''unexpected status code: '' @ itoa status)
               else Inr body))"

definition working_set :: "memory_stats \<Rightarrow> 64 word" where
  "working_set stats =
     (if ms_usage stats > md_inactive_file (ms_stats stats)
      then ms_usage stats - md_inactive_file (ms_stats stats) else 0)"

definition getMemoryStats :: "node_api \<Rightarrow> string \<Rightarrow> string \<Rightarrow> string + 64 word \<times> 64 word" where
  "getMemoryStats api podIP containerID =
     (case http_get api (''http://'' @ podIP @ '':6801/container/'' @ containerID @ ''/stats'') of
        Inl err \<Rightarrow> Inl err
      | Inr body \<Rightarrow>
          (case api_decode_stats api body of
             Inl err \<Rightarrow> Inl err
           | Inr stats \<Rightarrow> Inr (working_set stats, ms_limit stats)))"

fun limit_loop :: "node_api \<Rightarrow> string \<Rightarrow> container_meta list \<Rightarrow> string + 64 word" where
  "limit_loop api containerID [] = Inl ''container not found in metadata''"
| "limit_loop api containerID (c # cs) =
     (if cm_id c = containerID then
        (if cm_memory_limit c = '''' \<or> cm_memory_limit c = ''0'' then Inr 0
         else case api_parse_quantity api (cm_memory_limit c) of
                Inl err \<Rightarrow> Inl (''failed to parse memory limit '' @ [CHR 0x27] @
                                cm_memory_limit c @ [CHR 0x27] @ '': '' @ err)
              | Inr v \<Rightarrow> Inr v)
      else limit_loop api containerID cs)"

definition getContainerLimit :: "node_api \<Rightarrow> string \<Rightarrow> string \<Rightarrow> string + 64 word" where
  "getContainerLimit api podIP containerID =
     (case http_get api (''http://'' @ podIP @ '':6801/container'') of
        Inl err \<Rightarrow> Inl err
      | Inr body \<Rightarrow>
          (case api_decode_containers api body of
             Inl err \<Rightarrow> Inl err
           | Inr containers \<Rightarrow> limit_loop api containerID containers))"

section \<open>Pods\<close>

record gpu_pod =
  gp_name :: string
  gp_namespace :: string
  gp_deleting :: bool
  gp_phase :: string
  gp_statuses :: "(string \<times> string) list"
  gp_ip :: string

text \<open>The part after the first \<open>://\<close>, if there is one.\<close>

fun after_scheme :: "string \<Rightarrow> string option" where
  "after_scheme [] = None"
| "after_scheme (c # cs) =
     (if take 3 (c # cs) = ''://'' then Some (drop 3 (c # cs)) else after_scheme cs)"

definition strip_scheme :: "string \<Rightarrow> string" where
  "strip_scheme containerID =
     (case after_scheme containerID of None \<Rightarrow> containerID | Some rest \<Rightarrow> rest)"

definition exporter_id :: "gpu_pod \<Rightarrow> string" where
  "exporter_id pod =
     (case find (\<lambda>s. fst s = ''dcgm-exporter'') (gp_statuses pod) of
        None \<Rightarrow> '''' | Some s \<Rightarrow> snd s)"

text \<open>The deletions requested; whether the API server grants them is only logged.\<close>

definition checkPod :: "node_api \<Rightarrow> gpu_pod \<Rightarrow> (string \<times> string) list" where
  "checkPod api pod =
     (if gp_deleting pod then []
      else if gp_phase pod \<noteq> ''Running'' then []
      else if exporter_id pod = '''' then []
      else
        (let containerID = strip_scheme (exporter_id pod)
         in case getMemoryStats api (gp_ip pod) containerID of
              Inl _ \<Rightarrow> []
            | Inr (workingSet, _) \<Rightarrow>
                (case getContainerLimit api (gp_ip pod) containerID of
                   Inl _ \<Rightarrow> []
                 | Inr limit \<Rightarrow>
                     if limit = 0 then []
                     else if exceeds workingSet limit then [(gp_namespace pod, gp_name pod)]
                     else [])))"

text \<open>The pods with the label \<open>whatap-gpu=true\<close> in all namespaces, or the error of listing them.\<close>

definition checkGpuPods :: "node_api \<Rightarrow> string + gpu_pod list \<Rightarrow> (string \<times> string) list" where
  "checkGpuPods api reply =
     (case reply of Inl _ \<Rightarrow> [] | Inr pods \<Rightarrow> concat (map (checkPod api) pods))"

text \<open>What \<open>select\<close> delivers to the loop, in the order it picks: the end of the context or a tick,
  with what listing the pods and asking the nodes gives at that time.\<close>

datatype wake_up = ContextDone | Tick node_api "string + gpu_pod list"

fun watch :: "wake_up list \<Rightarrow> (string \<times> string) list" where
  "watch [] = []"
| "watch (ContextDone # _) = []"
| "watch (Tick api reply # rest) = checkGpuPods api reply @ watch rest"

section \<open>Rounding\<close>

lemma round_half_even_of_int [simp]: "round_half_even (of_int n) = n"
  by (simp add: round_half_even_def)

lemma round_half_even_ge: "of_int n \<le> r \<Longrightarrow> n \<le> round_half_even r"
proof -
  assume "of_int n \<le> r"
  then have "n \<le> \<lfloor>r\<rfloor>" by (simp add: le_floor_iff)
  then show ?thesis by (simp add: round_half_even_def Let_def)
qed

lemma round_half_even_le:
  assumes "r \<le> of_int n"
  shows "round_half_even r \<le> n"
proof (cases "r = of_int n")
  case False
  then have "\<lfloor>r\<rfloor> < n" using assms by (simp add: floor_less_iff)
  then show ?thesis by (simp add: round_half_even_def Let_def)
qed simp

lemma round_half_even_gt:
  assumes "even n"
  shows "n < round_half_even r \<longleftrightarrow> of_int n + 1 / 2 < r"
proof -
  have f: "of_int \<lfloor>r\<rfloor> \<le> r" "r < of_int \<lfloor>r\<rfloor> + 1" using floor_correct [of r] by simp_all
  consider "\<lfloor>r\<rfloor> < n" | "\<lfloor>r\<rfloor> = n" | "n < \<lfloor>r\<rfloor>" by linarith
  then show ?thesis
  proof cases
    case 1
    then have "of_int \<lfloor>r\<rfloor> + 1 \<le> (of_int n :: rat)" by linarith
    then have "r \<le> of_int n" using f by linarith
    then show ?thesis using round_half_even_le [of r n] by simp
  next
    case 2
    then show ?thesis using assms f by (auto simp: round_half_even_def Let_def)
  next
    case 3
    then have "of_int n + 1 \<le> (of_int \<lfloor>r\<rfloor> :: rat)" by linarith
    then have "of_int n + 1 \<le> r" using f(1) by (rule order_trans)
    then have "of_int (n + 1) \<le> r" by simp
    then show ?thesis using round_half_even_ge [of "n + 1" r] by auto
  qed
qed

lemma powi_less: "(2::rat) powi m < 2 powi n \<longleftrightarrow> m < n"
  using power_int_strict_increasing [of m n "2::rat"] power_int_increasing [of n m "2::rat"]
  by (cases "m < n") auto

lemma powi_le: "(2::rat) powi m \<le> 2 powi n \<longleftrightarrow> m \<le> n"
  using powi_less [of n m] by linarith

lemma bitlen_powi:
  assumes "0 < (a::int)"
  shows "(2::rat) powi (bitlen a - 1) \<le> of_int a" and "of_int a < (2::rat) powi bitlen a"
proof -
  have "bitlen a \<noteq> 0" using assms by (simp add: bitlen_eq_zero_iff)
  then have b: "0 < bitlen a" using bitlen_nonneg [of a] by linarith
  have bounds: "2 ^ nat (bitlen a - 1) \<le> a" "a < 2 ^ nat (bitlen a)"
    using bitlen_bounds [OF assms] by simp_all
  have "of_int (2 ^ nat (bitlen a - 1)) \<le> (of_int a :: rat)" using bounds(1) by (simp only: of_int_le_iff)
  then show "(2::rat) powi (bitlen a - 1) \<le> of_int a" using b by (simp add: power_int_def)
  have "of_int a < (of_int (2 ^ nat (bitlen a)) :: rat)" using bounds(2) by (simp only: of_int_less_iff)
  then show "of_int a < (2::rat) powi bitlen a" using b by (simp add: power_int_def)
qed

lemma double_exp_bounds:
  assumes "0 < q"
  shows "2 powi double_exp q \<le> q" and "q < 2 powi (double_exp q + 1)"
proof -
  obtain a b where ab: "quotient_of q = (a, b)" by (cases "quotient_of q")
  have b: "0 < b" using quotient_of_denom_pos [OF ab] .
  have q: "q = of_int a / of_int b" using quotient_of_div [OF ab] .
  have a: "0 < a" using assms b by (simp add: q zero_less_divide_iff)
  let ?d = "bitlen a - bitlen b"
  have split: "(2::rat) powi (i - j) = 2 powi i / 2 powi j" for i j :: int
    by (rule power_int_diff) simp
  have "of_int a / of_int b < (2::rat) powi bitlen a / 2 powi (bitlen b - 1)"
    by (rule frac_less) (use a bitlen_powi [OF a] bitlen_powi [OF b] in simp_all)
  also have "\<dots> = 2 powi (?d + 1)" by (simp add: split [symmetric] algebra_simps)
  finally have up: "q < 2 powi (?d + 1)" by (simp add: q)
  have "(2::rat) powi (bitlen a - 1) / 2 powi bitlen b \<le> of_int a / of_int b"
    by (rule frac_le) (use a b bitlen_powi [OF a] bitlen_powi [OF b] in \<open>simp_all add: less_imp_le\<close>)
  then have low: "2 powi (?d - 1) \<le> q" by (simp add: q split [symmetric] algebra_simps)
  show "2 powi double_exp q \<le> q" using low by (simp add: double_exp_def ab Let_def)
  show "q < 2 powi (double_exp q + 1)" using up by (simp add: double_exp_def ab Let_def)
qed

lemma double_exp_unique:
  assumes "2 powi e \<le> q" and "q < 2 powi (e + 1)"
  shows "double_exp q = e"
proof -
  have "0 < q" using assms(1) by (rule less_le_trans [rotated]) simp
  note b = double_exp_bounds [OF this]
  have "(2::rat) powi double_exp q < 2 powi (e + 1)" "(2::rat) powi e < 2 powi (double_exp q + 1)"
    using b assms by linarith+
  then have "double_exp q < e + 1" "e < double_exp q + 1" by (simp_all only: powi_less)
  then show ?thesis by simp
qed

text \<open>Integers below \<open>2 ^ 53\<close> are doubles.\<close>

lemma round_double_nat:
  assumes "n < 2 ^ 53"
  shows "round_double (of_nat n) = of_nat n"
proof (cases "n = 0")
  case False
  let ?e = "double_exp (of_nat n)"
  have pos: "(0::rat) < of_nat n" using False by simp
  have "(2::rat) powi ?e \<le> of_nat n" using double_exp_bounds(1) [OF pos] .
  also have "\<dots> < of_nat (2 ^ 53)" using assms by (simp only: of_nat_less_iff)
  also have "\<dots> = (2::rat) powi 53" by simp
  finally have e: "?e \<le> 52" by (simp only: powi_less)
  have "(2::rat) powi (?e - 52) * 2 ^ nat (52 - ?e) = 2 powi (?e - 52 + (52 - ?e))"
    using e by (subst power_int_add) (simp_all add: power_int_def)
  then have "of_nat n / (2::rat) powi (?e - 52) = of_int (int n * 2 ^ nat (52 - ?e))"
    by (simp add: field_simps)
  then have "round_half_even (of_nat n / 2 powi (?e - 52)) = int n * 2 ^ nat (52 - ?e)"
    by (simp only: round_half_even_of_int)
  then show ?thesis
    using pos \<open>(2::rat) powi (?e - 52) * 2 ^ nat (52 - ?e) = 2 powi (?e - 52 + (52 - ?e))\<close>
    by (simp add: round_double_def Let_def mult_ac)
qed (simp add: round_double_def)

text \<open>Where the quotient lies decides where its double lies.\<close>

lemma round_double_big:
  assumes "1 \<le> q"
  shows "1 \<le> round_double q"
proof -
  let ?e = "double_exp q"
  have q: "0 < q" using assms by simp
  have "(2::rat) powi 0 < 2 powi (?e + 1)" using assms double_exp_bounds(2) [OF q] by simp
  then have e: "0 \<le> ?e" by (simp only: powi_less)
  have "(2::rat) powi ?e / 2 powi (?e - 52) = 2 powi (?e - (?e - 52))"
    by (rule power_int_diff [symmetric]) simp
  then have "(of_int (2 ^ 52) :: rat) \<le> q / 2 powi (?e - 52)"
    using divide_right_mono [OF double_exp_bounds(1) [OF q], of "2 powi (?e - 52)"] by simp
  then have "2 ^ 52 \<le> round_half_even (q / 2 powi (?e - 52))" by (rule round_half_even_ge)
  then have "(of_int (2 ^ 52) :: rat) \<le> of_int (round_half_even (q / 2 powi (?e - 52)))"
    by (simp only: of_int_le_iff)
  then have "of_int (2 ^ 52) * 2 powi (?e - 52) \<le> round_double q"
    using q by (simp add: round_double_def Let_def)
  moreover have "of_int (2 ^ 52) * (2::rat) powi (?e - 52) = 2 powi (52 + (?e - 52))"
    by (subst power_int_add) simp_all
  moreover have "(2::rat) powi 0 \<le> 2 powi ?e" using e by (simp only: powi_le)
  ultimately show ?thesis by simp
qed

lemma round_double_small:
  assumes "0 \<le> q" and "q < 1 / 2"
  shows "round_double q \<le> 1 / 2"
proof (cases "q = 0")
  case False
  let ?e = "double_exp q"
  have q: "0 < q" using assms False by simp
  have "(2::rat) powi ?e < 2 powi (-1)" using assms(2) double_exp_bounds(1) [OF q]
    by (simp add: power_int_minus)
  then have e: "?e \<le> -2" by (simp only: powi_less)
  have "q / 2 powi (?e - 52) \<le> 2 powi (?e + 1) / 2 powi (?e - 52)"
    using double_exp_bounds(2) [OF q] by (intro divide_right_mono) simp_all
  also have "\<dots> = 2 powi (?e + 1 - (?e - 52))" by (rule power_int_diff [symmetric]) simp
  also have "\<dots> = of_int (2 ^ 53)" by simp
  finally have "round_half_even (q / 2 powi (?e - 52)) \<le> 2 ^ 53" by (rule round_half_even_le)
  then have "(of_int (round_half_even (q / 2 powi (?e - 52))) :: rat) \<le> of_int (2 ^ 53)"
    by (simp only: of_int_le_iff)
  then have "round_double q \<le> of_int (2 ^ 53) * 2 powi (?e - 52)"
    using q by (simp add: round_double_def Let_def)
  also have "of_int (2 ^ 53) * (2::rat) powi (?e - 52) = 2 powi (53 + (?e - 52))"
    by (subst power_int_add) simp_all
  also have "\<dots> \<le> 2 powi (-1)" using e by (simp only: powi_le)
  finally show ?thesis by (simp add: power_int_minus)
qed (simp add: round_double_def)

lemma round_double_half_one:
  assumes "1 / 2 \<le> q" and "q < 1"
  shows "round_double q = of_int (round_half_even (q * 2 ^ 53)) / 2 ^ 53"
proof -
  have "double_exp q = -1"
    by (rule double_exp_unique) (use assms in \<open>simp_all add: power_int_minus\<close>)
  then show ?thesis using assms by (simp add: round_double_def Let_def power_int_minus)
qed

text \<open>The double nearest to 0.7 lies just below it.\<close>

lemma seven_tenths: "round_double (7 / 10) = 6305039478318694 / 2 ^ 53"
proof -
  have "round_half_even (7 / 10 * 2 ^ 53) = 6305039478318694"
  proof -
    have "\<lfloor>7 / 10 * 2 ^ 53 :: rat\<rfloor> = 6305039478318694" by (rule floor_unique) simp_all
    then show ?thesis unfolding round_half_even_def Let_def by simp
  qed
  then show ?thesis by (simp add: round_double_half_one)
qed

lemma above_seven_tenths:
  assumes "0 \<le> q"
  shows "round_double (7 / 10) < round_double q \<longleftrightarrow> 12610078956637389 / 2 ^ 54 < q"
proof -
  consider "q < 1 / 2" | "1 / 2 \<le> q" "q < 1" | "1 \<le> q" by linarith
  then show ?thesis
  proof cases
    case 1
    then show ?thesis using round_double_small [OF assms 1] by (simp add: seven_tenths)
  next
    case 2
    have "round_double (7 / 10) < round_double q \<longleftrightarrow> 6305039478318694 < round_half_even (q * 2 ^ 53)"
      unfolding seven_tenths round_double_half_one [OF 2]
      using of_int_less_iff [of 6305039478318694 "round_half_even (q * 2 ^ 53)", where 'a = rat]
      by (simp add: divide_less_cancel)
    also have "\<dots> \<longleftrightarrow> of_int 6305039478318694 + 1 / 2 < q * 2 ^ 53"
      by (rule round_half_even_gt) simp
    finally show ?thesis by (simp add: mult.commute)
  next
    case 3
    then show ?thesis using round_double_big [OF 3] by (simp add: seven_tenths)
  qed
qed

section \<open>The decision\<close>

lemma float64_exact: "unat w < 2 ^ 53 \<Longrightarrow> float64 w = of_nat (unat w)"
  by (simp only: float64_def round_double_nat)

lemma ratio_above:
  assumes "0 < m" and "m < 2 ^ 53"
  shows "12610078956637389 / 2 ^ 54 < (of_nat n / of_nat m :: rat) \<longleftrightarrow> 7 * m < 10 * n"
proof -
  have "12610078956637389 / 2 ^ 54 < (of_nat n / of_nat m :: rat) \<longleftrightarrow>
      (of_nat (12610078956637389 * m) :: rat) < of_nat (2 ^ 54 * n)"
    using assms(1) by (simp add: field_simps)
  also have "\<dots> \<longleftrightarrow> 12610078956637389 * m < 2 ^ 54 * n" by (simp only: of_nat_less_iff)
  also have "\<dots> \<longleftrightarrow> 7 * m < 10 * n"
  proof (cases "7 * m < 10 * n")
    case True
    then have "7 * m + 1 \<le> 10 * n" by simp
    with True assms(2) show ?thesis by simp
  next
    case False
    then show ?thesis using assms by simp
  qed
  finally show ?thesis .
qed

lemma exceeds_exact_lemma:
  assumes "unat workingSet < 2 ^ 53" and "unat limit < 2 ^ 53" and "limit \<noteq> 0"
  shows "exceeds workingSet limit \<longleftrightarrow> 7 * unat limit < 10 * unat workingSet"
proof -
  have l: "0 < unat limit" using assms(3) by (simp add: unat_gt_0)
  have "exceeds workingSet limit \<longleftrightarrow>
      12610078956637389 / 2 ^ 54 < (of_nat (unat workingSet) / of_nat (unat limit) :: rat)"
    unfolding exceeds_def float64_exact [OF assms(1)] float64_exact [OF assms(2)]
    by (rule above_seven_tenths) (intro divide_nonneg_nonneg of_nat_0_le_iff)
  also have "\<dots> \<longleftrightarrow> 7 * unat limit < 10 * unat workingSet" by (rule ratio_above [OF l assms(2)])
  finally show ?thesis .
qed



text \<open>C36. The working set never wraps around: it is the truncated difference of the counters and at
  most the usage, also when more inactive cache is reported than usage.\<close>

theorem working_set_bounds:
  "unat (working_set stats) = unat (ms_usage stats) - unat (md_inactive_file (ms_stats stats)) \<and>
   working_set stats \<le> ms_usage stats"
proof (cases "md_inactive_file (ms_stats stats) < ms_usage stats")
  case True
  then have "unat (md_inactive_file (ms_stats stats)) \<le> unat (ms_usage stats)"
    by (simp add: word_less_nat_alt)
  with True show ?thesis
    by (simp add: working_set_def unat_sub word_le_nat_alt)
next
  case False
  then show ?thesis by (simp add: working_set_def word_less_nat_alt)
qed

text \<open>
  What the node has to answer for a pod to be deleted: statistics, and a limit for the same
  container, that show the excess.
\<close>

definition reported ::
  "node_api \<Rightarrow> gpu_pod \<Rightarrow> 64 word \<Rightarrow> 64 word \<Rightarrow> bool" where
  "reported api pod workingSet limit \<longleftrightarrow>
     (\<exists>m. getMemoryStats api (gp_ip pod) (strip_scheme (exporter_id pod)) = Inr (workingSet, m)) \<and>
     getContainerLimit api (gp_ip pod) (strip_scheme (exporter_id pod)) = Inr limit"

lemma checkPod_iff:
  "d \<in> set (checkPod api pod) \<longleftrightarrow>
     d = (gp_namespace pod, gp_name pod) \<and> \<not> gp_deleting pod \<and> gp_phase pod = ''Running'' \<and>
     exporter_id pod \<noteq> '''' \<and>
     (\<exists>w l. reported api pod w l \<and> l \<noteq> 0 \<and> exceeds w l)"
proof (cases "getMemoryStats api (gp_ip pod) (strip_scheme (exporter_id pod))")
  case (Inr r)
  then show ?thesis
    by (cases "getContainerLimit api (gp_ip pod) (strip_scheme (exporter_id pod))"; cases r)
      (auto simp: checkPod_def reported_def)
qed (auto simp: checkPod_def reported_def)


section \<open>Witness\<close>

definition sample_node_api :: node_api where
  "sample_node_api =
     \<lparr>api_new_request = (\<lambda>url. None), api_do = (\<lambda>url. Inr (200, url)),
      api_decode_stats = (\<lambda>body. Inr \<lparr>ms_usage = 900, ms_limit = 0,
        ms_stats = \<lparr>md_inactive_file = 100, md_rss = 0\<rparr>\<rparr>),
      api_decode_containers = (\<lambda>body. Inr [\<lparr>cm_id = ''abc'', cm_memory_limit = ''1k''\<rparr>]),
      api_parse_quantity = (\<lambda>s. Inr 1000)\<rparr>"

definition sample_gpu_pod :: gpu_pod where
  "sample_gpu_pod =
     \<lparr>gp_name = ''p'', gp_namespace = ''n'', gp_deleting = False, gp_phase = ''Running'',
      gp_statuses = [(''dcgm-exporter'', ''containerd://abc'')], gp_ip = ''10.0.0.7''\<rparr>"

lemma sample_reported:
  "reported sample_node_api pod w l \<Longrightarrow> w = 800 \<and> (l = 1000 \<or> l = 0)"
  by (auto simp: reported_def sample_node_api_def getMemoryStats_def getContainerLimit_def
      http_get_def working_set_def split: if_splits)



end
