(* ===== verification/ScrapeConfig.thy ===== *)
theory ScrapeConfig
  imports Samples "HOL-Library.Char_ord" "HOL-Library.List_Lexorder"
begin

text \<open>
  The open agent's scrape configuration: \<open>generateScrapeConfig\<close> and its converters
  (\<open>src/internal/controller/install_agents.go\<close>).  The source builds untyped values
  (\<open>interface{}\<close>) and orders their maps before it marshals them; \<open>yv\<close> has one constructor for
  each dynamic type that occurs.  A \<open>map\<close> literal that is filled key by key is the list of its
  entries, optional ones in place.  \<open>yaml.Marshal\<close> is a parameter.  Strings are taken to be
  ASCII, so that a byte, a rune and a \<open>char\<close> are the same.
\<close>

section \<open>Untyped values and their order\<close>

datatype yv =
    YStr string
  | YBool bool
  | YNat nat
  | YStrs "string list"
  | YList "yv list"
  | YMap "(string \<times> yv) list"
  | YStrMap "(string \<times> string) list"
  | YStrsMap "(string \<times> string list) list"
  | YSlice "(string \<times> yv) list"

text \<open>
  \<open>sort.Strings(keys)\<close> and the loop that appends \<open>{k, x[k]}\<close>: the entries in the order of
  their keys.
\<close>

fun toOrderedYAML :: "yv \<Rightarrow> yv" where
  "toOrderedYAML (YMap es) = YSlice (sort_key fst (map (\<lambda>(k, v). (k, toOrderedYAML v)) es))"
| "toOrderedYAML (YStrMap es) = YSlice (sort_key fst (map (\<lambda>(k, v). (k, YStr v)) es))"
| "toOrderedYAML (YStrsMap es) = YSlice (sort_key fst (map (\<lambda>(k, v). (k, YStrs v)) es))"
| "toOrderedYAML (YList vs) = YList (map toOrderedYAML vs)"
| "toOrderedYAML v = v"

definition label_char :: "char \<Rightarrow> bool" where
  "label_char c \<longleftrightarrow>
     c \<in> {CHR ''a'' .. CHR ''z''} \<union> {CHR ''A'' .. CHR ''Z''} \<union> {CHR ''0'' .. CHR ''9''} \<union> {CHR ''_''}"

definition sanitizePromLabelName :: "string \<Rightarrow> string" where
  "sanitizePromLabelName s = map (\<lambda>c. if label_char c then c else CHR ''_'') s"

section \<open>The converters\<close>

text \<open>\<open>if cond { m[key] = value }\<close>\<close>

definition opt :: "bool \<Rightarrow> string \<Rightarrow> 'a \<Rightarrow> (string \<times> 'a) list" where
  "opt b k v = (if b then [(k, v)] else [])"

abbreviation opt_str :: "string \<Rightarrow> string \<Rightarrow> (string \<times> yv) list" where
  "opt_str k s \<equiv> opt (s \<noteq> '''') k (YStr s)"

definition convert_exprs :: "label_selector_requirement list \<Rightarrow> yv" where
  "convert_exprs exprs =
     YList (map (\<lambda>e. YMap [(''key'', YStr (lsr_key e)), (''operator'', YStr (lsr_operator e)),
                          (''values'', YStrs (lsr_values e))]) exprs)"

definition convertLabelSelector :: "pod_selector \<Rightarrow> yv" where
  "convertLabelSelector sel =
     YMap (opt (entries (psel_match_labels sel) \<noteq> []) ''matchLabels''
             (YStrMap (entries (psel_match_labels sel))) @
           opt (psel_match_exprs sel \<noteq> []) ''matchExpressions''
             (convert_exprs (psel_match_exprs sel)))"

definition convert_namespace_selector :: "namespace_selector \<Rightarrow> (string \<times> yv) list" where
  "convert_namespace_selector sel =
     opt (nsel_match_names sel \<noteq> []) ''matchNames'' (YStrs (nsel_match_names sel)) @
     opt (entries (nsel_match_labels sel) \<noteq> []) ''matchLabels''
       (YStrMap (entries (nsel_match_labels sel))) @
     opt (nsel_match_exprs sel \<noteq> []) ''matchExpressions'' (convert_exprs (nsel_match_exprs sel))"

definition convertRelabelConfigs :: "metric_relabel_config list \<Rightarrow> yv list" where
  "convertRelabelConfigs configs =
     map (\<lambda>rc. YMap
       (opt (mr_source_labels rc \<noteq> []) ''source_labels'' (YStrs (mr_source_labels rc)) @
        opt_str ''separator'' (mr_separator rc) @
        opt_str ''regex'' (mr_regex rc) @
        opt (mr_modulus rc \<noteq> 0) ''modulus'' (YNat (mr_modulus rc)) @
        opt_str ''target_label'' (mr_target_label rc) @
        opt_str ''replacement'' (mr_replacement rc) @
        opt_str ''action'' (mr_action rc))) configs"

definition secret_ref :: "secret_key_selector \<Rightarrow> yv" where
  "secret_ref s =
     YMap [(''name'', YStr (sks_name s)), (''key'', YStr (sks_key s)),
           (''namespace'', YStr (sks_namespace s))]"

definition opt_secret :: "string \<Rightarrow> secret_key_selector option \<Rightarrow> (string \<times> yv) list" where
  "opt_secret k sel = (case sel of None \<Rightarrow> [] | Some s \<Rightarrow> [(k, secret_ref s)])"

definition buildAuthorizationMap :: "authorization_config option \<Rightarrow> yv option" where
  "buildAuthorizationMap auth =
     (case auth of
        None \<Rightarrow> None
      | Some a \<Rightarrow> Some (YMap
          (opt_str ''type'' (au_type a) @
           opt_str ''credentials'' (au_credentials a) @
           opt_str ''credentialsEnv'' (au_credentials_env a) @
           opt_str ''credentialsFile'' (au_credentials_file a) @
           opt_secret ''credentialsSecret'' (au_credentials_secret a))))"

definition convert_basic_auth :: "basic_auth_config \<Rightarrow> yv" where
  "convert_basic_auth ba =
     YMap (opt_secret ''username'' (ba_username ba) @ opt_secret ''password'' (ba_password ba))"

definition tls_path :: "secret_key_selector \<Rightarrow> string" where
  "tls_path s = ''/etc/ssl/certs/'' @ sks_name s @ ''/'' @ sks_key s"

text \<open>A file path of the resource is preferred to the path of a mounted secret.\<close>

definition tls_file :: "string \<Rightarrow> string \<Rightarrow> secret_key_selector option \<Rightarrow> (string \<times> yv) list" where
  "tls_file k file secret =
     (if file \<noteq> '''' then [(k, YStr file)]
      else case secret of None \<Rightarrow> [] | Some s \<Rightarrow> [(k, YStr (tls_path s))])"

definition convert_tls :: "tls_config \<Rightarrow> yv" where
  "convert_tls tls =
     YMap ([(''insecureSkipVerify'', YBool (tls_insecure_skip_verify tls))] @
           tls_file ''caFile'' (tls_ca_file tls) (tls_ca_secret tls) @
           tls_file ''certFile'' (tls_cert_file tls) (tls_cert_secret tls) @
           tls_file ''keyFile'' (tls_key_file tls) (tls_key_secret tls) @
           opt_str ''serverName'' (tls_server_name tls))"

definition convert_endpoint :: "open_agent_endpoint \<Rightarrow> yv" where
  "convert_endpoint e =
     YMap
       (opt_str ''port'' (oe_port e) @
        opt_str ''address'' (oe_address e) @
        opt_str ''path'' (oe_path e) @
        opt_str ''interval'' (oe_interval e) @
        opt_str ''scheme'' (oe_scheme e) @
        (case oe_basic_auth e of None \<Rightarrow> [] | Some ba \<Rightarrow> [(''basicAuth'', convert_basic_auth ba)]) @
        (case buildAuthorizationMap (oe_authorization e) of
           None \<Rightarrow> [] | Some a \<Rightarrow> [(''authorization'', a)]) @
        (case oe_tls e of None \<Rightarrow> [] | Some tls \<Rightarrow> [(''tlsConfig'', convert_tls tls)]) @
        opt (entries (oe_params e) \<noteq> []) ''params'' (YStrsMap (entries (oe_params e))) @
        opt (oe_add_node_label e) ''addNodeLabel'' (YBool (oe_add_node_label e)) @
        opt (oe_metric_relabel e \<noteq> []) ''metricRelabelConfigs''
          (YList (convertRelabelConfigs (oe_metric_relabel e))))"

definition convertEndpoints :: "open_agent_endpoint list \<Rightarrow> yv list" where
  "convertEndpoints endpoints = map convert_endpoint endpoints"

section \<open>The targets of the custom resources\<close>

text \<open>
  The loop over the inline targets does not call the converters but repeats their text, key by
  key; the model calls them.
\<close>

definition inline_endpoints :: "open_agent_endpoint list \<Rightarrow> yv" where
  "inline_endpoints endpoints = YList (map convert_endpoint endpoints)"

definition inline_target :: "open_agent_target_spec \<Rightarrow> yv" where
  "inline_target t =
     YMap ([(''targetName'', YStr (ot_target_name t)), (''type'', YStr (ot_type t)),
            (''enabled'', YBool (ot_enabled t))] @
           opt (nsel_match_names (ot_namespace_selector t) \<noteq> [] \<or>
                entries (nsel_match_labels (ot_namespace_selector t)) \<noteq> [] \<or>
                nsel_match_exprs (ot_namespace_selector t) \<noteq> []) ''namespaceSelector''
             (YMap (convert_namespace_selector (ot_namespace_selector t))) @
           opt (entries (psel_match_labels (ot_selector t)) \<noteq> [] \<or>
                psel_match_exprs (ot_selector t) \<noteq> []) ''selector''
             (convertLabelSelector (ot_selector t)) @
           opt (ot_relabel t \<noteq> []) ''relabelConfigs'' (YList (convertRelabelConfigs (ot_relabel t))) @
           opt (ot_endpoints t \<noteq> []) ''endpoints'' (inline_endpoints (ot_endpoints t)))"

lemma inline_endpoints_eq: "inline_endpoints es = YList (convertEndpoints es)"
  by (simp add: inline_endpoints_def convertEndpoints_def)

text \<open>The relabelling of a monitor: its own rules, then one for the job label.\<close>

definition job_relabel :: "metric_relabel_config list \<Rightarrow> string \<Rightarrow> yv list" where
  "job_relabel relabel jobLabel =
     (let relabelConfigs = (if relabel \<noteq> [] then convertRelabelConfigs relabel else [])
      in if jobLabel \<noteq> ''''
         then relabelConfigs @
                [YMap [(''source_labels'', YStrs [jobLabel]), (''target_label'', YStr ''job''),
                       (''action'', YStr ''replace'')]]
         else relabelConfigs)"

definition monitor_name :: "string \<Rightarrow> string \<Rightarrow> string" where
  "monitor_name namespace name = namespace @ ''/'' @ name"

definition monitor_target :: "string \<Rightarrow> monitor \<Rightarrow> yv" where
  "monitor_target type m =
     YMap ([(''targetName'', YStr (monitor_name (mo_namespace m) (mo_name m))),
            (''type'', YStr type), (''enabled'', YBool True),
            (''namespaceSelector'',
               YMap (case mo_namespace_selector m of
                       Some sel \<Rightarrow> convert_namespace_selector sel
                     | None \<Rightarrow> [(''matchNames'', YStrs [mo_namespace m])])),
            (''selector'', convertLabelSelector (mo_selector m))] @
           opt (job_relabel (mo_relabel m) (mo_job_label m) \<noteq> []) ''relabelConfigs''
             (YList (job_relabel (mo_relabel m) (mo_job_label m))) @
           opt (mo_endpoints m \<noteq> []) ''endpoints'' (YList (convertEndpoints (mo_endpoints m))))"

definition pod_monitor_target :: "monitor \<Rightarrow> yv" where
  "pod_monitor_target m = monitor_target ''PodMonitor'' m"

definition service_monitor_target :: "monitor \<Rightarrow> yv" where
  "service_monitor_target m = monitor_target ''ServiceMonitor'' m"

definition static_target :: "static_endpoint \<Rightarrow> yv" where
  "static_target s =
     YMap ([(''targetName'', YStr (monitor_name (se_namespace s) (se_name s))),
            (''type'', YStr ''StaticEndpoints''), (''enabled'', YBool True)] @
           opt (job_relabel (se_relabel s) (se_job_label s) \<noteq> []) ''relabelConfigs''
             (YList (job_relabel (se_relabel s) (se_job_label s))) @
           opt (se_endpoints s \<noteq> []) ''endpoints'' (YList (convertEndpoints (se_endpoints s))))"

text \<open>A nil list of monitors and an empty one are treated alike: the argument is a list.\<close>

definition user_targets ::
  "whatap_agent \<Rightarrow> monitor list \<Rightarrow> monitor list \<Rightarrow> static_endpoint list \<Rightarrow> yv list" where
  "user_targets cr pms sms ses =
     map (\<lambda>t. toOrderedYAML (inline_target t)) (filter ot_enabled (oa_targets (open_agent cr))) @
     map (\<lambda>m. toOrderedYAML (pod_monitor_target m)) pms @
     map (\<lambda>m. toOrderedYAML (service_monitor_target m)) sms @
     map (\<lambda>s. toOrderedYAML (static_target s)) ses"

section \<open>The target of the GPU exporter\<close>

definition targetAgentName :: "gpu_monitoring_spec \<Rightarrow> string" where
  "targetAgentName gpu =
     (let hasNodeSelector = entries (gpu_node_selector gpu) \<noteq> [];
          hasAffinity = (case gpu_affinity gpu of
                           None \<Rightarrow> False
                         | Some a \<Rightarrow> (case af_node a of
                                        None \<Rightarrow> False | Some n \<Rightarrow> naf_required n \<noteq> None))
      in if hasNodeSelector \<or> hasAffinity then ''whatap-node-agent-gpu''
         else ''whatap-node-agent'')"

definition agentLabels :: "k8s_agent_spec \<Rightarrow> string entries" where
  "agentLabels k8s =
     (let base = [(''name'', targetAgentName (ka_gpu k8s))];
          base = (if gpu_enabled (ka_gpu k8s)
                  then AList.update ''whatap-gpu'' ''true'' base else base)
      in overlay base (entries (na_pod_labels (ka_node k8s))))"

definition identityKeys :: "string list" where
  "identityKeys =
     [''name'', ''whatap-gpu'', ''app'', ''app.kubernetes.io/name'', ''app.kubernetes.io/instance'']"

text \<open>
  The loop of \<open>checkDuplicate\<close> with its two flags and its \<open>break\<close>: the result is their
  conjunction.
\<close>

fun check_loop :: "string entries \<Rightarrow> bool \<Rightarrow> string entries \<Rightarrow> bool" where
  "check_loop labels hasIdentityKey [] = hasIdentityKey"
| "check_loop labels hasIdentityKey ((k, v) # rest) =
     (if map_of labels k \<noteq> Some v then False
      else check_loop labels (hasIdentityKey \<or> k \<in> set identityKeys) rest)"

definition checkDuplicate :: "string entries \<Rightarrow> string entries \<Rightarrow> bool" where
  "checkDuplicate labels matchLabels =
     (if matchLabels = [] then False else check_loop labels False matchLabels)"

text \<open>
  The type switches.  Reading a field of a \<open>MapSlice\<close> keeps the last item with the key;
  \<open>convertedMap\<close> keeps the entries that are strings.  The case of a
  \<open>map[interface{}]interface{}\<close> has no counterpart: nothing builds one.
\<close>

definition slice_field :: "string \<Rightarrow> (string \<times> yv) list \<Rightarrow> yv option" where
  "slice_field key items = foldl (\<lambda>acc (k, v). if k = key then Some v else acc) None items"

definition target_field :: "string \<Rightarrow> yv \<Rightarrow> yv option" where
  "target_field key t =
     (case t of
        YMap es \<Rightarrow> map_of es key
      | YSlice items \<Rightarrow> slice_field key items
      | _ \<Rightarrow> None)"

definition string_items :: "(string \<times> yv) list \<Rightarrow> string entries" where
  "string_items items =
     foldl (\<lambda>m (k, v). case v of YStr s \<Rightarrow> AList.update k s m | _ \<Rightarrow> m) [] items"

definition selector_duplicate :: "string entries \<Rightarrow> yv \<Rightarrow> bool" where
  "selector_duplicate labels sel =
     (case sel of
        YMap es \<Rightarrow>
          (case map_of es ''matchLabels'' of
             Some (YStrMap ml) \<Rightarrow> checkDuplicate labels ml
           | Some (YMap ml) \<Rightarrow> checkDuplicate labels (string_items ml)
           | _ \<Rightarrow> False)
      | YSlice items \<Rightarrow>
          list_ex (\<lambda>(k, v). k = ''matchLabels'' \<and>
            checkDuplicate labels
              (case v of YStrMap ml \<Rightarrow> ml | YSlice ml \<Rightarrow> string_items ml | _ \<Rightarrow> [])) items
      | _ \<Rightarrow> False)"

abbreviation GpuTargetName :: string where "GpuTargetName \<equiv> ''dcgm-exporter-auto''"

fun isDuplicate :: "string entries \<Rightarrow> yv list \<Rightarrow> bool" where
  "isDuplicate labels [] = False"
| "isDuplicate labels (t # rest) =
     (if target_field ''targetName'' t = Some (YStr GpuTargetName) then True
      else case target_field ''selector'' t of
             None \<Rightarrow> isDuplicate labels rest
           | Some sel \<Rightarrow> if selector_duplicate labels sel then True else isDuplicate labels rest)"

definition gpu_metric_relabels :: "gpu_monitoring_spec \<Rightarrow> yv list" where
  "gpu_metric_relabels gpu =
     [YMap [(''target_label'', YStr ''wtp_src''), (''replacement'', YStr ''true''),
            (''action'', YStr ''replace'')],
      YMap [(''source_labels'', YStrs [''__name__'']), (''regex'', YStr ''DCGM.*''),
            (''action'', YStr ''keep'')]] @
     (if gpu_cluster_name gpu \<noteq> ''''
      then [YMap [(''target_label'', YStr ''cluster''),
                  (''replacement'', YStr (gpu_cluster_name gpu)), (''action'', YStr ''replace'')]]
      else []) @
     (if gpu_group_label gpu \<noteq> ''''
      then [YMap [(''source_labels'', YStrs [sanitizePromLabelName (gpu_group_label gpu)]),
                  (''target_label'', YStr ''whatap_kube_label_gpu_group''),
                  (''action'', YStr ''replace'')]]
      else []) @
     (if gpu_metric_relabel gpu \<noteq> [] then convertRelabelConfigs (gpu_metric_relabel gpu) else [])"

definition gpu_target :: "k8s_agent_spec \<Rightarrow> string \<Rightarrow> yv" where
  "gpu_target k8s defaultNamespace =
     (let gpu = ka_gpu k8s;
          targetNamespace = or_default (ka_namespace k8s) defaultNamespace
      in YMap ([(''targetName'', YStr GpuTargetName), (''type'', YStr ''PodMonitor''),
                (''enabled'', YBool True),
                (''namespaceSelector'', YMap [(''matchNames'', YStrs [targetNamespace])]),
                (''selector'', YMap [(''matchLabels'', YStrMap [(''name'', targetAgentName gpu)])])] @
               opt (gpu_relabel gpu \<noteq> []) ''relabelConfigs''
                 (YList (convertRelabelConfigs (gpu_relabel gpu))) @
               [(''endpoints'', YList [YMap
                   [(''port'', YStr ''9400''), (''path'', YStr ''/metrics''),
                    (''interval'', YStr (or_default (gpu_interval gpu) ''30s'')),
                    (''scheme'', YStr ''http''), (''addNodeLabel'', YBool True),
                    (''metricRelabelConfigs'', YList (gpu_metric_relabels gpu))]])]))"

section \<open>The whole configuration\<close>

definition scrape_targets ::
  "whatap_agent \<Rightarrow> string \<Rightarrow> monitor list \<Rightarrow> monitor list \<Rightarrow> static_endpoint list \<Rightarrow> yv list" where
  "scrape_targets cr defaultNamespace pms sms ses =
     (let targets = user_targets cr pms sms ses; k8s = k8s_agent cr
      in if gpu_enabled (ka_gpu k8s) \<and> \<not> isDuplicate (agentLabels k8s) targets
         then targets @ [toOrderedYAML (gpu_target k8s defaultNamespace)]
         else targets)"

text \<open>
  The struct that is marshalled is not a map: \<open>toOrderedYAML\<close> returns it as it is.  The
  marshaller gives an error (\<open>Inl\<close>) or the text.
\<close>

record scrape_config =
  scr_enabled :: bool
  scr_targets :: "yv list"

definition generateScrapeConfig ::
  "(scrape_config \<Rightarrow> string + string) \<Rightarrow> whatap_agent \<Rightarrow> string \<Rightarrow> monitor list \<Rightarrow>
     monitor list \<Rightarrow> static_endpoint list \<Rightarrow> string" where
  "generateScrapeConfig marshal cr defaultNamespace pms sms ses =
     (case marshal \<lparr>scr_enabled = oa_enabled (open_agent cr),
                    scr_targets = scrape_targets cr defaultNamespace pms sms ses\<rparr> of
        Inl err \<Rightarrow> ''# Error generating scrape config: '' @ err
      | Inr text \<Rightarrow> text)"

section \<open>Ordering\<close>

lemma sort_items_unique:
  assumes "mset xs = mset ys" and "distinct (map fst ys)"
  shows "sort_key fst (map (\<lambda>(k, v). (k, f v)) xs) = sort_key fst (map (\<lambda>(k, v). (k, f v)) ys)"
proof -
  let ?g = "\<lambda>(k, v). (k, f v)"
  have m: "mset (map ?g xs) = mset (map ?g ys)" using assms(1) by (simp only: mset_map)
  have "map fst (map ?g ys) = map fst ys" by (induction ys) auto
  then have "inj_on fst (set (map ?g ys))"
    using assms(2) by (metis distinct_map)
  then have "inj_on fst (set (map ?g xs))" using m by (metis set_mset_mset)
  moreover have "sorted (map fst (sort_key fst (map ?g ys)))" by (rule sorted_sort_key)
  ultimately show ?thesis using m by (intro sort_key_inj_key_eq) simp_all
qed

lemma ordered_string_map:
  assumes "mset xs = mset ys" and "distinct (map fst ys)"
  shows "toOrderedYAML (YStrMap xs) = toOrderedYAML (YStrMap ys)"
  using sort_items_unique [OF assms] by simp

lemma ordered_strings_map:
  assumes "mset xs = mset ys" and "distinct (map fst ys)"
  shows "toOrderedYAML (YStrsMap xs) = toOrderedYAML (YStrsMap ys)"
  using sort_items_unique [OF assms] by simp

text \<open>Two values that are the same but for the order of the entries of their maps.\<close>

inductive same_yaml :: "yv \<Rightarrow> yv \<Rightarrow> bool" where
  str: "same_yaml (YStr s) (YStr s)"
| bool: "same_yaml (YBool b) (YBool b)"
| nat: "same_yaml (YNat n) (YNat n)"
| strs: "same_yaml (YStrs ss) (YStrs ss)"
| slice: "same_yaml (YSlice items) (YSlice items)"
| list: "list_all2 same_yaml vs ws \<Longrightarrow> same_yaml (YList vs) (YList ws)"
| str_map: "mset es = mset fs \<Longrightarrow> distinct (map fst fs) \<Longrightarrow> same_yaml (YStrMap es) (YStrMap fs)"
| strs_map: "mset es = mset fs \<Longrightarrow> distinct (map fst fs) \<Longrightarrow> same_yaml (YStrsMap es) (YStrsMap fs)"
| map: "mset es = mset fs \<Longrightarrow> distinct (map fst fs) \<Longrightarrow> map fst fs = map fst gs \<Longrightarrow>
    list_all2 same_yaml (map snd fs) (map snd gs) \<Longrightarrow> same_yaml (YMap es) (YMap gs)"

lemma map_items_eq:
  assumes "map fst fs = map fst gs" and "list_all2 (\<lambda>v w. f v = f w) (map snd fs) (map snd gs)"
  shows "map (\<lambda>(k, v). (k, f v)) fs = map (\<lambda>(k, v). (k, f v)) gs"
proof -
  have "length fs = length gs" using assms(1) by (rule map_eq_imp_length_eq)
  then show ?thesis using assms by (induction fs gs rule: list_induct2) auto
qed

text \<open>\<open>toOrderedYAML\<close> does what it is for: two values that differ only in the order in which
  their maps are iterated, at any depth, are turned into the same value.\<close>

theorem ordered_yaml_canonical:
  assumes "same_yaml v w"
  shows "toOrderedYAML v = toOrderedYAML w"
  using assms
proof induction
  case (list vs ws)
  then have "list_all2 (\<lambda>v w. toOrderedYAML v = toOrderedYAML w) vs ws"
    by (rule list_all2_mono) simp
  then have "map toOrderedYAML vs = map toOrderedYAML ws" by induction auto
  then show ?case by simp
next
  case (map es fs gs)
  have "list_all2 (\<lambda>v w. toOrderedYAML v = toOrderedYAML w) (List.map snd fs) (List.map snd gs)"
    using map.IH by (rule list_all2_mono) simp
  then have "List.map (\<lambda>(k, v). (k, toOrderedYAML v)) fs = List.map (\<lambda>(k, v). (k, toOrderedYAML v)) gs"
    by (rule map_items_eq [OF map.hyps(3)])
  then show ?case
    using sort_items_unique [OF map.hyps(1,2), of toOrderedYAML] by simp
next
  case (str_map es fs)
  then show ?case by (rule ordered_string_map)
next
  case (strs_map es fs)
  then show ?case by (rule ordered_strings_map)
qed simp_all

lemma ordered_yaml_canonical_witness:
  "toOrderedYAML (YMap [(''b'', YBool True), (''a'', YStrMap [(''y'', ''1''), (''x'', ''2'')])]) =
   toOrderedYAML (YMap [(''a'', YStrMap [(''x'', ''2''), (''y'', ''1'')]), (''b'', YBool True)])"
proof (rule ordered_yaml_canonical, rule same_yaml.map)
  show "list_all2 same_yaml
      (map snd [(''a'', YStrMap [(''y'', ''1''), (''x'', ''2'')]), (''b'', YBool True)])
      (map snd [(''a'', YStrMap [(''x'', ''2''), (''y'', ''1'')]), (''b'', YBool True)])"
    by (simp add: same_yaml.bool same_yaml.str_map add_mset_commute)
qed simp_all

text \<open>No Go map is left, so the marshaller has nothing to order.\<close>

fun map_free :: "yv \<Rightarrow> bool" where
  "map_free (YList vs) = list_all map_free vs"
| "map_free (YSlice items) = list_all (\<lambda>(k, v). map_free v) items"
| "map_free (YMap es) = False"
| "map_free (YStrMap es) = False"
| "map_free (YStrsMap es) = False"
| "map_free v = True"

fun slice_free :: "yv \<Rightarrow> bool" where
  "slice_free (YList vs) = list_all slice_free vs"
| "slice_free (YMap es) = list_all (\<lambda>(k, v). slice_free v) es"
| "slice_free (YSlice items) = False"
| "slice_free v = True"

lemma ordered_map_free:
  "slice_free v \<Longrightarrow> map_free (toOrderedYAML v)"
proof (induction v rule: toOrderedYAML.induct)
  case (1 es)
  then show ?case by (auto simp: list_all_iff)
next
  case (4 vs)
  then show ?case by (auto simp: list_all_iff)
qed (auto simp: list_all_iff)

lemma list_all_opt [simp]: "list_all P (opt b k v) \<longleftrightarrow> (b \<longrightarrow> P (k, v))"
  by (simp add: opt_def)

lemma list_all_always [simp]: "(\<And>x. P x) \<Longrightarrow> list_all P (map f xs)"
  by (simp add: list_all_iff)

lemma list_all_case_option:
  "list_all P (case m of None \<Rightarrow> [] | Some x \<Rightarrow> f x) \<longleftrightarrow> (\<forall>x. m = Some x \<longrightarrow> list_all P (f x))"
  by (simp split: option.split)

lemma slice_free_exprs [simp]: "slice_free (convert_exprs es)"
  by (simp add: convert_exprs_def list_all_iff)

lemma slice_free_selectors [simp]:
  "slice_free (convertLabelSelector sel)"
  "list_all (\<lambda>(k, v). slice_free v) (convert_namespace_selector nsel)"
  by (simp_all add: convertLabelSelector_def convert_namespace_selector_def)

lemma slice_free_relabel [simp]: "list_all slice_free (convertRelabelConfigs rcs)"
  unfolding convertRelabelConfigs_def list.pred_map by (simp add: list.pred_True comp_def)

lemma slice_free_secrets [simp]:
  "slice_free (secret_ref s)" "list_all (\<lambda>(k, v). slice_free v) (opt_secret k sel)"
  "list_all (\<lambda>(k, v). slice_free v) (tls_file k file sel)"
  by (simp_all add: secret_ref_def opt_secret_def tls_file_def split: option.split)

lemma slice_free_tls [simp]: "slice_free (convert_basic_auth ba)" "slice_free (convert_tls tls)"
  by (simp_all add: convert_basic_auth_def convert_tls_def)

lemma slice_free_authorization:
  "buildAuthorizationMap a = Some v \<Longrightarrow> slice_free v"
  by (cases a) (auto simp: buildAuthorizationMap_def)

lemma slice_free_endpoints [simp]: "list_all slice_free (convertEndpoints es)"
  unfolding convertEndpoints_def list.pred_map
  by (simp add: convert_endpoint_def list.pred_True comp_def list_all_case_option
      slice_free_authorization)

lemma slice_free_job_relabel [simp]: "list_all slice_free (job_relabel rcs j)"
  by (simp add: job_relabel_def)

lemma slice_free_targets:
  "slice_free (inline_target t)" "slice_free (pod_monitor_target m)"
  "slice_free (service_monitor_target m)" "slice_free (static_target s)"
  "slice_free (gpu_target k8s ns)"
  by (simp_all add: inline_target_def inline_endpoints_eq pod_monitor_target_def
      service_monitor_target_def monitor_target_def static_target_def gpu_target_def gpu_metric_relabels_def opt_def Let_def
      split: option.splits)

section \<open>Reading the ordered values back\<close>

lemma slice_field_rev: "slice_field k items = map_of (rev items) k"
proof -
  have "foldl (\<lambda>acc (k', v). if k' = k then Some v else acc) a items =
      (case map_of (rev items) k of None \<Rightarrow> a | Some v \<Rightarrow> Some v)" for a
    by (induction items arbitrary: a) (auto simp: map_add_def split: option.splits)
  then show ?thesis by (simp add: slice_field_def split: option.splits)
qed

lemma map_of_permuted:
  assumes "mset xs = mset ys" and "distinct (map fst ys)"
  shows "map_of xs = map_of ys"
proof -
  have "distinct (map fst xs)" using assms by (metis mset_map mset_eq_imp_distinct_iff)
  then show ?thesis using assms by (metis map_of_inject_set mset_eq_setD)
qed

lemma map_of_map_items: "map_of (map (\<lambda>(k, v). (k, f v)) es) k = map_option f (map_of es k)"
  by (induction es) auto

lemma map_fst_items: "map fst (map (\<lambda>(k, v). (k, f v)) es) = map fst es"
  by (induction es) auto

lemma ordered_field:
  assumes "distinct (map fst es)"
  shows "slice_field k (sort_key fst (map (\<lambda>(k, v). (k, f v)) es)) = map_option f (map_of es k)"
proof -
  let ?items = "map (\<lambda>(k, v). (k, f v)) es"
  have "map_of (rev (sort_key fst ?items)) = map_of ?items"
    by (rule map_of_permuted) (use assms in \<open>simp_all only: map_fst_items mset_rev mset_sort\<close>)
  then show ?thesis by (simp only: slice_field_rev map_of_map_items)
qed

lemma target_field_ordered:
  assumes "distinct (map fst es)"
  shows "target_field k (toOrderedYAML (YMap es)) = map_option toOrderedYAML (map_of es k)"
  using ordered_field [OF assms, of k toOrderedYAML] by (simp add: target_field_def)

text \<open>The fields the search for a duplicate reads.\<close>

lemma fst_opt [simp]: "map fst (opt b k v) = (if b then [k] else [])"
  by (simp add: opt_def)

lemma map_of_opt [simp]: "map_of (opt b k v @ es) j = (if b \<and> j = k then Some v else map_of es j)"
  by (auto simp: opt_def)

lemma map_of_opt_last [simp]: "map_of (opt b k v) j = (if b \<and> j = k then Some v else None)"
  by (auto simp: opt_def)

lemma inline_target_fields:
  "target_field ''targetName'' (toOrderedYAML (inline_target t)) = Some (YStr (ot_target_name t))"
  "target_field ''enabled'' (toOrderedYAML (inline_target t)) = Some (YBool (ot_enabled t))"
  "target_field ''selector'' (toOrderedYAML (inline_target t)) =
     (if entries (psel_match_labels (ot_selector t)) \<noteq> [] \<or> psel_match_exprs (ot_selector t) \<noteq> []
      then Some (toOrderedYAML (convertLabelSelector (ot_selector t))) else None)"
  unfolding inline_target_def by (subst target_field_ordered; simp del: map_of_append)+

lemma monitor_target_fields:
  "target_field ''targetName'' (toOrderedYAML (monitor_target ty m)) =
     Some (YStr (monitor_name (mo_namespace m) (mo_name m)))"
  "target_field ''enabled'' (toOrderedYAML (monitor_target ty m)) = Some (YBool True)"
  "target_field ''selector'' (toOrderedYAML (monitor_target ty m)) =
     Some (toOrderedYAML (convertLabelSelector (mo_selector m)))"
  unfolding monitor_target_def by (subst target_field_ordered; simp del: map_of_append)+

lemma static_target_fields:
  "target_field ''targetName'' (toOrderedYAML (static_target s)) =
     Some (YStr (monitor_name (se_namespace s) (se_name s)))"
  "target_field ''enabled'' (toOrderedYAML (static_target s)) = Some (YBool True)"
  "target_field ''selector'' (toOrderedYAML (static_target s)) = None"
  unfolding static_target_def by (subst target_field_ordered; simp del: map_of_append)+

lemma gpu_target_fields:
  "target_field ''targetName'' (toOrderedYAML (gpu_target k8s ns)) = Some (YStr GpuTargetName)"
  "target_field ''enabled'' (toOrderedYAML (gpu_target k8s ns)) = Some (YBool True)"
  unfolding gpu_target_def Let_def by (subst target_field_ordered; simp del: map_of_append)+

section \<open>The GPU target and its duplicates\<close>

text \<open>
  What a duplicate is: label requirements, at least one of them on an identity key, that the
  node agent's labels meet.
\<close>

definition claims_agent :: "string entries \<Rightarrow> string entries \<Rightarrow> bool" where
  "claims_agent labels matchLabels \<longleftrightarrow>
     (\<forall>(k, v)\<in>set matchLabels. map_of labels k = Some v) \<and>
     (\<exists>(k, v)\<in>set matchLabels. k \<in> set identityKeys)"

lemma checkDuplicate_iff: "checkDuplicate labels ml \<longleftrightarrow> claims_agent labels ml"
proof -
  have "check_loop labels b ml \<longleftrightarrow> (\<forall>(k, v)\<in>set ml. map_of labels k = Some v) \<and>
      (b \<or> (\<exists>(k, v)\<in>set ml. k \<in> set identityKeys))" for b
  proof (induction ml arbitrary: b)
    case (Cons e ml)
    obtain k v where e: "e = (k, v)" by (cases e)
    show ?case by (cases "map_of labels k = Some v") (simp_all add: e Cons.IH disj_assoc)
  qed simp
  then show ?thesis by (auto simp: checkDuplicate_def claims_agent_def)
qed

lemma update_new_key: "k \<notin> fst ` set m \<Longrightarrow> AList.update k v m = m @ [(k, v)]"
  by (induction m) auto

lemma string_items_strings:
  assumes "distinct (map fst (m @ es))"
  shows "foldl (\<lambda>m (k, v). case v of YStr s \<Rightarrow> AList.update k s m | _ \<Rightarrow> m) m
           (map (\<lambda>(k, s). (k, YStr s)) es) = m @ es"
  using assms
proof (induction es arbitrary: m)
  case (Cons e es)
  obtain k v where e: "e = (k, v)" by (cases e)
  have "AList.update k v m = m @ [(k, v)]"
    using Cons.prems by (intro update_new_key) (auto simp: e)
  then show ?case using Cons.IH [of "m @ [(k, v)]"] Cons.prems by (simp add: e)
qed simp

lemma set_string_items:
  assumes "distinct (map fst ml)"
  shows "set (string_items (sort_key fst (map (\<lambda>(k, v). (k, YStr v)) ml))) = set ml"
proof -
  let ?srt = "sort_key fst ml"
  have "sort_key fst (map (\<lambda>(k, v). (k, YStr v)) ml) = map (\<lambda>(k, v). (k, YStr v)) ?srt"
  proof (rule sort_key_inj_key_eq)
    show "mset (map (\<lambda>(k, v). (k, YStr v)) ml) = mset (map (\<lambda>(k, v). (k, YStr v)) ?srt)" by simp
    show "inj_on fst (set (map (\<lambda>(k, v). (k, YStr v)) ml))"
      using assms by (metis distinct_map map_fst_items)
    show "sorted (map fst (map (\<lambda>(k, v). (k, YStr v)) ?srt))"
      unfolding map_fst_items by (rule sorted_sort_key)
  qed
  moreover have "distinct (map fst ([] @ ?srt))"
    using assms by (metis append_Nil mset_eq_imp_distinct_iff mset_map mset_sort)
  ultimately show ?thesis
    using string_items_strings [of "[]" ?srt] by (simp add: string_items_def)
qed

lemma set_sort_items: "set (sort_key fst (map f es)) = f ` set es" by simp

lemma selector_duplicate_iff:
  assumes "distinct (map fst (entries (psel_match_labels sel)))"
  shows "selector_duplicate labels (toOrderedYAML (convertLabelSelector sel)) \<longleftrightarrow>
           claims_agent labels (entries (psel_match_labels sel))"
proof -
  let ?ml = "entries (psel_match_labels sel)"
  have no: "claims_agent labels [] = False" by (simp add: claims_agent_def)
  have "selector_duplicate labels (toOrderedYAML (convertLabelSelector sel)) \<longleftrightarrow>
      ?ml \<noteq> [] \<and> claims_agent labels (string_items (sort_key fst (map (\<lambda>(k, v). (k, YStr v)) ?ml)))"
    by (auto simp: selector_duplicate_def convertLabelSelector_def opt_def list_ex_iff
        checkDuplicate_iff)
  then show ?thesis
    using no unfolding claims_agent_def set_string_items [OF assms] by auto
qed

lemma monitor_name_not_gpu: "monitor_name ns n \<noteq> GpuTargetName"
proof
  assume "monitor_name ns n = GpuTargetName"
  then have "CHR ''/'' \<in> set GpuTargetName" by (metis in_set_conv_decomp monitor_name_def append_Cons append_Nil)
  then show False by simp
qed

lemma isDuplicate_iff:
  "isDuplicate labels ts \<longleftrightarrow>
     (\<exists>t\<in>set ts. target_field ''targetName'' t = Some (YStr GpuTargetName) \<or>
        (\<exists>sel. target_field ''selector'' t = Some sel \<and> selector_duplicate labels sel))"
  by (induction ts) (auto split: option.splits)

text \<open>The targets of the user that count as a target of the node agent.\<close>

definition agent_targeted :: "whatap_agent \<Rightarrow> monitor list \<Rightarrow> monitor list \<Rightarrow> bool" where
  "agent_targeted cr pms sms \<longleftrightarrow>
     (\<exists>t\<in>set (oa_targets (open_agent cr)). ot_enabled t \<and>
        (ot_target_name t = GpuTargetName \<or>
         claims_agent (agentLabels (k8s_agent cr)) (entries (psel_match_labels (ot_selector t))))) \<or>
     (\<exists>m\<in>set (pms @ sms).
        claims_agent (agentLabels (k8s_agent cr)) (entries (psel_match_labels (mo_selector m))))"

definition selectors_ok :: "whatap_agent \<Rightarrow> monitor list \<Rightarrow> monitor list \<Rightarrow> bool" where
  "selectors_ok cr pms sms \<longleftrightarrow>
     list_all (\<lambda>sel. distinct (map fst (entries (psel_match_labels sel))))
       (map ot_selector (oa_targets (open_agent cr)) @ map mo_selector (pms @ sms))"

text \<open>Kept folded, so that the string literals of the targets stay out of the case analysis.\<close>

definition duplicates :: "string entries \<Rightarrow> yv \<Rightarrow> bool" where
  "duplicates labels t \<longleftrightarrow>
     target_field ''targetName'' t = Some (YStr GpuTargetName) \<or>
     (\<exists>sel. target_field ''selector'' t = Some sel \<and> selector_duplicate labels sel)"

lemma inline_duplicates:
  assumes "distinct (map fst (entries (psel_match_labels (ot_selector t))))"
  shows "duplicates labels (toOrderedYAML (inline_target t)) \<longleftrightarrow>
           ot_target_name t = GpuTargetName \<or>
           claims_agent labels (entries (psel_match_labels (ot_selector t)))"
  using selector_duplicate_iff [OF assms, of labels]
  unfolding duplicates_def inline_target_fields option.inject yv.inject
  by (auto simp: claims_agent_def)

lemma monitor_duplicates:
  assumes "distinct (map fst (entries (psel_match_labels (mo_selector m))))"
  shows "duplicates labels (toOrderedYAML (monitor_target ty m)) \<longleftrightarrow>
           claims_agent labels (entries (psel_match_labels (mo_selector m)))"
  using selector_duplicate_iff [OF assms, of labels]
  unfolding duplicates_def monitor_target_fields option.inject yv.inject
  by (simp only: monitor_name_not_gpu simp_thms ex_simps)

lemma static_duplicates: "\<not> duplicates labels (toOrderedYAML (static_target s))"
  unfolding duplicates_def static_target_fields option.inject yv.inject
  by (simp only: monitor_name_not_gpu option.distinct simp_thms)

lemma user_targets_duplicate:
  assumes "selectors_ok cr pms sms"
  shows "isDuplicate (agentLabels (k8s_agent cr)) (user_targets cr pms sms ses) \<longleftrightarrow>
           agent_targeted cr pms sms"
proof -
  have ok: "\<And>t. t \<in> set (oa_targets (open_agent cr)) \<Longrightarrow>
      distinct (map fst (entries (psel_match_labels (ot_selector t))))"
    "\<And>m. m \<in> set (pms @ sms) \<Longrightarrow> distinct (map fst (entries (psel_match_labels (mo_selector m))))"
    using assms by (auto simp: selectors_ok_def list_all_iff)
  have "isDuplicate (agentLabels (k8s_agent cr)) (user_targets cr pms sms ses) \<longleftrightarrow>
      (\<exists>t\<in>set (user_targets cr pms sms ses). duplicates (agentLabels (k8s_agent cr)) t)"
    by (simp only: isDuplicate_iff duplicates_def)
  also have "\<dots> \<longleftrightarrow> agent_targeted cr pms sms"
    unfolding user_targets_def agent_targeted_def set_append set_map set_filter bex_Un bex_simps
      image_iff
    by (auto simp: inline_duplicates ok monitor_duplicates static_duplicates
        pod_monitor_target_def service_monitor_target_def)
  finally show ?thesis .
qed

text \<open>C26. The operator adds its own target for the GPU exporter exactly if GPU monitoring is enabled
  and no enabled target of the user is called \<open>dcgm-exporter-auto\<close> or selects the node agent's
  pods by labels; namespaces, ports and the kind of the target are not looked at, nor are
  static endpoints.  The user's targets are never changed by it.\<close>

theorem gpu_target_added_iff:
  assumes "selectors_ok cr pms sms"
  shows "scrape_targets cr ns pms sms ses =
           user_targets cr pms sms ses @
           (if gpu_enabled (ka_gpu (k8s_agent cr)) \<and> \<not> agent_targeted cr pms sms
            then [toOrderedYAML (gpu_target (k8s_agent cr) ns)] else [])"
  using user_targets_duplicate [OF assms, of ses] by (simp add: scrape_targets_def Let_def)

text \<open>Every target handed to the marshaller is enabled and holds no Go map at any depth, so its
  text does not depend on an iteration order; disabled inline targets are left out, everything
  else is rendered in the order inline targets, pod monitors, service monitors, static
  endpoints.\<close>

theorem rendered_targets:
  "list_all map_free (scrape_targets cr ns pms sms ses) \<and>
   list_all (\<lambda>t. target_field ''enabled'' t = Some (YBool True)) (scrape_targets cr ns pms sms ses) \<and>
   map (target_field ''targetName'') (user_targets cr pms sms ses) =
     map (Some \<circ> YStr) (map ot_target_name (filter ot_enabled (oa_targets (open_agent cr))) @
       map (\<lambda>m. monitor_name (mo_namespace m) (mo_name m)) (pms @ sms) @
       map (\<lambda>s. monitor_name (se_namespace s) (se_name s)) ses)"
proof (intro conjI)
  show "list_all map_free (scrape_targets cr ns pms sms ses)"
    by (auto simp: scrape_targets_def user_targets_def Let_def list_all_iff
        intro: ordered_map_free slice_free_targets)
  have enabled: "list_all (\<lambda>t. target_field ''enabled'' t = Some (YBool True)) (user_targets cr pms sms ses)"
    unfolding user_targets_def list_all_append list.pred_map comp_def pod_monitor_target_def
      service_monitor_target_def inline_target_fields monitor_target_fields static_target_fields
    by (simp add: list_all_iff)
  show "list_all (\<lambda>t. target_field ''enabled'' t = Some (YBool True)) (scrape_targets cr ns pms sms ses)"
    unfolding scrape_targets_def Let_def if_distrib [of "list_all _"] list_all_append list.pred_inject
      gpu_target_fields
    using enabled by simp
  show "map (target_field ''targetName'') (user_targets cr pms sms ses) =
     map (Some \<circ> YStr) (map ot_target_name (filter ot_enabled (oa_targets (open_agent cr))) @
       map (\<lambda>m. monitor_name (mo_namespace m) (mo_name m)) (pms @ sms) @
       map (\<lambda>s. monitor_name (se_namespace s) (se_name s)) ses)"
    unfolding user_targets_def map_append map_map comp_def pod_monitor_target_def
      service_monitor_target_def inline_target_fields monitor_target_fields static_target_fields
    by simp
qed

section \<open>Label names\<close>

text \<open>A sanitised label name has the length of the original, only characters Prometheus accepts,
  and is a fixed point; a name that was fine is not changed.\<close>

theorem sanitized_label_ok:
  "length (sanitizePromLabelName s) = length s \<and>
   list_all label_char (sanitizePromLabelName s) \<and>
   sanitizePromLabelName (sanitizePromLabelName s) = sanitizePromLabelName s \<and>
   (sanitizePromLabelName s = s \<longleftrightarrow> list_all label_char s)"
proof -
  have under: "label_char CHR ''_''" by (simp add: label_char_def)
  have "list_all label_char (sanitizePromLabelName s)"
    by (simp add: sanitizePromLabelName_def list.pred_map comp_def under list.pred_True)
  moreover have "sanitizePromLabelName s = s \<longleftrightarrow> list_all label_char s"
    by (induction s) (auto simp: sanitizePromLabelName_def under)
  moreover have "sanitizePromLabelName (sanitizePromLabelName s) = sanitizePromLabelName s"
    by (simp add: sanitizePromLabelName_def under)
  ultimately show ?thesis by (simp add: sanitizePromLabelName_def)
qed

section \<open>Iteration order\<close>

text \<open>
  The custom resources with the entries of their maps in another order: \<open>p\<close> reorders the maps
  of strings, \<open>q\<close> the query parameters of endpoints.
\<close>

type_synonym reorder = "string entries \<Rightarrow> string entries"

definition reorder_selector :: "reorder \<Rightarrow> pod_selector \<Rightarrow> pod_selector" where
  "reorder_selector p sel = sel\<lparr>psel_match_labels := map_option p (psel_match_labels sel)\<rparr>"

definition reorder_namespaces :: "reorder \<Rightarrow> namespace_selector \<Rightarrow> namespace_selector" where
  "reorder_namespaces p sel = sel\<lparr>nsel_match_labels := map_option p (nsel_match_labels sel)\<rparr>"

type_synonym reorder_params = "string list entries \<Rightarrow> string list entries"

definition reorder_endpoints ::
  "reorder_params \<Rightarrow> open_agent_endpoint list \<Rightarrow> open_agent_endpoint list" where
  "reorder_endpoints q = map (\<lambda>e. e\<lparr>oe_params := map_option q (oe_params e)\<rparr>)"

definition reorder_inline ::
  "reorder \<Rightarrow> reorder_params \<Rightarrow> open_agent_target_spec \<Rightarrow> open_agent_target_spec" where
  "reorder_inline p q t = t\<lparr>ot_namespace_selector := reorder_namespaces p (ot_namespace_selector t),
     ot_selector := reorder_selector p (ot_selector t),
     ot_endpoints := reorder_endpoints q (ot_endpoints t)\<rparr>"

definition reorder_monitor :: "reorder \<Rightarrow> reorder_params \<Rightarrow> monitor \<Rightarrow> monitor" where
  "reorder_monitor p q m = m\<lparr>mo_selector := reorder_selector p (mo_selector m),
     mo_namespace_selector := map_option (reorder_namespaces p) (mo_namespace_selector m),
     mo_endpoints := reorder_endpoints q (mo_endpoints m)\<rparr>"

definition reorder_static :: "reorder_params \<Rightarrow> static_endpoint \<Rightarrow> static_endpoint" where
  "reorder_static q s = s\<lparr>se_endpoints := reorder_endpoints q (se_endpoints s)\<rparr>"

definition reorder_k8s :: "reorder \<Rightarrow> k8s_agent_spec \<Rightarrow> k8s_agent_spec" where
  "reorder_k8s p k = k\<lparr>ka_node := (ka_node k)\<lparr>na_pod_labels := map_option p (na_pod_labels (ka_node k))\<rparr>,
     ka_gpu := (ka_gpu k)\<lparr>gpu_node_selector := map_option p (gpu_node_selector (ka_gpu k))\<rparr>\<rparr>"

definition reorder_agent :: "reorder \<Rightarrow> reorder_params \<Rightarrow> whatap_agent \<Rightarrow> whatap_agent" where
  "reorder_agent p q cr =
     cr\<lparr>wa_spec := (wa_spec cr)\<lparr>ws_features := (ws_features (wa_spec cr))\<lparr>
       ft_open_agent := (open_agent cr)\<lparr>oa_targets := map (reorder_inline p q) (oa_targets (open_agent cr))\<rparr>,
       ft_k8s_agent := reorder_k8s p (k8s_agent cr)\<rparr>\<rparr>\<rparr>"

text \<open>What makes an association list a Go map: no key occurs twice.\<close>

definition endpoints_ok :: "open_agent_endpoint list \<Rightarrow> bool" where
  "endpoints_ok = list_all (\<lambda>e. distinct (map fst (entries (oe_params e))))"

definition namespaces_ok :: "namespace_selector \<Rightarrow> bool" where
  "namespaces_ok sel \<longleftrightarrow> distinct (map fst (entries (nsel_match_labels sel)))"

definition scrape_maps_ok ::
  "whatap_agent \<Rightarrow> monitor list \<Rightarrow> monitor list \<Rightarrow> static_endpoint list \<Rightarrow> bool" where
  "scrape_maps_ok cr pms sms ses \<longleftrightarrow>
     selectors_ok cr pms sms \<and>
     list_all (\<lambda>t. namespaces_ok (ot_namespace_selector t) \<and> endpoints_ok (ot_endpoints t))
       (oa_targets (open_agent cr)) \<and>
     list_all (\<lambda>m. pred_option namespaces_ok (mo_namespace_selector m) \<and> endpoints_ok (mo_endpoints m))
       (pms @ sms) \<and>
     list_all (\<lambda>s. endpoints_ok (se_endpoints s)) ses \<and>
     distinct (map fst (entries (na_pod_labels (ka_node (k8s_agent cr)))))"

lemma items_opt [simp]: "map (\<lambda>(k, v). (k, f v)) (opt b j x) = opt b j (f x)"
  by (simp add: opt_def)

definition reorders :: "('v entries \<Rightarrow> 'v entries) \<Rightarrow> bool" where
  "reorders p \<longleftrightarrow> (\<forall>m. mset (p m) = mset m)"

lemma entries_reorder: "reorders p \<Longrightarrow> mset (entries (map_option p m)) = mset (entries m)"
  by (cases m) (simp_all add: reorders_def)

lemma entries_reorder_Nil: "reorders p \<Longrightarrow> entries (map_option p m) = [] \<longleftrightarrow> entries m = []"
  using entries_reorder [of p m] by (metis mset_zero_iff)

lemma ordered_selector:
  assumes "reorders p" and "distinct (map fst (entries (psel_match_labels sel)))"
  shows "toOrderedYAML (convertLabelSelector (reorder_selector p sel)) =
           toOrderedYAML (convertLabelSelector sel)"
  using ordered_string_map [OF entries_reorder [OF assms(1)] assms(2)]
  by (simp add: convertLabelSelector_def reorder_selector_def entries_reorder_Nil [OF assms(1)]
      del: toOrderedYAML.simps(2))

lemma ordered_namespaces:
  assumes "reorders p" and "namespaces_ok sel"
  shows "map (\<lambda>(k, v). (k, toOrderedYAML v)) (convert_namespace_selector (reorder_namespaces p sel)) =
           map (\<lambda>(k, v). (k, toOrderedYAML v)) (convert_namespace_selector sel)"
  using ordered_string_map [OF entries_reorder [OF assms(1)] assms(2) [unfolded namespaces_ok_def]]
  by (simp add: convert_namespace_selector_def reorder_namespaces_def
      entries_reorder_Nil [OF assms(1)] del: toOrderedYAML.simps(2))

lemma ordered_endpoints:
  assumes "reorders q" and "endpoints_ok es"
  shows "map toOrderedYAML (convertEndpoints (reorder_endpoints q es)) =
           map toOrderedYAML (convertEndpoints es)"
  unfolding convertEndpoints_def reorder_endpoints_def map_map
proof (rule map_cong [OF refl])
  fix e assume "e \<in> set es"
  then have d: "distinct (map fst (entries (oe_params e)))"
    using assms(2) by (simp add: endpoints_ok_def list_all_iff)
  show "(toOrderedYAML \<circ> (convert_endpoint \<circ> (\<lambda>e. e\<lparr>oe_params := map_option q (oe_params e)\<rparr>))) e =
      (toOrderedYAML \<circ> convert_endpoint) e"
    by (simp add: convert_endpoint_def ordered_strings_map [OF entries_reorder [OF assms(1)] d]
        entries_reorder_Nil [OF assms(1)] del: toOrderedYAML.simps(3))
qed

lemma ordered_YList: "map toOrderedYAML vs = map toOrderedYAML ws \<Longrightarrow>
    toOrderedYAML (YList vs) = toOrderedYAML (YList ws)"
  by simp

lemma ordered_YMap:
  "map (\<lambda>(k, v). (k, toOrderedYAML v)) es = map (\<lambda>(k, v). (k, toOrderedYAML v)) fs \<Longrightarrow>
    toOrderedYAML (YMap es) = toOrderedYAML (YMap fs)"
  by simp

lemma reorder_endpoints_Nil [simp]: "reorder_endpoints q es = [] \<longleftrightarrow> es = []"
  by (simp add: reorder_endpoints_def)

lemma ordered_inline:
  assumes "reorders p" and "reorders q"
    and "distinct (map fst (entries (psel_match_labels (ot_selector t))))"
    and "namespaces_ok (ot_namespace_selector t)" and "endpoints_ok (ot_endpoints t)"
  shows "toOrderedYAML (inline_target (reorder_inline p q t)) = toOrderedYAML (inline_target t)"
  unfolding inline_target_def inline_endpoints_eq
  by (rule ordered_YMap)
    (simp add: reorder_inline_def ordered_selector [OF assms(1,3)]
      ordered_YMap [OF ordered_namespaces [OF assms(1,4)]]
      ordered_YList [OF ordered_endpoints [OF assms(2,5)]]
      reorder_selector_def [THEN arg_cong [where f = psel_match_labels]]
      reorder_selector_def [THEN arg_cong [where f = psel_match_exprs]]
      reorder_namespaces_def [THEN arg_cong [where f = nsel_match_labels]]
      reorder_namespaces_def [THEN arg_cong [where f = nsel_match_names]]
      reorder_namespaces_def [THEN arg_cong [where f = nsel_match_exprs]]
      entries_reorder_Nil [OF assms(1)] del: toOrderedYAML.simps(1,4))

lemma ordered_monitor:
  assumes "reorders p" and "reorders q"
    and "distinct (map fst (entries (psel_match_labels (mo_selector m))))"
    and "pred_option namespaces_ok (mo_namespace_selector m)" and "endpoints_ok (mo_endpoints m)"
  shows "toOrderedYAML (monitor_target ty (reorder_monitor p q m)) = toOrderedYAML (monitor_target ty m)"
  unfolding monitor_target_def
  by (rule ordered_YMap, cases "mo_namespace_selector m")
    (use assms(4) in \<open>simp_all add: reorder_monitor_def ordered_selector [OF assms(1,3)]
      ordered_YMap [OF ordered_namespaces [OF assms(1)]]
      ordered_YList [OF ordered_endpoints [OF assms(2,5)]] del: toOrderedYAML.simps(1,4)\<close>)

lemma ordered_static:
  assumes "reorders q" and "endpoints_ok (se_endpoints s)"
  shows "toOrderedYAML (static_target (reorder_static q s)) = toOrderedYAML (static_target s)"
  unfolding static_target_def
  by (rule ordered_YMap)
    (simp add: reorder_static_def ordered_YList [OF ordered_endpoints [OF assms]]
      del: toOrderedYAML.simps(1,4))

lemma user_targets_reorder:
  assumes "reorders p" and "reorders q" and "scrape_maps_ok cr pms sms ses"
  shows "user_targets (reorder_agent p q cr) (map (reorder_monitor p q) pms)
           (map (reorder_monitor p q) sms) (map (reorder_static q) ses) = user_targets cr pms sms ses"
proof -
  have enabled: "filter ot_enabled (map (reorder_inline p q) ts) =
      map (reorder_inline p q) (filter ot_enabled ts)" for ts
    by (induction ts) (simp_all add: reorder_inline_def)
  have "oa_targets (open_agent (reorder_agent p q cr)) =
      map (reorder_inline p q) (oa_targets (open_agent cr))"
    by (simp add: reorder_agent_def)
  then show ?thesis
    using assms(3)
    by (auto simp: user_targets_def enabled scrape_maps_ok_def selectors_ok_def list_all_iff
        pod_monitor_target_def service_monitor_target_def
        intro!: ordered_inline ordered_monitor ordered_static assms(1,2) map_cong)
qed

lemma overlay_permuted:
  assumes "mset xs = mset ys" and "distinct (map fst ys)"
  shows "map_of (overlay base xs) = map_of (overlay base ys)"
proof -
  have "map_of (rev xs) = map_of (rev ys)"
    by (rule map_of_permuted) (use assms in \<open>simp_all add: rev_map [symmetric]\<close>)
  then show ?thesis by (simp only: map_of_overlay_rev)
qed

lemma reorder_k8s_simps [simp]:
  "gpu_enabled (ka_gpu (reorder_k8s p k)) = gpu_enabled (ka_gpu k)"
  "ka_namespace (reorder_k8s p k) = ka_namespace k"
  by (simp_all add: reorder_k8s_def)

lemma targetAgentName_reorder:
  "reorders p \<Longrightarrow> targetAgentName (ka_gpu (reorder_k8s p k)) = targetAgentName (ka_gpu k)"
  by (simp add: targetAgentName_def reorder_k8s_def entries_reorder_Nil)

lemma agentLabels_reorder:
  assumes "reorders p" and "distinct (map fst (entries (na_pod_labels (ka_node k))))"
  shows "map_of (agentLabels (reorder_k8s p k)) = map_of (agentLabels k)"
  unfolding agentLabels_def Let_def reorder_k8s_simps targetAgentName_reorder [OF assms(1)]
  by (rule overlay_permuted) (use assms in \<open>simp_all add: reorder_k8s_def entries_reorder\<close>)

lemma gpu_target_reorder:
  "reorders p \<Longrightarrow> gpu_target (reorder_k8s p k) ns = gpu_target k ns"
  unfolding gpu_target_def Let_def reorder_k8s_simps targetAgentName_reorder
  by (simp add: reorder_k8s_def gpu_metric_relabels_def)

lemma claims_agent_cong:
  "map_of labels = map_of labels' \<Longrightarrow> claims_agent labels = claims_agent labels'"
  by (simp add: claims_agent_def fun_eq_iff)

lemma isDuplicate_cong:
  assumes "map_of labels = map_of labels'"
  shows "isDuplicate labels ts = isDuplicate labels' ts"
proof -
  have "checkDuplicate labels = checkDuplicate labels'"
    using claims_agent_cong [OF assms] by (simp add: checkDuplicate_iff fun_eq_iff)
  then have "selector_duplicate labels = selector_duplicate labels'"
    unfolding selector_duplicate_def by (simp only:)
  then show ?thesis by (simp add: isDuplicate_iff)
qed


section \<open>Witnesses\<close>

definition gpu_sample :: whatap_agent where
  "gpu_sample = zero_agent\<lparr>wa_spec := (wa_spec zero_agent)\<lparr>ws_features :=
     (ws_features (wa_spec zero_agent))\<lparr>ft_k8s_agent := zero_k8s_agent\<lparr>
       ka_gpu := zero_gpu\<lparr>gpu_enabled := True\<rparr>\<rparr>\<rparr>\<rparr>\<rparr>"

definition sample_monitor :: "string \<Rightarrow> string entries \<Rightarrow> monitor" where
  "sample_monitor ns labels =
     \<lparr>mo_namespace = ns, mo_name = ''m'',
      mo_selector = \<lparr>psel_match_labels = Some labels, psel_match_exprs = []\<rparr>,
      mo_namespace_selector = None, mo_endpoints = [], mo_relabel = [], mo_job_label = ''''\<rparr>"

lemma gpu_sample_fields:
  "ka_gpu (k8s_agent gpu_sample) = zero_gpu\<lparr>gpu_enabled := True\<rparr>"
  "na_pod_labels (ka_node (k8s_agent gpu_sample)) = None"
  "oa_targets (open_agent gpu_sample) = []"
  by (simp_all add: gpu_sample_def zero_agent_def zero_k8s_agent_def zero_node_def
      zero_open_agent_def)

lemma gpu_sample_labels: "map_of (agentLabels (k8s_agent gpu_sample)) ''name'' = Some ''whatap-node-agent''"
  by (simp add: agentLabels_def Let_def gpu_sample_fields targetAgentName_def zero_gpu_def)

text \<open>A monitor of another namespace, whatever it scrapes there, displaces the GPU target.\<close>

lemma gpu_target_added_iff_witness:
  "scrape_targets gpu_sample ''whatap-monitoring'' [] [] [] =
     [toOrderedYAML (gpu_target (k8s_agent gpu_sample) ''whatap-monitoring'')] \<and>
   scrape_targets gpu_sample ''whatap-monitoring''
     [sample_monitor ''elsewhere'' [(''name'', ''whatap-node-agent'')]] [] [] =
   user_targets gpu_sample [sample_monitor ''elsewhere'' [(''name'', ''whatap-node-agent'')]] [] []"
proof -
  let ?m = "sample_monitor ''elsewhere'' [(''name'', ''whatap-node-agent'')]"
  have ok: "selectors_ok gpu_sample [] []" "selectors_ok gpu_sample [?m] []"
    by (simp_all add: selectors_ok_def gpu_sample_fields sample_monitor_def)
  have "claims_agent (agentLabels (k8s_agent gpu_sample)) (entries (psel_match_labels (mo_selector ?m)))"
    by (simp add: claims_agent_def sample_monitor_def gpu_sample_labels identityKeys_def)
  then have "agent_targeted gpu_sample [?m] []" by (simp add: agent_targeted_def)
  moreover have "\<not> agent_targeted gpu_sample [] []"
    by (simp add: agent_targeted_def gpu_sample_fields)
  moreover have "user_targets gpu_sample [] [] [] = []"
    by (simp add: user_targets_def gpu_sample_fields)
  moreover have "gpu_enabled (ka_gpu (k8s_agent gpu_sample))" by (simp add: gpu_sample_fields)
  ultimately show ?thesis
    using gpu_target_added_iff [OF ok(1), of "''whatap-monitoring''" "[]"]
      gpu_target_added_iff [OF ok(2), of "''whatap-monitoring''" "[]"] by simp
qed

definition print_names :: "scrape_config \<Rightarrow> string + string" where
  "print_names c = Inr (concat (map (\<lambda>t. case target_field ''targetName'' t of
     Some (YStr s) \<Rightarrow> s | _ \<Rightarrow> []) (scr_targets c)))"



end
