(* ===== verification/OpenAgent.thy ===== *)
theory OpenAgent
  imports AgentSpecs ScrapeConfig
begin

text \<open>
  The open agent's Deployment: the TLS secrets its targets refer to
  (\<open>collectAllTLSSecrets\<close>), the volumes that mount them, and the Deployment
  \<open>installOpenAgent\<close> renders and updates (\<open>src/internal/controller/install_agents.go\<close>).
  The API calls around them are in theory \<open>Reconciler\<close>.
\<close>

section \<open>TLS secrets\<close>

text \<open>A \<open>map[string][]string\<close> from the name of a secret to the keys used of it.\<close>

type_synonym tls_secrets = "string list entries"

fun contains :: "string list \<Rightarrow> string \<Rightarrow> bool" where
  "contains [] item = False"
| "contains (s # slice) item = (if s = item then True else contains slice item)"

lemma contains_iff [simp]: "contains slice item \<longleftrightarrow> item \<in> set slice"
  by (induction slice) auto

definition add_tls_secret :: "secret_key_selector option \<Rightarrow> tls_secrets \<Rightarrow> tls_secrets" where
  "add_tls_secret sel secrets =
     (case sel of
        None \<Rightarrow> secrets
      | Some s \<Rightarrow>
          (let secrets = (if map_of secrets (sks_name s) = None
                          then AList.update (sks_name s) [] secrets else secrets);
               ks = (case map_of secrets (sks_name s) of None \<Rightarrow> [] | Some ks \<Rightarrow> ks)
           in if \<not> contains ks (sks_key s) then AList.update (sks_name s) (ks @ [sks_key s]) secrets
              else secrets))"

definition addTLSSecretsFromEndpoints ::
  "tls_secrets \<Rightarrow> open_agent_endpoint list \<Rightarrow> tls_secrets" where
  "addTLSSecretsFromEndpoints secrets endpoints =
     foldl (\<lambda>secrets e.
       case oe_tls e of
         None \<Rightarrow> secrets
       | Some tls \<Rightarrow> add_tls_secret (tls_key_secret tls)
           (add_tls_secret (tls_cert_secret tls) (add_tls_secret (tls_ca_secret tls) secrets)))
       secrets endpoints"

definition collectTLSSecrets :: "open_agent_target_spec list \<Rightarrow> tls_secrets" where
  "collectTLSSecrets targets =
     foldl (\<lambda>secrets t. addTLSSecretsFromEndpoints secrets (ot_endpoints t)) [] targets"

definition collectAllTLSSecrets ::
  "open_agent_target_spec list \<Rightarrow> monitor list \<Rightarrow> monitor list \<Rightarrow> tls_secrets" where
  "collectAllTLSSecrets targets pms sms =
     (let secrets = foldl (\<lambda>secrets t. addTLSSecretsFromEndpoints secrets (ot_endpoints t)) [] targets;
          secrets = foldl (\<lambda>secrets m. addTLSSecretsFromEndpoints secrets (mo_endpoints m)) secrets pms
      in foldl (\<lambda>secrets m. addTLSSecretsFromEndpoints secrets (mo_endpoints m)) secrets sms)"

section \<open>Volumes\<close>

definition tls_volume_name :: "string \<Rightarrow> string" where
  "tls_volume_name secretName = ''tls-secret-'' @ secretName"

definition tls_volume :: "string \<times> string list \<Rightarrow> volume" where
  "tls_volume e =
     (case e of (secretName, secretKeys) \<Rightarrow>
        \<lparr>vol_name = tls_volume_name secretName,
         vol_source = SecretVolume secretName (Some True) (map (\<lambda>k. (k, k)) secretKeys)\<rparr>)"

definition tls_mount :: "string \<times> string list \<Rightarrow> volume_mount" where
  "tls_mount e =
     (case e of (secretName, secretKeys) \<Rightarrow>
        (Mount (tls_volume_name secretName) (''/etc/ssl/certs/'' @ secretName))\<lparr>
          vm_read_only := True\<rparr>)"

text \<open>\<open>secrets\<close> is the map in the order its \<open>range\<close> loop visits it.\<close>

definition open_agent_volumes :: "tls_secrets \<Rightarrow> volume list" where
  "open_agent_volumes secrets =
     [\<lparr>vol_name = ''logs-volume'', vol_source = EmptyDir\<rparr>,
      \<lparr>vol_name = ''config-volume'',
       vol_source = ConfigMapVolume ''whatap-open-agent-config'' None\<rparr>] @
     map tls_volume secrets"

definition open_agent_mounts :: "tls_secrets \<Rightarrow> volume_mount list" where
  "open_agent_mounts secrets =
     [Mount ''logs-volume'' ''/app/logs'',
      (Mount ''config-volume'' ''/app/scrape_config.yaml'')\<lparr>vm_sub_path := ''scrape_config.yaml''\<rparr>] @
     map tls_mount secrets"

section \<open>The Deployment\<close>

definition open_agent_pod_security :: "open_agent_spec \<Rightarrow> pod_security" where
  "open_agent_pod_security spec =
     or_else (oa_pod_security spec)
       (no_pod_security\<lparr>psc_run_as_non_root := Some True, psc_run_as_user := Some 1001,
          psc_seccomp := Some ''RuntimeDefault''\<rparr>)"

definition open_agent_container :: "whatap_agent \<Rightarrow> tls_secrets \<Rightarrow> container" where
  "open_agent_container cr secrets =
     (let spec = open_agent cr
      in zero_container\<lparr>
        ct_name := ''whatap-open-agent'',
        ct_image := getOpenAgentImage spec,
        ct_command := getOpenAgentCommand spec,
        ct_args := getOpenAgentArgs spec,
        ct_env := [cr_getWhatapLicenseEnvVar cr, cr_getWhatapHostEnvVar cr,
                   cr_getWhatapPortEnvVar cr] @ oa_envs spec,
        ct_mounts := open_agent_mounts secrets\<rparr>)"

definition open_agent_deployment :: "whatap_agent \<Rightarrow> tls_secrets \<Rightarrow> workload" where
  "open_agent_deployment cr secrets =
     (let spec = open_agent cr
      in \<lparr>wl_replicas = Some 1,
          wl_selector = [(''app'', ''whatap-open-agent'')],
          wl_max_unavailable = StrValue ''25%'',
          wl_max_surge = Some (StrValue ''25%''),
          wl_revision_history = 10,
          wl_progress_deadline = Some 600,
          wl_template =
            \<lparr>pt_labels = pod_labels [(''app'', ''whatap-open-agent'')] (oa_pod_labels spec),
             pt_annotations = copy_annotations (oa_pod_annotations spec),
             pt_spec = zero_pod_spec\<lparr>
               ps_restart_policy := ''Always'',
               ps_grace_period := Some 30,
               ps_dns_policy := ''ClusterFirst'',
               ps_scheduler := ''default-scheduler'',
               ps_service_account := ''whatap-open-agent-sa'',
               ps_tolerations := oa_tolerations spec,
               ps_affinity := oa_affinity spec,
               ps_node_selector := oa_node_selector spec,
               ps_priority_class := oa_priority_class spec,
               ps_pull_secrets := oa_pull_secrets spec,
               ps_node_name := oa_node_name spec,
               ps_security := Some (open_agent_pod_security spec),
               ps_containers := [open_agent_container cr secrets],
               ps_volumes := open_agent_volumes secrets\<rparr>\<rparr>\<rparr>)"

definition update_open_agent ::
  "(container_map \<Rightarrow> container_map) \<Rightarrow> whatap_agent \<Rightarrow> tls_secrets \<Rightarrow> pod_template option \<Rightarrow>
     pod_template" where
  "update_open_agent rng cr secrets existing =
     reconcile_template keep_resources (\<lambda>_. False) rng
       (wl_template (open_agent_deployment cr secrets)) existing"

section \<open>What is collected\<close>

definition tls_secret_refs :: "open_agent_endpoint list \<Rightarrow> secret_key_selector list" where
  "tls_secret_refs es =
     concat (map (\<lambda>e. case oe_tls e of None \<Rightarrow> []
       | Some tls \<Rightarrow> concat (map (\<lambda>x. case x of None \<Rightarrow> [] | Some s \<Rightarrow> [s])
           [tls_ca_secret tls, tls_cert_secret tls, tls_key_secret tls])) es)"

definition keys_of :: "tls_secrets \<Rightarrow> string \<Rightarrow> string list" where
  "keys_of m n = (case map_of m n of None \<Rightarrow> [] | Some ks \<Rightarrow> ks)"

definition has_key :: "tls_secrets \<Rightarrow> string \<Rightarrow> string \<Rightarrow> bool" where
  "has_key m n k \<longleftrightarrow> k \<in> set (keys_of m n)"

lemma has_key_Nil [simp]: "\<not> has_key [] n k"
  by (simp add: has_key_def keys_of_def)

lemma keys_of_update [simp]: "keys_of (AList.update j ks m) n = (if n = j then ks else keys_of m n)"
  by (simp add: keys_of_def update_conv')

lemma keys_of_add:
  "keys_of (add_tls_secret (Some s) m) n =
     (if n = sks_name s \<and> sks_key s \<notin> set (keys_of m n) then keys_of m n @ [sks_key s]
      else keys_of m n)"
proof (cases "map_of m (sks_name s)")
  case None
  then have "keys_of m (sks_name s) = []" by (simp add: keys_of_def)
  with None show ?thesis by (simp add: add_tls_secret_def update_conv')
next
  case (Some ks)
  then have "keys_of m (sks_name s) = ks" by (simp add: keys_of_def)
  with Some show ?thesis by (simp add: add_tls_secret_def)
qed

lemma add_tls_secret_simps [simp]:
  "add_tls_secret None m = m"
  "has_key (add_tls_secret (Some s) m) n k \<longleftrightarrow>
     n = sks_name s \<and> k = sks_key s \<or> has_key m n k"
  by (simp add: add_tls_secret_def) (auto simp: has_key_def keys_of_add)

lemma distinct_add_tls_secret:
  "distinct (map fst m) \<Longrightarrow> distinct (map fst (add_tls_secret s m))"
  by (auto simp: add_tls_secret_def Let_def distinct_update split: option.splits)


lemma endpoints_fold:
  "addTLSSecretsFromEndpoints m es =
     foldl (\<lambda>m s. add_tls_secret (Some s) m) m (tls_secret_refs es)"
proof (induction es arbitrary: m)
  case Nil
  then show ?case by (simp add: addTLSSecretsFromEndpoints_def tls_secret_refs_def)
next
  case (Cons e es)
  have refs: "tls_secret_refs (e # es) = tls_secret_refs [e] @ tls_secret_refs es"
    by (simp add: tls_secret_refs_def)
  have "addTLSSecretsFromEndpoints m [e] =
      foldl (\<lambda>m s. add_tls_secret (Some s) m) m (tls_secret_refs [e])"
    by (simp add: addTLSSecretsFromEndpoints_def tls_secret_refs_def split: option.split)
  moreover have "addTLSSecretsFromEndpoints m (e # es) =
      addTLSSecretsFromEndpoints (addTLSSecretsFromEndpoints m [e]) es"
    by (simp add: addTLSSecretsFromEndpoints_def)
  ultimately show ?case by (simp add: refs Cons.IH)
qed

lemma has_key_endpoints:
  "has_key (addTLSSecretsFromEndpoints m es) n k \<longleftrightarrow>
     has_key m n k \<or> (\<exists>s\<in>set (tls_secret_refs es). n = sks_name s \<and> k = sks_key s)"
proof -
  have "has_key (foldl (\<lambda>m s. add_tls_secret (Some s) m) m ss) n k \<longleftrightarrow>
      has_key m n k \<or> (\<exists>s\<in>set ss. n = sks_name s \<and> k = sks_key s)" for ss
    by (induction ss arbitrary: m) auto
  then show ?thesis by (simp only: endpoints_fold)
qed

lemma distinct_endpoints:
  "distinct (map fst m) \<Longrightarrow> distinct (map fst (addTLSSecretsFromEndpoints m es))"
proof -
  have "distinct (map fst m) \<Longrightarrow> distinct (map fst (foldl (\<lambda>m s. add_tls_secret (Some s) m) m ss))"
    for ss
    by (induction ss arbitrary: m) (simp_all add: distinct_add_tls_secret)
  then show "distinct (map fst m) \<Longrightarrow> distinct (map fst (addTLSSecretsFromEndpoints m es))"
    by (simp only: endpoints_fold)
qed

lemma fold_endpoints:
  "has_key (foldl (\<lambda>m x. addTLSSecretsFromEndpoints m (f x)) m xs) n k \<longleftrightarrow>
     has_key m n k \<or> (\<exists>x\<in>set xs. \<exists>s\<in>set (tls_secret_refs (f x)). n = sks_name s \<and> k = sks_key s)"
  "distinct (map fst m) \<Longrightarrow>
     distinct (map fst (foldl (\<lambda>m x. addTLSSecretsFromEndpoints m (f x)) m xs))"
  by (induction xs arbitrary: m) (auto simp: has_key_endpoints distinct_endpoints)

text \<open>The endpoints whose secrets are looked at: all but those of static endpoints.\<close>

definition collected_endpoints ::
  "open_agent_target_spec list \<Rightarrow> monitor list \<Rightarrow> monitor list \<Rightarrow> open_agent_endpoint list" where
  "collected_endpoints targets pms sms =
     concat (map ot_endpoints targets) @ concat (map mo_endpoints (pms @ sms))"

lemma tls_secret_refs_append [simp]: "tls_secret_refs (xs @ ys) = tls_secret_refs xs @ tls_secret_refs ys"
  by (simp add: tls_secret_refs_def)

lemma tls_secret_refs_concat: "set (tls_secret_refs (concat xss)) = (\<Union>xs\<in>set xss. set (tls_secret_refs xs))"
  by (induction xss) (simp_all add: tls_secret_refs_def)

lemma collected_iff:
  "has_key (collectAllTLSSecrets targets pms sms) n k \<longleftrightarrow>
     (\<exists>s\<in>set (tls_secret_refs (collected_endpoints targets pms sms)). n = sks_name s \<and> k = sks_key s)"
  unfolding collectAllTLSSecrets_def Let_def fold_endpoints collected_endpoints_def
    tls_secret_refs_append set_append tls_secret_refs_concat set_map
  by auto

lemma distinct_collected: "distinct (map fst (collectAllTLSSecrets targets pms sms))"
  unfolding collectAllTLSSecrets_def Let_def by (intro fold_endpoints(2)) simp

section \<open>What is mounted\<close>

text \<open>A container of the pod sees the key of a mounted secret under the path.\<close>

definition secret_file_mounted :: "pod_spec \<Rightarrow> string \<Rightarrow> bool" where
  "secret_file_mounted ps path \<longleftrightarrow>
     (\<exists>c\<in>set (ps_containers ps). \<exists>m\<in>set (ct_mounts c). \<exists>v\<in>set (ps_volumes ps).
        vol_name v = vm_name m \<and>
        (\<exists>n opt items key. vol_source v = SecretVolume n opt items \<and> (key, key) \<in> set items \<and>
           path = vm_path m @ ''/'' @ key))"

lemma open_agent_pod:
  "ps_containers (pt_spec (wl_template (open_agent_deployment cr secrets))) =
     [open_agent_container cr secrets]"
  "ps_init_containers (pt_spec (wl_template (open_agent_deployment cr secrets))) = []"
  "ps_volumes (pt_spec (wl_template (open_agent_deployment cr secrets))) = open_agent_volumes secrets"
  "ct_mounts (open_agent_container cr secrets) = open_agent_mounts secrets"
  by (simp_all add: open_agent_deployment_def open_agent_container_def zero_pod_spec_def Let_def)

lemma tls_volume_fields [simp]:
  "vol_name (tls_volume (n, ks)) = tls_volume_name n"
  "vol_source (tls_volume (n, ks)) = SecretVolume n (Some True) (map (\<lambda>k. (k, k)) ks)"
  "vm_name (tls_mount (n, ks)) = tls_volume_name n"
  "vm_path (tls_mount (n, ks)) = ''/etc/ssl/certs/'' @ n"
  by (simp_all add: tls_volume_def tls_mount_def)

lemma tls_volume_name_inj: "tls_volume_name n = tls_volume_name m \<longleftrightarrow> n = m"
  by (simp add: tls_volume_name_def)

lemma tls_volume_name_fresh: "tls_volume_name n \<noteq> ''logs-volume''" "tls_volume_name n \<noteq> ''config-volume''"
  by (simp_all add: tls_volume_name_def)

lemma tls_volume_names: "map vol_name (map tls_volume secrets) = map tls_volume_name (map fst secrets)"
  by (induction secrets) auto

lemma open_agent_volume_names:
  "map vol_name (open_agent_volumes secrets) =
     [''logs-volume'', ''config-volume''] @ map tls_volume_name (map fst secrets)"
  by (simp add: open_agent_volumes_def tls_volume_names [simplified])

lemma open_agent_mount_names:
  "map vm_name (open_agent_mounts secrets) =
     [''logs-volume'', ''config-volume''] @ map tls_volume_name (map fst secrets)"
  by (induction secrets) (auto simp: open_agent_mounts_def)

lemma open_agent_pod_ok:
  assumes "distinct (map fst secrets)"
  shows "pod_volumes_ok (pt_spec (wl_template (open_agent_deployment cr secrets)))"
proof -
  have "distinct (map tls_volume_name (map fst secrets))"
    using assms by (simp add: distinct_map inj_on_def tls_volume_name_inj)
  then have "distinct (map vol_name (open_agent_volumes secrets))"
    unfolding open_agent_volume_names
    using tls_volume_name_fresh by (auto simp: eq_commute [of "''logs-volume''"] eq_commute [of "''config-volume''"])
  moreover have "set (map vm_name (open_agent_mounts secrets)) = names vol_name (open_agent_volumes secrets)"
    unfolding open_agent_mount_names names_def by (simp only: open_agent_volume_names set_map [symmetric])
  ultimately show ?thesis
    by (auto simp: pod_volumes_ok_def open_agent_pod)
qed

lemma collected_file_mounted:
  assumes "mset secrets = mset (collectAllTLSSecrets targets pms sms)"
    and "s \<in> set (tls_secret_refs (collected_endpoints targets pms sms))"
  shows "secret_file_mounted (pt_spec (wl_template (open_agent_deployment cr secrets))) (tls_path s)"
proof -
  have "has_key (collectAllTLSSecrets targets pms sms) (sks_name s) (sks_key s)"
    using assms(2) by (auto simp: collected_iff)
  then obtain ks where "(sks_name s, ks) \<in> set (collectAllTLSSecrets targets pms sms)"
    and key: "sks_key s \<in> set ks"
    by (cases "map_of (collectAllTLSSecrets targets pms sms) (sks_name s)")
      (auto simp: has_key_def keys_of_def dest: map_of_SomeD)
  then have e: "(sks_name s, ks) \<in> set secrets" using assms(1) by (metis mset_eq_setD)
  show ?thesis
    unfolding secret_file_mounted_def open_agent_pod list.set
  proof (intro bexI [of _ "open_agent_container cr secrets"] bexI [of _ "tls_mount (sks_name s, ks)"]
      bexI [of _ "tls_volume (sks_name s, ks)"] conjI exI)
    show "(sks_key s, sks_key s) \<in> set (map (\<lambda>k. (k, k)) ks)" using key by auto
    show "tls_path s = vm_path (tls_mount (sks_name s, ks)) @ ''/'' @ sks_key s"
      by (simp add: tls_path_def)
  qed (use e in \<open>auto simp: open_agent_pod open_agent_mounts_def open_agent_volumes_def\<close>)
qed

text \<open>The file entries of the rendered TLS configuration.\<close>

lemma tls_file_entry:
  "(k, v) \<in> set (tls_file j file secret) \<longleftrightarrow>
     k = j \<and> (if file \<noteq> '''' then v = YStr file else (\<exists>s. secret = Some s \<and> v = YStr (tls_path s)))"
  by (auto simp: tls_file_def split: option.split)

definition tls_files :: "yv \<Rightarrow> string list" where
  "tls_files v =
     (case v of
        YMap items \<Rightarrow> concat (map (\<lambda>(k, x). case x of
          YStr p \<Rightarrow> if k \<in> {''caFile'', ''certFile'', ''keyFile''} then [p] else [] | _ \<Rightarrow> []) items)
      | _ \<Rightarrow> [])"

lemma tls_files_convert:
  "tls_files (convert_tls tls) =
     concat (map (\<lambda>(file, secret). if file \<noteq> '''' then [file]
         else case secret of None \<Rightarrow> [] | Some s \<Rightarrow> [tls_path s])
       [(tls_ca_file tls, tls_ca_secret tls), (tls_cert_file tls, tls_cert_secret tls),
        (tls_key_file tls, tls_key_secret tls)])"
  by (simp add: tls_files_def convert_tls_def tls_file_def opt_def split: option.split)


text \<open>The secrets of static endpoints are forgotten: with TLS secrets in static endpoints only, the
  scrape configuration names their files, and no secret is mounted at all.\<close>

theorem static_tls_not_mounted:
  assumes "tls_secret_refs (collected_endpoints targets pms sms) = []"
    and "mset secrets = mset (collectAllTLSSecrets targets pms sms)"
    and "tls_ca_secret tls = Some s" and "tls_ca_file tls = ''''"
  shows "tls_path s \<in> set (tls_files (convert_tls tls)) \<and>
         \<not> secret_file_mounted (pt_spec (wl_template (open_agent_deployment cr secrets))) path"
proof
  show "tls_path s \<in> set (tls_files (convert_tls tls))"
    unfolding tls_files_convert using assms(3,4) by simp
  have none: "\<not> has_key (collectAllTLSSecrets targets pms sms) n k" for n k
    by (simp add: collected_iff assms(1))
  have empty: "ks = []" if "(n, ks) \<in> set secrets" for n ks
  proof -
    have "(n, ks) \<in> set (collectAllTLSSecrets targets pms sms)"
      using that assms(2) by (metis mset_eq_setD)
    then have "keys_of (collectAllTLSSecrets targets pms sms) n = ks"
      using distinct_collected by (simp add: keys_of_def map_of_eq_Some_iff)
    moreover have "set (keys_of (collectAllTLSSecrets targets pms sms) n) = {}"
      using none [of n] by (intro equals0I) (simp add: has_key_def)
    ultimately show ?thesis by simp
  qed
  show "\<not> secret_file_mounted (pt_spec (wl_template (open_agent_deployment cr secrets))) path"
    by (auto simp: secret_file_mounted_def open_agent_pod open_agent_volumes_def dest!: empty)
qed

section \<open>The order of the volumes\<close>

lemma tls_volume_inj: "tls_volume x = tls_volume y \<longleftrightarrow> x = y"
proof (cases x; cases y)
  fix n ks m ls assume "x = (n, ks)" "y = (m, ls)"
  then show ?thesis
    by (simp add: tls_volume_def tls_volume_name_inj inj_map_eq_map [of "\<lambda>k. (k, k)"] inj_def)
qed

lemma update_open_agent_volumes:
  "ps_volumes (pt_spec (update_open_agent rng cr secrets existing)) = open_agent_volumes secrets"
  by (cases existing)
    (simp_all add: update_open_agent_def reconcile_template_def Let_def open_agent_pod)

text \<open>C38. The volumes are appended in the iteration order of a Go map, which changes from pass to pass:
  the same secrets visited in two different orders give two different pod templates, with the
  same set of volumes, so a pass that changes nothing rolls the open agent out again.\<close>

theorem tls_volume_order_leaks:
  assumes "mset secrets = mset secrets'" and "secrets \<noteq> secrets'"
  shows "update_open_agent rng cr secrets existing \<noteq> update_open_agent rng cr secrets' existing \<and>
         mset (ps_volumes (pt_spec (update_open_agent rng cr secrets existing))) =
           mset (ps_volumes (pt_spec (update_open_agent rng cr secrets' existing)))"
proof
  have "map tls_volume secrets \<noteq> map tls_volume secrets'"
    using assms(2) by (simp add: inj_map_eq_map inj_def tls_volume_inj)
  then have "open_agent_volumes secrets \<noteq> open_agent_volumes secrets'"
    by (simp add: open_agent_volumes_def)
  then show "update_open_agent rng cr secrets existing \<noteq> update_open_agent rng cr secrets' existing"
    by (metis update_open_agent_volumes)
  show "mset (ps_volumes (pt_spec (update_open_agent rng cr secrets existing))) =
      mset (ps_volumes (pt_spec (update_open_agent rng cr secrets' existing)))"
    using assms(1) by (simp add: update_open_agent_volumes open_agent_volumes_def)
qed

section \<open>Witnesses\<close>

definition sample_secret :: "string \<Rightarrow> secret_key_selector" where
  "sample_secret n = \<lparr>sks_name = n, sks_key = ''ca.crt'', sks_namespace = ''''\<rparr>"

definition sample_tls_endpoint :: "string \<Rightarrow> open_agent_endpoint" where
  "sample_tls_endpoint n = zero_endpoint\<lparr>oe_tls := Some (zero_tls\<lparr>tls_ca_secret := Some (sample_secret n)\<rparr>)\<rparr>"

definition tls_monitor :: "string list \<Rightarrow> monitor" where
  "tls_monitor ns = (sample_monitor ''a'' [])\<lparr>mo_endpoints := map sample_tls_endpoint ns\<rparr>"

lemma sample_collected:
  "collectAllTLSSecrets [] [tls_monitor [''s'']] [] = [(''s'', [''ca.crt''])]"
  "collectAllTLSSecrets [] [tls_monitor [''s'', ''t'']] [] = [(''s'', [''ca.crt'']), (''t'', [''ca.crt''])]"
  "collectAllTLSSecrets [] [] [] = []"
  by (simp_all add: collectAllTLSSecrets_def addTLSSecretsFromEndpoints_def tls_monitor_def
      sample_tls_endpoint_def sample_secret_def zero_endpoint_def zero_tls_def add_tls_secret_def)


lemma static_tls_not_mounted_witness:
  "\<not> secret_file_mounted (pt_spec (wl_template (open_agent_deployment gpu_sample [])))
     ''/etc/ssl/certs/s/ca.crt''"
proof -
  have "tls_secret_refs (collected_endpoints [] [] []) = []"
    by (simp add: tls_secret_refs_def collected_endpoints_def)
  then show ?thesis
    using static_tls_not_mounted [of "[]" "[]" "[]" "[]"
        "zero_tls\<lparr>tls_ca_secret := Some (sample_secret ''s'')\<rparr>" "sample_secret ''s''" gpu_sample
        "''/etc/ssl/certs/s/ca.crt''"]
    by (simp add: sample_collected zero_tls_def)
qed

lemma tls_volume_order_leaks_witness:
  "update_open_agent id gpu_sample (collectAllTLSSecrets [] [tls_monitor [''s'', ''t'']] []) None \<noteq>
   update_open_agent id gpu_sample (rev (collectAllTLSSecrets [] [tls_monitor [''s'', ''t'']] [])) None"
  using tls_volume_order_leaks [of "collectAllTLSSecrets [] [tls_monitor [''s'', ''t'']] []"
      "rev (collectAllTLSSecrets [] [tls_monitor [''s'', ''t'']] [])" id gpu_sample None]
  by (simp add: sample_collected)


end
