(* ===== verification/ApiCalls.thy ===== *)
theory ApiCalls
  imports OpenAgent "HOL-Library.State_Monad"
begin

text \<open>
  The operator's side of the Kubernetes API: the requests its controller makes, the objects it
  hands over, and computations that make requests one after the other.

  The API server, the cache and the libraries between them and the operator are not under
  \<open>src/\<close>; they are the record \<open>world\<close>, an argument of every computation.  What a request
  answers may depend in any way on all requests made before, so a theorem about every \<open>world\<close>
  is a theorem about every state of the cluster and every interleaving with other clients.
  A computation only appends to the trace of requests and their answers.
\<close>

section \<open>Objects\<close>

record obj_meta =
  mt_labels :: "string gomap"
  mt_annotations :: "string gomap"
  mt_owners :: opaque

definition new_meta :: obj_meta where
  "new_meta = \<lparr>mt_labels = None, mt_annotations = None, mt_owners = ''''\<rparr>"

record workload_object =
  wo_meta :: obj_meta
  wo_spec :: workload

record data_object =
  do_meta :: obj_meta
  do_data :: "string entries"

record service_object =
  so_owners :: opaque
  so_service :: service

definition new_service :: service_object where
  "new_service = \<lparr>so_owners = '''', so_service = \<lparr>sv_labels = None,
     sv_spec = \<lparr>ss_selector = [], ss_type = '''', ss_ports = [], ss_cluster_ip = '''',
       ss_external_policy = '''', ss_internal_policy = None\<rparr>\<rparr>\<rparr>"

record policy_rule =
  pl_api_groups :: "string list"
  pl_resources :: "string list"
  pl_non_resource_urls :: "string list"
  pl_verbs :: "string list"

record role_object =
  ro_meta :: obj_meta
  ro_rules :: "policy_rule list"

record subject =
  sj_kind :: string
  sj_name :: string
  sj_namespace :: string

record binding_object =
  bo_meta :: obj_meta
  bo_subjects :: "subject list"
  bo_role :: string

record mutating_webhook =
  mw_name :: string
  mw_service_name :: string
  mw_service_namespace :: string
  mw_path :: string
  mw_ca_bundle :: string
  mw_operations :: "string list"
  mw_api_groups :: "string list"
  mw_api_versions :: "string list"
  mw_resources :: "string list"
  mw_failure_policy :: string
  mw_review_versions :: "string list"
  mw_side_effects :: string
  mw_rest :: opaque

record webhooks_object =
  wh_meta :: obj_meta
  wh_webhooks :: "mutating_webhook list"

section \<open>Requests\<close>

datatype error_reason = NotFound | Conflict | OtherReason

record api_error =
  ae_reason :: error_reason
  ae_text :: string

text \<open>What a mutate function of \<open>CreateOrUpdate\<close> makes of the object found, if one was found.\<close>

type_synonym 'a mutation = "'a option \<Rightarrow> api_error + 'a"

datatype object_kind =
    Deployment | DaemonSet | ConfigMapKind | ServiceAccount | ClusterRole | ClusterRoleBinding
  | ServiceKind | SecretKind | MutatingWebhook

datatype request =
    GetAgent
  | UpdateAgent whatap_agent
  | UpdateStatus whatap_agent
  | ListPodMonitors
  | ListServiceMonitors
  | ListStaticEndpoints
  | ListAgents
  | GetObject object_kind string string
  | DeleteObject object_kind string string
  | ApplyWorkload object_kind string string "workload_object mutation"
  | ApplyData object_kind string string "data_object mutation"
  | ApplyService string string "service_object mutation"
  | ApplyAccount string string "obj_meta mutation"
  | ApplyRole string "role_object mutation"
  | ApplyBinding string "binding_object mutation"
  | ApplyWebhooks string "webhooks_object mutation"
  | RecordEvent string string
  | Sleep nat

text \<open>A request with its answer: \<open>None\<close> if it was granted.\<close>

type_synonym event = "request \<times> api_error option"
type_synonym trace = "event list"
type_synonym 'a io = "(trace, 'a) state"

section \<open>The world\<close>

text \<open>
  The reconciler's own fields come first.  \<open>w_answer\<close> is the answer to a request after the
  requests made so far; \<open>w_agent\<close> and the lists are what a granted read or update returns.
  \<open>w_own\<close> is \<open>SetControllerReference\<close>, \<open>w_has_finalizer\<close>, \<open>w_add_finalizer\<close> and
  \<open>w_remove_finalizer\<close> are their namesakes of \<open>controllerutil\<close>, \<open>w_set_condition\<close> is
  \<open>SetStatusCondition\<close>, \<open>w_retry\<close> is \<open>RetryOnConflict\<close> with the default backoff, \<open>w_marshal\<close> is
  \<open>yaml.Marshal\<close>.  \<open>w_range\<close> and \<open>w_tls_range\<close> are the orders in which the runtime iterates
  the map of new containers and the map of TLS secrets in the given attempt.
\<close>

record world =
  w_namespace :: string
  w_ca_bundle :: string
  w_ca_key :: string
  w_server_cert :: string
  w_server_key :: string
  w_answer :: "trace \<Rightarrow> request \<Rightarrow> api_error option"
  w_agent :: "trace \<Rightarrow> whatap_agent"
  w_pod_monitors :: "trace \<Rightarrow> monitor list"
  w_service_monitors :: "trace \<Rightarrow> monitor list"
  w_static_endpoints :: "trace \<Rightarrow> static_endpoint list"
  w_agents :: "trace \<Rightarrow> whatap_agent list"
  w_own :: "whatap_agent \<Rightarrow> opaque \<Rightarrow> api_error + opaque"
  w_has_finalizer :: "string list \<Rightarrow> string \<Rightarrow> bool"
  w_add_finalizer :: "string list \<Rightarrow> string \<Rightarrow> string list"
  w_remove_finalizer :: "string list \<Rightarrow> string \<Rightarrow> string list"
  w_set_condition :: "condition list \<Rightarrow> condition \<Rightarrow> condition list"
  w_retry :: "api_error option io \<Rightarrow> api_error option io"
  w_marshal :: "scrape_config \<Rightarrow> string + string"
  w_range :: "container_map \<Rightarrow> container_map"
  w_tls_range :: "nat \<Rightarrow> tls_secrets \<Rightarrow> tls_secrets"

definition call :: "world \<Rightarrow> request \<Rightarrow> api_error option io" where
  "call w req = State (\<lambda>t. (w_answer w t req, t @ [(req, w_answer w t req)]))"

text \<open>Reading something the server returned with its last answer.\<close>

definition returned :: "(trace \<Rightarrow> 'a) \<Rightarrow> 'a io" where
  "returned f = State (\<lambda>t. (f t, t))"

definition get_agent :: "world \<Rightarrow> (api_error + whatap_agent) io" where
  "get_agent w = do {
     r \<leftarrow> call w GetAgent;
     cr \<leftarrow> returned (w_agent w);
     State_Monad.return (case r of None \<Rightarrow> Inr cr | Some e \<Rightarrow> Inl e)
   }"

text \<open>A granted update refreshes the object from the answer, a refused one leaves it.\<close>

definition update_status :: "world \<Rightarrow> whatap_agent \<Rightarrow> (api_error option \<times> whatap_agent) io" where
  "update_status w cr = do {
     r \<leftarrow> call w (UpdateStatus cr);
     cr' \<leftarrow> returned (w_agent w);
     State_Monad.return (r, if r = None then cr' else cr)
   }"

definition update_agent :: "world \<Rightarrow> whatap_agent \<Rightarrow> (api_error option \<times> whatap_agent) io" where
  "update_agent w cr = do {
     r \<leftarrow> call w (UpdateAgent cr);
     cr' \<leftarrow> returned (w_agent w);
     State_Monad.return (r, if r = None then cr' else cr)
   }"

text \<open>\<open>client.IgnoreNotFound\<close> and \<open>errors.IsNotFound\<close> look at the reason only.\<close>

definition ignore_not_found :: "api_error option \<Rightarrow> api_error option" where
  "ignore_not_found e =
     (case e of Some err \<Rightarrow> if ae_reason err = NotFound then None else Some err | None \<Rightarrow> None)"

section \<open>What a computation appends\<close>

text \<open>
  \<open>emits P m\<close>: from every trace, \<open>m\<close> appends only events that satisfy \<open>P\<close>.
  \<open>at_most n m\<close>: it appends no more than \<open>n\<close>.
\<close>

named_theorems emits_intros \<open>rules that follow the structure of a computation\<close>
named_theorems at_most_intros \<open>the same for the number of requests\<close>

definition emits :: "(event \<Rightarrow> bool) \<Rightarrow> 'a io \<Rightarrow> bool" where
  "emits P m \<longleftrightarrow> (\<forall>t. \<exists>u. snd (run_state m t) = t @ u \<and> list_all P u)"

definition at_most :: "nat \<Rightarrow> 'a io \<Rightarrow> bool" where
  "at_most n m \<longleftrightarrow> (\<forall>t. \<exists>u. snd (run_state m t) = t @ u \<and> length u \<le> n)"

lemma emits_return [emits_intros]: "emits P (State_Monad.return x)"
  by (simp add: emits_def)

lemma emits_returned [emits_intros]: "emits P (returned f)"
  by (simp add: emits_def returned_def)

lemma emits_call [emits_intros]: "(\<And>r. P (req, r)) \<Longrightarrow> emits P (call w req)"
  by (simp add: emits_def call_def)

lemma emits_bind [emits_intros]:
  assumes "emits P m" and "\<And>x. emits P (f x)"
  shows "emits P (State_Monad.bind m f)"
  unfolding emits_def
proof
  fix t
  obtain x t' where m: "run_state m t = (x, t')" by fastforce
  obtain u where u: "t' = t @ u" "list_all P u"
    using assms(1) unfolding emits_def by (metis m snd_conv)
  obtain u' where u': "snd (run_state (f x) t') = t' @ u'" "list_all P u'"
    using assms(2) unfolding emits_def by metis
  show "\<exists>u. snd (run_state (State_Monad.bind m f) t) = t @ u \<and> list_all P u"
    using u u' by (intro exI [of _ "u @ u'"]) (simp add: m)
qed

lemma emits_cases [emits_intros]:
  "(b \<Longrightarrow> emits P m) \<Longrightarrow> (\<not> b \<Longrightarrow> emits P n) \<Longrightarrow> emits P (if b then m else n)"
  "(e = None \<Longrightarrow> emits P m) \<Longrightarrow> (\<And>x. e = Some x \<Longrightarrow> emits P (f x)) \<Longrightarrow>
     emits P (case e of None \<Rightarrow> m | Some x \<Rightarrow> f x)"
  "(\<And>x. s = Inl x \<Longrightarrow> emits P (g x)) \<Longrightarrow> (\<And>x. s = Inr x \<Longrightarrow> emits P (h x)) \<Longrightarrow>
     emits P (case s of Inl x \<Rightarrow> g x | Inr x \<Rightarrow> h x)"
  "(\<And>x y. p = (x, y) \<Longrightarrow> emits P (k x y)) \<Longrightarrow> emits P (case p of (x, y) \<Rightarrow> k x y)"
  by (auto split: option.split sum.split prod.split)

lemma emits_mono: "emits P m \<Longrightarrow> (\<And>e. P e \<Longrightarrow> Q e) \<Longrightarrow> emits Q m"
  unfolding emits_def by (meson list.pred_mono_strong)

lemma at_most_return [at_most_intros]: "at_most n (State_Monad.return x)"
  by (simp add: at_most_def)

lemma at_most_returned [at_most_intros]: "at_most n (returned f)"
  by (simp add: at_most_def returned_def)

lemma at_most_call: "0 < n \<Longrightarrow> at_most n (call w req)"
  by (simp add: at_most_def call_def)

lemma at_most_bind:
  assumes "at_most j m" and "\<And>x. at_most k (f x)" and "j + k \<le> n"
  shows "at_most n (State_Monad.bind m f)"
  unfolding at_most_def
proof
  fix t
  obtain x t' where m: "run_state m t = (x, t')" by fastforce
  obtain u where u: "t' = t @ u" "length u \<le> j"
    using assms(1) unfolding at_most_def by (metis m snd_conv)
  obtain u' where u': "snd (run_state (f x) t') = t' @ u'" "length u' \<le> k"
    using assms(2) unfolding at_most_def by metis
  show "\<exists>u. snd (run_state (State_Monad.bind m f) t) = t @ u \<and> length u \<le> n"
    using u u' assms(3) by (intro exI [of _ "u @ u'"]) (simp add: m)
qed

lemma at_most_call_bind [at_most_intros]:
  "(\<And>x. at_most n (f x)) \<Longrightarrow> at_most (Suc n) (State_Monad.bind (call w req) f)"
  by (rule at_most_bind [of 1 _ n]) (simp_all add: at_most_call)

lemma at_most_returned_bind [at_most_intros]:
  "(\<And>x. at_most n (f x)) \<Longrightarrow> at_most n (State_Monad.bind (returned g) f)"
  by (rule at_most_bind [of 0 _ n]) (simp_all add: at_most_returned)

lemma at_most_cases [at_most_intros]:
  "(b \<Longrightarrow> at_most n l) \<Longrightarrow> (\<not> b \<Longrightarrow> at_most n m) \<Longrightarrow> at_most n (if b then l else m)"
  "at_most n m \<Longrightarrow> (\<And>x. at_most n (f x)) \<Longrightarrow> at_most n (case e of None \<Rightarrow> m | Some x \<Rightarrow> f x)"
  "(\<And>x. at_most n (g x)) \<Longrightarrow> (\<And>x. at_most n (h x)) \<Longrightarrow>
     at_most n (case s of Inl x \<Rightarrow> g x | Inr x \<Rightarrow> h x)"
  "(\<And>x y. at_most n (k x y)) \<Longrightarrow> at_most n (case p of (x, y) \<Rightarrow> k x y)"
  by (auto split: option.split sum.split prod.split)

lemma at_most_mono: "at_most j m \<Longrightarrow> j \<le> n \<Longrightarrow> at_most n m"
  unfolding at_most_def by (meson order_trans)

text \<open>\<open>RetryOnConflict\<close> as documented: the function is repeated as long as it returns a conflict, a
  bounded number of times, and its last result is the result.\<close>

fun tries :: "nat \<Rightarrow> api_error option io \<Rightarrow> api_error option io" where
  "tries 0 m = m"
| "tries (Suc n) m = do {
     e \<leftarrow> m;
     (case e of
        None \<Rightarrow> State_Monad.return None
      | Some err \<Rightarrow> if ae_reason err = Conflict then tries n m else State_Monad.return (Some err))
   }"

definition retries :: "world \<Rightarrow> nat \<Rightarrow> bool" where
  "retries w n \<longleftrightarrow> (\<forall>m. w_retry w m = tries n m)"

lemma emits_tries: "emits P m \<Longrightarrow> emits P (tries n m)"
  by (induction n) (auto intro!: emits_intros)

lemma at_most_tries: "at_most k m \<Longrightarrow> at_most (Suc n * k) (tries n m)"
proof (induction n)
  case (Suc n)
  show ?case
    unfolding tries.simps
    by (rule at_most_bind [of k _ "Suc n * k"])
      (use Suc in \<open>auto intro!: at_most_intros split: option.split\<close>)
qed simp

end
