(* ===== verification/NodeAffinity.thy ===== *)
theory NodeAffinity
  imports AgentApi Samples
begin

text \<open>
  Where the node agents run (\<open>src/internal/controller/install_agents.go\<close>): with GPU monitoring
  restricted by a node selector or a node affinity, \<open>createOrUpdateNodeAgent\<close> deploys two
  DaemonSets, one for the GPU nodes and one for the others, and computes the second one's
  terms as the negation of the first one's.

  The two calls of \<open>reconcileNodeAgentDaemonSet\<close> share the custom resource in memory:
  \<open>nodeSpec.Affinity\<close> is a pointer, the pod template takes it over, and the block that adds the
  terms writes through it.  The model passes that object along: a call takes the custom
  resource's affinity and returns what it leaves there.
\<close>

section \<open>The code\<close>

definition negate_op :: "string \<Rightarrow> string option" where
  "negate_op oper =
     (if oper = ''In'' then Some ''NotIn''
      else if oper = ''NotIn'' then Some ''In''
      else if oper = ''Exists'' then Some ''DoesNotExist''
      else if oper = ''DoesNotExist'' then Some ''Exists''
      else None)"

fun negate_exprs :: "node_req list \<Rightarrow> node_term list" where
  "negate_exprs [] = []"
| "negate_exprs (r # rs) =
     (case negate_op (nr_op r) of
        None \<Rightarrow> negate_exprs rs
      | Some oper \<Rightarrow>
          \<lparr>nt_exprs = [\<lparr>nr_key = nr_key r, nr_op = oper, nr_values = nr_values r\<rparr>],
           nt_fields = ''''\<rparr> # negate_exprs rs)"

definition negateNodeSelectorTerm :: "node_term \<Rightarrow> node_term list" where
  "negateNodeSelectorTerm t = negate_exprs (nt_exprs t)"

text \<open>The block of \<open>reconcileNodeAgentDaemonSet\<close> under \<open>len(affinityTerms) > 0\<close>.\<close>

definition merge_terms :: "node_term list \<Rightarrow> node_term list \<Rightarrow> node_term list" where
  "merge_terms existing added =
     (if existing = [] then existing @ added
      else concat (map (\<lambda>et. map (\<lambda>at. et\<lparr>nt_exprs := nt_exprs et @ nt_exprs at\<rparr>) added) existing))"

definition add_affinity_terms :: "affinity option \<Rightarrow> node_term list \<Rightarrow> affinity option" where
  "add_affinity_terms aff terms =
     (if terms = [] then aff
      else
        (let aff = (case aff of None \<Rightarrow> \<lparr>af_node = None, af_rest = ''''\<rparr> | Some a \<Rightarrow> a);
             node = (case af_node aff of
                       None \<Rightarrow> \<lparr>naf_required = None, naf_preferred = ''''\<rparr> | Some n \<Rightarrow> n);
             existing = (case naf_required node of None \<Rightarrow> [] | Some ts \<Rightarrow> ts)
         in Some (aff\<lparr>af_node := Some (node\<lparr>naf_required := Some (merge_terms existing terms)\<rparr>)\<rparr>)))"

text \<open>
  One call: the template's affinity, and what the custom resource's pointer leads to
  afterwards.  A nil pointer is replaced in the template only; another one is written through.
\<close>

definition place_affinity ::
  "affinity option \<Rightarrow> node_term list \<Rightarrow> affinity option \<times> affinity option" where
  "place_affinity cr_aff terms =
     (let result = add_affinity_terms cr_aff terms
      in (result, if cr_aff = None then None else result))"

text \<open>Where a DaemonSet may run: the node selector of its template and its affinity.\<close>

record placement =
  pl_selector :: "string gomap"
  pl_affinity :: "affinity option"

definition gpu_affinity_terms :: "gpu_monitoring_spec \<Rightarrow> node_term list option" where
  "gpu_affinity_terms gpu =
     (case gpu_affinity gpu of None \<Rightarrow> None
      | Some a \<Rightarrow> (case af_node a of None \<Rightarrow> None | Some n \<Rightarrow> naf_required n))"

definition split_agents :: "gpu_monitoring_spec \<Rightarrow> bool" where
  "split_agents gpu \<longleftrightarrow>
     gpu_enabled gpu \<and> (entries (gpu_node_selector gpu) \<noteq> [] \<or> gpu_affinity_terms gpu \<noteq> None)"

definition negated_gpu_terms :: "gpu_monitoring_spec \<Rightarrow> node_term list" where
  "negated_gpu_terms gpu =
     map (\<lambda>(k, v). \<lparr>nt_exprs = [\<lparr>nr_key = k, nr_op = ''NotIn'', nr_values = [v]\<rparr>],
                    nt_fields = ''''\<rparr>) (entries (gpu_node_selector gpu)) @
     (case gpu_affinity_terms gpu of
        Some [t] \<Rightarrow> negateNodeSelectorTerm t
      | _ \<Rightarrow> [])"

text \<open>
  \<open>reconcileNodeAgentDaemonSet\<close> replaces the template's node selector when it is given one
  that is not nil; otherwise the custom resource's stays.
\<close>

definition place_agent ::
  "node_agent_spec \<Rightarrow> string gomap \<Rightarrow> node_term list \<Rightarrow> placement \<times> node_agent_spec" where
  "place_agent node nodeSelector terms =
     (case place_affinity (na_affinity node) terms of
        (aff, cr_aff) \<Rightarrow>
          (\<lparr>pl_selector = (if nodeSelector \<noteq> None then nodeSelector else na_node_selector node),
            pl_affinity = aff\<rparr>,
           node\<lparr>na_affinity := cr_aff\<rparr>))"

text \<open>The placements of \<open>whatap-node-agent-gpu\<close> (if there is one) and \<open>whatap-node-agent\<close>.\<close>

definition place_node_agents ::
  "node_agent_spec \<Rightarrow> gpu_monitoring_spec \<Rightarrow> placement option \<times> placement" where
  "place_node_agents node gpu =
     (if split_agents gpu then
        (case place_agent node (gpu_node_selector gpu)
                (case gpu_affinity_terms gpu of None \<Rightarrow> [] | Some ts \<Rightarrow> ts) of
           (gpu_place, node') \<Rightarrow>
             (Some gpu_place, fst (place_agent node' None (negated_gpu_terms gpu))))
      else (None, fst (place_agent node None [])))"

section \<open>What a node sees\<close>

text \<open>
  The scheduler's reading of a requirement on a node's labels, as documented: a missing key
  satisfies \<open>NotIn\<close> and \<open>DoesNotExist\<close> only.  \<open>Gt\<close> and \<open>Lt\<close> and field requirements are
  decided by the argument \<open>other\<close> and \<open>fld\<close>.  Terms are alternatives; a term without any
  requirement, and a list without any term, match no node.
\<close>

definition req_on_node ::
  "(node_req \<Rightarrow> (string \<rightharpoonup> string) \<Rightarrow> bool) \<Rightarrow> node_req \<Rightarrow> (string \<rightharpoonup> string) \<Rightarrow> bool" where
  "req_on_node other r l =
     (if nr_op r = ''In'' then l (nr_key r) \<in> Some ` set (nr_values r)
      else if nr_op r = ''NotIn'' then l (nr_key r) \<notin> Some ` set (nr_values r)
      else if nr_op r = ''Exists'' then l (nr_key r) \<noteq> None
      else if nr_op r = ''DoesNotExist'' then l (nr_key r) = None
      else other r l)"

definition term_on_node ::
  "(node_req \<Rightarrow> (string \<rightharpoonup> string) \<Rightarrow> bool) \<Rightarrow> (opaque \<Rightarrow> bool) \<Rightarrow>
     node_term \<Rightarrow> (string \<rightharpoonup> string) \<Rightarrow> bool" where
  "term_on_node other fld t l \<longleftrightarrow>
     (nt_exprs t \<noteq> [] \<or> nt_fields t \<noteq> '''') \<and>
     (\<forall>r\<in>set (nt_exprs t). req_on_node other r l) \<and>
     (nt_fields t = '''' \<or> fld (nt_fields t))"

definition affinity_on_node ::
  "(node_req \<Rightarrow> (string \<rightharpoonup> string) \<Rightarrow> bool) \<Rightarrow> (opaque \<Rightarrow> bool) \<Rightarrow>
     affinity option \<Rightarrow> (string \<rightharpoonup> string) \<Rightarrow> bool" where
  "affinity_on_node other fld aff l =
     (case aff of None \<Rightarrow> True
      | Some a \<Rightarrow> (case af_node a of None \<Rightarrow> True
      | Some n \<Rightarrow> (case naf_required n of None \<Rightarrow> True
      | Some ts \<Rightarrow> (\<exists>t\<in>set ts. term_on_node other fld t l))))"

definition selector_on_node :: "string gomap \<Rightarrow> (string \<rightharpoonup> string) \<Rightarrow> bool" where
  "selector_on_node sel l \<longleftrightarrow> (\<forall>(k, v)\<in>set (entries sel). l k = Some v)"

definition runs_on ::
  "(node_req \<Rightarrow> (string \<rightharpoonup> string) \<Rightarrow> bool) \<Rightarrow> (opaque \<Rightarrow> bool) \<Rightarrow>
     placement \<Rightarrow> (string \<rightharpoonup> string) \<Rightarrow> bool" where
  "runs_on other fld p l \<longleftrightarrow>
     selector_on_node (pl_selector p) l \<and> affinity_on_node other fld (pl_affinity p) l"

section \<open>Negation is complement\<close>

text \<open>
  A requirement the code can negate: its negation holds on exactly the nodes it does not hold
  on.  The locale states that contract of \<open>negate_op\<close>; what it gives is that the negated terms
  of a conjunction are its complement.
\<close>

locale negatable =
  fixes holds :: "node_req \<Rightarrow> (string \<rightharpoonup> string) \<Rightarrow> bool"
    and neg :: "string \<Rightarrow> string option"
  assumes neg_complement:
    "neg (nr_op r) = Some oper \<Longrightarrow> holds (r\<lparr>nr_op := oper\<rparr>) l \<longleftrightarrow> \<not> holds r l"
begin

definition negatable_req :: "node_req \<Rightarrow> bool" where
  "negatable_req r \<longleftrightarrow> neg (nr_op r) \<noteq> None"

lemma negation_of_conjunction:
  assumes "\<forall>r\<in>set rs. negatable_req r"
  shows "(\<exists>r\<in>set rs. holds (r\<lparr>nr_op := the (neg (nr_op r))\<rparr>) l) \<longleftrightarrow> \<not> (\<forall>r\<in>set rs. holds r l)"
proof -
  have "holds (r\<lparr>nr_op := the (neg (nr_op r))\<rparr>) l \<longleftrightarrow> \<not> holds r l" if "r \<in> set rs" for r
    using assms that neg_complement [of r "the (neg (nr_op r))" l]
    by (auto simp: negatable_req_def)
  then show ?thesis by blast
qed

text \<open>Dropping a requirement that cannot be negated loses nodes, it never adds one.\<close>

lemma negation_sound:
  assumes "r \<in> set rs" and "neg (nr_op r) = Some oper" and "holds (r\<lparr>nr_op := oper\<rparr>) l"
  shows "\<not> (\<forall>r\<in>set rs. holds r l)"
  using assms neg_complement by blast

end

lemma negate_op_simps:
  "negate_op ''In'' = Some ''NotIn''" "negate_op ''NotIn'' = Some ''In''"
  "negate_op ''Exists'' = Some ''DoesNotExist''" "negate_op ''DoesNotExist'' = Some ''Exists''"
  by (simp_all add: negate_op_def)

lemma req_on_node_simps:
  "nr_op r = ''In'' \<Longrightarrow> req_on_node other r l \<longleftrightarrow> l (nr_key r) \<in> Some ` set (nr_values r)"
  "nr_op r = ''NotIn'' \<Longrightarrow> req_on_node other r l \<longleftrightarrow> l (nr_key r) \<notin> Some ` set (nr_values r)"
  "nr_op r = ''Exists'' \<Longrightarrow> req_on_node other r l \<longleftrightarrow> l (nr_key r) \<noteq> None"
  "nr_op r = ''DoesNotExist'' \<Longrightarrow> req_on_node other r l \<longleftrightarrow> l (nr_key r) = None"
  by (simp_all add: req_on_node_def)

lemma negate_op_cases:
  assumes "negate_op (nr_op r) = Some oper"
  obtains "nr_op r = ''In''" "oper = ''NotIn''" | "nr_op r = ''NotIn''" "oper = ''In''"
    | "nr_op r = ''Exists''" "oper = ''DoesNotExist''"
    | "nr_op r = ''DoesNotExist''" "oper = ''Exists''"
  using assms that unfolding negate_op_def by (metis option.distinct(1) option.inject)

interpretation node_req: negatable "req_on_node other" negate_op for other
proof unfold_locales
  fix r :: node_req and oper l
  assume "negate_op (nr_op r) = Some oper"
  then show "req_on_node other (r\<lparr>nr_op := oper\<rparr>) l \<longleftrightarrow> \<not> req_on_node other r l"
    by (cases rule: negate_op_cases) (simp_all add: req_on_node_simps)
qed

lemma negate_exprs_shape: "t \<in> set (negate_exprs rs) \<Longrightarrow> nt_fields t = '''' \<and> nt_exprs t \<noteq> []"
  by (induction rs) (auto split: option.splits)

lemma req_with_op: "\<lparr>nr_key = nr_key r, nr_op = oper, nr_values = nr_values r\<rparr> = r\<lparr>nr_op := oper\<rparr>"
  by (cases r) simp

lemma term_single:
  "term_on_node other fld \<lparr>nt_exprs = [r], nt_fields = ''''\<rparr> l \<longleftrightarrow> req_on_node other r l"
  by (simp add: term_on_node_def)

lemma negated_term_on_node:
  "(\<exists>t\<in>set (negateNodeSelectorTerm t0). term_on_node other fld t l) \<longleftrightarrow>
     (\<exists>r\<in>set (nt_exprs t0). node_req.negatable_req r \<and>
        req_on_node other (r\<lparr>nr_op := the (negate_op (nr_op r))\<rparr>) l)"
proof -
  have "(\<exists>t\<in>set (negate_exprs rs). term_on_node other fld t l) \<longleftrightarrow>
     (\<exists>r\<in>set rs. node_req.negatable_req r \<and>
        req_on_node other (r\<lparr>nr_op := the (negate_op (nr_op r))\<rparr>) l)" for rs
    by (induction rs)
      (simp_all add: node_req.negatable_req_def req_with_op term_single split: option.split)
  then show ?thesis by (simp add: negateNodeSelectorTerm_def)
qed

text \<open>For a GPU affinity term of the four set-based operators and without field requirements
  the negation the operator computes is exact: its terms match precisely the nodes the term does
  not match.\<close>

theorem negation_is_complement:
  assumes "nt_exprs t \<noteq> []" and "nt_fields t = ''''"
    and "\<forall>r\<in>set (nt_exprs t). nr_op r \<in> {''In'', ''NotIn'', ''Exists'', ''DoesNotExist''}"
  shows "(\<exists>t'\<in>set (negateNodeSelectorTerm t). term_on_node other fld t' l) \<longleftrightarrow>
           \<not> term_on_node other fld t l"
proof -
  have neg: "\<forall>r\<in>set (nt_exprs t). node_req.negatable_req r"
    using assms(3) unfolding node_req.negatable_req_def by (auto simp: negate_op_simps)
  have "(\<exists>t'\<in>set (negateNodeSelectorTerm t). term_on_node other fld t' l) \<longleftrightarrow>
      (\<exists>r\<in>set (nt_exprs t). req_on_node other (r\<lparr>nr_op := the (negate_op (nr_op r))\<rparr>) l)"
    unfolding negated_term_on_node using neg by blast
  also have "\<dots> \<longleftrightarrow> \<not> (\<forall>r\<in>set (nt_exprs t). req_on_node other r l)"
    by (rule node_req.negation_of_conjunction [OF neg])
  also have "\<dots> \<longleftrightarrow> \<not> term_on_node other fld t l"
    using assms(1,2) by (simp add: term_on_node_def)
  finally show ?thesis .
qed

lemma negation_is_complement_witness:
  "(\<exists>t'\<in>set (negateNodeSelectorTerm
      \<lparr>nt_exprs = [\<lparr>nr_key = ''gpu'', nr_op = ''Exists'', nr_values = []\<rparr>], nt_fields = ''''\<rparr>).
    term_on_node (\<lambda>_ _. False) (\<lambda>_. False) t' Map.empty)"
proof -
  let ?t = "\<lparr>nt_exprs = [\<lparr>nr_key = ''gpu'', nr_op = ''Exists'', nr_values = []\<rparr>], nt_fields = ''''\<rparr>"
  have "\<not> term_on_node (\<lambda>_ _. False) (\<lambda>_. False) ?t Map.empty"
    by (simp add: term_on_node_def req_on_node_simps)
  with negation_is_complement [of ?t "\<lambda>_ _. False" "\<lambda>_. False" Map.empty] show ?thesis by simp
qed


section \<open>One agent per node\<close>

text \<open>The GPU terms whose negation is exact.\<close>

definition set_based_term :: "node_term \<Rightarrow> bool" where
  "set_based_term t \<longleftrightarrow>
     nt_exprs t \<noteq> [] \<and> nt_fields t = '''' \<and>
     (\<forall>r\<in>set (nt_exprs t). nr_op r \<in> {''In'', ''NotIn'', ''Exists'', ''DoesNotExist''})"

lemma set_based_negatable:
  "set_based_term t \<Longrightarrow> \<forall>r\<in>set (nt_exprs t). node_req.negatable_req r"
  unfolding set_based_term_def node_req.negatable_req_def by (auto simp: negate_op_simps)

lemma negated_terms_complement:
  assumes "set_based_term t"
  shows "(\<exists>t'\<in>set (negateNodeSelectorTerm t). term_on_node other fld t' l) \<longleftrightarrow>
           \<not> term_on_node other fld t l"
  using node_req.negation_of_conjunction [OF set_based_negatable [OF assms], of other l]
    set_based_negatable [OF assms] assms
  unfolding negated_term_on_node by (auto simp: term_on_node_def set_based_term_def)

lemma negated_terms_nonempty:
  assumes "set_based_term t"
  shows "negateNodeSelectorTerm t \<noteq> []"
proof -
  obtain r rs where "nt_exprs t = r # rs" "negate_op (nr_op r) \<noteq> None"
    using assms set_based_negatable [OF assms]
    by (cases "nt_exprs t") (auto simp: set_based_term_def node_req.negatable_req_def)
  then show ?thesis by (auto simp: negateNodeSelectorTerm_def)
qed

text \<open>The terms that negate the node selector, then all of them.\<close>

lemma selector_terms_on_node:
  "(\<exists>t\<in>set (map (\<lambda>(k, v). \<lparr>nt_exprs = [\<lparr>nr_key = k, nr_op = ''NotIn'', nr_values = [v]\<rparr>],
                    nt_fields = ''''\<rparr>) es). term_on_node other fld t l) \<longleftrightarrow>
     \<not> (\<forall>(k, v)\<in>set es. l k = Some v)"
  by (induction es) (auto simp: term_single req_on_node_simps)

definition gpu_node ::
  "(node_req \<Rightarrow> (string \<rightharpoonup> string) \<Rightarrow> bool) \<Rightarrow> (opaque \<Rightarrow> bool) \<Rightarrow>
     gpu_monitoring_spec \<Rightarrow> (string \<rightharpoonup> string) \<Rightarrow> bool" where
  "gpu_node other fld gpu l \<longleftrightarrow>
     selector_on_node (gpu_node_selector gpu) l \<and>
     affinity_on_node other fld (gpu_affinity gpu) l"

text \<open>The GPU section names its nodes in a way whose complement the operator can express.\<close>

definition splittable :: "gpu_monitoring_spec \<Rightarrow> bool" where
  "splittable gpu \<longleftrightarrow>
     split_agents gpu \<and>
     (case gpu_affinity_terms gpu of None \<Rightarrow> True | Some ts \<Rightarrow> \<exists>t. ts = [t] \<and> set_based_term t)"

lemma gpu_affinity_on_node:
  "affinity_on_node other fld (gpu_affinity gpu) l \<longleftrightarrow>
     (case gpu_affinity_terms gpu of None \<Rightarrow> True
      | Some ts \<Rightarrow> \<exists>t\<in>set ts. term_on_node other fld t l)"
  by (simp add: affinity_on_node_def gpu_affinity_terms_def split: option.split)

lemma negated_gpu_terms_on_node:
  assumes "splittable gpu"
  shows "(\<exists>t\<in>set (negated_gpu_terms gpu). term_on_node other fld t l) \<longleftrightarrow>
           \<not> gpu_node other fld gpu l"
proof (cases "gpu_affinity_terms gpu")
  case None
  then show ?thesis
    using selector_terms_on_node [of "entries (gpu_node_selector gpu)" other fld l]
    by (simp add: negated_gpu_terms_def gpu_node_def gpu_affinity_on_node selector_on_node_def)
next
  case (Some ts)
  with assms obtain t where t: "ts = [t]" "set_based_term t" by (auto simp: splittable_def)
  show ?thesis
    using selector_terms_on_node [of "entries (gpu_node_selector gpu)" other fld l]
      negated_terms_complement [OF t(2), of other fld l]
    unfolding negated_gpu_terms_def gpu_node_def gpu_affinity_on_node selector_on_node_def
      set_append bex_Un Some t(1) option.case list.case
    by simp
qed

lemma negated_gpu_terms_nonempty: "splittable gpu \<Longrightarrow> negated_gpu_terms gpu \<noteq> []"
  using negated_terms_nonempty
  by (auto simp: splittable_def split_agents_def negated_gpu_terms_def split: option.splits)

lemma add_terms_fresh:
  "affinity_on_node other fld (add_affinity_terms None terms) l \<longleftrightarrow>
     terms = [] \<or> (\<exists>t\<in>set terms. term_on_node other fld t l)"
  by (simp add: add_affinity_terms_def affinity_on_node_def merge_terms_def)

lemma placements_fresh:
  assumes "split_agents gpu" and "na_affinity node = None"
    and "place_node_agents node gpu = (Some g, n)"
  shows "pl_selector g = (if gpu_node_selector gpu \<noteq> None then gpu_node_selector gpu
                          else na_node_selector node)"
    and "pl_affinity g = add_affinity_terms None
           (case gpu_affinity_terms gpu of None \<Rightarrow> [] | Some ts \<Rightarrow> ts)"
    and "pl_selector n = na_node_selector node"
    and "pl_affinity n = add_affinity_terms None (negated_gpu_terms gpu)"
  using assms
  by (auto simp: place_node_agents_def place_agent_def place_affinity_def Let_def)


text \<open>Without a split there is one DaemonSet, placed as the node agent's section says.\<close>

theorem single_agent_placement:
  assumes "\<not> split_agents gpu"
  shows "place_node_agents node gpu =
           (None, \<lparr>pl_selector = na_node_selector node, pl_affinity = na_affinity node\<rparr>)"
  using assms by (simp add: place_node_agents_def place_agent_def place_affinity_def
      add_affinity_terms_def Let_def)

section \<open>The shared affinity object\<close>

lemma merged_term_exprs:
  assumes "t \<in> set (merge_terms existing added)"
  shows "\<exists>at\<in>set added. set (nt_exprs at) \<subseteq> set (nt_exprs t)"
    and "existing \<noteq> [] \<Longrightarrow> \<exists>et\<in>set existing. set (nt_exprs et) \<subseteq> set (nt_exprs t)"
  using assms by (auto simp: merge_terms_def split: if_splits)

lemma merge_terms_nonempty: "added \<noteq> [] \<Longrightarrow> merge_terms existing added \<noteq> []"
  by (cases existing) (auto simp: merge_terms_def)

lemma placement_after_gpu:
  assumes "split_agents gpu" and "na_affinity node = Some a"
    and "gpu_affinity_terms gpu = Some [t]" and "negated_gpu_terms gpu \<noteq> []"
    and "place_node_agents node gpu = (Some g, n)"
  shows "\<exists>user a' m. pl_affinity n = Some a' \<and> af_node a' = Some m \<and> naf_required m =
           Some (merge_terms (merge_terms user [t]) (negated_gpu_terms gpu))"
proof -
  have "pl_affinity n = add_affinity_terms (add_affinity_terms (Some a) [t]) (negated_gpu_terms gpu)"
    using assms
    by (auto simp: place_node_agents_def place_agent_def place_affinity_def Let_def
        add_affinity_terms_def [of "Some a"])
  then show ?thesis using assms(4) by (simp add: add_affinity_terms_def Let_def) blast
qed



section \<open>Concrete clusters\<close>

abbreviation gpu_term :: node_term where
  "gpu_term \<equiv> \<lparr>nt_exprs = [\<lparr>nr_key = ''gpu'', nr_op = ''Exists'', nr_values = []\<rparr>], nt_fields = ''''\<rparr>"

definition sample_gpu :: gpu_monitoring_spec where
  "sample_gpu = zero_gpu\<lparr>gpu_enabled := True,
     gpu_affinity := Some \<lparr>af_node = Some \<lparr>naf_required = Some [gpu_term], naf_preferred = ''''\<rparr>,
       af_rest = ''''\<rparr>\<rparr>"

lemma sample_gpu_facts:
  "gpu_affinity_terms sample_gpu = Some [gpu_term]" "gpu_node_selector sample_gpu = None"
  "splittable sample_gpu" "set_based_term gpu_term"
  by (simp_all add: sample_gpu_def gpu_affinity_terms_def zero_gpu_def splittable_def
      split_agents_def set_based_term_def)


lemma single_agent_placement_witness:
  "place_node_agents zero_node zero_gpu = (None, \<lparr>pl_selector = None, pl_affinity = None\<rparr>)"
proof -
  have "\<not> split_agents zero_gpu" by (simp add: split_agents_def zero_gpu_def)
  from single_agent_placement [OF this, of zero_node] show ?thesis by (simp add: zero_node_def)
qed


end
