(* ===== verification/Installers.thy ===== *)
theory Installers
  imports ApiCalls NodeAffinity
begin

text \<open>
  The functions of \<open>install_agents.go\<close> that write to the cluster: which objects they create or
  update, in which order, and what they make of the object they find.  A mutate function gets
  the object found, or nothing if the object is new (a zero creation timestamp).
\<close>

section \<open>Metadata\<close>

text \<open>\<open>for k, v := range custom { base[k] = v }\<close> under the test for a nil map.\<close>

definition put_all :: "string gomap \<Rightarrow> string gomap \<Rightarrow> string gomap" where
  "put_all custom base =
     (case custom of None \<Rightarrow> base | Some es \<Rightarrow> Some (overlay (entries base) es))"

definition owned_meta ::
  "world \<Rightarrow> whatap_agent \<Rightarrow> obj_meta \<Rightarrow> (obj_meta \<Rightarrow> api_error + 'a) \<Rightarrow> api_error + 'a" where
  "owned_meta w cr m f =
     (case w_own w cr (mt_owners m) of
        Inl e \<Rightarrow> Inl e
      | Inr owners \<Rightarrow> f (m\<lparr>mt_owners := owners\<rparr>))"

definition found_meta :: "workload_object option \<Rightarrow> obj_meta" where
  "found_meta existing = (case existing of None \<Rightarrow> new_meta | Some d \<Rightarrow> wo_meta d)"

definition found_template :: "workload_object option \<Rightarrow> pod_template option" where
  "found_template existing = map_option (\<lambda>d. wl_template (wo_spec d)) existing"

definition custom_meta :: "string gomap \<Rightarrow> string gomap \<Rightarrow> obj_meta \<Rightarrow> obj_meta" where
  "custom_meta labels annotations m =
     m\<lparr>mt_labels := put_all labels (mt_labels m),
       mt_annotations := put_all annotations (mt_annotations m)\<rparr>"

section \<open>Reporting\<close>

text \<open>
  The line \<open>logResult\<close> writes for the result of \<open>CreateOrUpdate\<close> (\<open>op\<close>, a string of the library),
  and whether it is written only at the debug level.
\<close>

definition logResult :: "string \<Rightarrow> string \<Rightarrow> string \<Rightarrow> bool \<times> string" where
  "logResult what target op =
     (let verb = (if op = ''created'' then ''created'' else if op = ''updated'' then ''updated''
                  else ''unchanged'')
      in (op = ''unchanged'', what @ '' '' @ target @ '' has been '' @ verb @ ''.''))"

section \<open>The master agent\<close>

definition mutate_master :: "world \<Rightarrow> whatap_agent \<Rightarrow> workload_object mutation" where
  "mutate_master w cr existing =
     (let spec = ka_master (k8s_agent cr)
      in owned_meta w cr (custom_meta (ma_labels spec) (ma_annotations spec) (found_meta existing))
           (\<lambda>m. Inr \<lparr>wo_meta = m,
                     wo_spec = (getMasterAgentDeploymentSpec (agent_image (k8s_agent cr))
                         (agent_resources (ma_resources spec)) cr)\<lparr>
                       wl_template := update_master (w_range w) cr (found_template existing)\<rparr>\<rparr>))"

definition createOrUpdateMasterAgent :: "world \<Rightarrow> whatap_agent \<Rightarrow> api_error option io" where
  "createOrUpdateMasterAgent w cr =
     call w (ApplyWorkload Deployment (w_namespace w) ''whatap-master-agent'' (mutate_master w cr))"

section \<open>The node agents\<close>

text \<open>
  \<open>cr\<close> is what the custom resource's pointers lead to before the call; the affinity block of
  the mutate function writes through one of them, so the second call of a split gets the
  custom resource after the first (theory \<open>NodeAffinity\<close>).
\<close>

definition place_pod :: "placement \<Rightarrow> pod_spec \<Rightarrow> pod_spec" where
  "place_pod pl spec = spec\<lparr>ps_node_selector := pl_selector pl, ps_affinity := pl_affinity pl\<rparr>"

definition mutate_node ::
  "world \<Rightarrow> whatap_agent \<Rightarrow> string \<Rightarrow> bool \<Rightarrow> string gomap \<Rightarrow> node_term list \<Rightarrow>
     workload_object mutation" where
  "mutate_node w cr name includeDcgm nodeSelector affinityTerms existing =
     (let spec = ka_node (k8s_agent cr);
          pl = fst (place_agent spec nodeSelector affinityTerms)
      in owned_meta w cr (custom_meta (na_labels spec) (na_annotations spec) (found_meta existing))
           (\<lambda>m. Inr \<lparr>wo_meta = m,
                     wo_spec = (getNodeAgentDaemonSetSpec (agent_image (k8s_agent cr))
                         (agent_resources (na_resources spec)) cr name includeDcgm)\<lparr>
                       wl_template := update_node (w_range w) cr name includeDcgm (place_pod pl)
                         (found_template existing)\<rparr>\<rparr>))"

definition reconcileNodeAgentDaemonSet ::
  "world \<Rightarrow> whatap_agent \<Rightarrow> string \<Rightarrow> bool \<Rightarrow> string gomap \<Rightarrow> node_term list \<Rightarrow>
     api_error option io" where
  "reconcileNodeAgentDaemonSet w cr name includeDcgm nodeSelector affinityTerms =
     call w (ApplyWorkload DaemonSet (w_namespace w) name
       (mutate_node w cr name includeDcgm nodeSelector affinityTerms))"

definition after_first_agent :: "whatap_agent \<Rightarrow> whatap_agent" where
  "after_first_agent cr =
     (let k8s = k8s_agent cr; gpu = ka_gpu k8s;
          node = snd (place_agent (ka_node k8s) (gpu_node_selector gpu)
                   (case gpu_affinity_terms gpu of None \<Rightarrow> [] | Some ts \<Rightarrow> ts))
      in cr\<lparr>wa_spec := (wa_spec cr)\<lparr>ws_features := (ws_features (wa_spec cr))\<lparr>
           ft_k8s_agent := k8s\<lparr>ka_node := node\<rparr>\<rparr>\<rparr>\<rparr>)"

definition mutate_dcgm_service :: "world \<Rightarrow> whatap_agent \<Rightarrow> service_object mutation" where
  "mutate_dcgm_service w cr existing =
     (let svc = (case existing of None \<Rightarrow> new_service | Some s \<Rightarrow> s)
      in case w_own w cr (so_owners svc) of
           Inl e \<Rightarrow> Inl e
         | Inr owners \<Rightarrow>
             Inr \<lparr>so_owners = owners,
                  so_service = dcgm_service_mutate (ka_gpu (k8s_agent cr)) (so_service svc)\<rparr>)"

definition ensureDcgmExporterService :: "world \<Rightarrow> whatap_agent \<Rightarrow> api_error option io" where
  "ensureDcgmExporterService w cr =
     (if \<not> dcgm_service_wanted (ka_gpu (k8s_agent cr)) then State_Monad.return None
      else call w (ApplyService (dcgm_service_namespace (w_namespace w) (k8s_agent cr))
             ''dcgm-exporter-service'' (mutate_dcgm_service w cr)))"

text \<open>\<open>if err := f(); err != nil { return err }\<close>\<close>

definition and_then :: "api_error option io \<Rightarrow> api_error option io \<Rightarrow> api_error option io" where
  "and_then m n = do {
     e \<leftarrow> m;
     (case e of Some err \<Rightarrow> State_Monad.return (Some err) | None \<Rightarrow> n)
   }"

definition node_agents :: "world \<Rightarrow> whatap_agent \<Rightarrow> api_error option io" where
  "node_agents w cr =
     (let gpu = ka_gpu (k8s_agent cr);
          terms = (case gpu_affinity_terms gpu of None \<Rightarrow> [] | Some ts \<Rightarrow> ts)
      in if split_agents gpu
         then and_then
           (reconcileNodeAgentDaemonSet w cr ''whatap-node-agent-gpu'' True (gpu_node_selector gpu) terms)
           (reconcileNodeAgentDaemonSet w (after_first_agent cr) ''whatap-node-agent'' False None
              (negated_gpu_terms gpu))
         else do {
           _ \<leftarrow> call w (DeleteObject DaemonSet (w_namespace w) ''whatap-node-agent-gpu'');
           reconcileNodeAgentDaemonSet w cr ''whatap-node-agent'' (gpu_enabled gpu) None []
         })"

definition createOrUpdateNodeAgent :: "world \<Rightarrow> whatap_agent \<Rightarrow> api_error option io" where
  "createOrUpdateNodeAgent w cr =
     and_then (node_agents w cr)
       (if gpu_enabled (ka_gpu (k8s_agent cr)) then ensureDcgmExporterService w cr
        else State_Monad.return None)"

text \<open>Three installers without a body.\<close>

definition installApiserverMonitor :: "world \<Rightarrow> whatap_agent \<Rightarrow> api_error option io" where
  "installApiserverMonitor w cr = State_Monad.return None"

definition installEtcdMonitor :: "world \<Rightarrow> whatap_agent \<Rightarrow> api_error option io" where
  "installEtcdMonitor w cr = State_Monad.return None"

definition installSchedulerMonitor :: "world \<Rightarrow> whatap_agent \<Rightarrow> api_error option io" where
  "installSchedulerMonitor w cr = State_Monad.return None"

text \<open>Without a caller; \<open>csv\<close> is the table of \<open>src/internal/gpu\<close>.\<close>

definition createOrUpdateGpuConfigMap :: "world \<Rightarrow> string \<Rightarrow> api_error option io" where
  "createOrUpdateGpuConfigMap w csv =
     call w (ApplyData ConfigMapKind (w_namespace w) ''dcgm-exporter-csv''
       (\<lambda>existing.
          let cm = (case existing of None \<Rightarrow> \<lparr>do_meta = new_meta, do_data = []\<rparr> | Some c \<Rightarrow> c)
          in Inr (cm\<lparr>do_data := [(''whatap-gpu.csv'', csv)]\<rparr>)))"

section \<open>The open agent\<close>

definition mutate_account :: "world \<Rightarrow> whatap_agent \<Rightarrow> obj_meta mutation" where
  "mutate_account w cr existing =
     owned_meta w cr (case existing of None \<Rightarrow> new_meta | Some m \<Rightarrow> m) Inr"

definition open_agent_rules :: "policy_rule list" where
  "open_agent_rules =
     [\<lparr>pl_api_groups = [''discovery.k8s.io''], pl_resources = [''endpointslices''],
       pl_non_resource_urls = [], pl_verbs = [''get'', ''list'', ''watch'']\<rparr>,
      \<lparr>pl_api_groups = [''*''],
       pl_resources = [''pods'', ''services'', ''endpoints'', ''namespaces'', ''configmaps'', ''secrets''],
       pl_non_resource_urls = [], pl_verbs = [''get'', ''list'', ''watch'']\<rparr>,
      \<lparr>pl_api_groups = [], pl_resources = [], pl_non_resource_urls = [''/metrics''],
       pl_verbs = [''*'']\<rparr>]"

definition mutate_role :: "world \<Rightarrow> whatap_agent \<Rightarrow> role_object mutation" where
  "mutate_role w cr existing =
     owned_meta w cr (case existing of None \<Rightarrow> new_meta | Some r \<Rightarrow> ro_meta r)
       (\<lambda>m. Inr \<lparr>ro_meta = m, ro_rules = open_agent_rules\<rparr>)"

definition mutate_binding :: "world \<Rightarrow> whatap_agent \<Rightarrow> binding_object mutation" where
  "mutate_binding w cr existing =
     owned_meta w cr (case existing of None \<Rightarrow> new_meta | Some b \<Rightarrow> bo_meta b)
       (\<lambda>m. Inr \<lparr>bo_meta = m,
                 bo_subjects = [\<lparr>sj_kind = ''ServiceAccount'', sj_name = ''whatap-open-agent-sa'',
                                 sj_namespace = w_namespace w\<rparr>],
                 bo_role = ''whatap-open-agent-role''\<rparr>)"

definition mutate_config ::
  "world \<Rightarrow> whatap_agent \<Rightarrow> monitor list \<Rightarrow> monitor list \<Rightarrow> static_endpoint list \<Rightarrow>
     data_object mutation" where
  "mutate_config w cr pms sms ses existing =
     owned_meta w cr (case existing of None \<Rightarrow> new_meta | Some c \<Rightarrow> do_meta c)
       (\<lambda>m. Inr \<lparr>do_meta = m,
                 do_data = [(''scrape_config.yaml'',
                   generateScrapeConfig (w_marshal w) cr (w_namespace w) pms sms ses)]\<rparr>)"

text \<open>\<open>secrets\<close> in the order of iteration; the base label is set before the custom ones.\<close>

definition mutate_open_agent ::
  "world \<Rightarrow> whatap_agent \<Rightarrow> tls_secrets \<Rightarrow> workload_object mutation" where
  "mutate_open_agent w cr secrets existing =
     (let spec = open_agent cr; m = found_meta existing;
          m = m\<lparr>mt_labels := mput ''app'' ''whatap-open-agent'' (mt_labels m)\<rparr>
      in owned_meta w cr (custom_meta (oa_labels spec) (oa_annotations spec) m)
           (\<lambda>m. Inr \<lparr>wo_meta = m,
                     wo_spec = (open_agent_deployment cr secrets)\<lparr>
                       wl_template := update_open_agent (w_range w) cr secrets
                         (found_template existing)\<rparr>\<rparr>))"

text \<open>
  The retry loop: at most \<open>maxRetries = 3\<close> attempts, whatever the error, with a pause that
  grows by 100 milliseconds.
\<close>

function deploy_loop :: "world \<Rightarrow> whatap_agent \<Rightarrow> tls_secrets \<Rightarrow> nat \<Rightarrow> api_error option io" where
  "deploy_loop w cr secrets retryCount =
     (if retryCount < 3 then do {
        e \<leftarrow> call w (ApplyWorkload Deployment (w_namespace w) ''whatap-open-agent''
               (mutate_open_agent w cr (w_tls_range w retryCount secrets)));
        (if e = None then State_Monad.return None
         else if retryCount < 2 then do {
           _ \<leftarrow> call w (Sleep (Suc retryCount * 100));
           deploy_loop w cr secrets (Suc retryCount)
         }
         else State_Monad.return e)
      }
      else State_Monad.return None)"
  by pat_completeness auto
termination by (relation "measure (\<lambda>(w, cr, secrets, retryCount). 3 - retryCount)") auto

declare deploy_loop.simps [simp del]

definition open_agent_config ::
  "world \<Rightarrow> whatap_agent \<Rightarrow> monitor list \<Rightarrow> monitor list \<Rightarrow> static_endpoint list \<Rightarrow>
     api_error option io" where
  "open_agent_config w cr pms sms ses =
     and_then
       (call w (ApplyData ConfigMapKind (w_namespace w) ''whatap-open-agent-config''
          (mutate_config w cr pms sms ses)))
       (deploy_loop w cr (collectAllTLSSecrets (oa_targets (open_agent cr)) pms sms) 0)"

definition installOpenAgent :: "world \<Rightarrow> whatap_agent \<Rightarrow> api_error option io" where
  "installOpenAgent w cr =
     and_then (call w (ApplyAccount (w_namespace w) ''whatap-open-agent-sa'' (mutate_account w cr)))
    (and_then (call w (ApplyRole ''whatap-open-agent-role'' (mutate_role w cr)))
    (and_then (call w (ApplyBinding ''whatap-open-agent-role-binding'' (mutate_binding w cr)))
    (and_then (call w ListPodMonitors) (do {
       pms \<leftarrow> returned (w_pod_monitors w);
       and_then (call w ListServiceMonitors) (do {
         sms \<leftarrow> returned (w_service_monitors w);
         and_then (call w ListStaticEndpoints) (do {
           ses \<leftarrow> returned (w_static_endpoints w);
           open_agent_config w cr pms sms ses
         })
       })
     }))))"

end
