(* ===== verification/Reconciler.thy ===== *)
theory Reconciler
  imports Installers
begin

text \<open>
  The controller (\<open>src/internal/controller/whatapagent_controller.go\<close>): one \<open>Reconcile\<close> pass as
  a computation that makes requests, with the webhook's objects, the clean-up and the status.
\<close>

section \<open>The webhook's objects\<close>

abbreviation webhookServiceName :: string where "webhookServiceName \<equiv> ''whatap-admission-controller''"
abbreviation webhookSecretName :: string where "webhookSecretName \<equiv> ''whatap-webhook-certificate''"
abbreviation webhookConfigurationName :: string where "webhookConfigurationName \<equiv> ''whatap-webhook''"
abbreviation whatapFinalizer :: string where
  "whatapFinalizer \<equiv> ''whatapagent.finalizers.monitoring.whatap.com''"

definition mutate_secret :: "world \<Rightarrow> whatap_agent \<Rightarrow> data_object mutation" where
  "mutate_secret w cr existing =
     owned_meta w cr (case existing of None \<Rightarrow> new_meta | Some s \<Rightarrow> do_meta s)
       (\<lambda>m. Inr \<lparr>do_meta = m,
                 do_data = [(''cert.pem'', w_ca_bundle w), (''key.pem'', w_ca_key w),
                            (''tls.crt'', w_server_cert w), (''tls.key'', w_server_key w)]\<rparr>)"

definition ensureWebhookTLSSecret :: "world \<Rightarrow> whatap_agent \<Rightarrow> api_error option io" where
  "ensureWebhookTLSSecret w cr =
     call w (ApplyData SecretKind (w_namespace w) webhookSecretName (mutate_secret w cr))"

definition mutate_webhook_service :: "world \<Rightarrow> whatap_agent \<Rightarrow> service_object mutation" where
  "mutate_webhook_service w cr existing =
     (let svc = (case existing of
            None \<Rightarrow> new_service\<lparr>so_service := (so_service new_service)\<lparr>sv_labels :=
              Some [(''app.kubernetes.io/name'', ''whatap-operator''),
                    (''app.kubernetes.io/managed-by'', ''whatap-operator'')]\<rparr>\<rparr>
          | Some s \<Rightarrow> s)
      in case w_own w cr (so_owners svc) of
           Inl e \<Rightarrow> Inl e
         | Inr owners \<Rightarrow>
             Inr \<lparr>so_owners = owners,
                  so_service =
                    \<lparr>sv_labels = mput ''app.kubernetes.io/managed-by'' ''whatap-operator''
                       (mput ''app.kubernetes.io/name'' ''whatap-operator''
                          (sv_labels (so_service svc))),
                     sv_spec =
                       \<lparr>ss_selector = [(''app.kubernetes.io/name'', ''whatap-operator'')],
                        ss_type = '''',
                        ss_ports = [\<lparr>sp_name = '''', sp_port = 443, sp_target_port = 9443,
                                     sp_protocol = ''TCP'', sp_node_port = 0\<rparr>],
                        ss_cluster_ip = '''', ss_external_policy = '''',
                        ss_internal_policy = None\<rparr>\<rparr>\<rparr>)"

definition ensureWebhookService :: "world \<Rightarrow> whatap_agent \<Rightarrow> api_error option io" where
  "ensureWebhookService w cr =
     call w (ApplyService (w_namespace w) webhookServiceName (mutate_webhook_service w cr))"

definition new_webhook :: "string \<Rightarrow> mutating_webhook" where
  "new_webhook name =
     \<lparr>mw_name = name, mw_service_name = '''', mw_service_namespace = '''', mw_path = '''',
      mw_ca_bundle = '''', mw_operations = [], mw_api_groups = [], mw_api_versions = [],
      mw_resources = [], mw_failure_policy = '''', mw_review_versions = [],
      mw_side_effects = '''', mw_rest = ''''\<rparr>"

definition findWebhook :: "mutating_webhook list \<Rightarrow> string \<Rightarrow> mutating_webhook" where
  "findWebhook whs name =
     (case find (\<lambda>wh. mw_name wh = name) whs of None \<Rightarrow> new_webhook name | Some wh \<Rightarrow> wh)"

definition pod_webhook :: "world \<Rightarrow> mutating_webhook \<Rightarrow> mutating_webhook" where
  "pod_webhook w wh =
     wh\<lparr>mw_service_name := webhookServiceName, mw_service_namespace := w_namespace w,
        mw_path := ''/whatap-injection--v1-pod'', mw_ca_bundle := w_ca_bundle w,
        mw_operations := [''CREATE''], mw_api_groups := [''''], mw_api_versions := [''v1''],
        mw_resources := [''pods''], mw_failure_policy := ''Ignore'',
        mw_review_versions := [''v1''], mw_side_effects := ''None''\<rparr>"

definition agent_webhook :: "world \<Rightarrow> mutating_webhook \<Rightarrow> mutating_webhook" where
  "agent_webhook w wh =
     wh\<lparr>mw_service_name := webhookServiceName, mw_service_namespace := w_namespace w,
        mw_path := ''/whatap-validation--v2alpha1-whatapagent'', mw_ca_bundle := w_ca_bundle w,
        mw_operations := [''CREATE'', ''UPDATE''], mw_api_groups := [''monitoring.whatap.com''],
        mw_api_versions := [''v2alpha1''], mw_resources := [''whatapagents''],
        mw_failure_policy := ''Ignore'', mw_review_versions := [''v1''],
        mw_side_effects := ''None''\<rparr>"

definition mutate_webhooks :: "world \<Rightarrow> whatap_agent \<Rightarrow> webhooks_object mutation" where
  "mutate_webhooks w cr existing =
     (let m = (case existing of None \<Rightarrow> new_meta | Some x \<Rightarrow> wh_meta x);
          whs = (case existing of None \<Rightarrow> [] | Some x \<Rightarrow> wh_webhooks x)
      in owned_meta w cr m
           (\<lambda>m. Inr \<lparr>wh_meta = m,
                     wh_webhooks = [pod_webhook w (findWebhook whs ''mpod.kb.io''),
                                    agent_webhook w (findWebhook whs ''whatapagent.kb.io'')]\<rparr>))"

definition ensureMutatingWebhookConfiguration :: "world \<Rightarrow> whatap_agent \<Rightarrow> api_error option io" where
  "ensureMutatingWebhookConfiguration w cr =
     call w (ApplyWebhooks webhookConfigurationName (mutate_webhooks w cr))"

section \<open>Clean-up\<close>

text \<open>
  The block the clean-up functions repeat: delete the object if it can be read.  An error of
  the read, whatever it is, counts as absence.
\<close>

definition cleanup_object :: "world \<Rightarrow> object_kind \<Rightarrow> string \<Rightarrow> string \<Rightarrow> api_error option io" where
  "cleanup_object w kind ns name = do {
     g \<leftarrow> call w (GetObject kind ns name);
     (case g of
        None \<Rightarrow> do {
          d \<leftarrow> call w (DeleteObject kind ns name);
          State_Monad.return (ignore_not_found d)
        }
      | Some _ \<Rightarrow> State_Monad.return None)
   }"

definition cleanupMasterAgent :: "world \<Rightarrow> api_error option io" where
  "cleanupMasterAgent w = cleanup_object w Deployment (w_namespace w) ''whatap-master-agent''"

definition cleanupNodeAgent :: "world \<Rightarrow> api_error option io" where
  "cleanupNodeAgent w = cleanup_object w DaemonSet (w_namespace w) ''whatap-node-agent''"

definition cleanupOpenAgent :: "world \<Rightarrow> api_error option io" where
  "cleanupOpenAgent w =
     and_then (cleanup_object w Deployment (w_namespace w) ''whatap-open-agent'')
    (and_then (cleanup_object w ConfigMapKind (w_namespace w) ''whatap-open-agent-config'')
    (and_then (cleanup_object w ServiceAccount (w_namespace w) ''whatap-open-agent-sa'')
    (and_then (cleanup_object w ClusterRole '''' ''whatap-open-agent-role'')
       (cleanup_object w ClusterRoleBinding '''' ''whatap-open-agent-role-binding''))))"

text \<open>Errors are logged; the result is always nil.\<close>

definition cleanupAgents :: "world \<Rightarrow> api_error option io" where
  "cleanupAgents w = do {
     _ \<leftarrow> cleanupMasterAgent w;
     _ \<leftarrow> cleanupNodeAgent w;
     _ \<leftarrow> cleanupOpenAgent w;
     _ \<leftarrow> call w (DeleteObject MutatingWebhook '''' webhookConfigurationName);
     _ \<leftarrow> call w (DeleteObject ServiceKind (w_namespace w) webhookServiceName);
     _ \<leftarrow> call w (DeleteObject SecretKind (w_namespace w) webhookSecretName);
     State_Monad.return None
   }"

section \<open>Status\<close>

definition with_finalizers :: "(string list \<Rightarrow> string list) \<Rightarrow> whatap_agent \<Rightarrow> whatap_agent" where
  "with_finalizers f cr =
     cr\<lparr>wa_meta := (wa_meta cr)\<lparr>om_finalizers := f (om_finalizers (wa_meta cr))\<rparr>\<rparr>"

definition with_condition :: "world \<Rightarrow> condition \<Rightarrow> whatap_agent \<Rightarrow> whatap_agent" where
  "with_condition w c cr =
     cr\<lparr>wa_status := (wa_status cr)\<lparr>st_conditions :=
        w_set_condition w (st_conditions (wa_status cr)) c\<rparr>\<rparr>"

definition reconciling :: condition where
  "reconciling = \<lparr>cd_type = ''Available'', cd_status = ''False'', cd_reason = ''Reconciling'',
     cd_message = ''Reconciling WhatapAgent resources''\<rparr>"

definition install_failed :: "api_error \<Rightarrow> condition" where
  "install_failed e = \<lparr>cd_type = ''Available'', cd_status = ''False'', cd_reason = ''InstallFailed'',
     cd_message = ae_text e\<rparr>"

definition installed :: condition where
  "installed = \<lparr>cd_type = ''Available'', cd_status = ''True'', cd_reason = ''Installed'',
     cd_message = ''WhatapAgent installed successfully''\<rparr>"

definition observed :: "whatap_agent \<Rightarrow> whatap_agent" where
  "observed cr =
     cr\<lparr>wa_status := (wa_status cr)\<lparr>st_observed_generation := om_generation (wa_meta cr)\<rparr>\<rparr>"

section \<open>One pass\<close>

text \<open>The error of the pass, and the seconds after which it is repeated (0: not by itself).\<close>

type_synonym result = "api_error option \<times> nat"

definition fail_with :: "world \<Rightarrow> whatap_agent \<Rightarrow> string \<Rightarrow> api_error \<Rightarrow> result io" where
  "fail_with w cr what e = do {
     _ \<leftarrow> call w (RecordEvent ''InstallFailed'' (what @ '': '' @ ae_text e));
     _ \<leftarrow> update_status w (with_condition w (install_failed e) cr);
     State_Monad.return (Some e, 0)
   }"

definition stage :: "world \<Rightarrow> whatap_agent \<Rightarrow> string \<Rightarrow> api_error option io \<Rightarrow> result io \<Rightarrow> result io" where
  "stage w cr what run rest = do {
     e \<leftarrow> run;
     (case e of Some err \<Rightarrow> fail_with w cr what err | None \<Rightarrow> rest)
   }"

text \<open>A component is installed if it is enabled and cleaned up otherwise, errors ignored.\<close>

definition component_stage ::
  "world \<Rightarrow> whatap_agent \<Rightarrow> string \<Rightarrow> bool \<Rightarrow> api_error option io \<Rightarrow> api_error option io \<Rightarrow>
     result io \<Rightarrow> result io" where
  "component_stage w cr what enabled install cleanup rest =
     (if enabled then stage w cr what install rest
      else do { _ \<leftarrow> cleanup; rest })"

definition write_installed :: "world \<Rightarrow> api_error option io" where
  "write_installed w = do {
     g \<leftarrow> get_agent w;
     (case g of
        Inl e \<Rightarrow> State_Monad.return (Some e)
      | Inr cr \<Rightarrow> do {
          r \<leftarrow> update_status w (observed (with_condition w installed cr));
          State_Monad.return (fst r)
        })
   }"

definition finish :: "world \<Rightarrow> result io" where
  "finish w = do {
     e \<leftarrow> w_retry w (write_installed w);
     State_Monad.return (case e of Some err \<Rightarrow> (Some err, 0) | None \<Rightarrow> (None, 300))
   }"

definition install :: "world \<Rightarrow> whatap_agent \<Rightarrow> result io" where
  "install w cr =
     (let k8s = k8s_agent cr
      in stage w cr ''Failed to ensure Webhook Service'' (ensureWebhookService w cr)
        (stage w cr ''Failed to ensure Webhook Secret'' (ensureWebhookTLSSecret w cr)
        (stage w cr ''Failed to ensure MutatingWebhookConfiguration''
           (ensureMutatingWebhookConfiguration w cr)
        (component_stage w cr ''Failed to createOrUpdate Master Agent'' (ma_enabled (ka_master k8s))
           (createOrUpdateMasterAgent w cr) (cleanupMasterAgent w)
        (component_stage w cr ''Failed to createOrUpdate Node Agent'' (na_enabled (ka_node k8s))
           (createOrUpdateNodeAgent w cr) (cleanupNodeAgent w)
        (component_stage w cr ''Failed to install Apiserver Monitor'' (ka_apiserver_enabled k8s)
           (installApiserverMonitor w cr) (State_Monad.return None)
        (component_stage w cr ''Failed to install Etcd Monitor'' (ka_etcd_enabled k8s)
           (installEtcdMonitor w cr) (State_Monad.return None)
        (component_stage w cr ''Failed to install Scheduler Monitor'' (ka_scheduler_enabled k8s)
           (installSchedulerMonitor w cr) (State_Monad.return None)
        (component_stage w cr ''Failed to install Open Agent'' (oa_enabled (open_agent cr))
           (installOpenAgent w cr) (cleanupOpenAgent w)
        (finish w))))))))))"

definition reconcile_live :: "world \<Rightarrow> whatap_agent \<Rightarrow> result io" where
  "reconcile_live w cr = do {
     r \<leftarrow> update_status w (with_condition w reconciling cr);
     install w (snd r)
   }"

definition has_finalizer :: "world \<Rightarrow> whatap_agent \<Rightarrow> bool" where
  "has_finalizer w cr \<longleftrightarrow> w_has_finalizer w (om_finalizers (wa_meta cr)) whatapFinalizer"

definition finalize :: "world \<Rightarrow> whatap_agent \<Rightarrow> result io" where
  "finalize w cr = do {
     _ \<leftarrow> (if has_finalizer w cr then cleanupAgents w else State_Monad.return None);
     r \<leftarrow> update_agent w (with_finalizers (\<lambda>fs. w_remove_finalizer w fs whatapFinalizer) cr);
     State_Monad.return (fst r, 0)
   }"

definition Reconcile :: "world \<Rightarrow> result io" where
  "Reconcile w = do {
     g \<leftarrow> get_agent w;
     (case g of
        Inl e \<Rightarrow> State_Monad.return (ignore_not_found (Some e), 0)
      | Inr cr \<Rightarrow>
          if om_deleting (wa_meta cr) then finalize w cr
          else if has_finalizer w cr then reconcile_live w cr
          else do {
            r \<leftarrow> update_agent w (with_finalizers (\<lambda>fs. w_add_finalizer w fs whatapFinalizer) cr);
            (case fst r of
               Some e \<Rightarrow> State_Monad.return (Some e, 0)
             | None \<Rightarrow> reconcile_live w (snd r))
          })
   }"

section \<open>What wakes the controller\<close>

text \<open>
  The kinds \<open>SetupWithManager\<close> watches for owned objects: every event of one enqueues its owner.
  For the custom resource itself \<open>GenerationChangedPredicate\<close> lets an update through only if the
  generation differs; the logging predicate lets everything through.
\<close>

definition owned_kinds :: "object_kind list" where
  "owned_kinds = [Deployment, DaemonSet, ServiceKind, ConfigMapKind, SecretKind, ServiceAccount,
     ClusterRole, ClusterRoleBinding, MutatingWebhook]"

definition loggingPredicate :: "whatap_agent \<Rightarrow> whatap_agent \<Rightarrow> bool" where
  "loggingPredicate old new = True"

definition agent_update_enqueues :: "whatap_agent \<Rightarrow> whatap_agent \<Rightarrow> bool" where
  "agent_update_enqueues old new \<longleftrightarrow>
     om_generation (wa_meta old) \<noteq> om_generation (wa_meta new) \<and> loggingPredicate old new"

lemma status_does_not_enqueue:
  "\<not> agent_update_enqueues cr (with_condition w c cr)" "\<not> agent_update_enqueues cr (observed cr)"
  "\<not> agent_update_enqueues cr (with_finalizers f cr)"
  by (simp_all add: agent_update_enqueues_def with_condition_def observed_def with_finalizers_def)

section \<open>Helpers of the file\<close>

text \<open>The requests for all custom resources that a change of a monitor enqueues.\<close>

definition findWhatapAgents :: "world \<Rightarrow> (string \<times> string) list io" where
  "findWhatapAgents w = do {
     r \<leftarrow> call w ListAgents;
     items \<leftarrow> returned (w_agents w);
     State_Monad.return (if r \<noteq> None then []
       else map (\<lambda>cr. (om_name (wa_meta cr), om_namespace (wa_meta cr))) items)
   }"

text \<open>Without a caller: it logs the credentials the environment holds and never fails.\<close>

definition populateCredentialsFromEnv :: "env_config \<Rightarrow> (string \<times> string) list \<times> api_error option" where
  "populateCredentialsFromEnv cfg =
     (filter (\<lambda>line. snd line \<noteq> '''')
        [(''Using License from environment variable'', ec_license cfg),
         (''Using Host from environment variable'', ec_host cfg),
         (''Using Port from environment variable'', ec_port cfg)], None)"

fun containsString :: "string list \<Rightarrow> string \<Rightarrow> bool" where
  "containsString [] s = False"
| "containsString (v # slice) s = (if v = s then True else containsString slice s)"

definition removeString :: "string list \<Rightarrow> string \<Rightarrow> string list" where
  "removeString slice s = foldl (\<lambda>result v. if v \<noteq> s then result @ [v] else result) [] slice"

end
