(* ===== verification/SampleWorld.thy ===== *)
theory SampleWorld
  imports Reconciler Samples
begin

text \<open>
  Concrete worlds for the witnesses: the libraries do what they document, finalizers and
  conditions are lists, and a status update is retried four times after a conflict.  What the
  server answers and returns is left open.
\<close>

definition sample_world ::
  "(trace \<Rightarrow> request \<Rightarrow> api_error option) \<Rightarrow> (trace \<Rightarrow> whatap_agent) \<Rightarrow> world" where
  "sample_world answer agent =
     \<lparr>w_namespace = ''ns'', w_ca_bundle = ''ca'', w_ca_key = ''cakey'', w_server_cert = ''crt'',
      w_server_key = ''key'', w_answer = answer, w_agent = agent, w_pod_monitors = (\<lambda>_. []),
      w_service_monitors = (\<lambda>_. []), w_static_endpoints = (\<lambda>_. []), w_agents = (\<lambda>_. []),
      w_own = (\<lambda>cr _. Inr (om_name (wa_meta cr))), w_has_finalizer = (\<lambda>fs f. f \<in> set fs),
      w_add_finalizer = (\<lambda>fs f. fs @ [f]), w_remove_finalizer = (\<lambda>fs f. removeAll f fs),
      w_set_condition = (\<lambda>cs c. c # filter (\<lambda>d. cd_type d \<noteq> cd_type c) cs),
      w_retry = tries 4, w_marshal = (\<lambda>_. Inr ''''), w_range = id, w_tls_range = (\<lambda>_. id)\<rparr>"

lemma sample_world_simps [simp]:
  "w_namespace (sample_world answer agent) = ''ns''"
  "w_answer (sample_world answer agent) = answer"
  "w_agent (sample_world answer agent) = agent"
  "w_retry (sample_world answer agent) = tries 4"
  by (simp_all add: sample_world_def)

lemma sample_retries: "retries (sample_world answer agent) 4"
  by (simp add: retries_def)

lemma sample_removes:
  "\<not> w_has_finalizer (sample_world answer agent)
       (w_remove_finalizer (sample_world answer agent) fs f) f"
  by (simp add: sample_world_def)

text \<open>Granting everything, refusing what a predicate picks, and a custom resource that asks for
  the master agent.\<close>

definition grant_all :: "trace \<Rightarrow> request \<Rightarrow> api_error option" where
  "grant_all t req = None"

definition refuse :: "(request \<Rightarrow> bool) \<Rightarrow> trace \<Rightarrow> request \<Rightarrow> api_error option" where
  "refuse p t req = (if p req then Some \<lparr>ae_reason = OtherReason, ae_text = ''refused''\<rparr> else None)"

definition master_cr :: "int \<Rightarrow> whatap_agent" where
  "master_cr generation =
     zero_agent\<lparr>
       wa_meta := zero_meta\<lparr>om_finalizers := [whatapFinalizer], om_generation := generation\<rparr>,
       wa_spec := (wa_spec zero_agent)\<lparr>ws_features := (ws_features (wa_spec zero_agent))\<lparr>
         ft_k8s_agent := zero_k8s_agent\<lparr>ka_master := zero_master\<lparr>ma_enabled := True\<rparr>\<rparr>\<rparr>\<rparr>\<rparr>"

lemma master_cr_simps [simp]:
  "ma_enabled (ka_master (k8s_agent (master_cr g)))" "\<not> na_enabled (ka_node (k8s_agent (master_cr g)))"
  "\<not> oa_enabled (open_agent (master_cr g))" "\<not> om_deleting (wa_meta (master_cr g))"
  "om_generation (wa_meta (master_cr g)) = g"
  "has_finalizer (sample_world answer agent) (master_cr g)"
  by (simp_all add: master_cr_def zero_defs has_finalizer_def sample_world_def)

text \<open>The server holds the second generation of the custom resource.\<close>

definition edited :: "trace \<Rightarrow> whatap_agent" where
  "edited t = master_cr 2"

end
