(* ===== verification/ReconcilePass.thy ===== *)
theory ReconcilePass
  imports SampleWorld
begin

text \<open>
  What a pass of the controller does, for every world: which objects it touches, how many
  requests it makes, what it reports, and what it does when every request is granted.
\<close>

section \<open>The objects of a pass\<close>

type_synonym address = "object_kind \<times> string \<times> string"

text \<open>The object a request reads, deletes, creates or updates.\<close>

definition removal :: "request \<Rightarrow> address option" where
  "removal r =
     (case r of GetObject k ns n \<Rightarrow> Some (k, ns, n) | DeleteObject k ns n \<Rightarrow> Some (k, ns, n)
      | _ \<Rightarrow> None)"

definition creation :: "request \<Rightarrow> address option" where
  "creation r =
     (case r of
        ApplyWorkload k ns n _ \<Rightarrow> Some (k, ns, n)
      | ApplyData k ns n _ \<Rightarrow> Some (k, ns, n)
      | ApplyService ns n _ \<Rightarrow> Some (ServiceKind, ns, n)
      | ApplyAccount ns n _ \<Rightarrow> Some (ServiceAccount, ns, n)
      | ApplyRole n _ \<Rightarrow> Some (ClusterRole, '''', n)
      | ApplyBinding n _ \<Rightarrow> Some (ClusterRoleBinding, '''', n)
      | ApplyWebhooks n _ \<Rightarrow> Some (MutatingWebhook, '''', n)
      | _ \<Rightarrow> None)"

lemma address_simps [simp]:
  "removal GetAgent = None" "removal (UpdateAgent a) = None" "removal (UpdateStatus a) = None"
  "removal ListPodMonitors = None" "removal ListServiceMonitors = None"
  "removal ListStaticEndpoints = None" "removal ListAgents = None"
  "removal (GetObject k ns n) = Some (k, ns, n)" "removal (DeleteObject k ns n) = Some (k, ns, n)"
  "removal (ApplyWorkload k ns n f) = None" "removal (ApplyData k ns n g) = None"
  "removal (ApplyService ns n h) = None" "removal (ApplyAccount ns n i) = None"
  "removal (ApplyRole n j) = None" "removal (ApplyBinding n l) = None"
  "removal (ApplyWebhooks n m) = None" "removal (RecordEvent x y) = None" "removal (Sleep s) = None"
  "creation GetAgent = None" "creation (UpdateAgent a) = None" "creation (UpdateStatus a) = None"
  "creation ListPodMonitors = None" "creation ListServiceMonitors = None"
  "creation ListStaticEndpoints = None" "creation ListAgents = None"
  "creation (GetObject k ns n) = None" "creation (DeleteObject k ns n) = None"
  "creation (ApplyWorkload k ns n f) = Some (k, ns, n)" "creation (ApplyData k ns n g) = Some (k, ns, n)"
  "creation (ApplyService ns n h) = Some (ServiceKind, ns, n)"
  "creation (ApplyAccount ns n i) = Some (ServiceAccount, ns, n)"
  "creation (ApplyRole n j) = Some (ClusterRole, '''', n)"
  "creation (ApplyBinding n l) = Some (ClusterRoleBinding, '''', n)"
  "creation (ApplyWebhooks n m) = Some (MutatingWebhook, '''', n)"
  "creation (RecordEvent x y) = None" "creation (Sleep s) = None"
  by (simp_all add: removal_def creation_def)

text \<open>What the custom resource asks for, and what it asks to be absent.\<close>

definition webhook_objects :: "world \<Rightarrow> address list" where
  "webhook_objects w =
     [(ServiceKind, w_namespace w, webhookServiceName), (SecretKind, w_namespace w, webhookSecretName),
      (MutatingWebhook, '''', webhookConfigurationName)]"

definition open_agent_objects :: "world \<Rightarrow> address list" where
  "open_agent_objects w =
     [(Deployment, w_namespace w, ''whatap-open-agent''),
      (ConfigMapKind, w_namespace w, ''whatap-open-agent-config''),
      (ServiceAccount, w_namespace w, ''whatap-open-agent-sa''),
      (ClusterRole, '''', ''whatap-open-agent-role''),
      (ClusterRoleBinding, '''', ''whatap-open-agent-role-binding'')]"

abbreviation master_object :: "world \<Rightarrow> address" where
  "master_object w \<equiv> (Deployment, w_namespace w, ''whatap-master-agent'')"

abbreviation node_object :: "world \<Rightarrow> address" where
  "node_object w \<equiv> (DaemonSet, w_namespace w, ''whatap-node-agent'')"

abbreviation gpu_node_object :: "world \<Rightarrow> address" where
  "gpu_node_object w \<equiv> (DaemonSet, w_namespace w, ''whatap-node-agent-gpu'')"

abbreviation dcgm_object :: "world \<Rightarrow> whatap_agent \<Rightarrow> address" where
  "dcgm_object w cr \<equiv>
     (ServiceKind, dcgm_service_namespace (w_namespace w) (k8s_agent cr), ''dcgm-exporter-service'')"

definition wanted_objects :: "world \<Rightarrow> whatap_agent \<Rightarrow> address list" where
  "wanted_objects w cr =
     webhook_objects w @
     (if ma_enabled (ka_master (k8s_agent cr)) then [master_object w] else []) @
     (if na_enabled (ka_node (k8s_agent cr))
      then (if split_agents (ka_gpu (k8s_agent cr)) then [gpu_node_object w] else []) @
           [node_object w] @
           (if dcgm_service_wanted (ka_gpu (k8s_agent cr)) then [dcgm_object w cr] else [])
      else []) @
     (if oa_enabled (open_agent cr) then open_agent_objects w else [])"

definition unwanted_objects :: "world \<Rightarrow> whatap_agent \<Rightarrow> address list" where
  "unwanted_objects w cr =
     (if ma_enabled (ka_master (k8s_agent cr)) then [] else [master_object w]) @
     (if na_enabled (ka_node (k8s_agent cr))
      then (if split_agents (ka_gpu (k8s_agent cr)) then [] else [gpu_node_object w])
      else [node_object w]) @
     (if oa_enabled (open_agent cr) then [] else open_agent_objects w)"

text \<open>Whatever changes or removes one of these objects wakes the controller.\<close>

lemma wanted_objects_watched: "fst ` set (wanted_objects w cr) \<subseteq> set owned_kinds"
  by (auto simp: wanted_objects_def webhook_objects_def open_agent_objects_def owned_kinds_def)

text \<open>A request within bounds: removals in one set of objects, creations in the other.\<close>

definition within :: "address set \<Rightarrow> address set \<Rightarrow> event \<Rightarrow> bool" where
  "within del new e \<longleftrightarrow>
     set_option (removal (fst e)) \<subseteq> del \<and> set_option (creation (fst e)) \<subseteq> new \<and>
     (\<forall>cr. fst e \<noteq> UpdateAgent cr)"

lemma within_pair [simp]:
  "within del new (req, a) \<longleftrightarrow>
     set_option (removal req) \<subseteq> del \<and> set_option (creation req) \<subseteq> new \<and> (\<forall>cr. req \<noteq> UpdateAgent cr)"
  by (simp add: within_def)

lemma within_mono: "within del new e \<Longrightarrow> del \<subseteq> del' \<Longrightarrow> new \<subseteq> new' \<Longrightarrow> within del' new' e"
  by (auto simp: within_def)

lemma emits_and_then [emits_intros]: "emits P m \<Longrightarrow> emits P n \<Longrightarrow> emits P (and_then m n)"
  unfolding and_then_def by (auto intro!: emits_intros)

lemma emits_stage [emits_intros]:
  assumes "emits P run" and "\<And>e. emits P (fail_with w cr what e)" and "emits P rest"
  shows "emits P (stage w cr what run rest)"
  unfolding stage_def by (auto intro!: emits_intros assms)

lemma emits_component_stage [emits_intros]:
  assumes "b \<Longrightarrow> emits P run" and "\<not> b \<Longrightarrow> emits P clean" and "\<And>e. emits P (fail_with w cr what e)"
    and "emits P rest"
  shows "emits P (component_stage w cr what b run clean rest)"
  unfolding component_stage_def by (auto intro!: emits_intros assms)

lemma emits_fail_with: "emits (within del new) (fail_with w cr what e)"
  unfolding fail_with_def update_status_def by (auto intro!: emits_intros)

lemma emits_deploy_loop:
  "emits (within del (insert (Deployment, w_namespace w, ''whatap-open-agent'') new))
     (deploy_loop w cr secrets c)"
proof (induction w cr secrets c rule: deploy_loop.induct)
  case (1 w cr secrets c)
  then show ?case
    by (subst deploy_loop.simps) (auto intro!: emits_intros)
qed

lemma emits_installOpenAgent:
  "emits (within {} (set (open_agent_objects w))) (installOpenAgent w cr)"
proof -
  have loop: "emits (within {} (set (open_agent_objects w))) (deploy_loop w cr secrets c)" for secrets c
    using emits_deploy_loop [of "{}" w "set (tl (open_agent_objects w))"]
    by (simp add: open_agent_objects_def)
  show ?thesis
    unfolding installOpenAgent_def open_agent_config_def
    by (intro emits_intros loop) (simp_all add: open_agent_objects_def)
qed

lemma emits_cleanup_object: "emits (within {(k, ns, n)} {}) (cleanup_object w k ns n)"
  unfolding cleanup_object_def by (auto intro!: emits_intros)

lemma emits_within: "emits (within del new) m \<Longrightarrow> del \<subseteq> del' \<Longrightarrow> new \<subseteq> new' \<Longrightarrow> emits (within del' new') m"
  by (erule emits_mono) (erule within_mono)

lemma emits_cleanupOpenAgent: "emits (within (set (open_agent_objects w)) {}) (cleanupOpenAgent w)"
  unfolding cleanupOpenAgent_def
  by (intro emits_and_then; rule emits_within [OF emits_cleanup_object])
    (simp_all add: open_agent_objects_def)

lemma emits_node_agent:
  "emits (within (if split_agents (ka_gpu (k8s_agent cr)) then {} else {gpu_node_object w})
            (insert (node_object w)
              ((if split_agents (ka_gpu (k8s_agent cr)) then {gpu_node_object w} else {}) \<union>
               (if dcgm_service_wanted (ka_gpu (k8s_agent cr)) then {dcgm_object w cr} else {}))))
     (createOrUpdateNodeAgent w cr)"
  unfolding createOrUpdateNodeAgent_def node_agents_def Let_def reconcileNodeAgentDaemonSet_def
    ensureDcgmExporterService_def
  by (auto intro!: emits_intros)

lemma emits_write_installed: "emits (within {} {}) (write_installed w)"
  unfolding write_installed_def get_agent_def update_status_def
  by (auto intro!: emits_intros)

lemma emits_finish: "retries w n \<Longrightarrow> emits (within {} {}) (finish w)"
  unfolding finish_def retries_def by (auto intro!: emits_intros emits_tries emits_write_installed)

lemma emits_install:
  assumes "retries w n"
  shows "emits (within (set (unwanted_objects w cr)) (set (wanted_objects w cr))) (install w cr)"
proof -
  let ?P = "within (set (unwanted_objects w cr)) (set (wanted_objects w cr))"
  have web: "emits ?P (ensureWebhookService w cr)" "emits ?P (ensureWebhookTLSSecret w cr)"
    "emits ?P (ensureMutatingWebhookConfiguration w cr)"
    by (auto intro!: emits_intros simp: ensureWebhookService_def ensureWebhookTLSSecret_def
        ensureMutatingWebhookConfiguration_def wanted_objects_def webhook_objects_def)
  have none: "emits ?P (installApiserverMonitor w cr)" "emits ?P (installEtcdMonitor w cr)"
    "emits ?P (installSchedulerMonitor w cr)"
    by (auto intro!: emits_intros simp: installApiserverMonitor_def installEtcdMonitor_def
        installSchedulerMonitor_def)
  have master: "ma_enabled (ka_master (k8s_agent cr)) \<Longrightarrow> emits ?P (createOrUpdateMasterAgent w cr)"
    "\<not> ma_enabled (ka_master (k8s_agent cr)) \<Longrightarrow> emits ?P (cleanupMasterAgent w)"
    by (auto intro!: emits_intros emits_within [OF emits_cleanup_object]
        simp: createOrUpdateMasterAgent_def cleanupMasterAgent_def wanted_objects_def
          unwanted_objects_def)
  have node: "na_enabled (ka_node (k8s_agent cr)) \<Longrightarrow> emits ?P (createOrUpdateNodeAgent w cr)"
    "\<not> na_enabled (ka_node (k8s_agent cr)) \<Longrightarrow> emits ?P (cleanupNodeAgent w)"
    by (rule emits_within [OF emits_node_agent],
        auto simp: wanted_objects_def unwanted_objects_def)
      (auto intro!: emits_within [OF emits_cleanup_object]
        simp: cleanupNodeAgent_def unwanted_objects_def)
  have open_agents: "oa_enabled (open_agent cr) \<Longrightarrow> emits ?P (installOpenAgent w cr)"
    "\<not> oa_enabled (open_agent cr) \<Longrightarrow> emits ?P (cleanupOpenAgent w)"
    by (rule emits_within [OF emits_installOpenAgent], auto simp: wanted_objects_def)
      (rule emits_within [OF emits_cleanupOpenAgent], auto simp: unwanted_objects_def)
  have finish: "emits ?P (finish w)"
    by (rule emits_within [OF emits_finish [OF assms]]) simp_all
  show ?thesis
    unfolding install_def Let_def
    by (intro emits_stage emits_component_stage web none master node open_agents finish emits_fail_with
        emits_return)
qed

section \<open>What a pass touches\<close>

lemma wanted_unwanted_disjoint: "set (wanted_objects w cr) \<inter> set (unwanted_objects w cr) = {}"
  unfolding wanted_objects_def unwanted_objects_def webhook_objects_def open_agent_objects_def
  by (simp split: if_split)

text \<open>C12. Installing touches nothing but the operator's objects: whatever the cluster answers, a pass
  creates and updates only objects the custom resource asks for, reads or deletes only objects
  it asks to be absent, never both the same object, and does not write the custom resource
  outside its status.\<close>

theorem install_touches:
  assumes "retries w n"
  shows "set (wanted_objects w cr) \<inter> set (unwanted_objects w cr) = {} \<and>
         (\<exists>u. snd (run_state (install w cr) t) = t @ u \<and>
            list_all (within (set (unwanted_objects w cr)) (set (wanted_objects w cr))) u)"
  using emits_install [OF assms, of cr] wanted_unwanted_disjoint by (auto simp: emits_def)

lemma install_touches_witness:
  "\<exists>u. snd (run_state (install (sample_world (refuse (\<lambda>r. r = GetAgent)) edited) (master_cr 1)) []) = u \<and>
     list_all (within
       (set (unwanted_objects (sample_world (refuse (\<lambda>r. r = GetAgent)) edited) (master_cr 1)))
       (set (wanted_objects (sample_world (refuse (\<lambda>r. r = GetAgent)) edited) (master_cr 1)))) u"
  using install_touches [OF sample_retries, of "refuse (\<lambda>r. r = GetAgent)" edited "master_cr 1" "[]"]
  by simp

text \<open>The second DaemonSet is orphaned: installing a custom resource whose node agent is disabled
  never deletes, nor even reads, the DaemonSet \<open>whatap-node-agent-gpu\<close> or the exporter's Service,
  whatever the cluster answers; after GPU placement was used, both stay.\<close>

theorem gpu_daemonset_orphaned:
  assumes "retries w n" and "\<not> na_enabled (ka_node (k8s_agent cr))"
  shows "\<exists>u. snd (run_state (install w cr) t) = t @ u \<and>
           list_all (\<lambda>(req, a). removal req \<noteq> Some (gpu_node_object w) \<and>
             removal req \<noteq> Some (dcgm_object w cr)) u"
proof -
  have no: "gpu_node_object w \<notin> set (unwanted_objects w cr)" "dcgm_object w cr \<notin> set (unwanted_objects w cr)"
    using assms(2) by (auto simp: unwanted_objects_def open_agent_objects_def)
  have "emits (\<lambda>(req, a). removal req \<noteq> Some (gpu_node_object w) \<and> removal req \<noteq> Some (dcgm_object w cr))
      (install w cr)"
    by (rule emits_mono [OF emits_install [OF assms(1)]]) (use no in \<open>auto simp: within_def\<close>)
  then show ?thesis by (simp add: emits_def)
qed

lemma gpu_daemonset_orphaned_witness:
  "list_all (\<lambda>(req, a). removal req \<noteq> Some (gpu_node_object (sample_world grant_all edited)))
     (snd (run_state (install (sample_world grant_all edited) (master_cr 1)) []))"
proof -
  have "\<not> na_enabled (ka_node (k8s_agent (master_cr 1)))" by simp
  from gpu_daemonset_orphaned [OF sample_retries this, of grant_all edited "[]"]
  show ?thesis by (auto simp: list_all_iff)
qed

section \<open>Finalizing\<close>

definition finalized_objects :: "world \<Rightarrow> address set" where
  "finalized_objects w =
     {master_object w, node_object w} \<union> set (open_agent_objects w) \<union> set (webhook_objects w)"

lemma emits_cleanupAgents: "emits (within (finalized_objects w) {}) (cleanupAgents w)"
proof -
  have parts: "emits (within (finalized_objects w) {}) (cleanupMasterAgent w)"
    "emits (within (finalized_objects w) {}) (cleanupNodeAgent w)"
    "emits (within (finalized_objects w) {}) (cleanupOpenAgent w)"
    unfolding cleanupMasterAgent_def cleanupNodeAgent_def
    by (rule emits_within [OF emits_cleanup_object] emits_within [OF emits_cleanupOpenAgent];
        auto simp: finalized_objects_def)+
  show ?thesis
    unfolding cleanupAgents_def
    by (intro emits_intros parts) (simp_all add: finalized_objects_def webhook_objects_def)
qed

lemma run_returned [simp]: "run_state (returned f) t = (f t, t)"
  by (simp add: returned_def)

lemma run_call [simp]: "run_state (call w req) t = (w_answer w t req, t @ [(req, w_answer w t req)])"
  by (simp add: call_def)

lemma run_finalize:
  assumes "\<And>fs. \<not> w_has_finalizer w (w_remove_finalizer w fs whatapFinalizer) whatapFinalizer"
  shows "\<exists>u cr'. run_state (finalize w cr) t =
             ((w_answer w (t @ u) (UpdateAgent cr'), 0),
              t @ u @ [(UpdateAgent cr', w_answer w (t @ u) (UpdateAgent cr'))]) \<and>
           \<not> has_finalizer w cr' \<and> list_all (within (finalized_objects w) {}) u"
proof -
  let ?clean = "if has_finalizer w cr then cleanupAgents w else State_Monad.return None"
  let ?cr' = "with_finalizers (\<lambda>fs. w_remove_finalizer w fs whatapFinalizer) cr"
  have "emits (within (finalized_objects w) {}) ?clean"
    by (intro emits_intros emits_cleanupAgents)
  then obtain u where u: "snd (run_state ?clean t) = t @ u" "list_all (within (finalized_objects w) {}) u"
    unfolding emits_def by blast
  obtain e where e: "run_state ?clean t = (e, t @ u)" using u(1) by (metis prod.collapse)
  have "run_state (finalize w cr) t =
      ((w_answer w (t @ u) (UpdateAgent ?cr'), 0),
       t @ u @ [(UpdateAgent ?cr', w_answer w (t @ u) (UpdateAgent ?cr'))])"
    unfolding finalize_def update_agent_def by (simp add: e)
  moreover have "\<not> has_finalizer w ?cr'"
    using assms by (simp add: has_finalizer_def with_finalizers_def)
  ultimately show ?thesis using u(2) by blast
qed

text \<open>C17. Deleting the custom resource never gets stuck in the operator: a pass that reads a custom
  resource marked for deletion only deletes the operator's objects, and whatever the deletions
  answer its last request takes the finalizer off; the pass fails exactly if that update is
  refused.\<close>

theorem finalizer_always_removed:
  assumes "\<And>fs. \<not> w_has_finalizer w (w_remove_finalizer w fs whatapFinalizer) whatapFinalizer"
    and "w_answer w t GetAgent = None"
    and "om_deleting (wa_meta (w_agent w (t @ [(GetAgent, None)])))"
  shows "\<exists>u cr' a. run_state (Reconcile w) t = ((a, 0), t @ (GetAgent, None) # u @ [(UpdateAgent cr', a)]) \<and>
           a = w_answer w (t @ (GetAgent, None) # u) (UpdateAgent cr') \<and>
           \<not> has_finalizer w cr' \<and> list_all (within (finalized_objects w) {}) u"
  using run_finalize [OF assms(1), of "w_agent w (t @ [(GetAgent, None)])" "t @ [(GetAgent, None)]"] assms(2,3)
  by (auto simp: Reconcile_def get_agent_def)

definition deleted_cr :: whatap_agent where
  "deleted_cr = zero_agent\<lparr>wa_meta := zero_meta\<lparr>om_finalizers := [whatapFinalizer], om_deleting := True\<rparr>\<rparr>"

lemma finalizer_always_removed_witness:
  "\<exists>u cr'. run_state (Reconcile (sample_world (refuse (\<lambda>r. removal r \<noteq> None)) (\<lambda>_. deleted_cr))) [] =
       ((None, 0), (GetAgent, None) # u @ [(UpdateAgent cr', None)]) \<and>
     \<not> has_finalizer (sample_world (refuse (\<lambda>r. removal r \<noteq> None)) (\<lambda>_. deleted_cr)) cr'"
  using finalizer_always_removed [OF sample_removes, of "refuse (\<lambda>r. removal r \<noteq> None)" "\<lambda>_. deleted_cr" "[]"]
  by (force simp: refuse_def deleted_cr_def)

section \<open>How many requests\<close>

lemma at_most_cleanup_object: "at_most 2 (cleanup_object w k ns n)"
  unfolding cleanup_object_def numeral_2_eq_2
  by (intro at_most_intros)

lemma at_most_and_then:
  "at_most j m \<Longrightarrow> at_most k n \<Longrightarrow> j + k \<le> l \<Longrightarrow> at_most l (and_then m n)"
  unfolding and_then_def by (rule at_most_bind) (auto intro: at_most_intros)

lemma at_most_fail_with: "at_most 2 (fail_with w cr what e)"
  unfolding fail_with_def update_status_def numeral_2_eq_2
  by (rule at_most_call_bind, rule at_most_bind [of 1 _ 0])
    (auto intro!: at_most_bind [of 1 _ 0] at_most_call at_most_intros)

lemma at_most_deploy_loop: "at_most (2 * (3 - c)) (deploy_loop w cr secrets c)"
proof (induction w cr secrets c rule: deploy_loop.induct)
  case (1 w cr secrets c)
  show ?case
  proof (cases "c < 3")
    case True
    then obtain k where k: "2 * (3 - c) = Suc (Suc k)" "k = 2 * (3 - Suc c)"
      by (metis Suc_diff_Suc mult_Suc_right add_2_eq_Suc numeral_3_eq_3 diff_Suc_Suc)
    show ?thesis
      unfolding k(1) using 1 True
      by (subst deploy_loop.simps) (auto intro!: at_most_intros simp: k(2))
  next
    case False
    then show ?thesis by (subst deploy_loop.simps) (auto intro!: at_most_intros)
  qed
qed

lemma at_most_installOpenAgent: "at_most 13 (installOpenAgent w cr)"
proof -
  have config: "at_most 7 (open_agent_config w cr pms sms ses)" for pms sms ses
    unfolding open_agent_config_def
    by (rule at_most_and_then [OF at_most_call [of 1] at_most_deploy_loop]) simp_all
  have step: "at_most k m \<Longrightarrow> at_most (Suc k) (and_then (call w req) m)" for k m req
    by (rule at_most_and_then [of 1 _ k]) (simp_all add: at_most_call)
  have "at_most (Suc (Suc (Suc (Suc (Suc (Suc 7)))))) (installOpenAgent w cr)"
    unfolding installOpenAgent_def by (intro step at_most_returned_bind config)
  then show ?thesis by (rule at_most_mono) simp
qed

lemma at_most_cleanupOpenAgent: "at_most 10 (cleanupOpenAgent w)"
proof -
  have step: "at_most k m \<Longrightarrow> at_most (2 + k) (and_then (cleanup_object w d ns n) m)" for k m d ns n
    by (erule at_most_and_then [OF at_most_cleanup_object]) simp
  have "at_most (2 + (2 + (2 + (2 + 2)))) (cleanupOpenAgent w)"
    unfolding cleanupOpenAgent_def
    by (intro step at_most_cleanup_object)
  then show ?thesis by simp
qed

lemma at_most_node_agent: "at_most 3 (createOrUpdateNodeAgent w cr)"
proof -
  have "at_most 2 (node_agents w cr)"
    unfolding node_agents_def Let_def reconcileNodeAgentDaemonSet_def
    by (auto intro!: at_most_and_then [of 1 _ 1] at_most_bind [of 1 _ 1] at_most_call)
  moreover have "at_most 1 (if gpu_enabled (ka_gpu (k8s_agent cr)) then ensureDcgmExporterService w cr
      else State_Monad.return None)"
    unfolding ensureDcgmExporterService_def by (auto intro!: at_most_call at_most_intros)
  ultimately show ?thesis
    unfolding createOrUpdateNodeAgent_def by (rule at_most_and_then) simp
qed

lemma at_most_stage:
  "at_most j run \<Longrightarrow> at_most k rest \<Longrightarrow> 2 \<le> k \<Longrightarrow> at_most (j + k) (stage w cr what run rest)"
  unfolding stage_def
  by (rule at_most_bind) (auto intro: at_most_intros at_most_mono [OF at_most_fail_with])

lemma at_most_component_stage:
  assumes "at_most j run" and "at_most j clean" and "at_most k rest" and "2 \<le> k"
  shows "at_most (j + k) (component_stage w cr what b run clean rest)"
  unfolding component_stage_def
  by (auto intro!: at_most_stage at_most_bind [of j _ k] assms)

lemma at_most_update:
  "at_most 1 (update_status w cr)" "at_most 1 (update_agent w cr)" "at_most 1 (get_agent w)"
  unfolding update_status_def update_agent_def get_agent_def One_nat_def
  by (intro at_most_intros)+

lemma at_most_write_installed: "at_most 2 (write_installed w)"
  unfolding write_installed_def
  by (rule at_most_bind [where j = 1 and k = 1], rule at_most_update, intro at_most_cases
      at_most_return at_most_bind [where j = 1 and k = 0 and n = 1] at_most_update) simp_all

lemma at_most_finish: "retries w n \<Longrightarrow> at_most (Suc n * 2) (finish w)"
  unfolding finish_def retries_def
  by (rule at_most_bind [of "Suc n * 2" _ 0])
    (simp_all only: at_most_tries at_most_write_installed at_most_return le_refl add_0_right)

lemma at_most_install:
  assumes "retries w n"
  shows "at_most (21 + Suc n * 2) (install w cr)"
proof -
  have one: "at_most 1 (ensureWebhookService w cr)" "at_most 1 (ensureWebhookTLSSecret w cr)"
    "at_most 1 (ensureMutatingWebhookConfiguration w cr)" "at_most 2 (createOrUpdateMasterAgent w cr)"
    "at_most 2 (cleanupMasterAgent w)" "at_most 3 (cleanupNodeAgent w)"
    unfolding ensureWebhookService_def ensureWebhookTLSSecret_def ensureMutatingWebhookConfiguration_def
      createOrUpdateMasterAgent_def cleanupMasterAgent_def cleanupNodeAgent_def
    by (auto intro: at_most_call at_most_mono [OF at_most_cleanup_object])
  have none: "at_most 0 (installApiserverMonitor w cr)" "at_most 0 (installEtcdMonitor w cr)"
    "at_most 0 (installSchedulerMonitor w cr)" "at_most 0 (State_Monad.return None :: api_error option io)"
    unfolding installApiserverMonitor_def installEtcdMonitor_def installSchedulerMonitor_def
    by (rule at_most_return)+
  have "at_most (1 + (1 + (1 + (2 + (3 + (0 + (0 + (0 + (13 + Suc n * 2))))))))) (install w cr)"
    unfolding install_def Let_def
    by (intro at_most_stage at_most_component_stage one none at_most_node_agent
        at_most_installOpenAgent at_most_mono [OF at_most_cleanupOpenAgent] at_most_finish [OF assms])
      simp_all
  then show ?thesis by simp
qed

lemma at_most_finalize: "at_most 18 (finalize w cr)"
proof -
  have "at_most 17 (cleanupAgents w)"
    unfolding cleanupAgents_def cleanupMasterAgent_def cleanupNodeAgent_def
    by (rule at_most_bind [where j = 2 and k = 15], rule at_most_cleanup_object,
        rule at_most_bind [where j = 2 and k = 13], rule at_most_cleanup_object,
        rule at_most_bind [where j = 10 and k = 3], rule at_most_cleanupOpenAgent)
      (simp_all add: numeral_3_eq_3 at_most_intros)
  then have "at_most 17 (if has_finalizer w cr then cleanupAgents w else State_Monad.return None)"
    by (auto intro: at_most_intros)
  then show ?thesis
    unfolding finalize_def
    by (rule at_most_bind [where k = 1])
      (auto intro!: at_most_return at_most_bind [where j = 1 and k = 0] at_most_update)
qed

text \<open>C23. A pass ends: whatever the cluster answers, it makes at most 26 requests, and two more
  for each of the \<open>n\<close> repetitions \<open>RetryOnConflict\<close> allows the final status update.\<close>

theorem reconcile_bounded:
  assumes "retries w n"
  shows "\<exists>u. snd (run_state (Reconcile w) t) = t @ u \<and> length u \<le> 26 + 2 * n"
proof -
  have live: "at_most (24 + 2 * n) (reconcile_live w cr)" for cr
    unfolding reconcile_live_def
    by (rule at_most_bind [where j = 1 and k = "23 + 2 * n"], rule at_most_update,
        rule at_most_mono [OF at_most_install [OF assms]]) simp_all
  have added: "at_most (25 + 2 * n) (do { r \<leftarrow> update_agent w cr';
      (case fst r of Some e \<Rightarrow> State_Monad.return (Some e, 0) | None \<Rightarrow> reconcile_live w (snd r)) })" for cr'
    by (rule at_most_bind [where j = 1 and k = "24 + 2 * n"], rule at_most_update)
      (auto intro!: at_most_cases at_most_return live)
  have "at_most (26 + 2 * n) (Reconcile w)"
    unfolding Reconcile_def
    by (rule at_most_bind [where j = 1 and k = "25 + 2 * n"], rule at_most_update,
        intro at_most_cases at_most_return added at_most_mono [OF live]
          at_most_mono [OF at_most_finalize]) simp_all
  then show ?thesis by (simp add: at_most_def)
qed

lemma reconcile_bounded_witness:
  "length (snd (run_state (Reconcile (sample_world (refuse (\<lambda>r. creation r \<noteq> None)) edited)) [])) \<le> 34"
  using reconcile_bounded [OF sample_retries, of "refuse (\<lambda>r. creation r \<noteq> None)" edited "[]"] by auto

end
