(* ===== verification/PassOutcome.thy ===== *)
theory PassOutcome
  imports ReconcilePass
begin

text \<open>
  What a pass reports, for every behaviour of the cluster, and what it leaves behind when every
  request is granted: theory \<open>ReconcilePass\<close> says which requests a pass may make, this one
  says which it does make.
\<close>

section \<open>Reports\<close>

text \<open>\<open>ends P m\<close>: whatever was requested before, the result of \<open>m\<close> and the trace it ends with
  satisfy \<open>P\<close>.\<close>

definition ends :: "('a \<Rightarrow> trace \<Rightarrow> bool) \<Rightarrow> 'a io \<Rightarrow> bool" where
  "ends P m \<longleftrightarrow> (\<forall>t. case run_state m t of (x, t') \<Rightarrow> P x t')"

lemma ends_bind:
  assumes "\<And>x. ends P (f x)"
  shows "ends P (State_Monad.bind m f)"
  unfolding ends_def
proof
  fix t
  obtain x t' where "run_state m t = (x, t')" by fastforce
  moreover have "case run_state (f x) t' of (y, t'') \<Rightarrow> P y t''"
    using assms [of x] unfolding ends_def by (rule spec)
  ultimately show "case run_state (State_Monad.bind m f) t of (y, t'') \<Rightarrow> P y t''" by simp
qed

lemma ends_stage:
  "(\<And>e. ends P (fail_with w cr what e)) \<Longrightarrow> ends P rest \<Longrightarrow> ends P (stage w cr what run rest)"
  unfolding stage_def by (rule ends_bind) (simp split: option.split)

lemma ends_component_stage:
  assumes "\<And>e. ends P (fail_with w cr what e)" and "ends P rest"
  shows "ends P (component_stage w cr what b run clean rest)"
  using assms by (simp add: component_stage_def ends_stage ends_bind)

text \<open>The object of the final status update: what is read after the requests \<open>ts\<close>, with the
  condition \<open>Installed\<close> and its own generation as the one observed.\<close>

definition final_status :: "world \<Rightarrow> trace \<Rightarrow> whatap_agent" where
  "final_status w ts = observed (with_condition w installed (w_agent w (ts @ [(GetAgent, None)])))"

definition reported :: "world \<Rightarrow> whatap_agent \<Rightarrow> result \<Rightarrow> trace \<Rightarrow> bool" where
  "reported w cr res t =
     (case res of
        (None, s) \<Rightarrow> s = 300 \<and>
          (\<exists>ts. t = ts @ [(GetAgent, None), (UpdateStatus (final_status w ts), None)])
      | (Some e, s) \<Rightarrow> s = 0 \<and>
          ((\<exists>ts what a b. t = ts @ [(RecordEvent ''InstallFailed'' (what @ '': '' @ ae_text e), a),
              (UpdateStatus (with_condition w (install_failed e) cr), b)]) \<or>
           (\<exists>ts. t = ts @ [(GetAgent, Some e)] \<or>
              t = ts @ [(GetAgent, None), (UpdateStatus (final_status w ts), Some e)])))"

lemma ends_fail_with: "ends (reported w cr) (fail_with w cr what e)"
  unfolding ends_def fail_with_def update_status_def
  by (simp add: reported_def)

text \<open>The last round of the status update decides, however many there were.\<close>

definition written :: "world \<Rightarrow> api_error option \<Rightarrow> trace \<Rightarrow> bool" where
  "written w e t =
     (\<exists>ts. e \<noteq> None \<and> t = ts @ [(GetAgent, e)] \<or>
        t = ts @ [(GetAgent, None), (UpdateStatus (final_status w ts), e)])"

lemma ends_write_installed: "ends (written w) (write_installed w)"
  unfolding ends_def write_installed_def get_agent_def update_status_def
  by (auto simp: written_def final_status_def split: option.split)

lemma ends_tries:
  assumes "ends P m"
  shows "ends P (tries n m)"
proof (induction n)
  case (Suc n)
  have "ends P (do { e \<leftarrow> m; case e of None \<Rightarrow> State_Monad.return None
      | Some err \<Rightarrow> if ae_reason err = Conflict then tries n m else State_Monad.return (Some err) })"
    unfolding ends_def
  proof
    fix t
    obtain x t' where m: "run_state m t = (x, t')" by fastforce
    with assms have "P x t'" unfolding ends_def by (metis case_prod_conv)
    with Suc show "case run_state (do { e \<leftarrow> m; case e of None \<Rightarrow> State_Monad.return None
        | Some err \<Rightarrow> if ae_reason err = Conflict then tries n m else State_Monad.return (Some err) }) t
      of (x, t') \<Rightarrow> P x t'"
      using \<open>P x t'\<close> by (cases x) (simp_all add: m ends_def)
  qed
  then show ?case by (simp only: tries.simps)
qed (simp add: assms)

lemma ends_finish:
  assumes "retries w n"
  shows "ends (reported w cr) (finish w)"
  unfolding ends_def
proof
  fix t
  obtain e t' where e: "run_state (w_retry w (write_installed w)) t = (e, t')" by fastforce
  have "written w e t'"
    using ends_tries [OF ends_write_installed, of w n] assms e
    unfolding ends_def retries_def by (metis case_prod_conv)
  then show "case run_state (finish w) t of (x, t') \<Rightarrow> reported w cr x t'"
    by (cases e) (auto simp: finish_def e reported_def written_def)
qed

lemma ends_install:
  assumes "retries w n"
  shows "ends (reported w cr) (install w cr)"
  unfolding install_def Let_def
  by (intro ends_stage ends_component_stage ends_fail_with ends_finish [OF assms])

text \<open>C11. No failure is silent: whatever the cluster answers, an installing pass either fails with an
  error \<open>e\<close>, its last two requests being an \<open>InstallFailed\<close> event
  and a status with \<open>e\<close> as the message of the condition, unless it is the final status update
  itself that failed, with \<open>e\<close>; or it succeeds, asks to be repeated after 300 seconds, and its last
  request was a status update with the condition \<open>Installed\<close>, granted.  The generation that update
  declares observed is the one of the object read just before it, not of the \<open>cr\<close> that was
  installed.\<close>

theorem failed_stage_reported:
  assumes "retries w n"
  shows "case run_state (install w cr) t of (res, t') \<Rightarrow> reported w cr res t'"
  using ends_install [OF assms] by (simp add: ends_def)

section \<open>Every request granted\<close>

definition creations :: "trace \<Rightarrow> address list" where
  "creations t = List.map_filter (\<lambda>(req, a). creation req) t"

definition deletions :: "trace \<Rightarrow> address list" where
  "deletions t =
     List.map_filter (\<lambda>(req, a). case req of DeleteObject k ns n \<Rightarrow> Some (k, ns, n) | _ \<Rightarrow> None) t"

lemma address_lists [simp]:
  "creations [] = []" "deletions [] = []"
  "creations (x # t) = (case creation (fst x) of None \<Rightarrow> [] | Some a \<Rightarrow> [a]) @ creations t"
  "deletions (x # t) =
     (case fst x of DeleteObject k ns n \<Rightarrow> [(k, ns, n)] | _ \<Rightarrow> []) @ deletions t"
  "creations (t @ u) = creations t @ creations u" "deletions (t @ u) = deletions t @ deletions u"
  by (auto simp: creations_def deletions_def map_filter_def split: prod.split option.split request.split)

text \<open>\<open>does x new del m\<close>: \<open>m\<close> results in \<open>x\<close> having created or updated the objects \<open>new\<close> and
  deleted the objects \<open>del\<close>, in this order.\<close>

definition does :: "'a \<Rightarrow> address list \<Rightarrow> address list \<Rightarrow> 'a io \<Rightarrow> bool" where
  "does x new del m \<longleftrightarrow>
     (\<forall>t. \<exists>u. run_state m t = (x, t @ u) \<and> creations u = new \<and> deletions u = del)"

lemma does_return: "does x [] [] (State_Monad.return x)"
  by (simp add: does_def)

lemma does_bind:
  assumes "does x new del m" and "does y new' del' (f x)"
  shows "does y (new @ new') (del @ del') (State_Monad.bind m f)"
  unfolding does_def
proof
  fix t
  obtain u where u: "run_state m t = (x, t @ u)" "creations u = new" "deletions u = del"
    using assms(1) unfolding does_def by blast
  obtain u' where u': "run_state (f x) (t @ u) = (y, (t @ u) @ u')" "creations u' = new'" "deletions u' = del'"
    using assms(2) unfolding does_def by blast
  show "\<exists>u. run_state (State_Monad.bind m f) t = (y, t @ u) \<and> creations u = new @ new' \<and>
      deletions u = del @ del'"
    by (rule exI [of _ "u @ u'"]) (simp add: u u')
qed

lemma does_and_then:
  "does None new del m \<Longrightarrow> does e new' del' m' \<Longrightarrow> does e (new @ new') (del @ del') (and_then m m')"
  unfolding and_then_def by (erule does_bind) simp

lemma does_stage:
  "does None new del run \<Longrightarrow> does x new' del' rest \<Longrightarrow>
     does x (new @ new') (del @ del') (stage w cr what run rest)"
  unfolding stage_def by (erule does_bind) simp

lemma does_component_stage:
  assumes "does None new [] run" and "does None [] del clean" and "does x new' del' rest"
  shows "does x ((if b then new else []) @ new') ((if b then [] else del) @ del')
           (component_stage w cr what b run clean rest)"
  using does_stage [OF assms(1,3)] does_bind [OF assms(2), of x new' del' "\<lambda>_. rest"] assms(3)
  by (simp add: component_stage_def)

definition granting :: "world \<Rightarrow> bool" where
  "granting w \<longleftrightarrow> (\<forall>t req. w_answer w t req = None)"

lemma does_call:
  "granting w \<Longrightarrow> new = (case creation req of None \<Rightarrow> [] | Some a \<Rightarrow> [a]) \<Longrightarrow>
     del = (case req of DeleteObject k ns n \<Rightarrow> [(k, ns, n)] | _ \<Rightarrow> []) \<Longrightarrow>
     does None new del (call w req)"
  by (simp add: does_def granting_def)

lemma does_returned_bind:
  assumes "\<And>x. does y new del (f x)"
  shows "does y new del (State_Monad.bind (returned g) f)"
  using assms by (simp add: does_def)

lemma does_cleanup_object:
  assumes "granting w"
  shows "does None [] [(k, ns, n)] (cleanup_object w k ns n)"
  using assms by (simp add: does_def cleanup_object_def granting_def ignore_not_found_def)

text \<open>The order in which the objects of the open agent and of the node agent are written.\<close>

definition open_agent_order :: "world \<Rightarrow> address list" where
  "open_agent_order w =
     [(ServiceAccount, w_namespace w, ''whatap-open-agent-sa''),
      (ClusterRole, '''', ''whatap-open-agent-role''),
      (ClusterRoleBinding, '''', ''whatap-open-agent-role-binding''),
      (ConfigMapKind, w_namespace w, ''whatap-open-agent-config''),
      (Deployment, w_namespace w, ''whatap-open-agent'')]"

definition node_agent_order :: "world \<Rightarrow> whatap_agent \<Rightarrow> address list" where
  "node_agent_order w cr =
     (if split_agents (ka_gpu (k8s_agent cr)) then [gpu_node_object w] else []) @
     [node_object w] @
     (if dcgm_service_wanted (ka_gpu (k8s_agent cr)) then [dcgm_object w cr] else [])"

lemma does_deploy:
  assumes "granting w"
  shows "does None [(Deployment, w_namespace w, ''whatap-open-agent'')] [] (deploy_loop w cr secrets 0)"
  using assms by (simp add: deploy_loop.simps [of w cr secrets 0] does_def granting_def)

lemma does_installOpenAgent:
  assumes "granting w"
  shows "does None (open_agent_order w) [] (installOpenAgent w cr)"
proof -
  have "does None ([(ServiceAccount, w_namespace w, ''whatap-open-agent-sa'')] @
      [(ClusterRole, '''', ''whatap-open-agent-role'')] @
      [(ClusterRoleBinding, '''', ''whatap-open-agent-role-binding'')] @ [] @ [] @ [] @
      [(ConfigMapKind, w_namespace w, ''whatap-open-agent-config'')] @
      [(Deployment, w_namespace w, ''whatap-open-agent'')])
      ([] @ [] @ [] @ [] @ [] @ [] @ [] @ []) (installOpenAgent w cr)"
    unfolding installOpenAgent_def open_agent_config_def
    by (intro does_and_then does_returned_bind does_deploy does_call assms) simp_all
  then show ?thesis by (simp add: open_agent_order_def)
qed

lemma does_cleanupOpenAgent:
  assumes "granting w"
  shows "does None [] (open_agent_objects w) (cleanupOpenAgent w)"
proof -
  have "does None ([] @ [] @ [] @ [] @ []) ([(Deployment, w_namespace w, ''whatap-open-agent'')] @
      [(ConfigMapKind, w_namespace w, ''whatap-open-agent-config'')] @
      [(ServiceAccount, w_namespace w, ''whatap-open-agent-sa'')] @
      [(ClusterRole, '''', ''whatap-open-agent-role'')] @
      [(ClusterRoleBinding, '''', ''whatap-open-agent-role-binding'')]) (cleanupOpenAgent w)"
    unfolding cleanupOpenAgent_def
    by (intro does_and_then does_cleanup_object assms)
  then show ?thesis by (simp add: open_agent_objects_def)
qed

lemma does_node_agent:
  assumes "granting w"
  shows "does None (node_agent_order w cr)
           (if split_agents (ka_gpu (k8s_agent cr)) then [] else [gpu_node_object w])
           (createOrUpdateNodeAgent w cr)"
proof -
  let ?split = "split_agents (ka_gpu (k8s_agent cr))"
  let ?wanted = "dcgm_service_wanted (ka_gpu (k8s_agent cr))"
  have dcgm: "does None (if ?wanted then [dcgm_object w cr] else []) []
      (if gpu_enabled (ka_gpu (k8s_agent cr)) then ensureDcgmExporterService w cr
       else State_Monad.return None)"
    using assms
    by (auto intro!: does_call does_return simp: ensureDcgmExporterService_def dcgm_service_wanted_def)
  have agents: "does None ((if ?split then [gpu_node_object w] else []) @ [node_object w])
      (if ?split then [] else [gpu_node_object w]) (node_agents w cr)"
  proof (cases ?split)
    case True
    then show ?thesis
      using assms
      by (simp add: node_agents_def Let_def reconcileNodeAgentDaemonSet_def and_then_def does_def
          granting_def)
  next
    case False
    then show ?thesis
      using assms by (simp add: node_agents_def Let_def reconcileNodeAgentDaemonSet_def does_def granting_def)
  qed
  show ?thesis
    using does_and_then [OF agents dcgm]
    by (simp add: createOrUpdateNodeAgent_def node_agent_order_def)
qed

lemma does_finish:
  assumes "granting w" and "retries w n"
  shows "does (None, 300) [] [] (finish w)"
proof -
  have "does None [] [] (write_installed w)"
    using assms(1) by (simp add: does_def write_installed_def get_agent_def update_status_def granting_def)
  then have "does None [] [] (tries n (write_installed w))"
  proof (induction n)
    case (Suc n)
    show ?case
      unfolding tries.simps
      by (rule does_bind [OF Suc.prems, where new' = "[]" and del' = "[]", unfolded append_Nil])
        (simp add: does_return)
  qed simp
  then have "does (None, 300) ([] @ []) ([] @ []) (finish w)"
    unfolding finish_def assms(2) [unfolded retries_def, rule_format]
    by (rule does_bind) (simp add: does_return)
  then show ?thesis by simp
qed

definition installation_order :: "world \<Rightarrow> whatap_agent \<Rightarrow> address list" where
  "installation_order w cr =
     webhook_objects w @
     (if ma_enabled (ka_master (k8s_agent cr)) then [master_object w] else []) @
     (if na_enabled (ka_node (k8s_agent cr)) then node_agent_order w cr else []) @
     (if oa_enabled (open_agent cr) then open_agent_order w else [])"

lemma does_install:
  assumes g: "granting w" and r: "retries w n"
  shows "does (None, 300) (installation_order w cr) (unwanted_objects w cr) (install w cr)"
proof -
  let ?b = "\<lambda>b xs. if b then xs else ([] :: address list)"
  let ?n = "\<lambda>b xs. if b then ([] :: address list) else xs"
  let ?master = "ma_enabled (ka_master (k8s_agent cr))"
  let ?node = "na_enabled (ka_node (k8s_agent cr))"
  let ?open = "oa_enabled (open_agent cr)"
  have web: "does None [(ServiceKind, w_namespace w, webhookServiceName)] [] (ensureWebhookService w cr)"
    "does None [(SecretKind, w_namespace w, webhookSecretName)] [] (ensureWebhookTLSSecret w cr)"
    "does None [(MutatingWebhook, '''', webhookConfigurationName)] []
       (ensureMutatingWebhookConfiguration w cr)"
    "does None [master_object w] [] (createOrUpdateMasterAgent w cr)"
    by (auto intro!: does_call g simp: ensureWebhookService_def ensureWebhookTLSSecret_def
        ensureMutatingWebhookConfiguration_def createOrUpdateMasterAgent_def)
  have clean: "does None [] [master_object w] (cleanupMasterAgent w)"
    "does None [] [node_object w] (cleanupNodeAgent w)"
    unfolding cleanupMasterAgent_def cleanupNodeAgent_def by (intro does_cleanup_object g)+
  have none: "does None [] [] (installApiserverMonitor w cr)" "does None [] [] (installEtcdMonitor w cr)"
    "does None [] [] (installSchedulerMonitor w cr)"
    "does None [] [] (State_Monad.return None :: api_error option io)"
    by (simp_all add: installApiserverMonitor_def installEtcdMonitor_def installSchedulerMonitor_def
        does_return)
  have quiet: "does x new del rest \<Longrightarrow> does None [] [] run \<Longrightarrow>
      does x new del (component_stage w cr what b run (State_Monad.return None) rest)"
    for x :: result and new del rest run what b
    using does_component_stage [of "[]" run "[]" "State_Monad.return None", OF _ none(4)]
    by (simp split: if_splits)
  have node: "does x ((?b ?node (node_agent_order w cr)) @ new)
      ((if ?node then ?n (split_agents (ka_gpu (k8s_agent cr))) [gpu_node_object w]
        else [node_object w]) @ del)
      (component_stage w cr what ?node (createOrUpdateNodeAgent w cr) (cleanupNodeAgent w) rest)"
    if "does x new del rest" for x :: result and new del rest what
    using does_stage [OF does_node_agent [OF g] that] does_bind [OF clean(2), of x new del "\<lambda>_. rest"] that
    by (simp add: component_stage_def)
  have "does (None, 300)
      ([(ServiceKind, w_namespace w, webhookServiceName)] @ [(SecretKind, w_namespace w, webhookSecretName)] @
       [(MutatingWebhook, '''', webhookConfigurationName)] @ (?b ?master [master_object w]) @
       (?b ?node (node_agent_order w cr)) @ (?b ?open (open_agent_order w)) @ [])
      ([] @ [] @ [] @ (?n ?master [master_object w]) @
       (if ?node then ?n (split_agents (ka_gpu (k8s_agent cr))) [gpu_node_object w] else [node_object w]) @
       (?n ?open (open_agent_objects w)) @ []) (install w cr)"
    unfolding install_def Let_def
    by (intro does_stage web does_component_stage node quiet none clean does_installOpenAgent g
        does_cleanupOpenAgent does_finish [OF g r])
  then show ?thesis
    by (simp add: installation_order_def unwanted_objects_def webhook_objects_def)
qed

lemma installation_order:
  "set (installation_order w cr) = set (wanted_objects w cr)"
  "distinct (installation_order w cr @ unwanted_objects w cr)"
  unfolding installation_order_def wanted_objects_def unwanted_objects_def webhook_objects_def
    open_agent_objects_def open_agent_order_def node_agent_order_def
  by (auto split: if_split)

text \<open>C7. With every request granted one pass reaches the state the custom resource describes: for a
  custom resource that has the finalizer and is not being deleted, it succeeds, creates or updates
  exactly the objects asked for, in the order of the code, and deletes exactly those asked to be
  absent, each once, according to the custom resource as the first status update returned it.\<close>

theorem granted_pass:
  assumes "granting w" and "retries w n"
    and "\<not> om_deleting (wa_meta (w_agent w (t @ [(GetAgent, None)])))"
    and "has_finalizer w (w_agent w (t @ [(GetAgent, None)]))"
    and "cr = w_agent w (t @ [(GetAgent, None),
           (UpdateStatus (with_condition w reconciling (w_agent w (t @ [(GetAgent, None)]))), None)])"
  shows "\<exists>u. run_state (Reconcile w) t = ((None, 300), t @ u) \<and>
           creations u = installation_order w cr \<and> deletions u = unwanted_objects w cr \<and>
           set (creations u) = set (wanted_objects w cr) \<and> distinct (creations u @ deletions u)"
proof -
  let ?cr0 = "w_agent w (t @ [(GetAgent, None)])"
  let ?t = "t @ [(GetAgent, None), (UpdateStatus (with_condition w reconciling ?cr0), None)]"
  obtain u where u: "run_state (install w cr) ?t = ((None, 300), ?t @ u)"
    "creations u = installation_order w cr" "deletions u = unwanted_objects w cr"
    using does_install [OF assms(1,2), of cr] unfolding does_def by blast
  have "run_state (Reconcile w) t = ((None, 300), ?t @ u)"
    using assms u(1)
    by (simp add: Reconcile_def reconcile_live_def get_agent_def update_status_def granting_def)
  with u(2,3) installation_order [of w cr] show ?thesis
    by (intro exI [of _ "[(GetAgent, None), (UpdateStatus (with_condition w reconciling ?cr0), None)] @ u"])
      simp
qed

lemma failed_stage_reported_witness:
  "\<exists>ts s. run_state (install (sample_world grant_all edited) (master_cr 1)) [] =
       ((None, 300), ts @ [(GetAgent, None), (UpdateStatus s, None)]) \<and>
     st_observed_generation (wa_status s) = 2 \<and> om_generation (wa_meta (master_cr 1)) = 1"
proof -
  let ?w = "sample_world grant_all edited"
  have "granting ?w" by (simp add: granting_def grant_all_def)
  from does_install [OF this sample_retries, of "master_cr 1"]
  obtain t' where t': "run_state (install ?w (master_cr 1)) [] = ((None, 300), t')"
    unfolding does_def by fastforce
  then obtain ts where "t' = ts @ [(GetAgent, None), (UpdateStatus (final_status ?w ts), None)]"
    using failed_stage_reported [OF sample_retries, of grant_all edited "master_cr 1" "[]"]
    by (auto simp: reported_def)
  with t' show ?thesis
    by (intro exI [of _ ts] exI [of _ "final_status ?w ts"])
      (simp add: final_status_def observed_def with_condition_def edited_def)
qed

lemma granted_pass_witness:
  "\<exists>u. run_state (Reconcile (sample_world grant_all edited)) [] = ((None, 300), u) \<and>
     creations u = webhook_objects (sample_world grant_all edited) @
                   [master_object (sample_world grant_all edited)] \<and>
     deletions u = node_object (sample_world grant_all edited) #
                   open_agent_objects (sample_world grant_all edited)"
proof -
  let ?w = "sample_world grant_all edited"
  have w: "granting ?w" "\<not> om_deleting (wa_meta (w_agent ?w ([] @ [(GetAgent, None)])))"
    "has_finalizer ?w (w_agent ?w ([] @ [(GetAgent, None)]))"
    by (simp_all add: granting_def grant_all_def edited_def)
  from granted_pass [OF w(1) sample_retries w(2,3) refl]
  show ?thesis
    by (auto simp: edited_def installation_order_def unwanted_objects_def)
qed

end
