(* ===== verification/GpuMonitoring.thy ===== *)
theory GpuMonitoring
  imports PassOutcome
begin

text \<open>
  GPU monitoring across components: the DaemonSets the controller writes, the Service in front
  of the exporter and the scrape target that has to find it.
\<close>

definition has_exporter :: "workload_object \<Rightarrow> bool" where
  "has_exporter d \<longleftrightarrow>
     ''dcgm-exporter'' \<in> ct_name ` set (ps_containers (pt_spec (wl_template (wo_spec d))))"

text \<open>The selector of \<open>gpu_target\<close> on the labels of a workload's pods.\<close>

definition gpu_target_selects :: "k8s_agent_spec \<Rightarrow> workload_object \<Rightarrow> bool" where
  "gpu_target_selects k8s d \<longleftrightarrow>
     (case target_field ''selector'' (gpu_target k8s '''') of
        Some (YMap [(_, YStrMap ls)]) \<Rightarrow>
          list_all (\<lambda>(k, v). mget (pt_labels (wl_template (wo_spec d))) k = Some v) ls
      | _ \<Rightarrow> False)"

lemma gpu_target_selects:
  "gpu_target_selects k8s d \<longleftrightarrow>
     mget (pt_labels (wl_template (wo_spec d))) ''name'' = Some (targetAgentName (ka_gpu k8s))"
  by (simp add: gpu_target_selects_def gpu_target_def target_field_def opt_def Let_def)

lemma map_name_defaults: "ct_name ` set (map applyContainerDefaults cs) = ct_name ` set cs"
  by (auto simp: image_iff)

lemma created_node:
  assumes "mutate_node w cr name dcgm sel terms None = Inr d"
    and "distinct (map fst (entries (na_pod_labels (ka_node (k8s_agent cr)))))"
    and "mget (na_pod_labels (ka_node (k8s_agent cr))) ''name'' = None"
  shows "mget (pt_labels (wl_template (wo_spec d))) ''name'' = Some name" and "has_exporter d \<longleftrightarrow> dcgm"
proof -
  let ?spec = "ka_node (k8s_agent cr)"
  let ?tmpl = "wl_template (getNodeAgentDaemonSetSpec (agent_image (k8s_agent cr))
    (agent_resources (na_resources ?spec)) cr name dcgm)"
  let ?place = "place_pod (fst (place_agent ?spec sel terms))"
  have d: "wl_template (wo_spec d) = update_node (w_range w) cr name dcgm ?place None"
    using assms(1) by (auto simp: mutate_node_def owned_meta_def found_template_def Let_def split: sum.splits)
  have "pt_labels (update_node (w_range w) cr name dcgm ?place None) = pt_labels ?tmpl"
    by (simp add: update_node_def reconcile_template_def Let_def)
  then show "mget (pt_labels (wl_template (wo_spec d))) ''name'' = Some name"
    unfolding d using assms(3) by (simp add: node_labels pod_labels_get [OF assms(2)])
  have names: "map ct_name (ps_containers (?place (pt_spec ?tmpl))) =
      [''whatap-node-helper'', ''whatap-node-agent'']"
    by (simp add: place_pod_def node_template_parts node_helper_container_def node_agent_container_def Let_def)
  then have plain: "ct_name ` set (ps_containers (?place (pt_spec ?tmpl))) =
      {''whatap-node-helper'', ''whatap-node-agent''}"
    by (simp only: set_map [symmetric] list.set)
  have cs: "ct_name ` set (ps_containers (pt_spec (update_node (w_range w) cr name dcgm ?place None))) =
      ct_name ` set (ps_containers (if dcgm then addDcgmExporterToNodeAgent (?place (pt_spec ?tmpl)) cr
        else ?place (pt_spec ?tmpl)))"
    by (simp add: update_node_def reconcile_template_def Let_def image_image)
  have "''dcgm-exporter'' \<in> ct_name ` set (ps_containers (addDcgmExporterToNodeAgent (?place (pt_spec ?tmpl)) cr))"
    unfolding dcgm_pod_parts(1) set_append image_Un list.set image_insert dcgm_container_fields by blast
  moreover have "''dcgm-exporter'' \<notin> ct_name ` set (ps_containers (?place (pt_spec ?tmpl)))"
    unfolding plain by simp
  ultimately show "has_exporter d \<longleftrightarrow> dcgm"
    unfolding has_exporter_def d cs by (simp only: if_True if_False simp_thms split: if_split)
qed

lemma target_agent_name:
  "gpu_enabled gpu \<Longrightarrow> targetAgentName gpu = (if split_agents gpu then ''whatap-node-agent-gpu'' else ''whatap-node-agent'')"
  by (auto simp: targetAgentName_def split_agents_def gpu_affinity_terms_def Let_def split: option.splits)

definition selects_exporter :: "k8s_agent_spec \<Rightarrow> request \<Rightarrow> bool" where
  "selects_exporter k8s req =
     (case req of
        ApplyWorkload k ns n f \<Rightarrow> (\<forall>d. f None = Inr d \<longrightarrow> (gpu_target_selects k8s d \<longleftrightarrow> has_exporter d))
      | _ \<Rightarrow> True)"


lemma wanted_daemon_sets: "(DaemonSet, ns, name) \<in> set (wanted_objects w cr) \<Longrightarrow> ns = w_namespace w"
  by (auto simp: wanted_objects_def webhook_objects_def open_agent_objects_def split: if_splits)

text \<open>C37. A namespace in \<open>features.k8sAgent\<close> other than the operator's own takes the exporter out of
  reach: the exporter's Service is created in it and the scrape target looks for pods in it, but
  whatever the cluster answers, no DaemonSet is ever written there.\<close>

theorem gpu_namespace_elsewhere:
  assumes "retries w n" and "ka_namespace (k8s_agent cr) \<noteq> ''''"
    and "ka_namespace (k8s_agent cr) \<noteq> w_namespace w"
  shows "dcgm_object w cr = (ServiceKind, ka_namespace (k8s_agent cr), ''dcgm-exporter-service'') \<and>
         target_field ''namespaceSelector'' (gpu_target (k8s_agent cr) (w_namespace w)) =
           Some (YMap [(''matchNames'', YStrs [ka_namespace (k8s_agent cr)])]) \<and>
         (\<exists>u. snd (run_state (install w cr) t) = t @ u \<and>
            list_all (\<lambda>e. \<forall>name. creation (fst e) \<noteq> Some (DaemonSet, ka_namespace (k8s_agent cr), name)) u)"
proof (intro conjI)
  show "dcgm_object w cr = (ServiceKind, ka_namespace (k8s_agent cr), ''dcgm-exporter-service'')"
    using assms(2) by (simp add: dcgm_service_namespace_def or_default_def)
  show "target_field ''namespaceSelector'' (gpu_target (k8s_agent cr) (w_namespace w)) =
      Some (YMap [(''matchNames'', YStrs [ka_namespace (k8s_agent cr)])])"
    using assms(2) by (simp add: gpu_target_def target_field_def or_default_def Let_def)
  have "emits (\<lambda>e. \<forall>name. creation (fst e) \<noteq> Some (DaemonSet, ka_namespace (k8s_agent cr), name))
      (install w cr)"
    by (rule emits_mono [OF emits_install [OF assms(1)]])
      (use assms(3) wanted_daemon_sets in \<open>fastforce simp: within_def\<close>)
  then show "\<exists>u. snd (run_state (install w cr) t) = t @ u \<and>
      list_all (\<lambda>e. \<forall>name. creation (fst e) \<noteq> Some (DaemonSet, ka_namespace (k8s_agent cr), name)) u"
    by (simp add: emits_def)
qed

text \<open>A custom resource with GPU monitoring on chosen nodes and a namespace of its own.\<close>

definition gpu_cr :: whatap_agent where
  "gpu_cr =
     zero_agent\<lparr>wa_spec := (wa_spec zero_agent)\<lparr>ws_features := (ws_features (wa_spec zero_agent))\<lparr>
       ft_k8s_agent := zero_k8s_agent\<lparr>
         ka_namespace := ''gpu'', ka_node := zero_node\<lparr>na_enabled := True\<rparr>,
         ka_gpu := zero_gpu\<lparr>gpu_enabled := True,
           gpu_node_selector := Some [(''gpu'', ''yes'')]\<rparr>\<rparr>\<rparr>\<rparr>\<rparr>"

lemma gpu_cr_simps [simp]:
  "ka_namespace (k8s_agent gpu_cr) = ''gpu''" "gpu_enabled (ka_gpu (k8s_agent gpu_cr))"
  "na_pod_labels (ka_node (k8s_agent gpu_cr)) = None"
  by (simp_all add: gpu_cr_def zero_defs)


lemma gpu_namespace_elsewhere_witness:
  "dcgm_object (sample_world grant_all edited) gpu_cr = (ServiceKind, ''gpu'', ''dcgm-exporter-service'') \<and>
   (\<exists>u. snd (run_state (install (sample_world grant_all edited) gpu_cr) []) = u \<and>
      list_all (\<lambda>e. \<forall>name. creation (fst e) \<noteq> Some (DaemonSet, ''gpu'', name)) u)"
proof -
  have "ka_namespace (k8s_agent gpu_cr) \<noteq> ''''"
    "ka_namespace (k8s_agent gpu_cr) \<noteq> w_namespace (sample_world grant_all edited)"
    by simp_all
  from gpu_namespace_elsewhere [OF sample_retries this, of "[]"] show ?thesis by simp
qed

end
