(* ===== verification/SteadyState.thy ===== *)
theory SteadyState
  imports ReconcilePass
begin

text \<open>
  What a pass writes is a fixed point of what it writes: every mutate function the operator
  hands to \<open>CreateOrUpdate\<close> leaves an object alone that it made itself.
\<close>

section \<open>Labels written twice\<close>

lemma alist_eqI:
  assumes "map fst xs = map fst ys" and "distinct (map fst xs)" and "map_of xs = map_of ys"
  shows "xs = ys"
proof (rule nth_equalityI)
  show len: "length xs = length ys" using assms(1) by (rule map_eq_imp_length_eq)
  fix i assume i: "i < length xs"
  have "fst (xs ! i) = map fst xs ! i" "fst (ys ! i) = map fst ys ! i" using i len by simp_all
  then have k: "fst (xs ! i) = fst (ys ! i)" by (simp only: assms(1))
  have "map_of xs (fst (xs ! i)) = Some (snd (xs ! i))" using i assms(2) by simp
  moreover have "map_of ys (fst (ys ! i)) = Some (snd (ys ! i))"
    using i len assms(1,2) by simp
  ultimately show "xs ! i = ys ! i" using k assms(3) by (simp add: prod_eq_iff)
qed

lemma keys_overlay: "fst ` set (overlay m es) = fst ` set m \<union> fst ` set es"
proof (induction es arbitrary: m)
  case (Cons e es)
  obtain k v where e: "e = (k, v)" by fastforce
  show ?case by (simp add: e Cons.IH dom_update)
qed simp

lemma overlay_keys: "fst ` set es \<subseteq> fst ` set m \<Longrightarrow> map fst (overlay m es) = map fst m"
proof (induction es arbitrary: m)
  case (Cons e es)
  obtain k v where e: "e = (k, v)" by fastforce
  with Cons.prems have "map fst (AList.update k v m) = map fst m" by (simp add: update_keys)
  with Cons.IH [of "AList.update k v m"] Cons.prems show ?case
    by (simp add: e dom_update subset_insertI2)
qed simp

text \<open>A base label and custom labels over it, written a second time.\<close>

lemma overlay_again:
  assumes "distinct (map fst m)" and "distinct (map fst es)"
  shows "overlay (overlay m es) es = overlay m es"
proof (rule alist_eqI)
  show "map fst (overlay (overlay m es) es) = map fst (overlay m es)"
    by (rule overlay_keys) (simp add: keys_overlay)
  show "distinct (map fst (overlay (overlay m es) es))"
    by (intro distinct_overlay assms)
  show "map_of (overlay (overlay m es) es) = map_of (overlay m es)"
    by (simp add: map_of_overlay [OF assms(2)] map_add_def fun_eq_iff split: option.split)
qed

definition gomap_ok :: "string gomap \<Rightarrow> bool" where
  "gomap_ok m \<longleftrightarrow> distinct (map fst (entries m))"

lemma put_all_again:
  "gomap_ok m \<Longrightarrow> gomap_ok c \<Longrightarrow> put_all c (put_all c m) = put_all c m"
  by (cases c) (simp_all add: put_all_def gomap_ok_def overlay_again entries_def)

lemma put_all_ok: "gomap_ok m \<Longrightarrow> gomap_ok (put_all c m)"
  by (cases c) (simp_all add: put_all_def gomap_ok_def distinct_overlay entries_def)

lemma put_all_mput_again:
  assumes "gomap_ok m" and "gomap_ok c"
  shows "put_all c (mput k v (put_all c (mput k v m))) = put_all c (mput k v m)"
proof (cases c)
  case None
  then show ?thesis by (simp add: put_all_def mput_def entries_def update_conv' update_keys)
next
  case (Some es)
  let ?m = "AList.update k v (entries m)"
  have d: "distinct (map fst ?m)" "distinct (map fst es)"
    using assms Some by (simp_all add: gomap_ok_def distinct_update entries_def)
  have "overlay (AList.update k v (overlay ?m es)) es = overlay ?m es"
  proof (rule alist_eqI)
    have k: "k \<in> fst ` set (overlay ?m es)" by (simp add: keys_overlay dom_update)
    then have "map fst (AList.update k v (overlay ?m es)) = map fst (overlay ?m es)"
      by (simp add: update_keys)
    then show keys: "map fst (overlay (AList.update k v (overlay ?m es)) es) = map fst (overlay ?m es)"
      by (subst overlay_keys) (auto simp: dom_update keys_overlay)
    show "distinct (map fst (overlay (AList.update k v (overlay ?m es)) es))"
      unfolding keys by (rule distinct_overlay [OF d(1)])
    show "map_of (overlay (AList.update k v (overlay ?m es)) es) = map_of (overlay ?m es)"
      by (simp add: map_of_overlay [OF d(2)] update_conv' map_add_def fun_eq_iff split: option.split)
  qed
  then show ?thesis by (simp add: Some put_all_def mput_def entries_def)
qed

section \<open>Objects made twice\<close>

text \<open>\<open>settles ok f\<close>: what \<open>f\<close> makes of an object it finds, or of none, it makes again of the result;
  an object found satisfies \<open>ok\<close>.\<close>

definition settles :: "('a \<Rightarrow> bool) \<Rightarrow> 'a mutation \<Rightarrow> bool" where
  "settles ok f \<longleftrightarrow>
     (\<forall>existing y. (case existing of None \<Rightarrow> True | Some x \<Rightarrow> ok x) \<longrightarrow> f existing = Inr y \<longrightarrow>
        f (Some y) = Inr y)"

lemma settlesI:
  assumes "\<And>existing y. (\<And>x. existing = Some x \<Longrightarrow> ok x) \<Longrightarrow> f existing = Inr y \<Longrightarrow> f (Some y) = Inr y"
  shows "settles ok f"
  unfolding settles_def
proof (intro allI impI)
  fix existing y
  assume "case existing of None \<Rightarrow> True | Some x \<Rightarrow> ok x" and "f existing = Inr y"
  then show "f (Some y) = Inr y" by (intro assms) simp_all
qed

text \<open>What the API server guarantees of every object: maps have each key once, a pod has each
  container name once.\<close>

definition meta_ok :: "obj_meta \<Rightarrow> bool" where
  "meta_ok m \<longleftrightarrow> gomap_ok (mt_labels m) \<and> gomap_ok (mt_annotations m)"

definition workload_ok :: "workload_object \<Rightarrow> bool" where
  "workload_ok d \<longleftrightarrow> meta_ok (wo_meta d) \<and>
     distinct (map ct_name (ps_containers (pt_spec (wl_template (wo_spec d)))))"

fun repeatable :: "request \<Rightarrow> bool" where
  "repeatable (ApplyWorkload k ns n f) = settles workload_ok f"
| "repeatable (ApplyData k ns n f) = settles (\<lambda>_. True) f"
| "repeatable (ApplyService ns n f) = settles (\<lambda>_. True) f"
| "repeatable (ApplyAccount ns n f) = settles (\<lambda>_. True) f"
| "repeatable (ApplyRole n f) = settles (\<lambda>_. True) f"
| "repeatable (ApplyBinding n f) = settles (\<lambda>_. True) f"
| "repeatable (ApplyWebhooks n f) = settles (\<lambda>_. True) f"
| "repeatable _ = True"

text \<open>Taking ownership of an object already owned changes nothing; the maps of the custom resource
  are maps; the runtime iterates each entry once.\<close>

definition owner_settles :: "world \<Rightarrow> bool" where
  "owner_settles w \<longleftrightarrow> (\<forall>cr o1 o2. w_own w cr o1 = Inr o2 \<longrightarrow> w_own w cr o2 = Inr o2)"

definition custom_maps_ok :: "whatap_agent \<Rightarrow> bool" where
  "custom_maps_ok cr \<longleftrightarrow>
     list_all gomap_ok [ma_labels (ka_master (k8s_agent cr)), ma_annotations (ka_master (k8s_agent cr)),
       na_labels (ka_node (k8s_agent cr)), na_annotations (ka_node (k8s_agent cr)),
       oa_labels (open_agent cr), oa_annotations (open_agent cr)]"

definition ranges_ok :: "world \<Rightarrow> bool" where
  "ranges_ok w \<longleftrightarrow> (\<forall>m. mset (w_range w m) = mset m)"

lemma owned_again:
  assumes "owner_settles w"
    and "owned_meta w cr m (\<lambda>m. Inr (build m)) = Inr y"
    and "\<And>x. y = build (m\<lparr>mt_owners := x\<rparr>) \<Longrightarrow> m' = m\<lparr>mt_owners := x\<rparr> \<and> build' (m\<lparr>mt_owners := x\<rparr>) = y"
  shows "owned_meta w cr m' (\<lambda>m. Inr (build' m)) = Inr y"
proof -
  obtain x where x: "w_own w cr (mt_owners m) = Inr x" "y = build (m\<lparr>mt_owners := x\<rparr>)"
    using assms(2) by (auto simp: owned_meta_def split: sum.splits)
  moreover have "w_own w cr x = Inr x" using assms(1) x(1) by (auto simp: owner_settles_def)
  ultimately show ?thesis using assms(3) [OF x(2)] by (simp add: owned_meta_def)
qed

lemma custom_meta_again:
  assumes "meta_ok m" and "gomap_ok ls" and "gomap_ok as"
  shows "custom_meta ls as ((custom_meta ls as m)\<lparr>mt_owners := x\<rparr>) = (custom_meta ls as m)\<lparr>mt_owners := x\<rparr>"
  using assms by (simp add: custom_meta_def meta_ok_def put_all_again)

lemma found_simps [simp]:
  "found_meta (Some d) = wo_meta d" "found_template (Some d) = Some (wl_template (wo_spec d))"
  by (simp_all add: found_meta_def found_template_def)

lemma found_meta_ok: "(\<And>x. existing = Some x \<Longrightarrow> workload_ok x) \<Longrightarrow> meta_ok (found_meta existing)"
  by (cases existing) (auto simp: found_meta_def workload_ok_def meta_ok_def new_meta_def gomap_ok_def
      entries_def)

lemma master_settles:
  assumes "owner_settles w" and "custom_maps_ok cr" and "ranges_ok w"
  shows "settles workload_ok (mutate_master w cr)"
proof (rule settlesI)
  fix existing y
  assume ok: "\<And>x. existing = Some x \<Longrightarrow> workload_ok x" and y: "mutate_master w cr existing = Inr y"
  let ?spec = "ka_master (k8s_agent cr)"
  let ?new = "getMasterAgentDeploymentSpec (agent_image (k8s_agent cr)) (agent_resources (ma_resources ?spec)) cr"
  have "reconcile_template (master_adapt ?spec) (\<lambda>_. False) (w_range w) (wl_template ?new)
      (Some (reconcile_template (master_adapt ?spec) (\<lambda>_. False) (w_range w) (wl_template ?new)
        (found_template existing))) =
    reconcile_template (master_adapt ?spec) (\<lambda>_. False) (w_range w) (wl_template ?new) (found_template existing)"
    by (rule container_policy.template_stable [OF workload_policy])
      (use ok assms(3) in \<open>auto simp: workload_policies_def master_container_names master_labels
         pod_labels_def ranges_ok_def found_template_def workload_ok_def\<close>)
  then have again: "update_master (w_range w) cr (Some (update_master (w_range w) cr (found_template existing))) =
      update_master (w_range w) cr (found_template existing)"
    by (simp add: update_master_def Let_def)
  have cs: "gomap_ok (ma_labels ?spec)" "gomap_ok (ma_annotations ?spec)"
    using assms(2) by (simp_all add: custom_maps_ok_def)
  show "mutate_master w cr (Some y) = Inr y"
    using y unfolding mutate_master_def Let_def
    by (rule owned_again [OF assms(1)])
      (simp add: again
        custom_meta_again [OF found_meta_ok [OF ok] cs])
qed

lemma node_names_distinct:
  assumes "map ct_name (ps_containers ps) = [''whatap-node-helper'', ''whatap-node-agent'']"
  shows "distinct (map ct_name (ps_containers (if dcgm then addDcgmExporterToNodeAgent ps cr else ps)))"
  using assms dcgm_pod_parts(1) [of ps cr]
  by (simp add: dcgm_container_fields split: option.split)

lemma place_agent_frame:
  "na_labels (snd (place_agent node sel terms)) = na_labels node"
  "na_annotations (snd (place_agent node sel terms)) = na_annotations node"
  by (simp_all add: place_agent_def split: prod.split)

lemma custom_maps_after_first: "custom_maps_ok cr \<Longrightarrow> custom_maps_ok (after_first_agent cr)"
  by (simp add: custom_maps_ok_def after_first_agent_def Let_def place_agent_frame)

lemma node_settles:
  assumes "owner_settles w" and "custom_maps_ok cr" and "ranges_ok w"
  shows "settles workload_ok (mutate_node w cr name dcgm sel terms)"
proof (rule settlesI)
  fix existing y
  assume ok: "\<And>x. existing = Some x \<Longrightarrow> workload_ok x"
    and y: "mutate_node w cr name dcgm sel terms existing = Inr y"
  let ?spec = "ka_node (k8s_agent cr)"
  let ?tmpl = "wl_template (getNodeAgentDaemonSetSpec (agent_image (k8s_agent cr))
    (agent_resources (na_resources ?spec)) cr name dcgm)"
  let ?place = "place_pod (fst (place_agent ?spec sel terms))"
  let ?pod = "if dcgm then addDcgmExporterToNodeAgent (?place (pt_spec ?tmpl)) cr else ?place (pt_spec ?tmpl)"
  let ?update = "update_node (w_range w) cr name dcgm ?place"
  have "map ct_name (ps_containers (?place (pt_spec ?tmpl))) = [''whatap-node-helper'', ''whatap-node-agent'']"
    by (simp add: place_pod_def node_template_parts node_helper_container_def node_agent_container_def Let_def)
  from node_names_distinct [OF this] have names: "distinct (map ct_name (ps_containers ?pod))" .
  have "reconcile_template (node_adapt ?spec) operatorManagedContainers (w_range w) (?tmpl\<lparr>pt_spec := ?pod\<rparr>)
      (Some (reconcile_template (node_adapt ?spec) operatorManagedContainers (w_range w)
        (?tmpl\<lparr>pt_spec := ?pod\<rparr>) (found_template existing))) =
    reconcile_template (node_adapt ?spec) operatorManagedContainers (w_range w) (?tmpl\<lparr>pt_spec := ?pod\<rparr>)
      (found_template existing)"
    by (rule container_policy.template_stable [OF workload_policy])
      (use names ok assms(3) in \<open>auto simp: workload_policies_def node_labels
         pod_labels_def ranges_ok_def found_template_def workload_ok_def\<close>)
  then have again: "?update (Some (?update (found_template existing))) = ?update (found_template existing)"
    by (simp add: update_node_def Let_def)
  have cs: "gomap_ok (na_labels ?spec)" "gomap_ok (na_annotations ?spec)"
    using assms(2) by (simp_all add: custom_maps_ok_def)
  show "mutate_node w cr name dcgm sel terms (Some y) = Inr y"
    using y unfolding mutate_node_def Let_def
    by (rule owned_again [OF assms(1)])
      (simp add: again
        custom_meta_again [OF found_meta_ok [OF ok] cs])
qed

lemma open_agent_settles:
  assumes "owner_settles w" and "custom_maps_ok cr" and "ranges_ok w"
  shows "settles workload_ok (mutate_open_agent w cr secrets)"
proof (rule settlesI)
  fix existing y
  assume ok: "\<And>x. existing = Some x \<Longrightarrow> workload_ok x"
    and y: "mutate_open_agent w cr secrets existing = Inr y"
  let ?spec = "open_agent cr"
  let ?new = "wl_template (open_agent_deployment cr secrets)"
  let ?m = "(found_meta existing)\<lparr>mt_labels := mput ''app'' ''whatap-open-agent'' (mt_labels (found_meta existing))\<rparr>"
  have "ps_containers (pt_spec ?new) = [open_agent_container cr secrets]" "pt_labels ?new \<noteq> None"
    by (simp_all add: open_agent_deployment_def Let_def pod_labels_def)
  then have "reconcile_template keep_resources (\<lambda>_. False) (w_range w) ?new
      (Some (reconcile_template keep_resources (\<lambda>_. False) (w_range w) ?new (found_template existing))) =
    reconcile_template keep_resources (\<lambda>_. False) (w_range w) ?new (found_template existing)"
    by (intro container_policy.template_stable [OF workload_policy])
      (use ok assms(3) in \<open>auto simp: workload_policies_def ranges_ok_def found_template_def workload_ok_def\<close>)
  then have again: "update_open_agent (w_range w) cr secrets
      (Some (update_open_agent (w_range w) cr secrets (found_template existing))) =
    update_open_agent (w_range w) cr secrets (found_template existing)"
    by (simp add: update_open_agent_def)
  have "meta_ok (found_meta existing)" by (rule found_meta_ok [OF ok])
  then have meta: "custom_meta (oa_labels ?spec) (oa_annotations ?spec)
      ((custom_meta (oa_labels ?spec) (oa_annotations ?spec) ?m)\<lparr>mt_owners := x,
        mt_labels := mput ''app'' ''whatap-open-agent''
          (mt_labels (custom_meta (oa_labels ?spec) (oa_annotations ?spec) ?m))\<rparr>) =
      (custom_meta (oa_labels ?spec) (oa_annotations ?spec) ?m)\<lparr>mt_owners := x\<rparr>" for x
    using assms(2)
    by (simp add: custom_meta_def custom_maps_ok_def meta_ok_def put_all_again put_all_mput_again)
  show "mutate_open_agent w cr secrets (Some y) = Inr y"
    using y unfolding mutate_open_agent_def Let_def
    by (rule owned_again [OF assms(1)]) (simp add: again meta)
qed

lemma mput_same: "mget m k = Some v \<Longrightarrow> mput k v m = m"
proof -
  have "map_of es k = Some v \<Longrightarrow> AList.update k v es = es" for es :: "'a entries"
    by (induction es) (auto split: if_splits)
  then show "mget m k = Some v \<Longrightarrow> mput k v m = m"
    by (cases m) (auto simp: mget_def mput_def)
qed

lemma service_settles:
  assumes "owner_settles w"
  shows "settles (\<lambda>_. True) (mutate_dcgm_service w cr)"
    and "settles (\<lambda>_. True) (mutate_webhook_service w cr)"
proof -
  have idem: "dcgm_service_mutate gpu (dcgm_service_mutate gpu svc) = dcgm_service_mutate gpu svc" for gpu svc
    by (simp add: dcgm_service_mutate_def Let_def mput_same split: prod.split)
  show "settles (\<lambda>_. True) (mutate_dcgm_service w cr)"
    by (rule settlesI) (use assms in \<open>auto simp: mutate_dcgm_service_def owner_settles_def idem Let_def
      split: sum.splits\<close>)
  show "settles (\<lambda>_. True) (mutate_webhook_service w cr)"
    by (rule settlesI) (use assms in \<open>auto simp: mutate_webhook_service_def owner_settles_def mput_same Let_def
      split: sum.splits\<close>)
qed

lemma mw_name_findWebhook: "mw_name (findWebhook whs n) = n"
proof (cases "find (\<lambda>wh. mw_name wh = n) whs")
  case None
  then show ?thesis by (simp add: findWebhook_def new_webhook_def)
next
  case (Some wh)
  then have "mw_name wh = n" by (auto simp: find_Some_iff)
  with Some show ?thesis by (simp add: findWebhook_def)
qed

lemma webhook_facts:
  "mw_name (pod_webhook w wh) = mw_name wh" "mw_name (agent_webhook w wh) = mw_name wh"
  "pod_webhook w (pod_webhook w wh) = pod_webhook w wh"
  "agent_webhook w (agent_webhook w wh) = agent_webhook w wh"
  by (simp_all add: pod_webhook_def agent_webhook_def)

lemma findWebhook_found:
  "findWebhook [pod_webhook w (findWebhook whs ''mpod.kb.io''), wh] ''mpod.kb.io'' =
     pod_webhook w (findWebhook whs ''mpod.kb.io'')"
  "findWebhook [pod_webhook w (findWebhook whs ''mpod.kb.io''),
      agent_webhook w (findWebhook whs ''whatapagent.kb.io'')] ''whatapagent.kb.io'' =
     agent_webhook w (findWebhook whs ''whatapagent.kb.io'')"
  by (simp_all add: findWebhook_def [of "[_, _]"] webhook_facts mw_name_findWebhook)

lemma data_settles:
  assumes "owner_settles w"
  shows "settles (\<lambda>_. True) (mutate_secret w cr)"
    and "settles (\<lambda>_. True) (mutate_account w cr)"
    and "settles (\<lambda>_. True) (mutate_role w cr)"
    and "settles (\<lambda>_. True) (mutate_binding w cr)"
    and "settles (\<lambda>_. True) (mutate_config w cr pms sms ses)"
    and "settles (\<lambda>_. True) (mutate_webhooks w cr)"
proof -
  note own = owned_again [OF assms]
  show "settles (\<lambda>_. True) (mutate_secret w cr)" "settles (\<lambda>_. True) (mutate_role w cr)"
    "settles (\<lambda>_. True) (mutate_binding w cr)" "settles (\<lambda>_. True) (mutate_config w cr pms sms ses)"
    by (rule settlesI, simp only: mutate_secret_def mutate_role_def mutate_binding_def mutate_config_def,
        erule own, simp)+
  show "settles (\<lambda>_. True) (mutate_account w cr)"
    by (rule settlesI) (use assms in \<open>auto simp: mutate_account_def owned_meta_def owner_settles_def
      split: sum.splits\<close>)
  show "settles (\<lambda>_. True) (mutate_webhooks w cr)"
    by (rule settlesI, unfold mutate_webhooks_def Let_def, erule own)
      (simp add: findWebhook_found webhook_facts)
qed

section \<open>Every object a pass makes\<close>

text \<open>Computations that make only requests whose mutations settle.\<close>

abbreviation settling :: "'a io \<Rightarrow> bool" where
  "settling \<equiv> emits (\<lambda>e. repeatable (fst e))"

lemma settling_fail_with: "settling (fail_with w cr what e)"
  unfolding fail_with_def update_status_def by (intro emits_intros) simp_all

lemma settling_deploy_loop:
  assumes "owner_settles w" and "custom_maps_ok cr" and "ranges_ok w"
  shows "settling (deploy_loop w cr secrets c)"
  using assms
proof (induction w cr secrets c rule: deploy_loop.induct)
  case (1 w cr secrets c)
  show ?case
    by (subst deploy_loop.simps, intro emits_intros)
      (simp_all add: 1 open_agent_settles)
qed

lemma settling_cleanup_object: "settling (cleanup_object w k ns n)"
  unfolding cleanup_object_def by (intro emits_intros) simp_all

lemma settling_components:
  assumes a: "owner_settles w" "custom_maps_ok cr" "ranges_ok w"
  shows "settling (ensureWebhookService w cr)" "settling (ensureWebhookTLSSecret w cr)"
    and "settling (ensureMutatingWebhookConfiguration w cr)" "settling (createOrUpdateMasterAgent w cr)"
    and "settling (createOrUpdateNodeAgent w cr)" "settling (installOpenAgent w cr)"
    and "settling (cleanupMasterAgent w)" "settling (cleanupNodeAgent w)" "settling (cleanupOpenAgent w)"
proof -
  note settles = service_settles [OF a(1)] data_settles [OF a(1)] master_settles [OF a]
    node_settles [OF a] node_settles [OF a(1) custom_maps_after_first [OF a(2)] a(3)]
  show "settling (ensureWebhookService w cr)" "settling (ensureWebhookTLSSecret w cr)"
    "settling (ensureMutatingWebhookConfiguration w cr)" "settling (createOrUpdateMasterAgent w cr)"
    unfolding ensureWebhookService_def ensureWebhookTLSSecret_def ensureMutatingWebhookConfiguration_def
      createOrUpdateMasterAgent_def
    by (rule emits_call, simp add: settles)+
  show "settling (createOrUpdateNodeAgent w cr)"
    unfolding createOrUpdateNodeAgent_def node_agents_def Let_def reconcileNodeAgentDaemonSet_def
      ensureDcgmExporterService_def
    by (intro emits_intros) (simp_all add: settles)
  show "settling (installOpenAgent w cr)"
    unfolding installOpenAgent_def open_agent_config_def
    by (intro emits_intros settling_deploy_loop a) (simp_all add: settles)
  show "settling (cleanupMasterAgent w)" "settling (cleanupNodeAgent w)" "settling (cleanupOpenAgent w)"
    unfolding cleanupMasterAgent_def cleanupNodeAgent_def cleanupOpenAgent_def
    by (intro emits_intros settling_cleanup_object)+
qed



end
