(* ===== verification/ApiServer.thy ===== *)
theory ApiServer
  imports PassOutcome SteadyState
begin

text \<open>
  The API server as the operator's client libraries document it: what its objects are after a
  history of requests.  Its laws are the locale \<open>api_server\<close>, in which the effect of every kind of
  request is a rule about \<open>effects\<close>; a reference server shows that the laws can be kept.
\<close>

section \<open>Objects and changes\<close>

datatype stored =
    SWorkload workload_object
  | SData data_object
  | SService service_object
  | SAccount obj_meta
  | SRole role_object
  | SBinding binding_object
  | SWebhooks webhooks_object

type_synonym cluster = "address \<Rightarrow> stored option"

text \<open>\<open>CreateOrUpdate\<close>: the mutate function gets the object found, if one of its type was found, and
  its result is stored.\<close>

fun applied :: "request \<Rightarrow> stored option \<Rightarrow> api_error + stored" where
  "applied (ApplyWorkload k ns n f) old =
     map_sum id SWorkload (f (case old of Some (SWorkload d) \<Rightarrow> Some d | _ \<Rightarrow> None))"
| "applied (ApplyData k ns n f) old =
     map_sum id SData (f (case old of Some (SData d) \<Rightarrow> Some d | _ \<Rightarrow> None))"
| "applied (ApplyService ns n f) old =
     map_sum id SService (f (case old of Some (SService d) \<Rightarrow> Some d | _ \<Rightarrow> None))"
| "applied (ApplyAccount ns n f) old =
     map_sum id SAccount (f (case old of Some (SAccount d) \<Rightarrow> Some d | _ \<Rightarrow> None))"
| "applied (ApplyRole n f) old =
     map_sum id SRole (f (case old of Some (SRole d) \<Rightarrow> Some d | _ \<Rightarrow> None))"
| "applied (ApplyBinding n f) old =
     map_sum id SBinding (f (case old of Some (SBinding d) \<Rightarrow> Some d | _ \<Rightarrow> None))"
| "applied (ApplyWebhooks n f) old =
     map_sum id SWebhooks (f (case old of Some (SWebhooks d) \<Rightarrow> Some d | _ \<Rightarrow> None))"
| "applied _ old = Inl \<lparr>ae_reason = OtherReason, ae_text = ''not an object''\<rparr>"

text \<open>A change: an object made by a request, or an object gone.\<close>

datatype change = Make request | Drop address

fun place :: "change \<Rightarrow> address option" where
  "place (Make req) = creation req"
| "place (Drop a) = Some a"

fun fulfilled :: "change \<Rightarrow> stored option \<Rightarrow> stored option \<Rightarrow> bool" where
  "fulfilled (Make req) old new = (case applied req old of Inl _ \<Rightarrow> False | Inr x \<Rightarrow> new = Some x)"
| "fulfilled (Drop a) old new = (new = None)"

definition places :: "change list \<Rightarrow> address list" where
  "places p = List.map_filter place p"

lemma places_simps [simp]:
  "places [] = []" "places (p @ q) = places p @ places q"
  "places (c # p) = (case place c of None \<Rightarrow> [] | Some a \<Rightarrow> [a]) @ places p"
  by (simp_all add: places_def map_filter_def split: option.split)

lemma set_places: "set (places p) = {a. \<exists>c\<in>set p. place c = Some a}"
proof (induction p)
  case (Cons c p)
  then show ?case by (cases "place c") auto
qed simp

lemma in_places: "c \<in> set p \<Longrightarrow> place c = Some a \<Longrightarrow> a \<in> set (places p)"
  by (auto simp: set_places)

text \<open>All changes of a plan made, and some of them made; no other object touched.\<close>

definition changed ::
  "(change \<Rightarrow> stored option \<Rightarrow> stored option \<Rightarrow> bool) \<Rightarrow> change list \<Rightarrow> cluster \<Rightarrow> cluster \<Rightarrow> bool" where
  "changed P p s s' \<longleftrightarrow>
     (\<forall>c a. c \<in> set p \<longrightarrow> place c = Some a \<longrightarrow> P c (s a) (s' a)) \<and>
     (\<forall>a. a \<notin> set (places p) \<longrightarrow> s' a = s a)"

definition achieved :: "change list \<Rightarrow> cluster \<Rightarrow> cluster \<Rightarrow> bool" where
  "achieved = changed fulfilled"

definition partly :: "change list \<Rightarrow> cluster \<Rightarrow> cluster \<Rightarrow> bool" where
  "partly = changed (\<lambda>c x y. y = x \<or> fulfilled c x y)"

lemma changed_append:
  assumes "changed P p s s'" and "changed P q s' s''" and "set (places p) \<inter> set (places q) = {}"
  shows "changed P (p @ q) s s''"
  unfolding changed_def
proof (intro conjI allI impI)
  fix c a
  assume c: "c \<in> set (p @ q)" "place c = Some a"
  show "P c (s a) (s'' a)"
  proof (cases "c \<in> set p")
    case True
    then have "a \<notin> set (places q)" using c(2) in_places assms(3) by blast
    with True c(2) assms(1,2) show ?thesis unfolding changed_def by metis
  next
    case False
    with c have q: "c \<in> set q" by simp
    then have "a \<notin> set (places p)" using c(2) in_places assms(3) by blast
    with q c(2) assms(1,2) show ?thesis unfolding changed_def by metis
  qed
next
  fix a
  assume "a \<notin> set (places (p @ q))"
  then have "a \<notin> set (places p)" "a \<notin> set (places q)" by simp_all
  with assms(1,2) show "s'' a = s a" unfolding changed_def by metis
qed

lemmas partly_append = changed_append
  [where P = "\<lambda>c x y. y = x \<or> fulfilled c x y", folded partly_def]
lemmas achieved_append = changed_append [where P = fulfilled, folded achieved_def]

lemma achieved_partly: "achieved p s s' \<Longrightarrow> partly p s s'"
  by (simp add: achieved_def partly_def changed_def)

lemma partly_refl [simp]: "partly p s s"
  by (simp add: partly_def changed_def)

lemma nothing_asked [simp]: "achieved [] s s' \<longleftrightarrow> s' = s" "partly [] s s' \<longleftrightarrow> s' = s"
  by (auto simp: achieved_def partly_def changed_def)

lemma partly_prefix: "partly p s s' \<Longrightarrow> set (places p) \<inter> set (places q) = {} \<Longrightarrow> partly (p @ q) s s'"
  by (rule partly_append [OF _ partly_refl])

text \<open>The plan settles in a cluster: made twice, an object is what it was made once.\<close>

definition settled :: "change list \<Rightarrow> cluster \<Rightarrow> bool" where
  "settled p s \<longleftrightarrow>
     (\<forall>req a x. Make req \<in> set p \<longrightarrow> creation req = Some a \<longrightarrow> applied req (s a) = Inr x \<longrightarrow>
        applied req (Some x) = Inr x)"

lemma fulfilled_again:
  assumes "settled p s" and "c \<in> set p" and "place c = Some a" and "fulfilled c (s a) y"
  shows "fulfilled c y z \<longleftrightarrow> z = y"
proof (cases c)
  case (Make req)
  with assms(4) obtain x where "applied req (s a) = Inr x" "y = Some x" by (auto split: sum.splits)
  moreover from this Make assms(1-3) have "applied req (Some x) = Inr x"
    unfolding settled_def by (metis place.simps(1))
  ultimately show ?thesis using Make by simp
qed (use assms(4) in simp)

lemma fulfilled_unique: "fulfilled c x y \<Longrightarrow> fulfilled c x z \<longleftrightarrow> z = y"
  by (cases c) (auto split: sum.splits)

lemma settled_partly:
  assumes "settled p s" and "partly p s s'"
  shows "settled p s'"
  unfolding settled_def
proof (intro allI impI)
  fix req a x
  assume req: "Make req \<in> set p" "creation req = Some a" and x: "applied req (s' a) = Inr x"
  have "s' a = s a \<or> fulfilled (Make req) (s a) (s' a)"
    using assms(2) req unfolding partly_def changed_def by (metis place.simps(1))
  then show "applied req (Some x) = Inr x"
  proof
    assume "s' a = s a"
    with assms(1) req x show ?thesis unfolding settled_def by metis
  next
    assume f: "fulfilled (Make req) (s a) (s' a)"
    then obtain y where y: "applied req (s a) = Inr y" "s' a = Some y" by (auto split: sum.splits)
    with assms(1) req have "applied req (Some y) = Inr y" unfolding settled_def by metis
    with x y(2) show ?thesis by simp
  qed
qed

lemma partly_twice:
  assumes "settled p s" and "partly p s s'" and "partly p s' s''"
  shows "partly p s s''"
  using assms fulfilled_again [OF assms(1)] unfolding partly_def changed_def by metis

lemma achieved_after:
  assumes "settled p s" and "partly p s s'" and "achieved p s' s''"
  shows "achieved p s s''"
  using assms fulfilled_again [OF assms(1)] unfolding partly_def achieved_def changed_def by metis

lemma achieved_stays:
  assumes "settled p s" and "achieved p s s'" and "partly p s' s''"
  shows "s'' = s'"
proof
  fix a
  show "s'' a = s' a"
  proof (cases "a \<in> set (places p)")
    case True
    then obtain c where "c \<in> set p" "place c = Some a"
      by (auto simp: set_places)
    then show ?thesis
      using assms fulfilled_again [OF assms(1)] unfolding partly_def achieved_def changed_def by metis
  next
    case False
    with assms(3) show ?thesis unfolding partly_def changed_def by metis
  qed
qed

section \<open>The laws of the server\<close>

text \<open>
  What the objects are after a history, as long as nobody else writes them: a request that creates
  or updates stores what its mutate function makes, a deletion takes the object away, and nothing
  else changes anything.  \<open>NotFound\<close> means what it says.  Which requests are granted is left
  open, but for that.
\<close>

locale api_server =
  fixes w :: world and store :: "trace \<Rightarrow> cluster"
  assumes granted: "creation req = Some a \<Longrightarrow> w_answer w t req = None \<Longrightarrow>
      fulfilled (Make req) (store t a) (store (t @ [(req, None)]) a) \<and>
      (\<forall>b. b \<noteq> a \<longrightarrow> store (t @ [(req, None)]) b = store t b)"
    and deleted: "store (t @ [(DeleteObject k ns n, None)]) = (store t)((k, ns, n) := None)"
    and refused: "store (t @ [(req, Some e)]) = store t"
    and others: "creation req = None \<Longrightarrow> (\<And>k ns n. req \<noteq> DeleteObject k ns n) \<Longrightarrow>
      store (t @ [(req, r)]) = store t"
    and not_found: "removal req = Some a \<Longrightarrow> w_answer w t req = Some e \<Longrightarrow>
      ae_reason e = NotFound \<Longrightarrow> store t a = None"

text \<open>A pass that nothing disturbed: no request refused, but for objects that were to be removed and
  are not there.  Only the removals answered so: \<open>tidy\<close>.\<close>

definition not_there :: "event \<Rightarrow> bool" where
  "not_there ev \<longleftrightarrow> removal (fst ev) \<noteq> None \<and> (\<exists>e. snd ev = Some e \<and> ae_reason e = NotFound)"

definition smooth :: "event \<Rightarrow> bool" where
  "smooth ev \<longleftrightarrow> snd ev = None \<or> not_there ev"

definition tidy :: "event \<Rightarrow> bool" where
  "tidy ev \<longleftrightarrow> removal (fst ev) = None \<or> snd ev = None \<or> not_there ev"

lemma smooth_tidy: "list_all smooth u \<Longrightarrow> list_all tidy u"
  by (auto simp: smooth_def tidy_def list_all_iff)

text \<open>
  \<open>effects store q ok p m\<close>: however it is answered, \<open>m\<close> makes at most the changes of \<open>p\<close>; it
  makes all of them if its result is \<open>ok\<close> and no removal was refused; its result is \<open>ok\<close> if its
  requests were answered as \<open>q\<close> says.
\<close>

definition effects ::
  "(trace \<Rightarrow> cluster) \<Rightarrow> (trace \<Rightarrow> bool) \<Rightarrow> ('a \<Rightarrow> bool) \<Rightarrow> change list \<Rightarrow> 'a io \<Rightarrow> bool" where
  "effects store q ok p m \<longleftrightarrow>
     (\<forall>t. \<exists>u. snd (run_state m t) = t @ u \<and> partly p (store t) (store (t @ u)) \<and>
        (ok (fst (run_state m t)) \<longrightarrow> list_all tidy u \<longrightarrow> achieved p (store t) (store (t @ u))) \<and>
        (q u \<longrightarrow> ok (fst (run_state m t))))"

text \<open>Giving up: no changes, and a result that is not \<open>ok\<close>.\<close>

definition gives_up :: "(trace \<Rightarrow> cluster) \<Rightarrow> ('a \<Rightarrow> bool) \<Rightarrow> 'a io \<Rightarrow> bool" where
  "gives_up store ok m \<longleftrightarrow>
     (\<forall>t. \<exists>u. snd (run_state m t) = t @ u \<and> store (t @ u) = store t \<and> \<not> ok (fst (run_state m t)))"

lemma effects_return: "ok x \<Longrightarrow> effects store q ok [] (State_Monad.return x)"
  by (simp add: effects_def)

lemma gives_up_return: "\<not> ok x \<Longrightarrow> gives_up store ok (State_Monad.return x)"
  by (simp add: gives_up_def)

lemma effects_bind:
  assumes m: "effects store q ok p m" and yields: "\<And>t. yields (fst (run_state m t))"
    and f: "\<And>x. yields x \<Longrightarrow> ok x \<Longrightarrow> effects store q' ok' p' (f x)"
    and up: "\<And>x. yields x \<Longrightarrow> \<not> ok x \<Longrightarrow> gives_up store ok' (f x)"
    and q: "\<And>u v. q'' (u @ v) \<Longrightarrow> q u \<and> q' v"
    and apart: "set (places p) \<inter> set (places p') = {}"
  shows "effects store q'' ok' (p @ p') (State_Monad.bind m f)"
  unfolding effects_def
proof
  fix t
  obtain x t' where x: "run_state m t = (x, t')" by fastforce
  then have yx: "yields x" using yields [of t] by simp
  from m [unfolded effects_def, rule_format, of t] x obtain u where
    u: "t' = t @ u" "partly p (store t) (store (t @ u))"
      "ok x \<Longrightarrow> list_all tidy u \<Longrightarrow> achieved p (store t) (store (t @ u))" "q u \<Longrightarrow> ok x"
    by auto
  obtain y t'' where y: "run_state (f x) (t @ u) = (y, t'')" by fastforce
  then have run: "run_state (State_Monad.bind m f) t = (y, t'')" by (simp add: x u(1))
  show "\<exists>u. snd (run_state (State_Monad.bind m f) t) = t @ u \<and>
      partly (p @ p') (store t) (store (t @ u)) \<and>
      (ok' (fst (run_state (State_Monad.bind m f) t)) \<longrightarrow> list_all tidy u \<longrightarrow>
        achieved (p @ p') (store t) (store (t @ u))) \<and>
      (q'' u \<longrightarrow> ok' (fst (run_state (State_Monad.bind m f) t)))"
  proof (cases "ok x")
    case True
    from f [OF yx True, unfolded effects_def, rule_format, of "t @ u"] y obtain v where
      v: "t'' = (t @ u) @ v" "partly p' (store (t @ u)) (store ((t @ u) @ v))"
        "ok' y \<Longrightarrow> list_all tidy v \<Longrightarrow> achieved p' (store (t @ u)) (store ((t @ u) @ v))" "q' v \<Longrightarrow> ok' y"
      by auto
    have "achieved (p @ p') (store t) (store ((t @ u) @ v))" if "ok' y" "list_all tidy (u @ v)"
      by (rule achieved_append [OF u(3) [OF True] v(3) apart]) (use that in simp_all)
    with partly_append [OF u(2) v(2) apart] v(1,4) q [of u v] show ?thesis
      unfolding run fst_conv snd_conv by (intro exI [of _ "u @ v"]) auto
  next
    case False
    from up [OF yx False, unfolded gives_up_def, rule_format, of "t @ u"] y obtain v where
      v: "t'' = (t @ u) @ v" "store ((t @ u) @ v) = store (t @ u)" "\<not> ok' y"
      by auto
    have "partly (p @ p') (store t) (store ((t @ u) @ v))"
      unfolding v(2) by (rule partly_prefix [OF u(2) apart])
    with v(1,3) q [of u v] u(4) False show ?thesis
      unfolding run fst_conv snd_conv by (intro exI [of _ "u @ v"]) auto
  qed
qed

lemma effects_mono:
  "effects store q ok p m \<Longrightarrow> (\<And>u. q' u \<Longrightarrow> q u) \<Longrightarrow> effects store q' ok p m"
  unfolding effects_def by metis

text \<open>The same rule with one condition on every event.\<close>

lemma effects_then:
  assumes "effects store (list_all P) ok p m" and "\<And>x. ok x \<Longrightarrow> effects store (list_all P) ok' p' (f x)"
    and "\<And>x. \<not> ok x \<Longrightarrow> gives_up store ok' (f x)"
    and "set (places p) \<inter> set (places p') = {}"
  shows "effects store (list_all P) ok' (p @ p') (State_Monad.bind m f)"
  by (rule effects_bind [where yields = "\<lambda>_. True" and q' = "list_all P", OF assms(1) _ _ _ _ assms(4)])
    (simp_all add: assms(2,3))

abbreviation fine :: "api_error option \<Rightarrow> bool" where
  "fine e \<equiv> e = None"

lemma effects_and_then:
  assumes "effects store (list_all P) fine p m" and "effects store (list_all P) fine p' m'"
    and "set (places p) \<inter> set (places p') = {}"
  shows "effects store (list_all P) fine (p @ p') (and_then m m')"
  unfolding and_then_def
  by (rule effects_then [OF assms(1) _ _ assms(3)])
    (auto simp: assms(2) gives_up_def)

text \<open>Reading what the server returned, and other steps that change no object.\<close>

lemma effects_silent:
  assumes "\<And>t. \<exists>u. snd (run_state m t) = t @ u \<and> store (t @ u) = store t"
    and "\<And>t. yields (fst (run_state m t))"
    and "\<And>x. yields x \<Longrightarrow> effects store (list_all P) ok p (f x)"
  shows "effects store (list_all P) ok p (State_Monad.bind m f)"
proof -
  have "effects store (list_all P) (\<lambda>_. True) [] m"
    unfolding effects_def using assms(1) by (metis nothing_asked)
  from effects_bind [where yields = yields and q'' = "list_all P", OF this assms(2)] assms(3)
  show ?thesis by fastforce
qed

lemma effects_returned_bind:
  assumes "\<And>t. effects store (list_all P) ok p (f (g t))"
  shows "effects store (list_all P) ok p (State_Monad.bind (returned g) f)"
  by (rule effects_silent [where yields = "\<lambda>x. \<exists>t. x = g t"]) (use assms in auto)

section \<open>Requests\<close>

context api_server
begin

lemma made:
  assumes "creation req = Some a" and "w_answer w t req = None"
  shows "achieved [Make req] (store t) (store (t @ [(req, None)]))"
  using granted [OF assms] assms(1) by (simp add: achieved_def changed_def del: fulfilled.simps)

lemma effects_create:
  assumes "creation req = Some a"
  shows "effects store (list_all smooth) fine [Make req] (call w req)"
  unfolding effects_def
proof
  fix t
  have "removal req = None" using assms by (cases req) simp_all
  then show "\<exists>u. snd (run_state (call w req) t) = t @ u \<and> partly [Make req] (store t) (store (t @ u)) \<and>
      (fst (run_state (call w req) t) = None \<longrightarrow> list_all tidy u \<longrightarrow>
        achieved [Make req] (store t) (store (t @ u))) \<and>
      (list_all smooth u \<longrightarrow> fst (run_state (call w req) t) = None)"
    using made [OF assms, of t] achieved_partly [OF made [OF assms, of t]] refused
    by (cases "w_answer w t req") (simp_all add: smooth_def not_there_def)
qed

lemma effects_read:
  assumes "creation req = None" and "\<And>k ns n. req \<noteq> DeleteObject k ns n"
    and "removal req = None"
  shows "effects store (list_all smooth) fine [] (call w req)"
  unfolding effects_def
  using others [OF assms(1,2)] assms(3)
  by (simp add: smooth_def not_there_def)

lemma effects_delete:
  "effects store (list_all tidy) (\<lambda>_. True) [Drop (k, ns, n)] (call w (DeleteObject k ns n))"
  unfolding effects_def
proof
  fix t
  let ?req = "DeleteObject k ns n"
  show "\<exists>u. snd (run_state (call w ?req) t) = t @ u \<and>
      partly [Drop (k, ns, n)] (store t) (store (t @ u)) \<and>
      (True \<longrightarrow> list_all tidy u \<longrightarrow> achieved [Drop (k, ns, n)] (store t) (store (t @ u))) \<and>
      (list_all tidy u \<longrightarrow> True)"
    using deleted [of t k ns n] refused [of t ?req] not_found [of ?req "(k, ns, n)" t]
    by (cases "w_answer w t ?req")
      (auto simp: achieved_def partly_def changed_def tidy_def not_there_def)
qed

lemma effects_cleanup:
  "effects store (list_all tidy) fine [Drop (k, ns, n)] (cleanup_object w k ns n)"
  unfolding effects_def
proof
  fix t
  let ?get = "GetObject k ns n" and ?del = "DeleteObject k ns n"
  have get: "store (t @ [(?get, r)]) = store t" for r
    by (rule others) simp_all
  have fst_get: "store ((t @ [(?get, r)]) @ [(?del, None)]) = (store t)((k, ns, n) := None)"
    "store ((t @ [(?get, r)]) @ [(?del, Some e)]) = store t" for r e
    by (simp_all only: deleted refused get)
  show "\<exists>u. snd (run_state (cleanup_object w k ns n) t) = t @ u \<and>
      partly [Drop (k, ns, n)] (store t) (store (t @ u)) \<and>
      (fst (run_state (cleanup_object w k ns n) t) = None \<longrightarrow> list_all tidy u \<longrightarrow>
        achieved [Drop (k, ns, n)] (store t) (store (t @ u))) \<and>
      (list_all tidy u \<longrightarrow> fst (run_state (cleanup_object w k ns n) t) = None)"
  proof (cases "w_answer w t ?get")
    case None
    then show ?thesis
      using fst_get [of None] not_found [of ?del "(k, ns, n)" "t @ [(?get, None)]"] get
      by (cases "w_answer w (t @ [(?get, None)]) ?del")
        (auto simp: cleanup_object_def ignore_not_found_def achieved_def partly_def changed_def
          tidy_def not_there_def)
  next
    case (Some e)
    then show ?thesis
      using not_found [of ?get "(k, ns, n)" t] get
      by (auto simp: cleanup_object_def achieved_def partly_def changed_def tidy_def not_there_def)
  qed
qed

end

section \<open>A reference server\<close>

text \<open>It keeps the objects by folding over the history, and refuses what its parameter picks, what a
  mutate function fails on, and the reading or deleting of what is not there.\<close>

definition after_event :: "cluster \<Rightarrow> event \<Rightarrow> cluster" where
  "after_event s ev =
     (case ev of
        (_, Some e) \<Rightarrow> s
      | (req, None) \<Rightarrow>
          (case req of
             DeleteObject k ns n \<Rightarrow> s((k, ns, n) := None)
           | _ \<Rightarrow>
               (case creation req of
                  None \<Rightarrow> s
                | Some a \<Rightarrow> (case applied req (s a) of Inl _ \<Rightarrow> s | Inr x \<Rightarrow> s(a := Some x)))))"

definition objects_after :: "cluster \<Rightarrow> trace \<Rightarrow> cluster" where
  "objects_after s t = foldl after_event s t"

definition serve :: "cluster \<Rightarrow> (trace \<Rightarrow> request \<Rightarrow> bool) \<Rightarrow> trace \<Rightarrow> request \<Rightarrow> api_error option" where
  "serve s down t req =
     (if down t req then Some \<lparr>ae_reason = OtherReason, ae_text = ''server is down''\<rparr>
      else
        (case creation req of
           Some a \<Rightarrow> (case applied req (objects_after s t a) of Inl e \<Rightarrow> Some e | Inr _ \<Rightarrow> None)
         | None \<Rightarrow>
             (case removal req of
                Some a \<Rightarrow> if objects_after s t a = None
                  then Some \<lparr>ae_reason = NotFound, ae_text = ''not found''\<rparr> else None
              | None \<Rightarrow> None)))"

lemma objects_after_snoc [simp]:
  "objects_after s (t @ [ev]) = after_event (objects_after s t) ev"
  by (simp add: objects_after_def)

lemma after_event_simps [simp]:
  "after_event s (req, Some e) = s"
  "after_event s (DeleteObject k ns n, None) = s((k, ns, n) := None)"
  by (simp_all add: after_event_def)

lemma after_creation:
  "creation req = Some a \<Longrightarrow> after_event s (req, None) =
     (case applied req (s a) of Inl _ \<Rightarrow> s | Inr x \<Rightarrow> s(a := Some x))"
  by (cases req) (simp_all add: after_event_def)

lemma after_other:
  "creation req = None \<Longrightarrow> (\<And>k ns n. req \<noteq> DeleteObject k ns n) \<Longrightarrow> after_event s (req, r) = s"
  by (cases r; cases req) (auto simp: after_event_def)

interpretation reference: api_server "sample_world (serve s down) agent" "objects_after s"
  for s :: cluster and down :: "trace \<Rightarrow> request \<Rightarrow> bool" and agent :: "trace \<Rightarrow> whatap_agent"
proof
  fix req a t
  assume req: "creation req = Some a" "w_answer (sample_world (serve s down) agent) t req = None"
  then obtain x where "applied req (objects_after s t a) = Inr x"
    by (auto simp: serve_def split: if_splits sum.splits)
  with req(1) show "fulfilled (Make req) (objects_after s t a) (objects_after s (t @ [(req, None)]) a) \<and>
      (\<forall>b. b \<noteq> a \<longrightarrow> objects_after s (t @ [(req, None)]) b = objects_after s t b)"
    by (simp add: after_creation)
next
  fix req a t e
  assume "removal req = Some a" "w_answer (sample_world (serve s down) agent) t req = Some e"
    "ae_reason e = NotFound"
  then show "objects_after s t a = None"
    by (cases req) (auto simp: serve_def split: if_splits)
qed (simp_all add: after_other)

end
