(* ===== verification/Convergence.thy ===== *)
theory Convergence
  imports ApiServer
begin

text \<open>
  What passes do to the cluster.  \<open>plan\<close> is the specification: the changes the custom resource
  asks for, one per object.  Every pass of \<open>Reconcile\<close> makes some of them, an undisturbed pass
  makes all, and they need to be made only once.
\<close>

section \<open>What the custom resource asks for\<close>

definition open_agent_plan ::
  "world \<Rightarrow> whatap_agent \<Rightarrow> monitor list \<Rightarrow> monitor list \<Rightarrow> static_endpoint list \<Rightarrow> change list" where
  "open_agent_plan w cr pms sms ses =
     [Make (ApplyAccount (w_namespace w) ''whatap-open-agent-sa'' (mutate_account w cr)),
      Make (ApplyRole ''whatap-open-agent-role'' (mutate_role w cr)),
      Make (ApplyBinding ''whatap-open-agent-role-binding'' (mutate_binding w cr)),
      Make (ApplyData ConfigMapKind (w_namespace w) ''whatap-open-agent-config''
        (mutate_config w cr pms sms ses)),
      Make (ApplyWorkload Deployment (w_namespace w) ''whatap-open-agent''
        (mutate_open_agent w cr (w_tls_range w 0
          (collectAllTLSSecrets (oa_targets (open_agent cr)) pms sms))))]"

definition node_agent_plan :: "world \<Rightarrow> whatap_agent \<Rightarrow> change list" where
  "node_agent_plan w cr =
     (let gpu = ka_gpu (k8s_agent cr);
          terms = (case gpu_affinity_terms gpu of None \<Rightarrow> [] | Some ts \<Rightarrow> ts)
      in (if split_agents gpu
          then [Make (ApplyWorkload DaemonSet (w_namespace w) ''whatap-node-agent-gpu''
                  (mutate_node w cr ''whatap-node-agent-gpu'' True (gpu_node_selector gpu) terms)),
                Make (ApplyWorkload DaemonSet (w_namespace w) ''whatap-node-agent''
                  (mutate_node w (after_first_agent cr) ''whatap-node-agent'' False None
                    (negated_gpu_terms gpu)))]
          else [Drop (gpu_node_object w),
                Make (ApplyWorkload DaemonSet (w_namespace w) ''whatap-node-agent''
                  (mutate_node w cr ''whatap-node-agent'' (gpu_enabled gpu) None []))]) @
         (if dcgm_service_wanted gpu
          then [Make (ApplyService (dcgm_service_namespace (w_namespace w) (k8s_agent cr))
                  ''dcgm-exporter-service'' (mutate_dcgm_service w cr))]
          else []))"

definition webhook_plan :: "world \<Rightarrow> whatap_agent \<Rightarrow> change list" where
  "webhook_plan w cr =
     [Make (ApplyService (w_namespace w) webhookServiceName (mutate_webhook_service w cr)),
      Make (ApplyData SecretKind (w_namespace w) webhookSecretName (mutate_secret w cr)),
      Make (ApplyWebhooks webhookConfigurationName (mutate_webhooks w cr))]"

definition plan ::
  "world \<Rightarrow> whatap_agent \<Rightarrow> monitor list \<Rightarrow> monitor list \<Rightarrow> static_endpoint list \<Rightarrow> change list" where
  "plan w cr pms sms ses =
     webhook_plan w cr @
     (if ma_enabled (ka_master (k8s_agent cr))
      then [Make (ApplyWorkload Deployment (w_namespace w) ''whatap-master-agent'' (mutate_master w cr))]
      else [Drop (master_object w)]) @
     (if na_enabled (ka_node (k8s_agent cr)) then node_agent_plan w cr else [Drop (node_object w)]) @
     (if oa_enabled (open_agent cr) then open_agent_plan w cr pms sms ses
      else map Drop (open_agent_objects w))"

lemma places_open_agent: "places (open_agent_plan w cr pms sms ses) = open_agent_order w"
  by (simp add: open_agent_plan_def open_agent_order_def)

lemma places_drop: "places (map Drop as) = as"
  by (induction as) simp_all

lemma places_node_agent:
  "places (node_agent_plan w cr) =
     (if split_agents (ka_gpu (k8s_agent cr)) then [] else [gpu_node_object w]) @ node_agent_order w cr"
  by (simp add: node_agent_plan_def node_agent_order_def Let_def)

lemma places_webhook: "places (webhook_plan w cr) = webhook_objects w"
  by (simp add: webhook_plan_def webhook_objects_def)

text \<open>The objects a plan makes, and those it drops.\<close>

definition made_by :: "change list \<Rightarrow> address list" where
  "made_by p = List.map_filter (\<lambda>c. case c of Make req \<Rightarrow> creation req | Drop a \<Rightarrow> None) p"

definition dropped_by :: "change list \<Rightarrow> address list" where
  "dropped_by p = List.map_filter (\<lambda>c. case c of Make req \<Rightarrow> None | Drop a \<Rightarrow> Some a) p"

lemma made_dropped_simps [simp]:
  "made_by [] = []" "made_by (p @ q) = made_by p @ made_by q"
  "made_by (Make req # p) = (case creation req of None \<Rightarrow> [] | Some a \<Rightarrow> [a]) @ made_by p"
  "made_by (Drop a # p) = made_by p"
  "dropped_by [] = []" "dropped_by (p @ q) = dropped_by p @ dropped_by q"
  "dropped_by (Make req # p) = dropped_by p" "dropped_by (Drop a # p) = a # dropped_by p"
  by (simp_all add: made_by_def dropped_by_def map_filter_def del: not_None_eq split: option.split)

lemma drop_only [simp]: "made_by (map Drop as) = []" "dropped_by (map Drop as) = as"
  by (induction as) simp_all

lemma plan_parts:
  "made_by (plan w cr pms sms ses) = installation_order w cr"
  "dropped_by (plan w cr pms sms ses) = unwanted_objects w cr"
  by (simp_all add: plan_def webhook_plan_def node_agent_plan_def open_agent_plan_def Let_def
      installation_order_def unwanted_objects_def webhook_objects_def node_agent_order_def
      open_agent_order_def)

lemma set_places_parts: "set (places p) = set (made_by p) \<union> set (dropped_by p)"
proof (induction p)
  case (Cons c p)
  then show ?case by (cases c) (auto split: option.split)
qed simp

section \<open>The custom resource at rest\<close>

text \<open>The same custom resource: what is asked for and whose it is; status, finalizers and generation
  may differ.\<close>

definition same_agent :: "whatap_agent \<Rightarrow> whatap_agent \<Rightarrow> bool" where
  "same_agent cr c \<longleftrightarrow>
     wa_spec c = wa_spec cr \<and> om_name (wa_meta c) = om_name (wa_meta cr) \<and>
     om_namespace (wa_meta c) = om_namespace (wa_meta cr) \<and> \<not> om_deleting (wa_meta c)"

lemma same_agent_simps [simp]:
  "same_agent cr (with_condition w x c) \<longleftrightarrow> same_agent cr c"
  "same_agent cr (observed c) \<longleftrightarrow> same_agent cr c"
  "same_agent cr (with_finalizers f c) \<longleftrightarrow> same_agent cr c"
  by (simp_all add: same_agent_def with_condition_def observed_def with_finalizers_def)

text \<open>\<open>SetControllerReference\<close> writes who the owner is, not what it asks for.\<close>

definition owned_by_name :: "world \<Rightarrow> whatap_agent \<Rightarrow> bool" where
  "owned_by_name w cr \<longleftrightarrow>
     (\<forall>c. om_name (wa_meta c) = om_name (wa_meta cr) \<longrightarrow>
        om_namespace (wa_meta c) = om_namespace (wa_meta cr) \<longrightarrow> w_own w c = w_own w cr)"

text \<open>
  Nobody edits the custom resource or the monitors.  The runtime happens to iterate
  the TLS secrets in one order, and \<open>RetryOnConflict\<close> is what it is documented to be.
\<close>

locale steady_agent = api_server w store for w store +
  fixes cr :: whatap_agent and pms :: "monitor list" and sms :: "monitor list"
    and ses :: "static_endpoint list" and n :: nat
  assumes agent: "same_agent cr (w_agent w t)"
    and owner: "owned_by_name w cr"
    and monitors: "w_pod_monitors w t = pms" "w_service_monitors w t = sms"
      "w_static_endpoints w t = ses"
    and tls_order: "w_tls_range w i secrets = w_tls_range w 0 secrets"
    and retry: "retries w n"

text \<open>What is rendered depends on the specification and on whose it is.\<close>

lemma owned_meta_cong: "w_own w c = w_own w cr \<Longrightarrow> owned_meta w c = owned_meta w cr"
  by (intro ext) (simp add: owned_meta_def)

lemma rendered_cong:
  assumes "wa_spec c = wa_spec cr"
  shows "getMasterAgentDeploymentSpec img res c = getMasterAgentDeploymentSpec img res cr"
    and "getNodeAgentDaemonSetSpec img res c name dcgm = getNodeAgentDaemonSetSpec img res cr name dcgm"
    and "addDcgmExporterToNodeAgent ps c = addDcgmExporterToNodeAgent ps cr"
    and "open_agent_deployment c secrets = open_agent_deployment cr secrets"
    and "generateScrapeConfig mar c ns pms sms ses = generateScrapeConfig mar cr ns pms sms ses"
  by (simp_all add: assms getMasterAgentDeploymentSpec_def cr_getWhatapLicenseEnvVar_def
      cr_getWhatapHostEnvVar_def cr_getWhatapPortEnvVar_def getNodeAgentDaemonSetSpec_def
      node_agent_container_def addDcgmExporterToNodeAgent_def open_agent_deployment_def
      open_agent_container_def generateScrapeConfig_def scrape_targets_def user_targets_def Let_def
      cong: if_cong)

lemma mutate_cong:
  assumes "owned_by_name w cr" and "same_agent cr c"
  shows "mutate_master w c = mutate_master w cr"
    and "mutate_node w c = mutate_node w cr"
    and "mutate_node w (after_first_agent c) = mutate_node w (after_first_agent cr)"
    and "mutate_dcgm_service w c = mutate_dcgm_service w cr"
    and "mutate_account w c = mutate_account w cr"
    and "mutate_role w c = mutate_role w cr" and "mutate_binding w c = mutate_binding w cr"
    and "mutate_config w c = mutate_config w cr"
    and "mutate_open_agent w c = mutate_open_agent w cr"
    and "mutate_webhook_service w c = mutate_webhook_service w cr"
    and "mutate_secret w c = mutate_secret w cr"
    and "mutate_webhooks w c = mutate_webhooks w cr"
proof -
  have spec: "wa_spec c = wa_spec cr" using assms(2) by (simp add: same_agent_def)
  have own: "w_own w c = w_own w cr"
    using assms unfolding owned_by_name_def same_agent_def by metis
  note spec' = rendered_cong [OF spec] spec owned_meta_cong [OF own] own
  show "mutate_master w c = mutate_master w cr"
    by (intro ext) (simp add: mutate_master_def update_master_def spec' Let_def)
  show "mutate_node w c = mutate_node w cr"
    by (intro ext) (simp add: mutate_node_def update_node_def spec' Let_def)
  show "mutate_dcgm_service w c = mutate_dcgm_service w cr"
    "mutate_webhook_service w c = mutate_webhook_service w cr"
    "mutate_account w c = mutate_account w cr" "mutate_role w c = mutate_role w cr"
    "mutate_binding w c = mutate_binding w cr" "mutate_secret w c = mutate_secret w cr"
    "mutate_webhooks w c = mutate_webhooks w cr" "mutate_config w c = mutate_config w cr"
    by (intro ext; simp add: mutate_dcgm_service_def mutate_webhook_service_def mutate_account_def
        mutate_role_def mutate_binding_def mutate_secret_def mutate_webhooks_def mutate_config_def spec' Let_def
        cong: sum.case_cong)+
  show "mutate_open_agent w c = mutate_open_agent w cr"
    by (intro ext) (simp add: mutate_open_agent_def update_open_agent_def spec' Let_def)
  have spec2: "wa_spec (after_first_agent c) = wa_spec (after_first_agent cr)"
    by (simp add: after_first_agent_def spec Let_def)
  have meta: "wa_meta (after_first_agent x) = wa_meta x" for x
    by (simp add: after_first_agent_def Let_def)
  have own2: "w_own w (after_first_agent c) = w_own w (after_first_agent cr)"
    using assms unfolding owned_by_name_def same_agent_def by (metis meta)
  show "mutate_node w (after_first_agent c) = mutate_node w (after_first_agent cr)"
    by (intro ext) (simp add: mutate_node_def update_node_def rendered_cong [OF spec2] spec2
        owned_meta_cong [OF own2] Let_def)
qed

lemma plan_cong:
  assumes "owned_by_name w cr" and "same_agent cr c"
  shows "plan w c pms sms ses = plan w cr pms sms ses"
proof -
  have "wa_spec c = wa_spec cr" using assms(2) by (simp add: same_agent_def)
  then show ?thesis
    by (simp add: plan_def webhook_plan_def node_agent_plan_def open_agent_plan_def mutate_cong [OF assms]
        Let_def)
qed

section \<open>The stages of a pass\<close>

abbreviation succeeded :: "result \<Rightarrow> bool" where
  "succeeded res \<equiv> res = (None, 300)"

lemma effects_stage:
  assumes "\<And>e. gives_up store ok (fail_with w cr what e)"
    and "effects store (list_all smooth) fine p run" and "effects store (list_all smooth) ok p' rest"
    and "set (places p) \<inter> set (places p') = {}"
  shows "effects store (list_all smooth) ok (p @ p') (stage w cr what run rest)"
  unfolding stage_def
  by (rule effects_then [OF assms(2) _ _ assms(4)]) (auto simp: assms(1,3))

text \<open>The result of a clean-up is ignored; refusals show in the trace.\<close>

lemma effects_ignored:
  "effects store (list_all tidy) ok p m \<Longrightarrow> effects store (list_all smooth) (\<lambda>_. True) p m"
  unfolding effects_def by (metis (no_types, lifting))

lemma effects_component_stage:
  assumes "\<And>e. gives_up store ok (fail_with w cr what e)"
    and "b \<Longrightarrow> effects store (list_all smooth) fine p run"
    and "\<not> b \<Longrightarrow> effects store (list_all tidy) fine p clean"
    and "effects store (list_all smooth) ok p' rest"
    and "set (places p) \<inter> set (places p') = {}"
  shows "effects store (list_all smooth) ok (p @ p') (component_stage w cr what b run clean rest)"
proof (cases b)
  case True
  with effects_stage [OF assms(1,2,4,5)] show ?thesis by (simp add: component_stage_def)
next
  case False
  have "effects store (list_all smooth) ok (p @ p') (State_Monad.bind clean (\<lambda>_. rest))"
    by (rule effects_then [OF effects_ignored [OF assms(3) [OF False]] _ _ assms(5)])
      (simp_all add: assms(4))
  with False show ?thesis by (simp add: component_stage_def)
qed

context api_server
begin

lemma effects_clean_open_agent:
  "effects store (list_all tidy) fine (map Drop (open_agent_objects w)) (cleanupOpenAgent w)"
proof -
  have "effects store (list_all tidy) fine
      ([Drop (Deployment, w_namespace w, ''whatap-open-agent'')] @
       [Drop (ConfigMapKind, w_namespace w, ''whatap-open-agent-config'')] @
       [Drop (ServiceAccount, w_namespace w, ''whatap-open-agent-sa'')] @
       [Drop (ClusterRole, '''', ''whatap-open-agent-role'')] @
       [Drop (ClusterRoleBinding, '''', ''whatap-open-agent-role-binding'')]) (cleanupOpenAgent w)"
    unfolding cleanupOpenAgent_def by (intro effects_and_then effects_cleanup) simp_all
  then show ?thesis by (simp add: open_agent_objects_def)
qed

lemma quiet:
  assumes "emits (within {} {}) m"
  shows "\<exists>u. snd (run_state m t) = t @ u \<and> store (t @ u) = store t"
proof -
  obtain u where u: "snd (run_state m t) = t @ u" "list_all (within {} {}) u"
    using assms unfolding emits_def by blast
  have "list_all (within {} {}) v \<Longrightarrow> store (t @ v) = store t" for v
  proof (induction v rule: rev_induct)
    case (snoc ev v)
    obtain req r where ev: "ev = (req, r)" by fastforce
    have "creation req = None" "req \<noteq> DeleteObject k ns n" for k ns n
      using snoc.prems by (auto simp: ev)
    then have "store ((t @ v) @ [ev]) = store (t @ v)"
      unfolding ev by (rule others)
    with snoc show ?case by simp
  qed simp
  with u show ?thesis by blast
qed

lemma gives_up_fail: "gives_up store succeeded (fail_with w cr what e)"
  unfolding gives_up_def
proof
  fix t
  obtain u where u: "snd (run_state (fail_with w cr what e) t) = t @ u" "store (t @ u) = store t"
    using quiet [OF emits_fail_with] by blast
  have "fst (run_state (fail_with w cr what e) t) = (Some e, 0)"
    by (simp add: fail_with_def update_status_def)
  with u show "\<exists>u. snd (run_state (fail_with w cr what e) t) = t @ u \<and> store (t @ u) = store t \<and>
      \<not> succeeded (fst (run_state (fail_with w cr what e) t))"
    by (intro exI [of _ u]) simp
qed

lemma smooth_status:
  "\<exists>u. snd (run_state (tries n (write_installed w)) t) = t @ u \<and>
     (list_all smooth u \<longrightarrow> fst (run_state (tries n (write_installed w)) t) = None)"
proof (induction n arbitrary: t)
  case 0
  show ?case
    by (simp add: write_installed_def get_agent_def update_status_def smooth_def not_there_def
        split: option.split)
next
  case (Suc n)
  obtain e t' where e: "run_state (write_installed w) t = (e, t')" by fastforce
  have "\<exists>u. t' = t @ u \<and> (list_all smooth u \<longrightarrow> e = None)"
    using e by (auto simp: write_installed_def get_agent_def update_status_def smooth_def not_there_def
        split: option.splits)
  then obtain u where u: "t' = t @ u" "list_all smooth u \<Longrightarrow> e = None" by blast
  obtain v where v: "snd (run_state (tries n (write_installed w)) t') = t' @ v"
    "list_all smooth v \<Longrightarrow> fst (run_state (tries n (write_installed w)) t') = None"
    using Suc.IH [of t'] by blast
  show ?case
  proof (cases e)
    case None
    then show ?thesis using u by (simp add: e)
  next
    case (Some err)
    then have "\<not> list_all smooth u" using u(2) by auto
    with Some u(1) v(1) show ?thesis by (cases "ae_reason err = Conflict") (auto simp: e)
  qed
qed

lemma effects_finish:
  assumes "retries w n"
  shows "effects store (list_all smooth) succeeded [] (finish w)"
  unfolding effects_def
proof
  fix t
  obtain u where u: "snd (run_state (finish w) t) = t @ u" "store (t @ u) = store t"
    using quiet [OF emits_finish [OF assms]] by blast
  obtain e t' where e: "run_state (tries n (write_installed w)) t = (e, t')" by fastforce
  have run: "run_state (finish w) t = (case e of Some err \<Rightarrow> (Some err, 0) | None \<Rightarrow> (None, 300), t')"
    using assms by (simp add: finish_def retries_def e)
  then have "list_all smooth u \<longrightarrow> e = None"
    using smooth_status [of n t] u(1) e by auto
  with u show "\<exists>u. snd (run_state (finish w) t) = t @ u \<and> partly [] (store t) (store (t @ u)) \<and>
      (succeeded (fst (run_state (finish w) t)) \<longrightarrow> list_all tidy u \<longrightarrow>
        achieved [] (store t) (store (t @ u))) \<and>
      (list_all smooth u \<longrightarrow> succeeded (fst (run_state (finish w) t)))"
    by (intro exI [of _ u]) (simp add: run)
qed

end

section \<open>A pass\<close>

context steady_agent
begin

abbreviation passes :: "('a \<Rightarrow> bool) \<Rightarrow> change list \<Rightarrow> 'a io \<Rightarrow> bool" where
  "passes \<equiv> effects store (list_all smooth)"

text \<open>An attempt that is followed by another one if it is refused.\<close>

lemma effects_attempt:
  assumes req: "creation req = Some a"
    and again: "\<And>e. effects store (\<lambda>_. False) fine [Make req] (f (Some e))"
    and "f None = State_Monad.return None"
  shows "passes fine [Make req] (State_Monad.bind (call w req) f)"
  unfolding effects_def
proof
  fix t
  let ?m = "State_Monad.bind (call w req) f"
  show "\<exists>u. snd (run_state ?m t) = t @ u \<and> partly [Make req] (store t) (store (t @ u)) \<and>
      (fst (run_state ?m t) = None \<longrightarrow> list_all tidy u \<longrightarrow> achieved [Make req] (store t) (store (t @ u))) \<and>
      (list_all smooth u \<longrightarrow> fst (run_state ?m t) = None)"
  proof (cases "w_answer w t req")
    case None
    with made [OF req None] achieved_partly [OF made [OF req None]] assms(3) show ?thesis by simp
  next
    case (Some e)
    have "removal req = None" using req by (cases req) simp_all
    then have rough: "\<not> smooth (req, Some e)" by (simp add: smooth_def not_there_def)
    let ?t = "t @ [(req, Some e)]"
    obtain u where "snd (run_state (f (Some e)) ?t) = ?t @ u"
      "partly [Make req] (store ?t) (store (?t @ u))"
      "fst (run_state (f (Some e)) ?t) = None \<Longrightarrow> list_all tidy u \<Longrightarrow>
         achieved [Make req] (store ?t) (store (?t @ u))"
      using again [of e, unfolded effects_def, rule_format, of ?t] by auto
    with rough show ?thesis
      by (intro exI [of _ "(req, Some e) # u"]) (simp add: Some refused)
  qed
qed

lemma effects_deploy:
  assumes "c < 3"
  shows "passes fine
    [Make (ApplyWorkload Deployment (w_namespace w) ''whatap-open-agent''
       (mutate_open_agent w cr' (w_tls_range w 0 secrets)))] (deploy_loop w cr' secrets c)"
  using assms
proof (induction "3 - c" arbitrary: c rule: less_induct)
  case less
  let ?req = "ApplyWorkload Deployment (w_namespace w) ''whatap-open-agent''
    (mutate_open_agent w cr' (w_tls_range w 0 secrets))"
  let ?next = "\<lambda>e. if e = None then State_Monad.return None
    else if c < 2 then do {
      _ \<leftarrow> call w (Sleep (Suc c * 100));
      deploy_loop w cr' secrets (Suc c)
    }
    else State_Monad.return e"
  have loop: "deploy_loop w cr' secrets c = State_Monad.bind (call w ?req) ?next"
    by (subst deploy_loop.simps) (simp only: less.prems if_True tls_order [of c])
  have "effects store (\<lambda>_. False) fine [Make ?req] (?next (Some e))" for e
  proof (cases "c < 2")
    case True
    have sleep: "passes (\<lambda>_. True) [] (call w (Sleep (Suc c * 100)))"
      by (simp add: effects_def others)
    have ih: "passes fine [Make ?req] (deploy_loop w cr' secrets (Suc c))"
      by (rule less.hyps) (use True in simp_all)
    have "effects store (list_all smooth) fine ([] @ [Make ?req])
        (State_Monad.bind (call w (Sleep (Suc c * 100))) (\<lambda>_. deploy_loop w cr' secrets (Suc c)))"
      by (rule effects_then [OF sleep]) (simp_all add: ih)
    then have "effects store (\<lambda>_. False) fine [Make ?req]
        (State_Monad.bind (call w (Sleep (Suc c * 100))) (\<lambda>_. deploy_loop w cr' secrets (Suc c)))"
      unfolding append_Nil by (rule effects_mono) simp
    with True show ?thesis by simp
  qed (simp add: effects_def)
  then show ?case
    unfolding loop by (intro effects_attempt) simp_all
qed

lemma effects_open_agent:
  "passes fine (open_agent_plan w cr' pms sms ses) (installOpenAgent w cr')"
proof -
  let ?secrets = "collectAllTLSSecrets (oa_targets (open_agent cr')) pms sms"
  have lists: "w_pod_monitors w = (\<lambda>_. pms)" "w_service_monitors w = (\<lambda>_. sms)"
    "w_static_endpoints w = (\<lambda>_. ses)"
    using monitors by blast+
  have read: "passes fine [] (call w ListPodMonitors)" "passes fine [] (call w ListServiceMonitors)"
    "passes fine [] (call w ListStaticEndpoints)"
    by (rule effects_read; simp)+
  have "passes fine ([Make (ApplyAccount (w_namespace w) ''whatap-open-agent-sa'' (mutate_account w cr'))] @
      [Make (ApplyRole ''whatap-open-agent-role'' (mutate_role w cr'))] @
      [Make (ApplyBinding ''whatap-open-agent-role-binding'' (mutate_binding w cr'))] @ [] @ [] @ [] @
      [Make (ApplyData ConfigMapKind (w_namespace w) ''whatap-open-agent-config''
        (mutate_config w cr' pms sms ses))] @
      [Make (ApplyWorkload Deployment (w_namespace w) ''whatap-open-agent''
        (mutate_open_agent w cr' (w_tls_range w 0 ?secrets)))]) (installOpenAgent w cr')"
    unfolding installOpenAgent_def open_agent_config_def lists
    by (intro effects_and_then effects_returned_bind read effects_create effects_deploy) simp_all
  then show ?thesis by (simp add: open_agent_plan_def)
qed

lemma effects_node_agent:
  "passes fine (node_agent_plan w cr') (createOrUpdateNodeAgent w cr')"
proof -
  let ?gpu = "ka_gpu (k8s_agent cr')"
  let ?terms = "case gpu_affinity_terms ?gpu of None \<Rightarrow> [] | Some ts \<Rightarrow> ts"
  let ?ds = "\<lambda>c name dcgm sel terms. [Make (ApplyWorkload DaemonSet (w_namespace w) name
    (mutate_node w c name dcgm sel terms))]"
  have ds: "passes fine (?ds c name dcgm sel terms) (reconcileNodeAgentDaemonSet w c name dcgm sel terms)"
    for c name dcgm sel terms
    unfolding reconcileNodeAgentDaemonSet_def by (rule effects_create) simp
  have agents: "passes fine (if split_agents ?gpu
      then ?ds cr' ''whatap-node-agent-gpu'' True (gpu_node_selector ?gpu) ?terms @
        ?ds (after_first_agent cr') ''whatap-node-agent'' False None (negated_gpu_terms ?gpu)
      else [Drop (gpu_node_object w)] @ ?ds cr' ''whatap-node-agent'' (gpu_enabled ?gpu) None [])
      (node_agents w cr')"
  proof (cases "split_agents ?gpu")
    case True
    show ?thesis
      unfolding node_agents_def Let_def if_P [OF True] by (rule effects_and_then [OF ds ds]) simp
  next
    case False
    show ?thesis
      unfolding node_agents_def Let_def if_not_P [OF False]
      by (rule effects_then [OF effects_ignored [OF effects_delete] ds]) simp_all
  qed
  have service: "passes fine (if dcgm_service_wanted ?gpu
      then [Make (ApplyService (dcgm_service_namespace (w_namespace w) (k8s_agent cr'))
        ''dcgm-exporter-service'' (mutate_dcgm_service w cr'))] else [])
      (if gpu_enabled ?gpu then ensureDcgmExporterService w cr' else State_Monad.return None)"
    by (auto intro!: effects_create effects_return simp: ensureDcgmExporterService_def dcgm_service_wanted_def)
  have "passes fine ((if split_agents ?gpu
      then ?ds cr' ''whatap-node-agent-gpu'' True (gpu_node_selector ?gpu) ?terms @
        ?ds (after_first_agent cr') ''whatap-node-agent'' False None (negated_gpu_terms ?gpu)
      else [Drop (gpu_node_object w)] @ ?ds cr' ''whatap-node-agent'' (gpu_enabled ?gpu) None []) @
      (if dcgm_service_wanted ?gpu
       then [Make (ApplyService (dcgm_service_namespace (w_namespace w) (k8s_agent cr'))
         ''dcgm-exporter-service'' (mutate_dcgm_service w cr'))] else []))
      (createOrUpdateNodeAgent w cr')"
    unfolding createOrUpdateNodeAgent_def
    by (rule effects_and_then [OF agents service]) (simp split: if_split)
  then show ?thesis by (simp add: node_agent_plan_def Let_def cong: if_cong)
qed

lemma effects_install: "passes succeeded (plan w cr' pms sms ses) (install w cr')"
proof -
  let ?k8s = "k8s_agent cr'"
  let ?b = "\<lambda>b xs ys. if b then xs else (ys :: change list)"
  let ?master = "?b (ma_enabled (ka_master ?k8s))
    [Make (ApplyWorkload Deployment (w_namespace w) ''whatap-master-agent'' (mutate_master w cr'))]
    [Drop (master_object w)]"
  let ?node = "?b (na_enabled (ka_node ?k8s)) (node_agent_plan w cr') [Drop (node_object w)]"
  let ?open = "?b (oa_enabled (open_agent cr')) (open_agent_plan w cr' pms sms ses)
    (map Drop (open_agent_objects w))"
  have web: "passes fine [Make (ApplyService (w_namespace w) webhookServiceName (mutate_webhook_service w cr'))]
      (ensureWebhookService w cr')"
    "passes fine [Make (ApplyData SecretKind (w_namespace w) webhookSecretName (mutate_secret w cr'))]
      (ensureWebhookTLSSecret w cr')"
    "passes fine [Make (ApplyWebhooks webhookConfigurationName (mutate_webhooks w cr'))]
      (ensureMutatingWebhookConfiguration w cr')"
    unfolding ensureWebhookService_def ensureWebhookTLSSecret_def ensureMutatingWebhookConfiguration_def
    by (rule effects_create; simp)+
  have none: "passes fine [] (installApiserverMonitor w cr')" "passes fine [] (installEtcdMonitor w cr')"
    "passes fine [] (installSchedulerMonitor w cr')"
    "effects store (list_all tidy) fine [] (State_Monad.return None)"
    unfolding installApiserverMonitor_def installEtcdMonitor_def installSchedulerMonitor_def
    by (rule effects_return; simp)+
  have master: "ma_enabled (ka_master ?k8s) \<Longrightarrow> passes fine ?master (createOrUpdateMasterAgent w cr')"
    "\<not> ma_enabled (ka_master ?k8s) \<Longrightarrow> effects store (list_all tidy) fine ?master (cleanupMasterAgent w)"
    by (simp_all add: createOrUpdateMasterAgent_def cleanupMasterAgent_def effects_create effects_cleanup)
  have node: "na_enabled (ka_node ?k8s) \<Longrightarrow> passes fine ?node (createOrUpdateNodeAgent w cr')"
    "\<not> na_enabled (ka_node ?k8s) \<Longrightarrow> effects store (list_all tidy) fine ?node (cleanupNodeAgent w)"
    by (simp_all add: effects_node_agent cleanupNodeAgent_def effects_cleanup)
  have open_agents: "oa_enabled (open_agent cr') \<Longrightarrow> passes fine ?open (installOpenAgent w cr')"
    "\<not> oa_enabled (open_agent cr') \<Longrightarrow> effects store (list_all tidy) fine ?open (cleanupOpenAgent w)"
    by (simp_all add: effects_open_agent effects_clean_open_agent)
  have apart: "distinct (places ([Make (ApplyService (w_namespace w) webhookServiceName (mutate_webhook_service w cr'))] @
      [Make (ApplyData SecretKind (w_namespace w) webhookSecretName (mutate_secret w cr'))] @
      [Make (ApplyWebhooks webhookConfigurationName (mutate_webhooks w cr'))] @
      ?master @ ?node @ [] @ [] @ [] @ ?open @ []))"
    by (simp add: places_open_agent places_node_agent places_drop open_agent_order_def
        open_agent_objects_def node_agent_order_def split: if_split)
  have "passes succeeded ([Make (ApplyService (w_namespace w) webhookServiceName (mutate_webhook_service w cr'))] @
      [Make (ApplyData SecretKind (w_namespace w) webhookSecretName (mutate_secret w cr'))] @
      [Make (ApplyWebhooks webhookConfigurationName (mutate_webhooks w cr'))] @
      ?master @ ?node @ [] @ [] @ [] @ ?open @ []) (install w cr')"
    unfolding install_def Let_def
    by (intro effects_stage effects_component_stage gives_up_fail web none master node open_agents
        effects_finish [OF retry])
      (use apart in \<open>simp_all only: places_simps(2) distinct_append simp_thms\<close>)
  then show ?thesis by (simp add: plan_def webhook_plan_def)
qed

lemma effects_live:
  assumes "same_agent cr c"
  shows "passes succeeded (plan w cr pms sms ses) (reconcile_live w c)"
  unfolding reconcile_live_def
proof (rule effects_silent [where yields = "\<lambda>r. same_agent cr (snd r)"])
  let ?status = "update_status w (with_condition w reconciling c)"
  show "\<exists>u. snd (run_state ?status t) = t @ u \<and> store (t @ u) = store t" for t
    by (simp add: update_status_def others)
  show "same_agent cr (snd (fst (run_state ?status t)))" for t
    by (simp add: update_status_def agent assms)
  show "passes succeeded (plan w cr pms sms ses) (install w (snd r))" if "same_agent cr (snd r)" for r
    using effects_install [of "snd r"] plan_cong [OF owner that] by simp
qed

lemma effects_get: "passes (\<lambda>g. \<exists>c. g = Inr c) [] (get_agent w)"
  unfolding effects_def
  by (auto simp: get_agent_def others smooth_def not_there_def split: option.split)

lemma effects_update: "passes (\<lambda>r. fst r = None) [] (update_agent w c)"
  unfolding effects_def
  by (auto simp: update_agent_def others smooth_def not_there_def)

lemma effects_pass: "passes succeeded (plan w cr pms sms ses) (Reconcile w)"
proof -
  let ?p = "plan w cr pms sms ses"
  have added: "passes succeeded ([] @ ?p) (do { r \<leftarrow> update_agent w c;
      (case fst r of Some e \<Rightarrow> State_Monad.return (Some e, 0) | None \<Rightarrow> reconcile_live w (snd r)) })" for c
    by (rule effects_bind [where yields = "\<lambda>r. fst r = None \<longrightarrow> same_agent cr (snd r)"
        and q' = "list_all smooth", OF effects_update])
      (auto simp: update_agent_def agent effects_live gives_up_def)
  have "passes succeeded ([] @ ?p) (Reconcile w)"
    unfolding Reconcile_def
  proof (rule effects_bind [where yields = "\<lambda>g. \<forall>c. g = Inr c \<longrightarrow> same_agent cr c"
        and q' = "list_all smooth", OF effects_get])
    show "\<forall>c. fst (run_state (get_agent w) t) = Inr c \<longrightarrow> same_agent cr c" for t
      by (auto simp: get_agent_def agent split: option.split)
  next
    fix g :: "api_error + whatap_agent"
    assume g: "\<forall>c. g = Inr c \<longrightarrow> same_agent cr c" "\<exists>c. g = Inr c"
    then obtain c where c: "g = Inr c" "same_agent cr c" by blast
    then have "\<not> om_deleting (wa_meta c)" by (simp add: same_agent_def)
    with c effects_live [OF c(2)] added
    show "passes succeeded ?p (case g of Inl e \<Rightarrow> State_Monad.return (ignore_not_found (Some e), 0)
      | Inr cr \<Rightarrow> if om_deleting (wa_meta cr) then finalize w cr
          else if has_finalizer w cr then reconcile_live w cr
          else do {
            r \<leftarrow> update_agent w (with_finalizers (\<lambda>fs. w_add_finalizer w fs whatapFinalizer) cr);
            (case fst r of Some e \<Rightarrow> State_Monad.return (Some e, 0) | None \<Rightarrow> reconcile_live w (snd r))
          })"
      by simp
  qed (auto simp: gives_up_def split: sum.split)
  then show ?thesis by simp
qed

lemma pass_facts:
  "\<exists>u. snd (run_state (Reconcile w) t) = t @ u \<and>
     partly (plan w cr pms sms ses) (store t) (store (t @ u)) \<and>
     (fst (run_state (Reconcile w) t) = (None, 300) \<longrightarrow> list_all tidy u \<longrightarrow>
       achieved (plan w cr pms sms ses) (store t) (store (t @ u))) \<and>
     (list_all smooth u \<longrightarrow> fst (run_state (Reconcile w) t) = (None, 300))"
  using effects_pass unfolding effects_def by blast

end

section \<open>Passes one after the other\<close>

definition workloads_ok :: "cluster \<Rightarrow> bool" where
  "workloads_ok s \<longleftrightarrow> (\<forall>a d. s a = Some (SWorkload d) \<longrightarrow> workload_ok d)"

lemma stored_again:
  assumes "map_sum id C (f old) = Inr z" and "settles ok f" and "\<And>x. old = Some x \<Longrightarrow> ok x"
  obtains y where "z = C y" and "f (Some y) = Inr y"
proof (cases "f old")
  case (Inr y)
  then have "f (Some y) = Inr y"
    using assms(2,3) unfolding settles_def by (metis option.case_eq_if option.collapse)
  moreover from Inr assms(1) have "z = C y" by simp
  ultimately show ?thesis by (intro that)
qed (use assms(1) in simp)

lemma repeatable_settled:
  assumes "repeatable req" and "workloads_ok s" and "creation req = Some a"
    and "applied req (s a) = Inr x"
  shows "applied req (Some x) = Inr x"
proof -
  have found: "workload_ok d" if "(case s b of Some (SWorkload d) \<Rightarrow> Some d | _ \<Rightarrow> None) = Some d" for b d
  proof -
    have "s b = Some (SWorkload d)" using that by (auto split: option.splits stored.splits)
    then show ?thesis using assms(2) unfolding workloads_ok_def by blast
  qed
  show ?thesis
    using assms(1,3,4)
    by (cases req) (auto elim!: stored_again dest: found)
qed

lemma plan_settled:
  assumes a: "owner_settles w" "custom_maps_ok cr" "ranges_ok w" and s: "workloads_ok s"
  shows "settled (plan w cr pms sms ses) s"
proof -
  note settles = service_settles [OF a(1)] data_settles [OF a(1)] master_settles [OF a]
    open_agent_settles [OF a]
    node_settles [OF a] node_settles [OF a(1) custom_maps_after_first [OF a(2)] a(3)]
  have "repeatable req" if "Make req \<in> set (plan w cr pms sms ses)" for req
    using that
    by (auto simp: plan_def webhook_plan_def node_agent_plan_def open_agent_plan_def Let_def settles
        split: if_splits)
  then show ?thesis
    unfolding settled_def using repeatable_settled s by blast
qed

text \<open>The work queue calls \<open>Reconcile\<close> again and again, whatever the result.\<close>

primrec rounds :: "world \<Rightarrow> nat \<Rightarrow> unit io" where
  "rounds w 0 = State_Monad.return ()"
| "rounds w (Suc k) = do { _ \<leftarrow> Reconcile w; rounds w k }"

context steady_agent
begin

lemma rounds_partly:
  assumes "settled (plan w cr pms sms ses) (store t)"
  shows "\<exists>u. snd (run_state (rounds w k) t) = t @ u \<and>
           partly (plan w cr pms sms ses) (store t) (store (t @ u))"
  using assms
proof (induction k arbitrary: t)
  case (Suc k)
  obtain res t' where r: "run_state (Reconcile w) t = (res, t')" by fastforce
  from pass_facts [of t] r obtain u where
    u: "t' = t @ u" "partly (plan w cr pms sms ses) (store t) (store (t @ u))" by auto
  from Suc.IH [OF settled_partly [OF Suc.prems u(2)]] obtain v where
    v: "snd (run_state (rounds w k) (t @ u)) = (t @ u) @ v"
      "partly (plan w cr pms sms ses) (store (t @ u)) (store ((t @ u) @ v))" by blast
  from partly_twice [OF Suc.prems u(2) v(2)] v(1) show ?case
    by (intro exI [of _ "u @ v"]) (simp add: r u(1))
qed simp

end

lemma made_by_iff: "a \<in> set (made_by p) \<longleftrightarrow> (\<exists>req. Make req \<in> set p \<and> creation req = Some a)"
proof (induction p)
  case (Cons c p)
  show ?case
  proof (cases c)
    case (Make req)
    with Cons.IH show ?thesis by (cases "creation req") auto
  qed (use Cons.IH in auto)
qed simp

lemma dropped_by_iff: "a \<in> set (dropped_by p) \<longleftrightarrow> Drop a \<in> set p"
proof (induction p)
  case (Cons c p)
  then show ?case by (cases c) (auto split: option.split)
qed simp

lemma plan_achieved:
  assumes "achieved (plan w cr pms sms ses) s s'"
  shows "if a \<in> set (wanted_objects w cr) then s' a \<noteq> None
         else if a \<in> set (unwanted_objects w cr) then s' a = None else s' a = s a"
proof -
  let ?p = "plan w cr pms sms ses"
  have parts: "set (made_by ?p) = set (wanted_objects w cr)" "set (dropped_by ?p) = set (unwanted_objects w cr)"
    "set (places ?p) = set (wanted_objects w cr) \<union> set (unwanted_objects w cr)"
    by (simp_all add: plan_parts installation_order(1) set_places_parts)
  have new: "s' a \<noteq> None" if "a \<in> set (wanted_objects w cr)"
  proof -
    from that obtain req where "Make req \<in> set ?p" "creation req = Some a"
      unfolding parts(1) [symmetric] made_by_iff by blast
    then have "fulfilled (Make req) (s a) (s' a)"
      using assms unfolding achieved_def changed_def by (metis place.simps(1))
    then show ?thesis by (auto split: sum.splits)
  qed
  have gone: "s' a = None" if "a \<in> set (unwanted_objects w cr)"
  proof -
    from that have "Drop a \<in> set ?p" unfolding parts(2) [symmetric] dropped_by_iff .
    then have "fulfilled (Drop a) (s a) (s' a)"
      using assms unfolding achieved_def changed_def by (metis place.simps(2))
    then show ?thesis by simp
  qed
  have same: "s' a = s a" if "a \<notin> set (places ?p)"
    using assms that unfolding achieved_def changed_def by blast
  show ?thesis using new gone same by (simp add: parts(3))
qed




section \<open>Deleting the custom resource\<close>

definition deletion_plan :: "world \<Rightarrow> change list" where
  "deletion_plan w =
     map Drop ([master_object w, node_object w] @ open_agent_objects w @
       [(MutatingWebhook, '''', webhookConfigurationName), (ServiceKind, w_namespace w, webhookServiceName),
        (SecretKind, w_namespace w, webhookSecretName)])"

lemma deletion_places:
  "places (deletion_plan w) = [master_object w, node_object w] @ open_agent_objects w @
     [(MutatingWebhook, '''', webhookConfigurationName), (ServiceKind, w_namespace w, webhookServiceName),
      (SecretKind, w_namespace w, webhookSecretName)]"
  unfolding deletion_plan_def places_drop ..

lemma effects_ignored_tidy:
  "effects store (list_all tidy) ok p m \<Longrightarrow> effects store (list_all tidy) (\<lambda>_. True) p m"
  unfolding effects_def by (metis (no_types, lifting))

context api_server
begin

lemma effects_cleanup_all: "effects store (list_all tidy) (\<lambda>_. True) (deletion_plan w) (cleanupAgents w)"
proof -
  note clean = effects_cleanup [THEN effects_ignored_tidy]
  have open_agent: "effects store (list_all tidy) fine (map Drop (open_agent_objects w)) (cleanupOpenAgent w)"
    by (rule effects_clean_open_agent)
  have "effects store (list_all tidy) (\<lambda>_. True) ([Drop (master_object w)] @ [Drop (node_object w)] @
      map Drop (open_agent_objects w) @ [Drop (MutatingWebhook, '''', webhookConfigurationName)] @
      [Drop (ServiceKind, w_namespace w, webhookServiceName)] @
      [Drop (SecretKind, w_namespace w, webhookSecretName)] @ []) (cleanupAgents w)"
    unfolding cleanupAgents_def cleanupMasterAgent_def cleanupNodeAgent_def
    by (intro effects_then [where ok = "\<lambda>_. True"] clean effects_ignored_tidy [OF open_agent] effects_delete
        effects_return)
      (simp_all add: places_drop open_agent_objects_def)
  then show ?thesis by (simp add: deletion_plan_def)
qed

lemma finalize_cleans:
  assumes "has_finalizer w c"
  shows "\<exists>u. snd (run_state (finalize w c) t) = t @ u \<and>
           (list_all tidy u \<longrightarrow> achieved (deletion_plan w) (store t) (store (t @ u)))"
proof -
  have update: "\<exists>u. snd (run_state (update_agent w c) t) = t @ u \<and> store (t @ u) = store t" for c t
    by (simp add: update_agent_def others)
  have rest: "effects store (list_all tidy) (\<lambda>_. True) [] (do { r \<leftarrow> update_agent w c';
      State_Monad.return (fst r, 0 :: nat) })" for c'
    by (rule effects_silent [where yields = "\<lambda>_. True", OF update]) (simp_all add: effects_return)
  have "effects store (list_all tidy) (\<lambda>_. True) (deletion_plan w @ []) (finalize w c)"
    unfolding finalize_def if_P [OF assms]
    by (rule effects_then [OF effects_cleanup_all rest]) simp_all
  then show ?thesis unfolding effects_def append_Nil2 by blast
qed

end

lemma deletion_achieved:
  assumes "achieved (deletion_plan w) s s'"
  shows "s' a = (if a \<in> finalized_objects w then None else s a)"
proof -
  have objects: "set (places (deletion_plan w)) = finalized_objects w"
    unfolding deletion_places by (auto simp: finalized_objects_def webhook_objects_def)
  show ?thesis
  proof (cases "a \<in> finalized_objects w")
    case True
    then have "Drop a \<in> set (deletion_plan w)"
      unfolding objects [symmetric] deletion_plan_def places_drop by auto
    then have "fulfilled (Drop a) (s a) (s' a)"
      using assms unfolding achieved_def changed_def by (metis place.simps(2))
    with True show ?thesis by simp
  next
    case False
    with assms objects show ?thesis unfolding achieved_def changed_def by metis
  qed
qed


text \<open>C19. The finalizer comes first: in every pass, whatever the cluster answers, a request that creates
  or updates an object is made only for a custom resource that is not being deleted and either
  was read with the finalizer, or was given it by a granted update just after it was read.\<close>

theorem finalizer_before_objects:
  assumes "\<And>fs. w_has_finalizer w (w_add_finalizer w fs whatapFinalizer) whatapFinalizer"
    and "retries w n" and "snd (run_state (Reconcile w) t) = t @ u"
    and "(req, a) \<in> set u" and "creation req = Some x"
  shows "\<not> om_deleting (wa_meta (w_agent w (t @ [(GetAgent, None)]))) \<and>
         (has_finalizer w (w_agent w (t @ [(GetAgent, None)])) \<or>
          (\<exists>cr v. u = (GetAgent, None) # (UpdateAgent cr, None) # v \<and> has_finalizer w cr \<and>
             (req, a) \<in> set v))"
proof -
  let ?t = "t @ [(GetAgent, None)]"
  let ?cr = "w_agent w ?t"
  let ?cr' = "with_finalizers (\<lambda>fs. w_add_finalizer w fs whatapFinalizer) ?cr"
  have got: "w_answer w t GetAgent = None"
    using assms(3-5) by (cases "w_answer w t GetAgent") (auto simp: Reconcile_def get_agent_def)
  have deleting: "\<not> om_deleting (wa_meta ?cr)"
  proof
    assume d: "om_deleting (wa_meta ?cr)"
    have "emits (\<lambda>e. creation (fst e) = None) (finalize w ?cr)"
      unfolding finalize_def update_agent_def
      by (intro emits_intros emits_mono [OF emits_cleanupAgents]) (auto simp: within_def)
    then obtain v where "snd (run_state (finalize w ?cr) ?t) = ?t @ v" "list_all (\<lambda>e. creation (fst e) = None) v"
      unfolding emits_def by blast
    with d got assms(3-5) show False by (fastforce simp: Reconcile_def get_agent_def list_all_iff)
  qed
  have "\<exists>cr v. u = (GetAgent, None) # (UpdateAgent cr, None) # v \<and> has_finalizer w cr \<and> (req, a) \<in> set v"
    if no: "\<not> has_finalizer w ?cr"
  proof (cases "w_answer w ?t (UpdateAgent ?cr')")
    case None
    let ?t2 = "?t @ [(UpdateAgent ?cr', None)]"
    have run: "run_state (Reconcile w) t = run_state (reconcile_live w (w_agent w ?t2)) ?t2"
      using got deleting no None by (simp add: Reconcile_def get_agent_def update_agent_def)
    have "emits (\<lambda>_. True) (reconcile_live w (w_agent w ?t2))"
      unfolding reconcile_live_def update_status_def
      by (intro emits_intros emits_mono [OF emits_install [OF assms(2)]]) simp_all
    then obtain v where "snd (run_state (reconcile_live w (w_agent w ?t2)) ?t2) = ?t2 @ v"
      unfolding emits_def by blast
    then have "u = (GetAgent, None) # (UpdateAgent ?cr', None) # v"
      using run assms(3) by simp
    moreover have "has_finalizer w ?cr'" using assms(1) by (simp add: has_finalizer_def with_finalizers_def)
    ultimately show ?thesis using assms(4,5) by auto
  next
    case (Some e)
    with got deleting no have "run_state (Reconcile w) t = ((Some e, 0), ?t @ [(UpdateAgent ?cr', Some e)])"
      by (simp add: Reconcile_def get_agent_def update_agent_def)
    with assms(3-5) show ?thesis by auto
  qed
  with deleting show ?thesis by blast
qed

section \<open>A server that refuses nothing\<close>

interpretation resting: steady_agent "sample_world (serve s down) edited" "objects_after s"
  "master_cr 2" "[]" "[]" "[]" 4
  for s :: cluster and down :: "trace \<Rightarrow> request \<Rightarrow> bool"
  by unfold_locales
    (simp_all add: same_agent_def edited_def owned_by_name_def sample_world_def retries_def)

abbreviation serving :: "cluster \<Rightarrow> (trace \<Rightarrow> whatap_agent) \<Rightarrow> world" where
  "serving s agent \<equiv> sample_world (serve s (\<lambda>_ _. False)) agent"

abbreviation willing :: world where
  "willing \<equiv> serving (\<lambda>_. None) edited"

lemma emits_answered: "(\<And>t. P (req, w_answer w t req)) \<Longrightarrow> emits P (call w req)"
  by (simp add: emits_def call_def)

lemma willing_reads: "creation req = None \<Longrightarrow> smooth (req, w_answer (serving s agent) t req)"
  by (auto simp: serve_def smooth_def not_there_def split: option.split)

lemma willing_creates:
  assumes "\<And>old. \<exists>x. applied req old = Inr x"
  shows "smooth (req, w_answer (serving s agent) t req)"
proof (cases "creation req")
  case (Some a)
  obtain x where "applied req (objects_after s t a) = Inr x" using assms by blast
  with Some show ?thesis by (simp add: serve_def smooth_def)
qed (rule willing_reads)

text \<open>No mutate function fails as long as the owner can be set.\<close>

lemma mutate_total:
  "\<exists>y. mutate_master (serving s agent) c x = Inr y" "\<exists>y. mutate_node (serving s agent) c name dcgm sel terms x = Inr y"
  "\<exists>y. mutate_open_agent (serving s agent) c secrets x = Inr y"
  "\<exists>y. mutate_dcgm_service (serving s agent) c z = Inr y" "\<exists>y. mutate_webhook_service (serving s agent) c z = Inr y"
  "\<exists>y. mutate_secret (serving s agent) c d = Inr y" "\<exists>y. mutate_config (serving s agent) c pms sms ses d = Inr y"
  "\<exists>y. mutate_account (serving s agent) c m = Inr y" "\<exists>y. mutate_role (serving s agent) c r = Inr y"
  "\<exists>y. mutate_binding (serving s agent) c b = Inr y" "\<exists>y. mutate_webhooks (serving s agent) c h = Inr y"
  by (simp_all add: mutate_master_def mutate_node_def mutate_open_agent_def mutate_dcgm_service_def
      mutate_webhook_service_def mutate_secret_def mutate_config_def mutate_account_def mutate_role_def
      mutate_binding_def mutate_webhooks_def owned_meta_def sample_world_def Let_def)

lemma map_sum_total: "(\<And>x. \<exists>y. f x = Inr y) \<Longrightarrow> \<exists>y. map_sum id C (f x) = Inr y"
  by (metis map_sum.simps(2))

lemma willing_calls:
  "emits smooth (call (serving s agent) (ApplyWorkload k ns n (mutate_master (serving s agent) c)))"
  "emits smooth (call (serving s agent) (ApplyWorkload k ns n (mutate_node (serving s agent) c name dcgm sel terms)))"
  "emits smooth (call (serving s agent) (ApplyWorkload k ns n (mutate_open_agent (serving s agent) c secrets)))"
  "emits smooth (call (serving s agent) (ApplyService ns n (mutate_dcgm_service (serving s agent) c)))"
  "emits smooth (call (serving s agent) (ApplyService ns n (mutate_webhook_service (serving s agent) c)))"
  "emits smooth (call (serving s agent) (ApplyData k ns n (mutate_secret (serving s agent) c)))"
  "emits smooth (call (serving s agent) (ApplyData k ns n (mutate_config (serving s agent) c pms sms ses)))"
  "emits smooth (call (serving s agent) (ApplyAccount ns n (mutate_account (serving s agent) c)))"
  "emits smooth (call (serving s agent) (ApplyRole n (mutate_role (serving s agent) c)))"
  "emits smooth (call (serving s agent) (ApplyBinding n (mutate_binding (serving s agent) c)))"
  "emits smooth (call (serving s agent) (ApplyWebhooks n (mutate_webhooks (serving s agent) c)))"
  by (intro emits_answered willing_creates; simp only: applied.simps; rule map_sum_total;
      rule mutate_total)+

lemma willing_others: "creation req = None \<Longrightarrow> emits smooth (call (serving s agent) req)"
  by (intro emits_answered willing_reads)

lemma willing_status:
  "emits smooth (update_status (serving s agent) c)" "emits smooth (get_agent (serving s agent))"
  "emits smooth (update_agent (serving s agent) c)"
  unfolding update_status_def get_agent_def update_agent_def
  by (intro emits_intros willing_others; simp)+

lemma willing_deploy: "emits smooth (deploy_loop (serving s agent) c secrets i)"
proof (induction "3 - i" arbitrary: i rule: less_induct)
  case less
  show ?case
    by (subst deploy_loop.simps, intro emits_intros willing_calls willing_others)
      (simp_all add: less)
qed

lemma willing_cleanup: "emits smooth (cleanup_object (serving s agent) k ns n)"
  unfolding cleanup_object_def by (intro emits_intros willing_others) simp_all

lemma willing_install: "emits smooth (install (serving s agent) c)"
proof -
  have fail: "emits smooth (fail_with (serving s agent) c what e)" for what e
    unfolding fail_with_def by (intro emits_intros willing_others willing_status) simp
  have web: "emits smooth (ensureWebhookService (serving s agent) c)" "emits smooth (ensureWebhookTLSSecret (serving s agent) c)"
    "emits smooth (ensureMutatingWebhookConfiguration (serving s agent) c)" "emits smooth (createOrUpdateMasterAgent (serving s agent) c)"
    unfolding ensureWebhookService_def ensureWebhookTLSSecret_def ensureMutatingWebhookConfiguration_def
      createOrUpdateMasterAgent_def
    by (rule willing_calls)+
  have node: "emits smooth (createOrUpdateNodeAgent (serving s agent) c)"
    unfolding createOrUpdateNodeAgent_def node_agents_def Let_def reconcileNodeAgentDaemonSet_def
      ensureDcgmExporterService_def
    by (intro emits_intros willing_calls willing_others) simp_all
  have open_agent: "emits smooth (installOpenAgent (serving s agent) c)"
    unfolding installOpenAgent_def open_agent_config_def
    by (intro emits_intros willing_deploy willing_calls willing_others) simp_all
  have clean: "emits smooth (cleanupMasterAgent (serving s agent))" "emits smooth (cleanupNodeAgent (serving s agent))"
    "emits smooth (cleanupOpenAgent (serving s agent))"
    unfolding cleanupMasterAgent_def cleanupNodeAgent_def cleanupOpenAgent_def
    by (intro emits_intros willing_cleanup)+
  have none: "emits smooth (installApiserverMonitor (serving s agent) c)" "emits smooth (installEtcdMonitor (serving s agent) c)"
    "emits smooth (installSchedulerMonitor (serving s agent) c)"
    unfolding installApiserverMonitor_def installEtcdMonitor_def installSchedulerMonitor_def
    by (rule emits_return)+
  have finish: "emits smooth (finish (serving s agent))"
    unfolding finish_def sample_world_simps write_installed_def
    by (intro emits_intros emits_tries willing_status)
  show ?thesis
    unfolding install_def Let_def
    by (intro emits_stage emits_component_stage fail web node open_agent clean none finish emits_return)
qed

lemma willing_pass: "emits smooth (Reconcile (serving s agent))"
proof -
  have live: "emits smooth (reconcile_live (serving s agent) c)" for c
    unfolding reconcile_live_def by (intro emits_intros willing_status willing_install)
  have finalize: "emits smooth (finalize (serving s agent) c)" for c
    unfolding finalize_def cleanupAgents_def cleanupMasterAgent_def cleanupNodeAgent_def cleanupOpenAgent_def
    by (intro emits_intros willing_status willing_cleanup willing_others) simp_all
  show ?thesis
    unfolding Reconcile_def by (intro emits_intros willing_status live finalize)
qed

text \<open>From an empty cluster, an undisturbed pass creates the webhook's objects and the master agent.\<close>

lemma willing_run:
  "\<exists>u. run_state (Reconcile willing) t = (fst (run_state (Reconcile willing) t), t @ u) \<and> list_all smooth u"
proof -
  obtain u where "snd (run_state (Reconcile willing) t) = t @ u" "list_all smooth u"
    using willing_pass unfolding emits_def by blast
  then show ?thesis by (metis prod.collapse)
qed


lemma sample_settles:
  "owner_settles (sample_world answer agent)" "ranges_ok (sample_world answer agent)"
  "custom_maps_ok (master_cr g)"
  by (simp_all add: owner_settles_def custom_maps_ok_def ranges_ok_def sample_world_def master_cr_def
      zero_defs gomap_ok_def)



text \<open>A deleted custom resource, in a cluster with the master agent and somebody's Secret.\<close>

definition before_deletion :: cluster where
  "before_deletion =
     [(Deployment, ''ns'', ''whatap-master-agent'') \<mapsto>
        SWorkload \<lparr>wo_meta = new_meta,
          wo_spec = getMasterAgentDeploymentSpec '''' (agent_resources (ma_resources zero_master)) zero_agent\<rparr>,
      (SecretKind, ''ns'', ''another'') \<mapsto> SData \<lparr>do_meta = new_meta, do_data = []\<rparr>]"


text \<open>A custom resource without the finalizer, on a server that grants everything.\<close>

lemma finalizer_before_objects_witness:
  "\<exists>cr v req a. snd (run_state (Reconcile (sample_world grant_all
       (\<lambda>_. with_finalizers (\<lambda>_. []) (master_cr 2)))) []) = (GetAgent, None) # (UpdateAgent cr, None) # v \<and>
     whatapFinalizer \<in> set (om_finalizers (wa_meta cr)) \<and>
     (req, a) \<in> set v \<and> creation req = Some (ServiceKind, ''ns'', webhookServiceName)"
proof -
  let ?cr = "with_finalizers (\<lambda>_. []) (master_cr 2)"
  let ?w = "sample_world grant_all (\<lambda>_. ?cr)"
  have g: "granting ?w" by (simp add: granting_def grant_all_def)
  have parts: "\<not> om_deleting (wa_meta ?cr)" "\<not> has_finalizer ?w ?cr"
    by (simp_all add: with_finalizers_def has_finalizer_def sample_world_def)
  let ?cr' = "with_finalizers (\<lambda>fs. w_add_finalizer ?w fs whatapFinalizer) ?cr"
  let ?t = "[(GetAgent, None), (UpdateAgent ?cr', None), (UpdateStatus (with_condition ?w reconciling ?cr), None)]"
  obtain v where v: "run_state (install ?w ?cr) ?t = ((None, 300), ?t @ v)"
    "creations v = installation_order ?w ?cr"
    using does_install [OF g sample_retries, of ?cr] unfolding does_def by blast
  let ?u = "?t @ v"
  have u: "snd (run_state (Reconcile ?w) []) = [] @ ?u"
    using v(1) g parts
    by (simp add: Reconcile_def reconcile_live_def get_agent_def update_agent_def update_status_def
        granting_def)
  have "(ServiceKind, ''ns'', webhookServiceName) \<in> set (creations v)"
    by (simp add: v(2) installation_order_def webhook_objects_def)
  then have "\<exists>req a. (req, a) \<in> set v \<and> creation req = Some (ServiceKind, ''ns'', webhookServiceName)"
    by (auto simp: creations_def map_filter_def)
  then obtain req a where
    req: "(req, a) \<in> set ?u" "creation req = Some (ServiceKind, ''ns'', webhookServiceName)" by auto
  have adds: "w_has_finalizer ?w (w_add_finalizer ?w fs whatapFinalizer) whatapFinalizer" for fs
    by (simp add: sample_world_def)
  have has: "has_finalizer ?w c \<longleftrightarrow> whatapFinalizer \<in> set (om_finalizers (wa_meta c))" for c
    by (simp add: has_finalizer_def sample_world_def)
  have agent: "w_agent ?w t = ?cr" for t by simp
  obtain cr v where "?u = (GetAgent, None) # (UpdateAgent cr, None) # v" "has_finalizer ?w cr" "(req, a) \<in> set v"
    using finalizer_before_objects [OF adds sample_retries u req] parts(2) unfolding agent by blast
  with u req(2) show ?thesis unfolding has append_Nil by metis
qed

end
