(* ===== verification/Watches.thy ===== *)
theory Watches
  imports Convergence
begin

text \<open>
  What wakes the controller (\<open>SetupWithManager\<close> of
  \<open>src/internal/controller/whatapagent_controller.go\<close>), and what follows together with
  \<open>Convergence\<close>: an object of the operator that somebody changes or deletes is noticed and
  restored.
\<close>

section \<open>Events and requests\<close>

text \<open>
  An event of a custom resource other than an update is a creation, a deletion or a generic one.
  An event of an owned object comes with the owner references it had: those of the old and
  the new object for an update.  \<open>controller_of\<close> reads the name of the controller of kind \<open>WhatapAgent\<close>
  from them; like the references themselves it is the library's.  The kind is cluster-scoped, so
  the request has no namespace.
\<close>

datatype watch_event =
    AgentSeen whatap_agent
  | AgentUpdated whatap_agent whatap_agent
  | ObjectEvent object_kind "opaque list"
  | MonitorEvent

definition agent_key :: "whatap_agent \<Rightarrow> string \<times> string" where
  "agent_key cr = (om_name (wa_meta cr), om_namespace (wa_meta cr))"

definition SetupWithManager ::
  "world \<Rightarrow> (opaque \<Rightarrow> string option) \<Rightarrow> watch_event \<Rightarrow> (string \<times> string) list io" where
  "SetupWithManager w controller_of ev =
     (case ev of
        AgentSeen cr \<Rightarrow> State_Monad.return [agent_key cr]
      | AgentUpdated old new \<Rightarrow>
          State_Monad.return (if agent_update_enqueues old new then [agent_key new] else [])
      | ObjectEvent kind owners \<Rightarrow>
          State_Monad.return (if kind \<in> set owned_kinds
            then map (\<lambda>name. (name, '''')) (remdups (List.map_filter controller_of owners)) else [])
      | MonitorEvent \<Rightarrow> findWhatapAgents w)"

text \<open>The name a log line gives an object: its kind if it has one, else its Go type; \<open>None\<close> is nil.\<close>

definition getKind :: "(string \<times> string) option \<Rightarrow> string" where
  "getKind obj =
     (case obj of None \<Rightarrow> ''nil'' | Some (kind, goType) \<Rightarrow> if kind \<noteq> '''' then kind else goType)"

section \<open>The operator's objects name their owner\<close>

fun owners_of :: "stored \<Rightarrow> opaque" where
  "owners_of (SWorkload d) = mt_owners (wo_meta d)"
| "owners_of (SData d) = mt_owners (do_meta d)"
| "owners_of (SService s) = so_owners s"
| "owners_of (SAccount m) = mt_owners m"
| "owners_of (SRole r) = mt_owners (ro_meta r)"
| "owners_of (SBinding b) = mt_owners (bo_meta b)"
| "owners_of (SWebhooks x) = mt_owners (wh_meta x)"

text \<open>What \<open>SetControllerReference\<close> promises: it names the custom resource as the controller.\<close>

definition names_controller ::
  "world \<Rightarrow> (opaque \<Rightarrow> string option) \<Rightarrow> bool" where
  "names_controller w controller_of \<longleftrightarrow>
     (\<forall>cr owners owners'. w_own w cr owners = Inr owners' \<longrightarrow>
        controller_of owners' = Some (om_name (wa_meta cr)))"

definition owned_by :: "world \<Rightarrow> string \<Rightarrow> opaque \<Rightarrow> bool" where
  "owned_by w name owners \<longleftrightarrow> (\<exists>cr old. om_name (wa_meta cr) = name \<and> w_own w cr old = Inr owners)"

lemma owned_byI: "w_own w cr old = Inr owners \<Longrightarrow> owned_by w (om_name (wa_meta cr)) owners"
  by (auto simp: owned_by_def)

lemma owned_metaE:
  assumes "owned_meta w cr m f = Inr y"
  obtains owners where "w_own w cr (mt_owners m) = Inr owners" and "f (m\<lparr>mt_owners := owners\<rparr>) = Inr y"
  using assms by (auto simp: owned_meta_def split: sum.splits)

lemma mutate_owned:
  "mutate_master w cr x = Inr d \<Longrightarrow> owned_by w (om_name (wa_meta cr)) (mt_owners (wo_meta d))"
  "mutate_node w cr n b s t x = Inr d \<Longrightarrow> owned_by w (om_name (wa_meta cr)) (mt_owners (wo_meta d))"
  "mutate_open_agent w cr secrets x = Inr d \<Longrightarrow> owned_by w (om_name (wa_meta cr)) (mt_owners (wo_meta d))"
  "mutate_config w cr pms sms ses y = Inr c \<Longrightarrow> owned_by w (om_name (wa_meta cr)) (mt_owners (do_meta c))"
  "mutate_secret w cr y = Inr c \<Longrightarrow> owned_by w (om_name (wa_meta cr)) (mt_owners (do_meta c))"
  "mutate_account w cr z = Inr m \<Longrightarrow> owned_by w (om_name (wa_meta cr)) (mt_owners m)"
  "mutate_role w cr r = Inr r' \<Longrightarrow> owned_by w (om_name (wa_meta cr)) (mt_owners (ro_meta r'))"
  "mutate_binding w cr b' = Inr b'' \<Longrightarrow> owned_by w (om_name (wa_meta cr)) (mt_owners (bo_meta b''))"
  "mutate_webhooks w cr v = Inr v' \<Longrightarrow> owned_by w (om_name (wa_meta cr)) (mt_owners (wh_meta v'))"
  by (auto simp: mutate_master_def mutate_node_def mutate_open_agent_def mutate_config_def
      mutate_secret_def mutate_account_def mutate_role_def mutate_binding_def mutate_webhooks_def
      Let_def elim!: owned_metaE intro: owned_byI)

lemma mutate_service_owned:
  "mutate_dcgm_service w cr x = Inr s \<Longrightarrow> owned_by w (om_name (wa_meta cr)) (so_owners s)"
  "mutate_webhook_service w cr x = Inr s \<Longrightarrow> owned_by w (om_name (wa_meta cr)) (so_owners s)"
  by (auto simp: mutate_dcgm_service_def mutate_webhook_service_def Let_def intro: owned_byI split: sum.splits)

lemma after_first_meta [simp]: "wa_meta (after_first_agent cr) = wa_meta cr"
  by (simp add: after_first_agent_def Let_def)

lemma plan_names_owner:
  assumes "names_controller w controller_of" and "Make req \<in> set (plan w cr pms sms ses)"
    and "applied req old = Inr x"
  shows "controller_of (owners_of x) = Some (om_name (wa_meta cr))"
proof -
  have "owned_by w (om_name (wa_meta cr)) (owners_of x)"
    using assms(2,3)
    by (auto simp: plan_def webhook_plan_def node_agent_plan_def open_agent_plan_def Let_def
        map_sum_def split: if_splits sum.splits dest!: mutate_owned mutate_service_owned)
  then show ?thesis
    using assms(1) unfolding owned_by_def names_controller_def by metis
qed

section \<open>Tampering is noticed and repaired\<close>

lemma object_event_wakes:
  assumes "controller_of owners = Some name" and "kind \<in> set owned_kinds" and "owners \<in> set os"
  shows "(name, '''') \<in> set (fst (run_state (SetupWithManager w controller_of (ObjectEvent kind os)) t))"
proof -
  have "name \<in> set (List.map_filter controller_of os)"
    using assms(1,3) by (induction os) (auto simp: map_filter_simps split: option.split)
  then show ?thesis
    using assms(2) by (simp add: SetupWithManager_def)
qed

lemma achieved_twice:
  assumes "settled p s" and "achieved p s s1" and "achieved p (s1(a := x)) s2"
  shows "s2 = s1(a := s2 a)"
proof
  fix b
  show "s2 b = (s1(a := s2 a)) b"
  proof (cases "b = a")
    case False
    then have b: "(s1(a := x)) b = s1 b" by simp
    show ?thesis
    proof (cases "b \<in> set (places p)")
      case True
      then obtain c where c: "c \<in> set p" "place c = Some b"
        by (auto simp: set_places)
      then have "fulfilled c (s b) (s1 b)" "fulfilled c (s1 b) (s2 b)"
        using assms(2,3) b unfolding achieved_def changed_def by metis+
      then show ?thesis
        using fulfilled_again [OF assms(1) c] False by simp
    next
      case outside: False
      then have "s2 b = (s1(a := x)) b"
        using assms(3) unfolding achieved_def changed_def by blast
      then show ?thesis
        using False by simp
    qed
  qed simp
qed


text \<open>What a sample world asks for does not depend on the server.\<close>

lemma plan_sample:
  "plan (sample_world answer agent) cr pms sms ses = plan (sample_world answer' agent') cr pms sms ses"
proof -
  let ?v = "sample_world answer agent" and ?w = "sample_world answer' agent'"
  have "mutate_master ?v = mutate_master ?w" "mutate_node ?v = mutate_node ?w"
    "mutate_open_agent ?v = mutate_open_agent ?w" "mutate_config ?v = mutate_config ?w"
    "mutate_account ?v = mutate_account ?w" "mutate_role ?v = mutate_role ?w"
    "mutate_binding ?v = mutate_binding ?w" "mutate_secret ?v = mutate_secret ?w"
    "mutate_webhook_service ?v = mutate_webhook_service ?w"
    "mutate_dcgm_service ?v = mutate_dcgm_service ?w" "mutate_webhooks ?v = mutate_webhooks ?w"
    by (intro ext; simp add: mutate_master_def mutate_node_def mutate_open_agent_def mutate_config_def
        mutate_account_def mutate_role_def mutate_binding_def mutate_secret_def
        mutate_webhook_service_def mutate_dcgm_service_def mutate_webhooks_def owned_meta_def
        pod_webhook_def agent_webhook_def sample_world_def)+
  moreover have "w_tls_range ?v = w_tls_range ?w"
    by (simp add: sample_world_def)
  ultimately show ?thesis
    by (simp add: plan_def webhook_plan_def node_agent_plan_def open_agent_plan_def
        open_agent_objects_def Let_def)
qed


end
