(* ===== verification/ControlLoop.thy ===== *)
theory ControlLoop
  imports Watches
begin

text \<open>
  The controller under its work queue, as a transition system: the custom resource and the
  monitors are edited, somebody changes objects, and one pass after the other runs.  The queue is
  the library's, as it documents it: a request is worked on by one pass at a time, a failed pass
  is repeated at once (with a growing pause), a pass that asks for it after so many seconds.
\<close>

section \<open>States and steps\<close>

text \<open>
  \<open>co_due\<close> is in how many seconds the request for the custom resource is due at the latest, \<open>None\<close>
  if there is none; \<open>co_tidy\<close> says that no removal of the last pass was refused.
\<close>

record control =
  co_agent :: whatap_agent
  co_monitors :: "monitor list \<times> monitor list \<times> static_endpoint list"
  co_cluster :: cluster
  co_due :: "nat option"
  co_tidy :: bool

definition requeue :: "result \<Rightarrow> nat option" where
  "requeue res =
     (case res of
        (Some e, _) \<Rightarrow> Some 0
      | (None, d) \<Rightarrow> if d = 0 then None else Some d)"

text \<open>Whether an event, as \<open>SetupWithManager\<close> handles it, enqueues the custom resource.\<close>

definition wakes ::
  "world \<Rightarrow> (opaque \<Rightarrow> string option) \<Rightarrow> watch_event \<Rightarrow> trace \<Rightarrow> whatap_agent \<Rightarrow> bool" where
  "wakes w controller_of ev t cr \<longleftrightarrow>
     om_name (wa_meta cr) \<in> fst ` set (fst (run_state (SetupWithManager w controller_of ev) t))"

definition due_after :: "bool \<Rightarrow> control \<Rightarrow> nat option" where
  "due_after woken c = (if woken then Some 0 else co_due c)"

text \<open>The operator's own configuration and libraries in front of a server in some state.\<close>

definition facing ::
  "world \<Rightarrow> (trace \<Rightarrow> request \<Rightarrow> api_error option) \<Rightarrow> (trace \<Rightarrow> whatap_agent) \<Rightarrow>
     monitor list \<times> monitor list \<times> static_endpoint list \<Rightarrow> world" where
  "facing w answer agent ms =
     w\<lparr>w_answer := answer, w_agent := agent, w_pod_monitors := (\<lambda>_. fst ms),
       w_service_monitors := (\<lambda>_. fst (snd ms)), w_static_endpoints := (\<lambda>_. snd (snd ms))\<rparr>"

text \<open>
  An edit of the custom resource keeps its name, and the server counts up its generation if the
  specification changes.  The agents are listed from the cache, which has the custom resource.
  A pass finds it there, and nobody edits it or an object while the pass runs; an event may
  make the request due at any time.
\<close>

inductive control_step ::
  "world \<Rightarrow> (opaque \<Rightarrow> string option) \<Rightarrow> nat \<Rightarrow> control \<Rightarrow> control \<Rightarrow> bool"
  for w :: world and controller_of :: "opaque \<Rightarrow> string option" and n :: nat
where
  agent_edited: "om_name (wa_meta cr) = om_name (wa_meta (co_agent c)) \<Longrightarrow>
     om_namespace (wa_meta cr) = om_namespace (wa_meta (co_agent c)) \<Longrightarrow>
     \<not> om_deleting (wa_meta cr) \<Longrightarrow>
     (wa_spec cr \<noteq> wa_spec (co_agent c) \<Longrightarrow>
        om_generation (wa_meta cr) \<noteq> om_generation (wa_meta (co_agent c))) \<Longrightarrow>
     control_step w controller_of n c (c\<lparr>co_agent := cr,
       co_due := due_after (wakes w controller_of (AgentUpdated (co_agent c) cr) t cr) c\<rparr>)"
| monitors_edited: "w_answer w' t ListAgents = None \<Longrightarrow>
     co_agent c \<in> set (w_agents w' (t @ [(ListAgents, None)])) \<Longrightarrow>
     control_step w controller_of n c (c\<lparr>co_monitors := ms,
       co_due := due_after (wakes w' controller_of MonitorEvent t (co_agent c)) c\<rparr>)"
| object_touched:
     "control_step w controller_of n c (c\<lparr>co_cluster := (co_cluster c)(a := x),
       co_due := due_after (wakes w controller_of (ObjectEvent (fst a)
         (map owners_of (case_option [] (\<lambda>y. [y]) (co_cluster c a) @ case_option [] (\<lambda>y. [y]) x)))
         t (co_agent c)) c\<rparr>)"
| woken_early: "control_step w controller_of n c (c\<lparr>co_due := Some 0\<rparr>)"
| passed: "co_due c \<noteq> None \<Longrightarrow>
     steady_agent (facing w answer agent (co_monitors c)) store (co_agent c) (fst (co_monitors c))
       (fst (snd (co_monitors c))) (snd (snd (co_monitors c))) n \<Longrightarrow>
     (\<And>e. answer t GetAgent = Some e \<Longrightarrow> ae_reason e \<noteq> NotFound) \<Longrightarrow>
     store t = co_cluster c \<Longrightarrow>
     run_state (Reconcile (facing w answer agent (co_monitors c))) t = (res, t @ u) \<Longrightarrow>
     control_step w controller_of n c
       (c\<lparr>co_cluster := store (t @ u), co_due := requeue res, co_tidy := list_all tidy u\<rparr>)"

inductive_cases control_stepE: "control_step w controller_of n c c'"

section \<open>In step with the custom resource\<close>

text \<open>Each object the custom resource asks for is what its request makes of something.\<close>

definition asked_for :: "world \<Rightarrow> control \<Rightarrow> change list" where
  "asked_for w c =
     plan w (co_agent c) (fst (co_monitors c)) (fst (snd (co_monitors c))) (snd (snd (co_monitors c)))"

definition made :: "change list \<Rightarrow> address \<Rightarrow> stored \<Rightarrow> bool" where
  "made p a x \<longleftrightarrow>
     (\<exists>req old. Make req \<in> set p \<and> creation req = Some a \<and> applied req old = Inr x)"

definition in_step :: "world \<Rightarrow> control \<Rightarrow> bool" where
  "in_step w c \<longleftrightarrow>
     (\<forall>a \<in> set (wanted_objects w (co_agent c)). \<exists>x. co_cluster c a = Some x \<and> made (asked_for w c) a x)"

lemma facing_simps [simp]:
  "w_namespace (facing w answer agent ms) = w_namespace w"
  "w_tls_range (facing w answer agent ms) = w_tls_range w"
  by (simp_all add: facing_def)

lemma plan_facing: "plan (facing w answer agent ms) cr pms sms ses = plan w cr pms sms ses"
proof -
  let ?v = "facing w answer agent ms"
  have "mutate_master ?v = mutate_master w" "mutate_node ?v = mutate_node w"
    "mutate_open_agent ?v = mutate_open_agent w" "mutate_config ?v = mutate_config w"
    "mutate_account ?v = mutate_account w" "mutate_role ?v = mutate_role w"
    "mutate_binding ?v = mutate_binding w" "mutate_secret ?v = mutate_secret w"
    "mutate_webhook_service ?v = mutate_webhook_service w"
    "mutate_dcgm_service ?v = mutate_dcgm_service w" "mutate_webhooks ?v = mutate_webhooks w"
    by (intro ext; simp add: mutate_master_def mutate_node_def mutate_open_agent_def mutate_config_def
        mutate_account_def mutate_role_def mutate_binding_def mutate_secret_def
        mutate_webhook_service_def mutate_dcgm_service_def mutate_webhooks_def owned_meta_def
        pod_webhook_def agent_webhook_def facing_def)+
  then show ?thesis
    by (simp add: plan_def webhook_plan_def node_agent_plan_def open_agent_plan_def
        open_agent_objects_def Let_def)
qed

lemma wanted_cong: "wa_spec c = wa_spec cr \<Longrightarrow> wanted_objects w c = wanted_objects w cr"
  by (simp add: wanted_objects_def)

lemma achieved_made:
  assumes "achieved p s s'" and "a \<in> set (made_by p)"
  shows "\<exists>x. s' a = Some x \<and> made p a x"
proof -
  obtain req where req: "Make req \<in> set p" "creation req = Some a"
    using assms(2) by (auto simp: made_by_iff)
  then have "fulfilled (Make req) (s a) (s' a)"
    using assms(1) unfolding achieved_def changed_def by (metis place.simps(1))
  with req show ?thesis
    by (auto simp: made_def split: sum.splits)
qed

section \<open>What a pass answers to the queue\<close>

definition answered :: "result \<Rightarrow> bool" where
  "answered res \<longleftrightarrow> (\<exists>e. res = (Some e, 0)) \<or> res = (None, 300)"

lemma reported_answered: "reported w cr res t \<Longrightarrow> answered res"
  by (auto simp: reported_def answered_def split: prod.splits option.splits)

lemma ends_live:
  assumes "retries w n"
  shows "ends (\<lambda>res t. answered res) (reconcile_live w cr)"
proof -
  have "ends (\<lambda>res t. answered res) (install w c)" for c
    using ends_install [OF assms, of c] unfolding ends_def
    by (metis (no_types, lifting) case_prod_unfold reported_answered)
  then show ?thesis
    unfolding reconcile_live_def by (rule ends_bind)
qed

lemma ends_result: "ends (\<lambda>res t. P res) m \<Longrightarrow> P (fst (run_state m t))"
  unfolding ends_def by (metis (mono_tags, lifting) case_prod_unfold)

context steady_agent
begin

lemma pass_answered:
  assumes "\<And>e. w_answer w t GetAgent = Some e \<Longrightarrow> ae_reason e \<noteq> NotFound"
  shows "answered (fst (run_state (Reconcile w) t))"
proof (cases "w_answer w t GetAgent")
  case (Some e)
  then show ?thesis
    using assms by (simp add: Reconcile_def get_agent_def ignore_not_found_def answered_def)
next
  case None
  let ?t = "t @ [(GetAgent, None)]"
  let ?cr = "w_agent w ?t"
  have live: "\<not> om_deleting (wa_meta ?cr)"
    using agent [of ?t] by (simp add: same_agent_def)
  note res = ends_result [OF ends_live [OF retry]]
  show ?thesis
  proof (cases "has_finalizer w ?cr")
    case True
    then show ?thesis
      using live None res by (simp add: Reconcile_def get_agent_def)
  next
    case False
    then show ?thesis
      using live None res
      by (auto simp: Reconcile_def get_agent_def update_agent_def answered_def split: option.split)
  qed
qed

end

lemma requeued: "answered res \<Longrightarrow> requeue res \<noteq> None \<and> (requeue res \<noteq> Some 0 \<longrightarrow> res = (None, 300))"
  by (auto simp: answered_def requeue_def)

section \<open>While the controller sleeps\<close>

text \<open>The invariant of the loop.\<close>

definition vigilant :: "world \<Rightarrow> control \<Rightarrow> bool" where
  "vigilant w c \<longleftrightarrow>
     co_due c \<noteq> None \<and> (co_due c = Some 0 \<or> \<not> co_tidy c \<or> in_step w c)"

lemma vigilant_due: "vigilant w (c\<lparr>co_due := Some 0\<rparr>)"
  by (simp add: vigilant_def)

lemma due_woken [simp]: "due_after True c = Some 0"
  by (simp add: due_after_def)

text \<open>An event that does not wake the controller leaves it in step.\<close>

lemma vigilant_event:
  assumes "vigilant w c" and "co_tidy c' = co_tidy c" and "co_due c' = due_after woken c"
    and "in_step w c \<Longrightarrow> \<not> woken \<Longrightarrow> in_step w c'"
  shows "vigilant w c'"
  using assms by (cases woken) (auto simp: vigilant_def due_after_def)

lemma edit_wakes:
  assumes "om_generation (wa_meta cr) \<noteq> om_generation (wa_meta old)"
  shows "wakes w controller_of (AgentUpdated old cr) t cr"
  using assms by (simp add: wakes_def SetupWithManager_def agent_update_enqueues_def loggingPredicate_def
      agent_key_def)

lemma monitors_wake:
  assumes "w_answer w t ListAgents = None" and "cr \<in> set (w_agents w (t @ [(ListAgents, None)]))"
  shows "wakes w controller_of MonitorEvent t cr"
  using assms by (auto simp: wakes_def SetupWithManager_def findWhatapAgents_def image_iff)

lemma object_wakes:
  assumes "names_controller w controller_of" and "a \<in> set (wanted_objects w cr)"
    and "made (plan w cr pms sms ses) a x"
  shows "wakes w controller_of (ObjectEvent (fst a) (owners_of x # os)) t cr"
proof -
  have "fst a \<in> set owned_kinds"
    using wanted_objects_watched [of w cr] assms(2) by blast
  moreover have "controller_of (owners_of x) = Some (om_name (wa_meta cr))"
    using plan_names_owner [OF assms(1)] assms(3) by (auto simp: made_def)
  ultimately have "(om_name (wa_meta cr), []) \<in> set (fst (run_state (SetupWithManager w controller_of
      (ObjectEvent (fst a) (owners_of x # os))) t))"
    by (intro object_event_wakes [where owners = "owners_of x"]) simp_all
  then show ?thesis
    unfolding wakes_def by (metis fst_conv image_eqI)
qed

lemma control_step_vigilant:
  assumes "control_step w controller_of n c c'" and "vigilant w c"
    and "names_controller w controller_of" and "\<And>cr. owned_by_name w cr"
  shows "vigilant w c'"
  using assms(1)
proof (cases rule: control_step.cases)
  case (agent_edited cr t)
  show ?thesis
  proof (rule vigilant_event [OF assms(2)])
    assume "in_step w c" and asleep: "\<not> wakes w controller_of (AgentUpdated (co_agent c) cr) t cr"
    have spec: "wa_spec cr = wa_spec (co_agent c)"
      using edit_wakes asleep agent_edited(5) by blast
    note wanted = wanted_cong [OF spec]
    have "same_agent (co_agent c) cr"
      using agent_edited(2-4) spec by (simp add: same_agent_def)
    then have "asked_for w c' = asked_for w c"
      unfolding asked_for_def agent_edited(1) by (simp add: plan_cong [OF assms(4)])
    with \<open>in_step w c\<close> show "in_step w c'"
      using wanted by (simp add: in_step_def agent_edited(1))
  qed (simp_all add: agent_edited(1))
next
  case (monitors_edited w' t ms)
  then show ?thesis
    using monitors_wake by (intro vigilant_event [OF assms(2)]) auto
next
  case (object_touched a x t)
  show ?thesis
  proof (rule vigilant_event [OF assms(2)])
    let ?os = "map owners_of (case_option [] (\<lambda>y. [y]) (co_cluster c a) @ case_option [] (\<lambda>y. [y]) x)"
    assume step: "in_step w c"
      and asleep: "\<not> wakes w controller_of (ObjectEvent (fst a) ?os) t (co_agent c)"
    have "a \<notin> set (wanted_objects w (co_agent c))"
    proof
      assume a: "a \<in> set (wanted_objects w (co_agent c))"
      then obtain y where "co_cluster c a = Some y" "made (asked_for w c) a y"
        using step by (auto simp: in_step_def)
      then show False
        using asleep object_wakes [OF assms(3) a] by (simp add: asked_for_def)
    qed
    then show "in_step w c'"
      using step by (auto simp: in_step_def asked_for_def object_touched)
  qed (simp_all add: object_touched)
next
  case woken_early
  then show ?thesis
    by (simp add: vigilant_due)
next
  case (passed answer agent store t res u)
  let ?w = "facing w answer agent (co_monitors c)"
  have "answered res"
    using steady_agent.pass_answered [OF passed(3), of t] passed(4,6) by (simp add: facing_def)
  note queue = requeued [OF this]
  have "in_step w c'" if "res = (None, 300)" "list_all tidy u"
  proof -
    have "achieved (asked_for w c) (store t) (store (t @ u))"
      using steady_agent.pass_facts [OF passed(3), of t] passed(6) that
      by (auto simp: plan_facing asked_for_def)
    moreover have "set (made_by (asked_for w c)) = set (wanted_objects w (co_agent c))"
      by (simp add: asked_for_def plan_parts installation_order(1))
    ultimately show ?thesis
      using achieved_made by (simp add: in_step_def asked_for_def passed(1))
  qed
  with queue show ?thesis
    by (auto simp: vigilant_def passed(1))
qed

text \<open>
  C2. While the controller sleeps nothing is amiss: in every state of the loop that edits of the
  custom resource and of the monitors, writes of others and passes of whatever outcome lead to,
  the request for the custom resource is in the queue; and unless it is due at once, or a
  removal of the last pass was refused, every object the custom resource asks for by now is
  there, the way the custom resource and the monitors as they are now make it.
\<close>

theorem asleep_in_step:
  assumes "names_controller w controller_of" and "\<And>cr. owned_by_name w cr"
    and "rtranclp (control_step w controller_of n) c0 c" and "co_due c0 = Some 0"
  shows "co_due c \<noteq> None \<and> (co_due c = Some 0 \<or> \<not> co_tidy c \<or>
           (\<forall>a \<in> set (wanted_objects w (co_agent c)).
              \<exists>x. co_cluster c a = Some x \<and> made (asked_for w c) a x))"
proof -
  have "vigilant w c"
    using assms(3)
  proof (induction rule: rtranclp_induct)
    case base
    then show ?case
      using assms(4) by (simp add: vigilant_def)
  next
    case (step c c')
    then show ?case
      using control_step_vigilant assms(1,2) by blast
  qed
  then show ?thesis
    by (simp add: vigilant_def in_step_def)
qed

text \<open>The operator starts on an empty cluster, and a pass goes through.\<close>

definition started :: control where
  "started = \<lparr>co_agent = master_cr 2, co_monitors = ([], [], []), co_cluster = (\<lambda>_. None),
     co_due = Some 0, co_tidy = False\<rparr>"

lemma asleep_in_step_witness:
  "\<exists>c. rtranclp (control_step willing Some 4) started c \<and> co_due c = Some 300 \<and>
     co_cluster c (Deployment, ''ns'', ''whatap-master-agent'') \<noteq> None"
proof -
  have facing: "facing willing (serve (\<lambda>_. None) (\<lambda>_ _. False)) edited ([], [], []) = willing"
    by (simp add: facing_def sample_world_def)
  have empty: "objects_after (\<lambda>_. None) [] = (\<lambda>_. None)"
    by (simp add: objects_after_def)
  obtain u where u: "run_state (Reconcile willing) [] = (fst (run_state (Reconcile willing) []), [] @ u)"
    "list_all smooth u" using willing_run by blast
  have res: "fst (run_state (Reconcile willing) []) = (None, 300)"
    using resting.pass_facts [where down = "\<lambda>_ _. False" and s = "\<lambda>_. None" and t = "[]"] u
    by (metis snd_conv same_append_eq)
  let ?c = "started\<lparr>co_cluster := objects_after (\<lambda>_. None) ([] @ u), co_due := requeue (None, 300),
    co_tidy := list_all tidy u\<rparr>"
  have "control_step willing Some 4 started ?c"
    by (rule passed [where answer = "serve (\<lambda>_. None) (\<lambda>_ _. False)" and agent = edited and t = "[]"])
      (use resting.steady_agent_axioms u(1) res in
        \<open>simp_all add: facing empty started_def\<close>, simp add: serve_def)
  then have reach: "rtranclp (control_step willing Some 4) started ?c"
    by blast
  have hyps: "names_controller willing Some" "\<And>cr. owned_by_name willing cr"
    by (simp_all add: names_controller_def owned_by_name_def sample_world_def)
  have "(Deployment, ''ns'', ''whatap-master-agent'') \<in> set (wanted_objects willing (co_agent ?c))"
    by (simp add: started_def wanted_objects_def)
  moreover have "co_due ?c = Some 300" "co_tidy ?c"
    using smooth_tidy [OF u(2)] by (simp_all add: requeue_def)
  ultimately have "co_cluster ?c (Deployment, ''ns'', ''whatap-master-agent'') \<noteq> None"
    using asleep_in_step [OF hyps reach] by (auto simp: started_def)
  then show ?thesis
    using reach \<open>co_due ?c = Some 300\<close> by blast
qed

end
