(* ===== verification/ScrapeFormat.thy ===== *)
theory ScrapeFormat
  imports ScrapeConfig "HOL-Library.Sublist"
begin

text \<open>
  The scrape configuration from the side of its reader.  The open agent is not part of the
  repository; what it can rely on is stated twice: as a type every rendered target has, and as
  a reader that recovers from the rendered values what the custom resources say.
\<close>

section \<open>Types\<close>

text \<open>A record lists its keys, each with whether it is always there.\<close>

datatype ytype =
    TStr
  | TBool
  | TNat
  | TStrs
  | TStrMap
  | TStrsMap
  | TList ytype
  | TRecord "(string \<times> bool \<times> ytype) list"

text \<open>Keys are in strictly increasing order, so each occurs once and the text is determined.\<close>

inductive has_type :: "yv \<Rightarrow> ytype \<Rightarrow> bool" where
  str: "has_type (YStr s) TStr"
| bool: "has_type (YBool b) TBool"
| nat: "has_type (YNat n) TNat"
| strs: "has_type (YStrs ss) TStrs"
| list: "(\<And>v. v \<in> set vs \<Longrightarrow> has_type v T) \<Longrightarrow> has_type (YList vs) (TList T)"
| str_map: "sorted_wrt (<) (map fst items) \<Longrightarrow> (\<And>k v. (k, v) \<in> set items \<Longrightarrow> has_type v TStr) \<Longrightarrow>
    has_type (YSlice items) TStrMap"
| strs_map: "sorted_wrt (<) (map fst items) \<Longrightarrow> (\<And>k v. (k, v) \<in> set items \<Longrightarrow> has_type v TStrs) \<Longrightarrow>
    has_type (YSlice items) TStrsMap"
| keyed: "sorted_wrt (<) (map fst items) \<Longrightarrow>
    (\<And>k v. (k, v) \<in> set items \<Longrightarrow> \<exists>needed T. map_of fs k = Some (needed, T) \<and> has_type v T) \<Longrightarrow>
    (\<And>k T. map_of fs k = Some (True, T) \<Longrightarrow> k \<in> fst ` set items) \<Longrightarrow>
    has_type (YSlice items) (TRecord fs)"

inductive_cases has_type_recordE: "has_type v (TRecord fs)"
inductive_cases has_type_strE: "has_type v TStr"
inductive_cases has_type_listE: "has_type v (TList T)"

lemma has_type_simps [simp]:
  "has_type (YStr s) T \<longleftrightarrow> T = TStr" "has_type (YBool b) T \<longleftrightarrow> T = TBool"
  "has_type (YNat n) T \<longleftrightarrow> T = TNat" "has_type (YStrs ss) T \<longleftrightarrow> T = TStrs"
  "has_type (YList vs) T \<longleftrightarrow> (\<exists>U. T = TList U \<and> (\<forall>v\<in>set vs. has_type v U))"
  by (auto intro: has_type.intros elim: has_type.cases)

text \<open>Reading a field of a typed record: the value there has the field's type, and is there if the
  field always is.\<close>

lemma typed_field:
  assumes "has_type v (TRecord fs)" and "map_of fs k = Some (needed, T)"
  shows "case target_field k v of None \<Rightarrow> \<not> needed | Some x \<Rightarrow> has_type x T"
  using assms(1)
proof (rule has_type_recordE)
  fix items
  assume v: "v = YSlice items" and "sorted_wrt (<) (map fst items)"
    and typed: "\<And>k v. (k, v) \<in> set items \<Longrightarrow> \<exists>needed T. map_of fs k = Some (needed, T) \<and> has_type v T"
    and needed: "\<And>k T. map_of fs k = Some (True, T) \<Longrightarrow> k \<in> fst ` set items"
  have f: "target_field k v = map_of (rev items) k" by (simp add: v target_field_def slice_field_rev)
  show ?thesis
  proof (cases "map_of (rev items) k")
    case None
    then have "k \<notin> fst ` set items" by (simp add: map_of_eq_None_iff)
    with needed [of k] assms(2) f None show ?thesis by (cases needed) auto
  next
    case (Some x)
    then have "(k, x) \<in> set items" by (metis map_of_SomeD set_rev)
    with typed [of k x] assms(2) f Some show ?thesis by auto
  qed
qed

text \<open>A Go map with known keys, each value of the type of its key once it is ordered.\<close>

lemma sorted_keys:
  assumes "distinct (map fst es)"
  shows "sorted_wrt (<) (map fst (sort_key fst (map (\<lambda>(k, v). (k, f v)) es)))"
proof -
  let ?items = "sort_key fst (map (\<lambda>(k, v). (k, f v)) es)"
  have "mset (map fst ?items) = mset (map fst es)" by (metis map_fst_items mset_map mset_sort)
  then have "distinct (map fst ?items)" using assms by (metis mset_eq_imp_distinct_iff)
  then show ?thesis using strict_sorted_iff by fastforce
qed

definition typed_items :: "(string \<times> bool \<times> ytype) list \<Rightarrow> (string \<times> yv) list \<Rightarrow> bool" where
  "typed_items fs es \<longleftrightarrow>
     list_all (\<lambda>(k, v). case map_of fs k of None \<Rightarrow> False
       | Some (needed, T) \<Rightarrow> has_type (toOrderedYAML v) T) es"

lemma typed_record:
  assumes "distinct (map fst es)" and "typed_items fs es"
    and "list_all (\<lambda>(k, needed, T). needed \<longrightarrow> map_of es k \<noteq> None) fs"
  shows "has_type (toOrderedYAML (YMap es)) (TRecord fs)"
  unfolding toOrderedYAML.simps
proof (rule has_type.keyed)
  show "sorted_wrt (<) (map fst (sort_key fst (map (\<lambda>(k, v). (k, toOrderedYAML v)) es)))"
    by (rule sorted_keys [OF assms(1)])
next
  fix k v
  assume "(k, v) \<in> set (sort_key fst (map (\<lambda>(k, v). (k, toOrderedYAML v)) es))"
  then obtain x where "(k, x) \<in> set es" "v = toOrderedYAML x" by auto
  with assms(2) show "\<exists>needed T. map_of fs k = Some (needed, T) \<and> has_type v T"
    unfolding typed_items_def list_all_iff by (fastforce split: option.splits)
next
  fix k T
  assume "map_of fs k = Some (True, T)"
  then have "(k, True, T) \<in> set fs" by (rule map_of_SomeD)
  then have "map_of es k \<noteq> None" using assms(3) unfolding list_all_iff by fastforce
  then have "k \<in> fst ` set es" by (simp add: map_of_eq_None_iff)
  then show "k \<in> fst ` set (sort_key fst (map (\<lambda>(k, v). (k, toOrderedYAML v)) es))" by force
qed

section \<open>The format\<close>

abbreviation optional :: "string \<Rightarrow> ytype \<Rightarrow> string \<times> bool \<times> ytype" where
  "optional k T \<equiv> (k, False, T)"

abbreviation always :: "string \<Rightarrow> ytype \<Rightarrow> string \<times> bool \<times> ytype" where
  "always k T \<equiv> (k, True, T)"

definition expr_type :: ytype where
  "expr_type = TRecord [always ''key'' TStr, always ''operator'' TStr, always ''values'' TStrs]"

definition selector_type :: ytype where
  "selector_type = TRecord [optional ''matchLabels'' TStrMap, optional ''matchExpressions'' (TList expr_type)]"

definition namespaces_type :: ytype where
  "namespaces_type = TRecord [optional ''matchNames'' TStrs, optional ''matchLabels'' TStrMap,
     optional ''matchExpressions'' (TList expr_type)]"

definition relabel_type :: ytype where
  "relabel_type = TRecord [optional ''source_labels'' TStrs, optional ''separator'' TStr,
     optional ''regex'' TStr, optional ''modulus'' TNat, optional ''target_label'' TStr,
     optional ''replacement'' TStr, optional ''action'' TStr]"

definition secret_type :: ytype where
  "secret_type = TRecord [always ''name'' TStr, always ''key'' TStr, always ''namespace'' TStr]"

definition auth_type :: ytype where
  "auth_type = TRecord [optional ''type'' TStr, optional ''credentials'' TStr,
     optional ''credentialsEnv'' TStr, optional ''credentialsFile'' TStr,
     optional ''credentialsSecret'' secret_type]"

definition basic_type :: ytype where
  "basic_type = TRecord [optional ''username'' secret_type, optional ''password'' secret_type]"

definition tls_type :: ytype where
  "tls_type = TRecord [always ''insecureSkipVerify'' TBool, optional ''caFile'' TStr,
     optional ''certFile'' TStr, optional ''keyFile'' TStr, optional ''serverName'' TStr]"

definition endpoint_type :: ytype where
  "endpoint_type = TRecord [optional ''port'' TStr, optional ''address'' TStr, optional ''path'' TStr,
     optional ''interval'' TStr, optional ''scheme'' TStr, optional ''basicAuth'' basic_type,
     optional ''authorization'' auth_type, optional ''tlsConfig'' tls_type,
     optional ''params'' TStrsMap, optional ''addNodeLabel'' TBool,
     optional ''metricRelabelConfigs'' (TList relabel_type)]"

definition target_type :: ytype where
  "target_type = TRecord [always ''targetName'' TStr, always ''type'' TStr, always ''enabled'' TBool,
     optional ''namespaceSelector'' namespaces_type, optional ''selector'' selector_type,
     optional ''relabelConfigs'' (TList relabel_type), optional ''endpoints'' (TList endpoint_type)]"

section \<open>Items in the order of the code\<close>

text \<open>The keys of what a converter puts into its map are among the keys it knows, in their order.\<close>

lemma keys_items:
  "subseq (map fst es) ks \<Longrightarrow> subseq (map fst (opt b k v @ es)) (k # ks)"
  "subseq (map fst es) ks \<Longrightarrow> subseq (map fst ((k, v) # es)) (k # ks)"
  "subseq (map fst es) ks \<Longrightarrow> subseq (map fst (opt_secret k sel @ es)) (k # ks)"
  "subseq (map fst es) ks \<Longrightarrow> subseq (map fst (tls_file k file sel @ es)) (k # ks)"
  "subseq (map fst es) ks \<Longrightarrow>
     subseq (map fst ((case x of None \<Rightarrow> [] | Some y \<Rightarrow> [(k, f y)]) @ es)) (k # ks)"
  "subseq (map fst (opt b k v)) [k]" "subseq (map fst (opt_secret k sel)) [k]"
  "subseq (map fst ([] :: (string \<times> yv) list)) ([] :: string list)"
  by (auto simp: opt_def opt_secret_def tls_file_def split: option.split)

lemma keys_distinct: "subseq (map fst es) ks \<Longrightarrow> distinct ks \<Longrightarrow> distinct (map fst es)"
  by (auto simp: subseq_conv_nths distinct_nthsI)

lemma map_of_items [simp]:
  "map_of (opt_secret k sel @ es) j =
     (if j = k \<and> sel \<noteq> None then Some (secret_ref (the sel)) else map_of es j)"
  "map_of (opt_secret k sel) j = (if j = k \<and> sel \<noteq> None then Some (secret_ref (the sel)) else None)"
  "map_of ((case x of None \<Rightarrow> [] | Some y \<Rightarrow> [(k, f y)]) @ es) j =
     (if j = k \<and> x \<noteq> None then Some (f (the x)) else map_of es j)"
  by (auto simp: opt_secret_def split: option.split)

lemma map_of_tls_file [simp]:
  "map_of (tls_file k file sel @ es) j =
     (if j = k \<and> (file \<noteq> '''' \<or> sel \<noteq> None)
      then Some (YStr (if file \<noteq> '''' then file else tls_path (the sel))) else map_of es j)"
  by (auto simp: tls_file_def split: option.split)

text \<open>Every item has the type of its key.\<close>

lemma typed_items_simps [simp]:
  "typed_items fs []"
  "typed_items fs ((k, v) # es) \<longleftrightarrow>
     (case map_of fs k of None \<Rightarrow> False | Some (needed, T) \<Rightarrow> has_type (toOrderedYAML v) T) \<and>
     typed_items fs es"
  "typed_items fs (es @ es') \<longleftrightarrow> typed_items fs es \<and> typed_items fs es'"
  "typed_items fs (opt b k v) \<longleftrightarrow> (b \<longrightarrow> typed_items fs [(k, v)])"
  by (simp_all add: typed_items_def)

lemma typed_items_case:
  "typed_items fs (case x of None \<Rightarrow> [] | Some y \<Rightarrow> g y) \<longleftrightarrow> (\<forall>y. x = Some y \<longrightarrow> typed_items fs (g y))"
  by (simp split: option.split)

section \<open>Every converter keeps the format\<close>

lemma typed_str_map:
  assumes "distinct (map fst es)"
  shows "has_type (toOrderedYAML (YStrMap es)) TStrMap"
  unfolding toOrderedYAML.simps
  by (rule has_type.str_map [OF sorted_keys [OF assms]]) auto

lemma typed_strs_map:
  assumes "distinct (map fst es)"
  shows "has_type (toOrderedYAML (YStrsMap es)) TStrsMap"
  unfolding toOrderedYAML.simps
  by (rule has_type.strs_map [OF sorted_keys [OF assms]]) auto

lemma typed_list:
  "(\<And>x. x \<in> set xs \<Longrightarrow> has_type (toOrderedYAML (f x)) T) \<Longrightarrow>
     has_type (toOrderedYAML (YList (map f xs))) (TList T)"
  by auto

lemma typed_exprs: "has_type (toOrderedYAML (convert_exprs es)) (TList expr_type)"
  unfolding convert_exprs_def expr_type_def
  by (rule typed_list, rule typed_record) simp_all

lemma typed_selector:
  assumes "distinct (map fst (entries (psel_match_labels sel)))"
  shows "has_type (toOrderedYAML (convertLabelSelector sel)) selector_type"
  unfolding convertLabelSelector_def selector_type_def
  by (rule typed_record, rule keys_distinct, (rule keys_items)+)
    (simp_all add: typed_exprs typed_str_map [OF assms] del: toOrderedYAML.simps)

lemma typed_namespaces:
  assumes "namespaces_ok sel"
  shows "has_type (toOrderedYAML (YMap (convert_namespace_selector sel))) namespaces_type"
  unfolding convert_namespace_selector_def namespaces_type_def
  by (rule typed_record, rule keys_distinct, (rule keys_items)+)
    (use assms in \<open>simp_all add: typed_exprs typed_str_map namespaces_ok_def del: toOrderedYAML.simps(1-3)\<close>)

lemma typed_secret: "has_type (toOrderedYAML (secret_ref s)) secret_type"
  unfolding secret_ref_def secret_type_def by (rule typed_record) simp_all

lemma typed_opt_secret:
  "typed_items fs (opt_secret k sel) \<longleftrightarrow>
     (sel \<noteq> None \<longrightarrow> (case map_of fs k of None \<Rightarrow> False | Some (needed, T) \<Rightarrow>
        has_type (toOrderedYAML (secret_ref (the sel))) T))"
  by (simp add: opt_secret_def split: option.split)

lemma typed_tls_file:
  "typed_items fs (tls_file k file sel) \<longleftrightarrow>
     (file \<noteq> '''' \<or> sel \<noteq> None \<longrightarrow>
        (case map_of fs k of None \<Rightarrow> False | Some (needed, T) \<Rightarrow> T = TStr))"
  by (auto simp: tls_file_def split: option.split)

lemma typed_relabel: "has_type (toOrderedYAML (YList (convertRelabelConfigs rcs))) (TList relabel_type)"
  unfolding convertRelabelConfigs_def relabel_type_def
  by (rule typed_list, rule typed_record, rule keys_distinct, (rule keys_items)+) simp_all

lemma typed_basic: "has_type (toOrderedYAML (convert_basic_auth ba)) basic_type"
  unfolding convert_basic_auth_def basic_type_def
  by (rule typed_record, rule keys_distinct, (rule keys_items)+)
    (simp_all add: typed_opt_secret typed_secret)

lemma typed_auth: "buildAuthorizationMap a = Some v \<Longrightarrow> has_type (toOrderedYAML v) auth_type"
  unfolding auth_type_def
  by (cases a, simp add: buildAuthorizationMap_def, simp only: buildAuthorizationMap_def option.case option.inject,
      erule subst, rule typed_record, rule keys_distinct, (rule keys_items)+)
    (simp_all add: typed_opt_secret typed_secret)

lemma typed_tls: "has_type (toOrderedYAML (convert_tls tls)) tls_type"
  unfolding convert_tls_def tls_type_def append_Cons append_Nil
  by (rule typed_record, rule keys_distinct, (rule keys_items)+)
    (simp_all add: typed_tls_file)

lemma typed_endpoint:
  assumes "distinct (map fst (entries (oe_params e)))"
  shows "has_type (toOrderedYAML (convert_endpoint e)) endpoint_type"
  unfolding convert_endpoint_def endpoint_type_def
  by (rule typed_record, rule keys_distinct, (rule keys_items)+)
    (simp_all add: typed_items_case typed_basic typed_auth typed_tls typed_relabel
      typed_strs_map [OF assms] del: toOrderedYAML.simps(1-4))

lemma typed_endpoints:
  assumes "endpoints_ok es"
  shows "has_type (toOrderedYAML (YList (convertEndpoints es))) (TList endpoint_type)"
  unfolding convertEndpoints_def
  by (rule typed_list, rule typed_endpoint) (use assms in \<open>simp add: endpoints_ok_def list_all_iff\<close>)

lemma typed_job_relabel: "has_type (toOrderedYAML (YList (job_relabel rcs job))) (TList relabel_type)"
proof -
  have "has_type (toOrderedYAML (YMap [(''source_labels'', YStrs [job]), (''target_label'', YStr ''job''),
      (''action'', YStr ''replace'')])) relabel_type"
    unfolding relabel_type_def by (rule typed_record) simp_all
  then show ?thesis
    using typed_relabel [of rcs] unfolding job_relabel_def toOrderedYAML.simps has_type_simps Let_def
    by (auto split: if_splits)
qed

lemma typed_inline:
  assumes "distinct (map fst (entries (psel_match_labels (ot_selector t))))"
    and "namespaces_ok (ot_namespace_selector t)" and "endpoints_ok (ot_endpoints t)"
  shows "has_type (toOrderedYAML (inline_target t)) target_type"
  unfolding inline_target_def inline_endpoints_eq target_type_def append_Cons append_Nil
  by (rule typed_record, rule keys_distinct, (rule keys_items)+)
    (simp_all add: typed_selector typed_namespaces typed_relabel typed_endpoints assms
      del: toOrderedYAML.simps(1-4))

lemma typed_monitor:
  assumes "distinct (map fst (entries (psel_match_labels (mo_selector m))))"
    and "pred_option namespaces_ok (mo_namespace_selector m)" and "endpoints_ok (mo_endpoints m)"
  shows "has_type (toOrderedYAML (monitor_target ty m)) target_type"
proof -
  have "has_type (toOrderedYAML (YMap [(''matchNames'', YStrs [mo_namespace m])])) namespaces_type"
    unfolding namespaces_type_def by (rule typed_record) simp_all
  then have namespaces: "has_type (toOrderedYAML (YMap (case mo_namespace_selector m of
      Some sel \<Rightarrow> convert_namespace_selector sel | None \<Rightarrow> [(''matchNames'', YStrs [mo_namespace m])])))
      namespaces_type"
    using assms(2) typed_namespaces by (cases "mo_namespace_selector m") simp_all
  show ?thesis
    unfolding monitor_target_def target_type_def append_Cons append_Nil
    by (rule typed_record, rule keys_distinct, (rule keys_items)+)
      (simp_all add: namespaces typed_selector typed_job_relabel typed_endpoints assms
        del: toOrderedYAML.simps(1-4))
qed

lemma typed_static:
  assumes "endpoints_ok (se_endpoints s)"
  shows "has_type (toOrderedYAML (static_target s)) target_type"
  unfolding static_target_def target_type_def append_Cons append_Nil
  by (rule typed_record, rule keys_distinct, (rule keys_items)+)
    (simp_all add: typed_job_relabel typed_endpoints assms del: toOrderedYAML.simps(1-4))

lemma typed_gpu_relabels: "has_type (toOrderedYAML (YList (gpu_metric_relabels gpu))) (TList relabel_type)"
proof -
  have fixed: "has_type (toOrderedYAML (YMap [(''target_label'', YStr a), (''replacement'', YStr b), (''action'', YStr c)])) relabel_type"
    "has_type (toOrderedYAML (YMap [(''source_labels'', YStrs ss), (''regex'', YStr a), (''action'', YStr c)])) relabel_type"
    "has_type (toOrderedYAML (YMap [(''source_labels'', YStrs ss), (''target_label'', YStr a), (''action'', YStr c)])) relabel_type"
    for a b c ss
    unfolding relabel_type_def by (rule typed_record; simp)+
  then show ?thesis
    using typed_relabel [of "gpu_metric_relabel gpu"]
    unfolding gpu_metric_relabels_def toOrderedYAML.simps(4) has_type_simps
    by (auto simp del: toOrderedYAML.simps(1-4))
qed

lemma typed_gpu: "has_type (toOrderedYAML (gpu_target k8s ns)) target_type"
proof -
  have namespaces: "has_type (toOrderedYAML (YMap [(''matchNames'', YStrs [x])])) namespaces_type" for x
    unfolding namespaces_type_def by (rule typed_record) simp_all
  have "has_type (toOrderedYAML (YStrMap [(''name'', x)])) TStrMap" for x
    by (rule typed_str_map) simp
  then have selector: "has_type (toOrderedYAML (YMap [(''matchLabels'', YStrMap [(''name'', x)])])) selector_type" for x
    unfolding selector_type_def by (intro typed_record) (simp_all del: toOrderedYAML.simps(1-4))
  have "has_type (toOrderedYAML (YMap [(''port'', YStr ''9400''), (''path'', YStr ''/metrics''),
      (''interval'', YStr i), (''scheme'', YStr ''http''), (''addNodeLabel'', YBool True),
      (''metricRelabelConfigs'', YList (gpu_metric_relabels gpu))])) endpoint_type" for i gpu
    unfolding endpoint_type_def
    by (rule typed_record) (simp_all add: typed_gpu_relabels del: toOrderedYAML.simps(1-4))
  then have endpoints: "has_type (toOrderedYAML (YList [YMap [(''port'', YStr ''9400''), (''path'', YStr ''/metrics''),
      (''interval'', YStr i), (''scheme'', YStr ''http''), (''addNodeLabel'', YBool True),
      (''metricRelabelConfigs'', YList (gpu_metric_relabels gpu))]])) (TList endpoint_type)" for i gpu
    unfolding toOrderedYAML.simps(4) has_type_simps by (simp del: toOrderedYAML.simps)
  show ?thesis
    unfolding gpu_target_def target_type_def Let_def append_Cons append_Nil
    by (rule typed_record, rule keys_distinct, (rule keys_items)+)
      (simp_all add: namespaces selector endpoints typed_relabel del: toOrderedYAML.simps(1-4))
qed

text \<open>C22. The scrape configuration has one format: every rendered target, inline, from a monitor or for
  the GPU exporter, is a record whose fields have the types of \<open>target_type\<close>, with the name, the
  type and the switch always there, and the keys of every map in strictly increasing order at
  every depth.\<close>

theorem scrape_targets_typed:
  assumes "scrape_maps_ok cr pms sms ses" and "v \<in> set (scrape_targets cr ns pms sms ses)"
  shows "has_type v target_type"
proof -
  have ok: "t \<in> set (oa_targets (open_agent cr)) \<Longrightarrow>
        distinct (map fst (entries (psel_match_labels (ot_selector t)))) \<and>
        namespaces_ok (ot_namespace_selector t) \<and> endpoints_ok (ot_endpoints t)"
    "m \<in> set (pms @ sms) \<Longrightarrow> distinct (map fst (entries (psel_match_labels (mo_selector m)))) \<and>
        pred_option namespaces_ok (mo_namespace_selector m) \<and> endpoints_ok (mo_endpoints m)"
    "s \<in> set ses \<Longrightarrow> endpoints_ok (se_endpoints s)" for t m s
    using assms(1) unfolding scrape_maps_ok_def selectors_ok_def list_all_iff by auto
  have "v \<in> set (user_targets cr pms sms ses) \<or> v = toOrderedYAML (gpu_target (k8s_agent cr) ns)"
    using assms(2) by (auto simp: scrape_targets_def Let_def split: if_splits)
  then show ?thesis
    using typed_gpu ok
    by (auto simp: user_targets_def pod_monitor_target_def service_monitor_target_def
        typed_inline typed_monitor typed_static simp del: toOrderedYAML.simps)
qed

section \<open>Reading a target\<close>

text \<open>A field with its default, as a reader of the configuration would take it.\<close>

definition str_at :: "string \<Rightarrow> yv \<Rightarrow> string" where
  "str_at k v = (case target_field k v of Some (YStr s) \<Rightarrow> s | _ \<Rightarrow> '''')"

definition bool_at :: "string \<Rightarrow> yv \<Rightarrow> bool" where
  "bool_at k v = (case target_field k v of Some (YBool b) \<Rightarrow> b | _ \<Rightarrow> False)"

definition nat_at :: "string \<Rightarrow> yv \<Rightarrow> nat" where
  "nat_at k v = (case target_field k v of Some (YNat n) \<Rightarrow> n | _ \<Rightarrow> 0)"

definition strs_at :: "string \<Rightarrow> yv \<Rightarrow> string list" where
  "strs_at k v = (case target_field k v of Some (YStrs ss) \<Rightarrow> ss | _ \<Rightarrow> [])"

definition list_at :: "string \<Rightarrow> (yv \<Rightarrow> 'a) \<Rightarrow> yv \<Rightarrow> 'a list" where
  "list_at k f v = (case target_field k v of Some (YList vs) \<Rightarrow> map f vs | _ \<Rightarrow> [])"

definition map_at :: "string \<Rightarrow> yv \<Rightarrow> string gomap" where
  "map_at k v = (case target_field k v of Some (YSlice items) \<Rightarrow> Some (string_items items) | _ \<Rightarrow> None)"

definition params_at :: "string \<Rightarrow> yv \<Rightarrow> string list gomap" where
  "params_at k v =
     (case target_field k v of
        Some (YSlice items) \<Rightarrow> Some (map (\<lambda>(k, v). (k, case v of YStrs ss \<Rightarrow> ss | _ \<Rightarrow> [])) items)
      | _ \<Rightarrow> None)"

definition read_expr :: "yv \<Rightarrow> label_selector_requirement" where
  "read_expr v = \<lparr>lsr_key = str_at ''key'' v, lsr_operator = str_at ''operator'' v,
     lsr_values = strs_at ''values'' v\<rparr>"

definition read_selector :: "yv \<Rightarrow> pod_selector" where
  "read_selector v = \<lparr>psel_match_labels = map_at ''matchLabels'' v,
     psel_match_exprs = list_at ''matchExpressions'' read_expr v\<rparr>"

definition read_namespaces :: "yv \<Rightarrow> namespace_selector" where
  "read_namespaces v = \<lparr>nsel_match_names = strs_at ''matchNames'' v,
     nsel_match_labels = map_at ''matchLabels'' v,
     nsel_match_exprs = list_at ''matchExpressions'' read_expr v\<rparr>"

definition read_relabel :: "yv \<Rightarrow> metric_relabel_config" where
  "read_relabel v = \<lparr>mr_source_labels = strs_at ''source_labels'' v, mr_separator = str_at ''separator'' v,
     mr_regex = str_at ''regex'' v, mr_modulus = nat_at ''modulus'' v,
     mr_target_label = str_at ''target_label'' v, mr_replacement = str_at ''replacement'' v,
     mr_action = str_at ''action'' v\<rparr>"

definition read_secret :: "yv \<Rightarrow> secret_key_selector" where
  "read_secret v = \<lparr>sks_name = str_at ''name'' v, sks_key = str_at ''key'' v,
     sks_namespace = str_at ''namespace'' v\<rparr>"

definition read_auth :: "yv \<Rightarrow> authorization_config" where
  "read_auth v = \<lparr>au_type = str_at ''type'' v, au_credentials = str_at ''credentials'' v,
     au_credentials_env = str_at ''credentialsEnv'' v, au_credentials_file = str_at ''credentialsFile'' v,
     au_credentials_secret = map_option read_secret (target_field ''credentialsSecret'' v)\<rparr>"

definition read_basic :: "yv \<Rightarrow> basic_auth_config" where
  "read_basic v = \<lparr>ba_username = map_option read_secret (target_field ''username'' v),
     ba_password = map_option read_secret (target_field ''password'' v)\<rparr>"

definition read_tls :: "yv \<Rightarrow> tls_config" where
  "read_tls v = \<lparr>tls_insecure_skip_verify = bool_at ''insecureSkipVerify'' v,
     tls_ca_secret = None, tls_cert_secret = None, tls_key_secret = None,
     tls_ca_file = str_at ''caFile'' v, tls_cert_file = str_at ''certFile'' v,
     tls_key_file = str_at ''keyFile'' v, tls_server_name = str_at ''serverName'' v\<rparr>"

definition read_endpoint :: "yv \<Rightarrow> open_agent_endpoint" where
  "read_endpoint v =
     \<lparr>oe_port = str_at ''port'' v, oe_address = str_at ''address'' v, oe_path = str_at ''path'' v,
      oe_interval = str_at ''interval'' v, oe_scheme = str_at ''scheme'' v,
      oe_tls = map_option read_tls (target_field ''tlsConfig'' v),
      oe_basic_auth = map_option read_basic (target_field ''basicAuth'' v),
      oe_authorization = map_option read_auth (target_field ''authorization'' v),
      oe_metric_relabel = list_at ''metricRelabelConfigs'' read_relabel v,
      oe_params = params_at ''params'' v, oe_add_node_label = bool_at ''addNodeLabel'' v\<rparr>"

definition read_target :: "yv \<Rightarrow> open_agent_target_spec" where
  "read_target v =
     \<lparr>ot_target_name = str_at ''targetName'' v, ot_type = str_at ''type'' v,
      ot_namespace_selector = read_namespaces
        (case target_field ''namespaceSelector'' v of None \<Rightarrow> YSlice [] | Some x \<Rightarrow> x),
      ot_selector = read_selector (case target_field ''selector'' v of None \<Rightarrow> YSlice [] | Some x \<Rightarrow> x),
      ot_relabel = list_at ''relabelConfigs'' read_relabel v,
      ot_endpoints = list_at ''endpoints'' read_endpoint v, ot_enabled = bool_at ''enabled'' v\<rparr>"

section \<open>What is delivered\<close>

text \<open>Maps with their keys in order and no empty ones; a TLS secret is the file it is mounted as.\<close>

definition in_order :: "'v gomap \<Rightarrow> 'v gomap" where
  "in_order m = (if entries m = [] then None else Some (sort_key fst (entries m)))"

definition delivered_tls :: "tls_config \<Rightarrow> tls_config" where
  "delivered_tls tls =
     (let file = (\<lambda>f s. if f \<noteq> '''' then f else case s of None \<Rightarrow> '''' | Some x \<Rightarrow> tls_path x)
      in tls\<lparr>tls_ca_secret := None, tls_cert_secret := None, tls_key_secret := None,
        tls_ca_file := file (tls_ca_file tls) (tls_ca_secret tls),
        tls_cert_file := file (tls_cert_file tls) (tls_cert_secret tls),
        tls_key_file := file (tls_key_file tls) (tls_key_secret tls)\<rparr>)"

definition delivered_endpoint :: "open_agent_endpoint \<Rightarrow> open_agent_endpoint" where
  "delivered_endpoint e =
     e\<lparr>oe_tls := map_option delivered_tls (oe_tls e), oe_params := in_order (oe_params e)\<rparr>"

definition delivered :: "open_agent_target_spec \<Rightarrow> open_agent_target_spec" where
  "delivered t =
     t\<lparr>ot_selector := (ot_selector t)\<lparr>psel_match_labels := in_order (psel_match_labels (ot_selector t))\<rparr>,
       ot_namespace_selector := (ot_namespace_selector t)\<lparr>nsel_match_labels :=
         in_order (nsel_match_labels (ot_namespace_selector t))\<rparr>,
       ot_endpoints := map delivered_endpoint (ot_endpoints t)\<rparr>"

text \<open>A monitor is a target of its own: everything in its namespace unless it selects namespaces,
  and one more rule for its job label.\<close>

definition with_job :: "metric_relabel_config list \<Rightarrow> string \<Rightarrow> metric_relabel_config list" where
  "with_job rcs job =
     rcs @ (if job = '''' then []
       else [\<lparr>mr_source_labels = [job], mr_separator = '''', mr_regex = '''', mr_modulus = 0,
              mr_target_label = ''job'', mr_replacement = '''', mr_action = ''replace''\<rparr>])"

definition monitor_job :: "string \<Rightarrow> monitor \<Rightarrow> open_agent_target_spec" where
  "monitor_job ty m =
     \<lparr>ot_target_name = mo_namespace m @ ''/'' @ mo_name m, ot_type = ty,
      ot_namespace_selector =
        (case mo_namespace_selector m of
           None \<Rightarrow> \<lparr>nsel_match_names = [mo_namespace m], nsel_match_labels = None, nsel_match_exprs = []\<rparr>
         | Some sel \<Rightarrow> sel),
      ot_selector = mo_selector m, ot_relabel = with_job (mo_relabel m) (mo_job_label m),
      ot_endpoints = mo_endpoints m, ot_enabled = True\<rparr>"

definition static_job :: "static_endpoint \<Rightarrow> open_agent_target_spec" where
  "static_job s =
     \<lparr>ot_target_name = se_namespace s @ ''/'' @ se_name s, ot_type = ''StaticEndpoints'',
      ot_namespace_selector = zero_namespace_selector, ot_selector = zero_pod_selector,
      ot_relabel = with_job (se_relabel s) (se_job_label s), ot_endpoints = se_endpoints s,
      ot_enabled = True\<rparr>"

definition scrape_jobs ::
  "whatap_agent \<Rightarrow> monitor list \<Rightarrow> monitor list \<Rightarrow> static_endpoint list \<Rightarrow> open_agent_target_spec list" where
  "scrape_jobs cr pms sms ses =
     filter ot_enabled (oa_targets (open_agent cr)) @ map (monitor_job ''PodMonitor'') pms @
     map (monitor_job ''ServiceMonitor'') sms @ map static_job ses"

section \<open>What is read is what was delivered\<close>

lemmas reading_defs = str_at_def bool_at_def nat_at_def strs_at_def list_at_def map_at_def params_at_def

lemma map_of_two [simp]:
  "map_of ((k, v) # es) j = (if j = k then Some v else map_of es j)"
  by auto

lemma sort_items:
  assumes "distinct (map fst es)"
  shows "sort_key fst (map (\<lambda>(k, v). (k, f v)) es) = map (\<lambda>(k, v). (k, f v)) (sort_key fst es)"
proof (rule sort_key_inj_key_eq)
  show "mset (map (\<lambda>(k, v). (k, f v)) es) = mset (map (\<lambda>(k, v). (k, f v)) (sort_key fst es))" by simp
  show "inj_on fst (set (map (\<lambda>(k, v). (k, f v)) es))"
    using assms by (metis distinct_map map_fst_items)
  show "sorted (map fst (map (\<lambda>(k, v). (k, f v)) (sort_key fst es)))"
    unfolding map_fst_items by (rule sorted_sort_key)
qed

lemma read_map:
  assumes "distinct (map fst es)"
  shows "string_items (sort_key fst (map (\<lambda>(k, v). (k, YStr v)) es)) = sort_key fst es"
proof -
  have "distinct (map fst ([] @ sort_key fst es))"
    using assms by (metis append_Nil mset_eq_imp_distinct_iff mset_map mset_sort)
  then show ?thesis
    using string_items_strings [of "[]" "sort_key fst es"]
    by (simp add: string_items_def sort_items [OF assms])
qed

lemma read_params:
  fixes es :: "string list entries"
  assumes "distinct (map fst es)"
  shows "map (\<lambda>(k, v). (k, case v of YStrs ss \<Rightarrow> ss | _ \<Rightarrow> [])) (sort_key fst (map (\<lambda>(k, v). (k, YStrs v)) es)) =
           sort_key fst es"
proof -
  have "map (\<lambda>(k, v). (k, case v of YStrs ss \<Rightarrow> ss | _ \<Rightarrow> [])) (map (\<lambda>(k, v). (k, YStrs v)) xs) = xs"
    for xs :: "string list entries"
    by (induction xs) auto
  then show ?thesis unfolding sort_items [OF assms] .
qed

lemma read_relabels: "map read_relabel (map toOrderedYAML (convertRelabelConfigs rcs)) = rcs"
proof -
  have "read_relabel (toOrderedYAML (YMap
      (opt (mr_source_labels rc \<noteq> []) ''source_labels'' (YStrs (mr_source_labels rc)) @
       opt_str ''separator'' (mr_separator rc) @ opt_str ''regex'' (mr_regex rc) @
       opt (mr_modulus rc \<noteq> 0) ''modulus'' (YNat (mr_modulus rc)) @
       opt_str ''target_label'' (mr_target_label rc) @ opt_str ''replacement'' (mr_replacement rc) @
       opt_str ''action'' (mr_action rc)))) = rc" (is "read_relabel (toOrderedYAML (YMap ?es)) = rc") for rc
  proof -
    have d: "distinct (map fst ?es)"
      by (rule keys_distinct, (rule keys_items)+) simp
    show ?thesis
      unfolding read_relabel_def reading_defs target_field_ordered [OF d]
      by (simp del: map_of_append)
  qed
  then show ?thesis unfolding convertRelabelConfigs_def by (simp del: toOrderedYAML.simps cong: map_cong)
qed

lemma read_exprs:
  "(case toOrderedYAML (convert_exprs es) of YList vs \<Rightarrow> map read_expr vs | _ \<Rightarrow> []) = es"
proof -
  have "read_expr (toOrderedYAML (YMap [(''key'', YStr (lsr_key e)), (''operator'', YStr (lsr_operator e)),
      (''values'', YStrs (lsr_values e))])) = e" for e
    by (simp add: read_expr_def reading_defs target_field_def slice_field_def)
  then show ?thesis unfolding convert_exprs_def by (simp del: toOrderedYAML.simps(1-3) cong: map_cong)
qed

lemma read_selector_ordered:
  assumes "distinct (map fst (entries (psel_match_labels sel)))"
  shows "read_selector (toOrderedYAML (convertLabelSelector sel)) =
           sel\<lparr>psel_match_labels := in_order (psel_match_labels sel)\<rparr>"
proof -
  let ?es = "opt (entries (psel_match_labels sel) \<noteq> []) ''matchLabels'' (YStrMap (entries (psel_match_labels sel))) @
    opt (psel_match_exprs sel \<noteq> []) ''matchExpressions'' (convert_exprs (psel_match_exprs sel))"
  have d: "distinct (map fst ?es)" by (rule keys_distinct, (rule keys_items)+) simp
  show ?thesis
    unfolding read_selector_def reading_defs convertLabelSelector_def target_field_ordered [OF d]
    by (simp add: in_order_def read_map [OF assms] read_exprs del: map_of_append)
qed

lemma read_namespaces_ordered:
  assumes "namespaces_ok sel"
  shows "read_namespaces (toOrderedYAML (YMap (convert_namespace_selector sel))) =
           sel\<lparr>nsel_match_labels := in_order (nsel_match_labels sel)\<rparr>"
proof -
  let ?es = "opt (nsel_match_names sel \<noteq> []) ''matchNames'' (YStrs (nsel_match_names sel)) @
    opt (entries (nsel_match_labels sel) \<noteq> []) ''matchLabels'' (YStrMap (entries (nsel_match_labels sel))) @
    opt (nsel_match_exprs sel \<noteq> []) ''matchExpressions'' (convert_exprs (nsel_match_exprs sel))"
  have d: "distinct (map fst ?es)" by (rule keys_distinct, (rule keys_items)+) simp
  show ?thesis
    unfolding read_namespaces_def reading_defs convert_namespace_selector_def target_field_ordered [OF d]
    by (simp add: in_order_def read_map assms [unfolded namespaces_ok_def] read_exprs del: map_of_append)
qed

lemma read_secret_ordered: "read_secret (toOrderedYAML (secret_ref s)) = s"
  by (simp add: read_secret_def reading_defs secret_ref_def target_field_def slice_field_def)

lemma read_basic_ordered: "read_basic (toOrderedYAML (convert_basic_auth ba)) = ba"
proof -
  have d: "distinct (map fst (opt_secret ''username'' (ba_username ba) @ opt_secret ''password'' (ba_password ba)))"
    by (rule keys_distinct, (rule keys_items)+) simp
  show ?thesis
    unfolding read_basic_def convert_basic_auth_def target_field_ordered [OF d]
    by (cases "ba_username ba"; cases "ba_password ba") (simp_all add: read_secret_ordered del: map_of_append)
qed

lemma read_auth_ordered: "buildAuthorizationMap (Some a) = Some v \<Longrightarrow> read_auth (toOrderedYAML v) = a"
proof -
  assume v: "buildAuthorizationMap (Some a) = Some v"
  let ?es = "opt_str ''type'' (au_type a) @ opt_str ''credentials'' (au_credentials a) @
    opt_str ''credentialsEnv'' (au_credentials_env a) @ opt_str ''credentialsFile'' (au_credentials_file a) @
    opt_secret ''credentialsSecret'' (au_credentials_secret a)"
  have v: "v = YMap ?es" using v by (simp add: buildAuthorizationMap_def)
  have d: "distinct (map fst ?es)" by (rule keys_distinct, (rule keys_items)+) simp
  show ?thesis
    unfolding read_auth_def reading_defs v target_field_ordered [OF d]
    by (cases "au_credentials_secret a") (simp_all add: read_secret_ordered del: map_of_append)
qed

lemma read_tls_ordered: "read_tls (toOrderedYAML (convert_tls tls)) = delivered_tls tls"
proof -
  let ?es = "(''insecureSkipVerify'', YBool (tls_insecure_skip_verify tls)) #
    tls_file ''caFile'' (tls_ca_file tls) (tls_ca_secret tls) @
    tls_file ''certFile'' (tls_cert_file tls) (tls_cert_secret tls) @
    tls_file ''keyFile'' (tls_key_file tls) (tls_key_secret tls) @
    opt_str ''serverName'' (tls_server_name tls)"
  have d: "distinct (map fst ?es)" by (rule keys_distinct, (rule keys_items)+) simp
  show ?thesis
    unfolding read_tls_def reading_defs convert_tls_def append_Cons append_Nil target_field_ordered [OF d]
    by (simp add: delivered_tls_def split: option.split del: map_of_append)
qed

lemma read_endpoint_ordered:
  assumes "distinct (map fst (entries (oe_params e)))"
  shows "read_endpoint (toOrderedYAML (convert_endpoint e)) = delivered_endpoint e"
proof -
  let ?es = "opt_str ''port'' (oe_port e) @ opt_str ''address'' (oe_address e) @
    opt_str ''path'' (oe_path e) @ opt_str ''interval'' (oe_interval e) @ opt_str ''scheme'' (oe_scheme e) @
    (case oe_basic_auth e of None \<Rightarrow> [] | Some ba \<Rightarrow> [(''basicAuth'', convert_basic_auth ba)]) @
    (case buildAuthorizationMap (oe_authorization e) of None \<Rightarrow> [] | Some a \<Rightarrow> [(''authorization'', a)]) @
    (case oe_tls e of None \<Rightarrow> [] | Some tls \<Rightarrow> [(''tlsConfig'', convert_tls tls)]) @
    opt (entries (oe_params e) \<noteq> []) ''params'' (YStrsMap (entries (oe_params e))) @
    opt (oe_add_node_label e) ''addNodeLabel'' (YBool (oe_add_node_label e)) @
    opt (oe_metric_relabel e \<noteq> []) ''metricRelabelConfigs'' (YList (convertRelabelConfigs (oe_metric_relabel e)))"
  have d: "distinct (map fst ?es)" by (rule keys_distinct, (rule keys_items)+) simp
  define es where "es = ?es"
  have fields: "map_of es ''port'' = (if oe_port e \<noteq> [] then Some (YStr (oe_port e)) else None)"
    "map_of es ''address'' = (if oe_address e \<noteq> [] then Some (YStr (oe_address e)) else None)"
    "map_of es ''path'' = (if oe_path e \<noteq> [] then Some (YStr (oe_path e)) else None)"
    "map_of es ''interval'' = (if oe_interval e \<noteq> [] then Some (YStr (oe_interval e)) else None)"
    "map_of es ''scheme'' = (if oe_scheme e \<noteq> [] then Some (YStr (oe_scheme e)) else None)"
    "map_of es ''basicAuth'' = map_option convert_basic_auth (oe_basic_auth e)"
    "map_of es ''authorization'' = buildAuthorizationMap (oe_authorization e)"
    "map_of es ''tlsConfig'' = map_option convert_tls (oe_tls e)"
    "map_of es ''params'' = (if entries (oe_params e) \<noteq> [] then Some (YStrsMap (entries (oe_params e))) else None)"
    "map_of es ''addNodeLabel'' = (if oe_add_node_label e then Some (YBool True) else None)"
    "map_of es ''metricRelabelConfigs'' = (if oe_metric_relabel e \<noteq> []
       then Some (YList (convertRelabelConfigs (oe_metric_relabel e))) else None)"
    unfolding es_def by (simp_all add: map_option_case del: map_of_append split: option.split)
  have auth: "map_option read_auth (map_option toOrderedYAML (buildAuthorizationMap a)) = a" for a
  proof (cases a)
    case (Some x)
    then obtain v where v: "buildAuthorizationMap (Some x) = Some v" by (simp add: buildAuthorizationMap_def)
    with read_auth_ordered [OF v] Some show ?thesis by simp
  qed (simp add: buildAuthorizationMap_def)
  show ?thesis
    unfolding read_endpoint_def reading_defs convert_endpoint_def target_field_ordered [OF d]
    unfolding es_def [symmetric] fields
    by (rule open_agent_endpoint.equality)
      (simp_all add: delivered_endpoint_def in_order_def read_params [OF assms]
        read_relabels [unfolded map_map o_def] auth [unfolded option.map_comp o_def]
        option.map_comp o_def read_basic_ordered read_tls_ordered option.map_ident)
qed

lemma read_endpoints:
  "endpoints_ok es \<Longrightarrow> map read_endpoint (map toOrderedYAML (convertEndpoints es)) = map delivered_endpoint es"
  by (auto simp: convertEndpoints_def endpoints_ok_def list_all_iff read_endpoint_ordered
      simp del: toOrderedYAML.simps)

lemma read_empty:
  "read_selector (YSlice []) = zero_pod_selector" "read_namespaces (YSlice []) = zero_namespace_selector"
  by (simp_all add: read_selector_def read_namespaces_def reading_defs target_field_def slice_field_def
      zero_defs)

text \<open>All targets have the same shape, with four parts that may be missing.\<close>

definition shape :: "string \<Rightarrow> string \<Rightarrow> bool \<Rightarrow> yv option \<Rightarrow> yv option \<Rightarrow> yv list \<Rightarrow> yv list \<Rightarrow> (string \<times> yv) list" where
  "shape name ty b namespaces selector rs ends =
     (''targetName'', YStr name) # (''type'', YStr ty) # (''enabled'', YBool b) #
     (case namespaces of None \<Rightarrow> [] | Some v \<Rightarrow> [(''namespaceSelector'', v)]) @
     (case selector of None \<Rightarrow> [] | Some v \<Rightarrow> [(''selector'', v)]) @
     opt (rs \<noteq> []) ''relabelConfigs'' (YList rs) @ opt (ends \<noteq> []) ''endpoints'' (YList ends)"

lemma read_shape:
  "read_target (toOrderedYAML (YMap (shape name ty b namespaces selector rs ends))) =
    \<lparr>ot_target_name = name, ot_type = ty,
     ot_namespace_selector = (case namespaces of None \<Rightarrow> zero_namespace_selector
       | Some v \<Rightarrow> read_namespaces (toOrderedYAML v)),
     ot_selector = (case selector of None \<Rightarrow> zero_pod_selector | Some v \<Rightarrow> read_selector (toOrderedYAML v)),
     ot_relabel = map read_relabel (map toOrderedYAML rs),
     ot_endpoints = map read_endpoint (map toOrderedYAML ends), ot_enabled = b\<rparr>"
proof -
  let ?es = "shape name ty b namespaces selector rs ends"
  have d: "distinct (map fst ?es)"
    unfolding shape_def by (rule keys_distinct, (rule keys_items)+) simp
  have parts: "map_of ?es ''targetName'' = Some (YStr name)" "map_of ?es ''type'' = Some (YStr ty)"
    "map_of ?es ''enabled'' = Some (YBool b)" "map_of ?es ''namespaceSelector'' = namespaces"
    "map_of ?es ''selector'' = selector"
    "map_of ?es ''relabelConfigs'' = (if rs = [] then None else Some (YList rs))"
    "map_of ?es ''endpoints'' = (if ends = [] then None else Some (YList ends))"
    unfolding shape_def by (auto simp del: map_of_append)
  show ?thesis
    unfolding read_target_def reading_defs target_field_ordered [OF d] parts
    by (cases namespaces; cases selector) (simp_all add: read_empty)
qed

lemma read_inline:
  assumes "distinct (map fst (entries (psel_match_labels (ot_selector t))))"
    and "namespaces_ok (ot_namespace_selector t)" and "endpoints_ok (ot_endpoints t)"
  shows "read_target (toOrderedYAML (inline_target t)) = delivered t"
proof -
  let ?nsel = "ot_namespace_selector t" and ?sel = "ot_selector t"
  let ?nempty = "nsel_match_names ?nsel = [] \<and> entries (nsel_match_labels ?nsel) = [] \<and> nsel_match_exprs ?nsel = []"
  let ?sempty = "entries (psel_match_labels ?sel) = [] \<and> psel_match_exprs ?sel = []"
  have es: "inline_target t = YMap (shape (ot_target_name t) (ot_type t) (ot_enabled t)
      (if ?nempty then None else Some (YMap (convert_namespace_selector ?nsel)))
      (if ?sempty then None else Some (convertLabelSelector ?sel))
      (convertRelabelConfigs (ot_relabel t)) (convertEndpoints (ot_endpoints t)))"
    by (simp add: inline_target_def shape_def opt_def inline_endpoints_eq convertRelabelConfigs_def
        convertEndpoints_def)
  have namespaces: "(case (if ?nempty then None else Some (YMap (convert_namespace_selector ?nsel))) of
      None \<Rightarrow> zero_namespace_selector | Some v \<Rightarrow> read_namespaces (toOrderedYAML v)) =
    ?nsel\<lparr>nsel_match_labels := in_order (nsel_match_labels ?nsel)\<rparr>"
    using read_namespaces_ordered [OF assms(2)]
    by (auto simp: in_order_def zero_namespace_selector_def simp del: toOrderedYAML.simps
        intro!: namespace_selector.equality)
  have selector: "(case (if ?sempty then None else Some (convertLabelSelector ?sel)) of
      None \<Rightarrow> zero_pod_selector | Some v \<Rightarrow> read_selector (toOrderedYAML v)) =
    ?sel\<lparr>psel_match_labels := in_order (psel_match_labels ?sel)\<rparr>"
    using read_selector_ordered [OF assms(1)]
    by (auto simp: in_order_def zero_pod_selector_def simp del: toOrderedYAML.simps
        intro!: pod_selector.equality)
  show ?thesis
    unfolding es read_shape namespaces selector read_relabels read_endpoints [OF assms(3)]
    by (simp add: delivered_def)
qed

lemma read_job: "map read_relabel (map toOrderedYAML (job_relabel rcs job)) = with_job rcs job"
proof -
  have "read_relabel (toOrderedYAML (YMap [(''source_labels'', YStrs [job]), (''target_label'', YStr ''job''),
      (''action'', YStr ''replace'')])) =
    \<lparr>mr_source_labels = [job], mr_separator = '''', mr_regex = '''', mr_modulus = 0,
     mr_target_label = ''job'', mr_replacement = '''', mr_action = ''replace''\<rparr>"
    by (simp add: read_relabel_def reading_defs target_field_def slice_field_def)
  then show ?thesis
    using read_relabels [of rcs] by (auto simp: job_relabel_def with_job_def simp del: toOrderedYAML.simps)
qed

lemma read_monitor:
  assumes "distinct (map fst (entries (psel_match_labels (mo_selector m))))"
    and "pred_option namespaces_ok (mo_namespace_selector m)" and "endpoints_ok (mo_endpoints m)"
  shows "read_target (toOrderedYAML (monitor_target ty m)) = delivered (monitor_job ty m)"
proof -
  let ?ns = "case mo_namespace_selector m of Some sel \<Rightarrow> convert_namespace_selector sel
    | None \<Rightarrow> [(''matchNames'', YStrs [mo_namespace m])]"
  have es: "monitor_target ty m = YMap (shape (mo_namespace m @ ''/'' @ mo_name m) ty True (Some (YMap ?ns))
      (Some (convertLabelSelector (mo_selector m))) (job_relabel (mo_relabel m) (mo_job_label m))
      (convertEndpoints (mo_endpoints m)))"
    by (simp add: monitor_target_def shape_def opt_def monitor_name_def convertEndpoints_def)
  have "read_namespaces (toOrderedYAML (YMap [(''matchNames'', YStrs [mo_namespace m])])) =
      \<lparr>nsel_match_names = [mo_namespace m], nsel_match_labels = None, nsel_match_exprs = []\<rparr>"
    by (simp add: read_namespaces_def reading_defs target_field_def slice_field_def)
  then have namespaces: "read_namespaces (toOrderedYAML (YMap ?ns)) =
      (ot_namespace_selector (monitor_job ty m))\<lparr>nsel_match_labels :=
        in_order (nsel_match_labels (ot_namespace_selector (monitor_job ty m)))\<rparr>"
    using assms(2) read_namespaces_ordered
    by (cases "mo_namespace_selector m") (simp_all add: monitor_job_def in_order_def)
  show ?thesis
    unfolding es read_shape option.case namespaces read_selector_ordered [OF assms(1)] read_job
      read_endpoints [OF assms(3)]
    by (simp add: delivered_def monitor_job_def)
qed

lemma read_static:
  assumes "endpoints_ok (se_endpoints s)"
  shows "read_target (toOrderedYAML (static_target s)) = delivered (static_job s)"
proof -
  have es: "static_target s = YMap (shape (se_namespace s @ ''/'' @ se_name s) ''StaticEndpoints'' True None None
      (job_relabel (se_relabel s) (se_job_label s)) (convertEndpoints (se_endpoints s)))"
    by (simp add: static_target_def shape_def opt_def monitor_name_def convertEndpoints_def)
  show ?thesis
    unfolding es read_shape option.case read_job read_endpoints [OF assms]
    by (simp add: delivered_def static_job_def in_order_def zero_namespace_selector_def zero_pod_selector_def)
qed

text \<open>C21. Nothing the user writes is lost on the way to the open agent: read back from the ordered
  values, the rendered targets are the enabled targets of the custom resource and one target per
  monitor and static endpoint, in this order, with every field as it was written, except that
  the maps are in the order of their keys and a TLS secret has become the file it is mounted as.\<close>

theorem scrape_targets_roundtrip:
  assumes "scrape_maps_ok cr pms sms ses"
  shows "map read_target (user_targets cr pms sms ses) = map delivered (scrape_jobs cr pms sms ses)"
proof -
  have "t \<in> set (oa_targets (open_agent cr)) \<Longrightarrow> read_target (toOrderedYAML (inline_target t)) = delivered t"
    "m \<in> set (pms @ sms) \<Longrightarrow> read_target (toOrderedYAML (monitor_target ty m)) = delivered (monitor_job ty m)"
    "s \<in> set ses \<Longrightarrow> read_target (toOrderedYAML (static_target s)) = delivered (static_job s)" for t m s ty
    using assms unfolding scrape_maps_ok_def selectors_ok_def list_all_iff
    by (auto intro: read_inline read_monitor read_static)
  then show ?thesis
    by (auto simp: user_targets_def scrape_jobs_def pod_monitor_target_def service_monitor_target_def
        simp del: toOrderedYAML.simps)
qed

text \<open>A monitor in two namespaces, with a job label, a TLS secret and labels in no order.\<close>

definition tls_monitor :: monitor where
  "tls_monitor =
     (sample_monitor ''shop'' [(''tier'', ''db''), (''app'', ''sql'')])\<lparr>
       mo_namespace_selector := Some (zero_namespace_selector\<lparr>nsel_match_names := [''shop'', ''ops'']\<rparr>),
       mo_job_label := ''app'',
       mo_endpoints := [zero_endpoint\<lparr>oe_port := ''9104'', oe_tls := Some (zero_tls\<lparr>
         tls_ca_secret := Some \<lparr>sks_name = ''ca'', sks_key = ''tls.crt'', sks_namespace = ''''\<rparr>\<rparr>)\<rparr>]\<rparr>"

lemma tls_monitor_ok: "scrape_maps_ok gpu_sample [tls_monitor] [] []"
  by (simp add: scrape_maps_ok_def selectors_ok_def gpu_sample_fields tls_monitor_def sample_monitor_def
      endpoints_ok_def namespaces_ok_def zero_namespace_selector_def zero_endpoint_def)

lemma scrape_targets_roundtrip_witness:
  "\<exists>t. map read_target (user_targets gpu_sample [tls_monitor] [] []) = [t] \<and> ot_target_name t = ''shop/m'' \<and>
     psel_match_labels (ot_selector t) = Some [(''app'', ''sql''), (''tier'', ''db'')] \<and>
     map (map_option tls_ca_file \<circ> oe_tls) (ot_endpoints t) = [Some ''/etc/ssl/certs/ca/tls.crt'']"
  unfolding scrape_targets_roundtrip [OF tls_monitor_ok]
  by (simp add: scrape_jobs_def gpu_sample_fields delivered_def monitor_job_def tls_monitor_def
      sample_monitor_def in_order_def delivered_endpoint_def delivered_tls_def zero_endpoint_def
      zero_tls_def tls_path_def)

lemma scrape_targets_typed_witness:
  "has_type (toOrderedYAML (pod_monitor_target tls_monitor)) target_type"
proof (rule scrape_targets_typed [OF tls_monitor_ok])
  show "toOrderedYAML (pod_monitor_target tls_monitor) \<in> set (scrape_targets gpu_sample ''whatap'' [tls_monitor] [] [])"
    by (simp add: scrape_targets_def user_targets_def Let_def del: toOrderedYAML.simps)
qed

end
