(* ===== verification/GoMemory.thy ===== *)
theory GoMemory
  imports WhatapPrelude
begin

text \<open>
  Go values that live in memory, as far as copying and sharing them goes: pointers, slices and
  maps refer to cells, structs and scalars are held in place.  On them the forms of statement the
  generated copy functions are made of (\<open>src/api/v2alpha1/zz_generated.deepcopy.go\<close>), and what it
  means that a function copies deeply: the copy reads the same, what was there is untouched, and
  the copy owns each of its cells alone.
\<close>

section \<open>Memory\<close>

text \<open>
  A pointer and a map are an address; a slice is an address, the index it starts at and its
  length, so that two slices may share an array.  The nil pointer, slice and map are one value;
  the types tell them apart.  A scalar holds no address.
\<close>

type_synonym address = nat

datatype go_value =
    Scalar opaque
  | NilRef
  | Ref address
  | Slice address nat nat
  | Struct "(string \<times> go_value) list"

datatype cell =
    Pointee go_value
  | Elements "go_value list"
  | Entries "(string \<times> go_value) list"

type_synonym memory = "cell list"

text \<open>Cells are never freed: a new cell comes after all others.\<close>

definition new_cell :: "cell \<Rightarrow> memory \<Rightarrow> address \<times> memory" where
  "new_cell c m = (length m, m @ [c])"

definition cell_at :: "memory \<Rightarrow> address \<Rightarrow> cell option" where
  "cell_at m a = (if a < length m then Some (m ! a) else None)"

section \<open>Types and what a value reads as\<close>

datatype go_type =
    ScalarT
  | PointerTo go_type
  | SliceOf go_type
  | MapOf go_type
  | StructOf "(string \<times> go_type) list"

datatype go_tree =
    Atom opaque
  | Absent
  | Pointed go_tree
  | Many "go_tree list"
  | Keyed "(string \<times> go_tree) list"
  | Parts "(string \<times> go_tree) list"

text \<open>
  \<open>reads m T v t as\<close>: in the memory \<open>m\<close> the value \<open>v\<close> of type \<open>T\<close> reads as the tree \<open>t\<close>, by way of
  the cells \<open>as\<close>, in order and with repetitions.
\<close>

inductive reads :: "memory \<Rightarrow> go_type \<Rightarrow> go_value \<Rightarrow> go_tree \<Rightarrow> address list \<Rightarrow> bool"
  and reads_all :: "memory \<Rightarrow> go_type list \<Rightarrow> go_value list \<Rightarrow> go_tree list \<Rightarrow> address list \<Rightarrow> bool"
where
  scalar: "reads m ScalarT (Scalar s) (Atom s) []"
| nil_pointer: "reads m (PointerTo T) NilRef Absent []"
| nil_slice: "reads m (SliceOf T) NilRef Absent []"
| nil_map: "reads m (MapOf T) NilRef Absent []"
| points: "cell_at m a = Some (Pointee v) \<Longrightarrow> reads m T v t as \<Longrightarrow>
     reads m (PointerTo T) (Ref a) (Pointed t) (a # as)"
| elements: "cell_at m a = Some (Elements vs) \<Longrightarrow> i + n \<le> length vs \<Longrightarrow>
     reads_all m (replicate n T) (take n (drop i vs)) ts as \<Longrightarrow>
     reads m (SliceOf T) (Slice a i n) (Many ts) (a # as)"
| entries: "cell_at m a = Some (Entries es) \<Longrightarrow>
     reads_all m (replicate (length es) T) (map snd es) ts as \<Longrightarrow>
     reads m (MapOf T) (Ref a) (Keyed (zip (map fst es) ts)) (a # as)"
| parts: "map fst vs = map fst fs \<Longrightarrow> reads_all m (map snd fs) (map snd vs) ts as \<Longrightarrow>
     reads m (StructOf fs) (Struct vs) (Parts (zip (map fst fs) ts)) as"
| none_left: "reads_all m [] [] [] []"
| one_more: "reads m T v t as \<Longrightarrow> reads_all m Ts vs ts bs \<Longrightarrow>
     reads_all m (T # Ts) (v # vs) (t # ts) (as @ bs)"

inductive_cases reads_scalarE: "reads m ScalarT v t as"
inductive_cases reads_pointerE: "reads m (PointerTo T) v t as"
inductive_cases reads_sliceE: "reads m (SliceOf T) v t as"
inductive_cases reads_mapE: "reads m (MapOf T) v t as"
inductive_cases reads_structE: "reads m (StructOf fs) v t as"

lemmas reads_pointer_cases [consumes 1, case_names nil cell] = reads_pointerE
lemmas reads_slice_cases [consumes 1, case_names nil cell] = reads_sliceE
lemmas reads_map_cases [consumes 1, case_names nil cell] = reads_mapE
lemmas reads_struct_cases [consumes 1, case_names parts] = reads_structE

inductive_simps reads_all_nil [simp]: "reads_all m [] vs ts as"
inductive_simps reads_all_cons: "reads_all m (T # Ts) vs ts as"

lemma reads_all_length: "reads_all m Ts vs ts as \<Longrightarrow> length vs = length Ts \<and> length ts = length Ts"
  by (induction Ts arbitrary: vs ts as) (auto simp: reads_all_cons)

text \<open>The rules in a form that builds a known tree.\<close>

lemma entries_as:
  assumes "cell_at m a = Some (Entries es)" and "map fst ps = map fst es"
    and "reads_all m (replicate (length es) T) (map snd es) (map snd ps) as"
  shows "reads m (MapOf T) (Ref a) (Keyed ps) (a # as)"
  using entries [OF assms(1,3)] by (simp add: assms(2) [symmetric] zip_map_fst_snd)

lemma parts_as:
  assumes "map fst vs = map fst fs" and "map fst ps = map fst fs"
    and "reads_all m (map snd fs) (map snd vs) (map snd ps) as"
  shows "reads m (StructOf fs) (Struct vs) (Parts ps) as"
  using parts [OF assms(1,3)] by (simp add: assms(2) [symmetric] zip_map_fst_snd)

lemmas reads_intros =
  scalar nil_pointer nil_slice nil_map points elements entries_as parts_as none_left one_more

text \<open>What a value reads as is settled by the cells it goes through.\<close>

lemma reads_frame:
  shows "reads m T v t as \<Longrightarrow> \<forall>a\<in>set as. cell_at m' a = cell_at m a \<Longrightarrow> reads m' T v t as"
    and "reads_all m Ts vs ts as \<Longrightarrow> \<forall>a\<in>set as. cell_at m' a = cell_at m a \<Longrightarrow>
           reads_all m' Ts vs ts as"
  by (induction rule: reads_reads_all.inducts) (auto intro: reads_reads_all.intros)

lemma reads_allocated:
  shows "reads m T v t as \<Longrightarrow> set as \<subseteq> {..<length m}"
    and "reads_all m Ts vs ts as \<Longrightarrow> set as \<subseteq> {..<length m}"
  by (induction rule: reads_reads_all.inducts) (auto simp: cell_at_def split: if_splits)

lemma cell_at_append [simp]: "a < length m \<Longrightarrow> cell_at (m @ new) a = cell_at m a"
  by (simp add: cell_at_def nth_append)

lemma cell_at_new [simp]: "cell_at (m @ c # new) (length m) = Some c"
  by (simp add: cell_at_def)

lemma reads_append:
  shows "reads m T v t as \<Longrightarrow> reads (m @ new) T v t as"
    and "reads_all m Ts vs ts as \<Longrightarrow> reads_all (m @ new) Ts vs ts as"
proof -
  assume r: "reads m T v t as"
  show "reads (m @ new) T v t as"
    by (rule reads_frame(1) [OF r]) (use reads_allocated(1) [OF r] in auto)
next
  assume r: "reads_all m Ts vs ts as"
  show "reads_all (m @ new) Ts vs ts as"
    by (rule reads_frame(2) [OF r]) (use reads_allocated(2) [OF r] in auto)
qed

lemma reads_prefix:
  assumes "reads m T v t as" and "take (length m) m' = m"
  shows "reads m' T v t as"
proof -
  have "m' = m @ drop (length m) m'"
    by (metis append_take_drop_id assms(2))
  then show ?thesis
    using reads_append(1) [OF assms(1)] by metis
qed

lemma reads_nil_iff: "reads m (PointerTo T) v t as \<Longrightarrow> v = NilRef \<longleftrightarrow> t = Absent"
  by (auto elim: reads_pointerE)

text \<open>A value of one type reads as one tree.\<close>

lemma reads_unique:
  shows "reads m T v t as \<Longrightarrow> (\<And>t' bs. reads m T v t' bs \<Longrightarrow> t' = t \<and> bs = as)"
    and "reads_all m Ts vs ts as \<Longrightarrow>
           (\<And>ts' bs. reads_all m Ts vs ts' bs \<Longrightarrow> ts' = ts \<and> bs = as)"
proof (induction rule: reads_reads_all.inducts)
  case (points m a v T t as)
  from points.prems show ?case
  proof (cases rule: reads_pointer_cases)
    case (cell b w t1 as1)
    then show ?thesis using points.hyps(1) points.IH by simp
  qed simp
next
  case (elements m a vs i n T ts as)
  from elements.prems show ?case
  proof (cases rule: reads_slice_cases)
    case (cell b ws j k ts1 as1)
    then show ?thesis using elements.hyps(1) elements.IH by simp
  qed simp
next
  case (entries m a es T ts as)
  from entries.prems show ?case
  proof (cases rule: reads_map_cases)
    case (cell b fs ts1 as1)
    then show ?thesis using entries.hyps(1) entries.IH by simp
  qed simp
next
  case (parts vs fs m ts as)
  from parts.prems show ?case
  proof (cases rule: reads_struct_cases)
    case (parts ws ts1)
    then show ?thesis using parts.IH by simp
  qed
next
  case (one_more m T v t as Ts vs ts bs)
  from one_more.prems show ?case
    unfolding reads_all_cons using one_more.IH by blast
qed (auto elim: reads_scalarE reads_pointerE reads_sliceE reads_mapE)

section \<open>The statements of a copy function\<close>

text \<open>
  A copier makes of a value another one and may allocate.  \<open>plain\<close> is Go's assignment, which copies
  addresses.  \<open>pointer\<close>, \<open>slice\<close> and \<open>table\<close> are the generated blocks for a pointer, a slice and a map
  that is not nil: allocate, copy what is referred to with the given copier, write it there.  The
  address of the new cell is taken after the cells of its content; Go leaves the choice of
  addresses open.  A slice made by \<open>make\<close> starts at 0.
\<close>

type_synonym copier = "go_value \<Rightarrow> memory \<Rightarrow> go_value \<times> memory"

definition plain :: copier where
  "plain v m = (v, m)"

fun copy_all :: "copier \<Rightarrow> go_value list \<Rightarrow> memory \<Rightarrow> go_value list \<times> memory" where
  "copy_all c [] m = ([], m)"
| "copy_all c (v # vs) m =
     (let (v', m1) = c v m; (vs', m2) = copy_all c vs m1 in (v' # vs', m2))"

definition pointer :: "copier \<Rightarrow> copier" where
  "pointer c v m =
     (case v of
        Ref a \<Rightarrow>
          (case cell_at m a of
             Some (Pointee w) \<Rightarrow>
               let (w', m1) = c w m; (b, m2) = new_cell (Pointee w') m1 in (Ref b, m2)
           | _ \<Rightarrow> (v, m))
      | _ \<Rightarrow> (v, m))"

lemma pointer_nil [simp]: "pointer c NilRef m = (NilRef, m)"
  by (simp add: pointer_def)

definition slice :: "copier \<Rightarrow> copier" where
  "slice c v m =
     (case v of
        Slice a i n \<Rightarrow>
          (case cell_at m a of
             Some (Elements vs) \<Rightarrow>
               let (vs', m1) = copy_all c (take n (drop i vs)) m;
                   (b, m2) = new_cell (Elements vs') m1
               in (Slice b 0 n, m2)
           | _ \<Rightarrow> (v, m))
      | _ \<Rightarrow> (v, m))"

definition table :: "copier \<Rightarrow> copier" where
  "table c v m =
     (case v of
        Ref a \<Rightarrow>
          (case cell_at m a of
             Some (Entries es) \<Rightarrow>
               let (vs', m1) = copy_all c (map snd es) m;
                   (b, m2) = new_cell (Entries (zip (map fst es) vs')) m1
               in (Ref b, m2)
           | _ \<Rightarrow> (v, m))
      | _ \<Rightarrow> (v, m))"

text \<open>
  A copy function for a struct assigns the whole struct (\<open>*out = *in\<close>) and then copies some of its
  fields again, one statement after the other: \<open>members\<close> is given the fields and their copiers.
\<close>

fun assign :: "string \<Rightarrow> copier \<Rightarrow> (string \<times> go_value) list \<Rightarrow> memory \<Rightarrow>
    (string \<times> go_value) list \<times> memory" where
  "assign f c [] m = ([], m)"
| "assign f c ((g, v) # vs) m =
     (if g = f then (let (v', m1) = c v m in ((g, v') # vs, m1))
      else (let (vs', m1) = assign f c vs m in ((g, v) # vs', m1)))"

fun statements :: "(string \<times> copier) list \<Rightarrow> (string \<times> go_value) list \<Rightarrow> memory \<Rightarrow>
    (string \<times> go_value) list \<times> memory" where
  "statements [] vs m = (vs, m)"
| "statements ((f, c) # ps) vs m = (let (vs1, m1) = assign f c vs m in statements ps vs1 m1)"

definition members :: "(string \<times> copier) list \<Rightarrow> copier" where
  "members ps v m =
     (case v of
        Struct vs \<Rightarrow> (let (vs', m1) = statements ps vs m in (Struct vs', m1))
      | _ \<Rightarrow> (v, m))"

section \<open>Deep copies\<close>

text \<open>
  The contract: of a value that reads as a tree the copier makes one that reads as the same tree,
  it only adds cells to the memory, and the new value goes through added cells only, through none
  of them twice.
\<close>

definition copied :: "memory \<Rightarrow> memory \<Rightarrow> address list \<Rightarrow> bool" where
  "copied m m' bs \<longleftrightarrow> (\<exists>new. m' = m @ new) \<and> distinct bs \<and> set bs \<subseteq> {length m..<length m'}"

definition deep_copies :: "go_type \<Rightarrow> copier \<Rightarrow> bool" where
  "deep_copies T c \<longleftrightarrow>
     (\<forall>m v t as. reads m T v t as \<longrightarrow>
        (\<exists>bs. reads (snd (c v m)) T (fst (c v m)) t bs \<and> copied m (snd (c v m)) bs))"

lemma deep_copiesI:
  assumes "\<And>m v t as. reads m T v t as \<Longrightarrow>
             \<exists>v' m' bs. c v m = (v', m') \<and> reads m' T v' t bs \<and> copied m m' bs"
  shows "deep_copies T c"
  unfolding deep_copies_def using assms by (metis fst_conv snd_conv)

lemma deep_copiesE:
  assumes "deep_copies T c" and "reads m T v t as"
  obtains v' m' bs where "c v m = (v', m')" and "reads m' T v' t bs" and "copied m m' bs"
  using assms unfolding deep_copies_def by (metis prod.collapse)

lemma copied_refl [simp]: "copied m m []"
  by (simp add: copied_def)

lemma copied_trans:
  assumes "copied m m1 as" and "copied m1 m2 bs"
  shows "copied m m2 (as @ bs)"
proof -
  obtain x y where "m1 = m @ x" and "m2 = m1 @ y"
    using assms by (auto simp: copied_def)
  then show ?thesis
    using assms by (fastforce simp: copied_def)
qed

lemma copied_cell:
  assumes "copied m m1 as"
  shows "copied m (m1 @ [c]) (length m1 # as)"
  using assms by (fastforce simp: copied_def)

lemma copied_appended: "copied m m' bs \<Longrightarrow> \<exists>new. m' = m @ new"
  by (simp add: copied_def)

lemma reads_copied:
  shows "copied m m' bs \<Longrightarrow> reads m T v t as \<Longrightarrow> reads m' T v t as"
    and "copied m m' bs \<Longrightarrow> reads_all m Ts vs ts as \<Longrightarrow> reads_all m' Ts vs ts as"
  using reads_append by (auto dest!: copied_appended)

text \<open>A list of copies, one copier for each value.\<close>

fun copy_each :: "(copier \<times> go_value) list \<Rightarrow> memory \<Rightarrow> go_value list \<times> memory" where
  "copy_each [] m = ([], m)"
| "copy_each ((c, v) # cvs) m =
     (let (v', m1) = c v m; (vs', m2) = copy_each cvs m1 in (v' # vs', m2))"

lemma copy_all_each: "copy_all c vs m = copy_each (map (Pair c) vs) m"
  by (induction vs arbitrary: m) simp_all

lemma copy_each_deep:
  assumes "list_all2 deep_copies Ts cs" and "reads_all m Ts vs ts as"
  shows "\<exists>vs' m' bs. copy_each (zip cs vs) m = (vs', m') \<and> reads_all m' Ts vs' ts bs \<and>
           copied m m' bs"
  using assms
proof (induction Ts cs arbitrary: m vs ts as rule: list_all2_induct)
  case Nil
  then show ?case by auto
next
  case (Cons T Ts c cs)
  from Cons.prems obtain v vs1 t ts1 as1 as2 where
    eqs: "vs = v # vs1" "ts = t # ts1" and v: "reads m T v t as1"
    and rest: "reads_all m Ts vs1 ts1 as2"
    by (auto simp: reads_all_cons)
  obtain v' m1 bs1 where c: "c v m = (v', m1)" "reads m1 T v' t bs1" "copied m m1 bs1"
    using deep_copiesE [OF Cons.hyps(1) v] by blast
  obtain vs' m2 bs2 where d: "copy_each (zip cs vs1) m1 = (vs', m2)"
      "reads_all m2 Ts vs' ts1 bs2" "copied m1 m2 bs2"
    using Cons.IH [OF reads_copied(2) [OF c(3) rest]] by blast
  have "reads_all m2 (T # Ts) (v' # vs') (t # ts1) (bs1 @ bs2)"
    by (intro one_more reads_copied(1) [OF d(3)] c(2) d(2))
  then show ?case
    using c(1) d(1) copied_trans [OF c(3) d(3)] by (auto simp: eqs)
qed

lemma copy_all_deep:
  assumes "deep_copies T c" and "reads_all m (replicate n T) vs ts as"
  shows "\<exists>vs' m' bs. copy_all c vs m = (vs', m') \<and> reads_all m' (replicate n T) vs' ts bs \<and>
           copied m m' bs"
proof -
  have n: "length vs = n"
    using reads_all_length [OF assms(2)] by simp
  have "map (Pair c) vs = zip (replicate n c) vs"
    by (simp add: n [symmetric] zip_replicate1)
  then show ?thesis
    using copy_each_deep [OF _ assms(2), of "replicate n c"] assms(1)
    by (simp add: copy_all_each list_all2_conv_all_nth)
qed

text \<open>One rule for each form of statement; they follow the type.\<close>

lemma deep_copies_scalar: "deep_copies ScalarT plain"
  by (rule deep_copiesI) (auto simp: plain_def elim!: reads_scalarE intro: scalar)

lemma deep_copies_pointer:
  assumes "deep_copies T c"
  shows "deep_copies (PointerTo T) (pointer c)"
proof (rule deep_copiesI)
  fix m v t as
  assume "reads m (PointerTo T) v t as"
  then show "\<exists>v' m' bs. pointer c v m = (v', m') \<and> reads m' (PointerTo T) v' t bs \<and> copied m m' bs"
  proof (cases rule: reads_pointer_cases)
    case nil
    then show ?thesis
      by (intro exI [of _ NilRef] exI [of _ m] exI [of _ "[]"])
        (simp add: pointer_def nil_pointer)
  next
    case (cell a w t1 as1)
    obtain w' m1 bs where c: "c w m = (w', m1)" "reads m1 T w' t1 bs" "copied m m1 bs"
      using deep_copiesE [OF assms cell(5)] by blast
    have "reads (m1 @ [Pointee w']) (PointerTo T) (Ref (length m1)) t (length m1 # bs)"
      unfolding cell(2) by (rule points, simp, rule reads_append(1), rule c(2))
    moreover have "pointer c v m = (Ref (length m1), m1 @ [Pointee w'])"
      using cell(1,4) c(1) by (simp add: pointer_def new_cell_def)
    ultimately show ?thesis
      using copied_cell [OF c(3)] by blast
  qed
qed

lemma deep_copies_slice:
  assumes "deep_copies T c"
  shows "deep_copies (SliceOf T) (slice c)"
proof (rule deep_copiesI)
  fix m v t as
  assume "reads m (SliceOf T) v t as"
  then show "\<exists>v' m' bs. slice c v m = (v', m') \<and> reads m' (SliceOf T) v' t bs \<and> copied m m' bs"
  proof (cases rule: reads_slice_cases)
    case nil
    then show ?thesis
      by (intro exI [of _ NilRef] exI [of _ m] exI [of _ "[]"])
        (simp add: slice_def nil_slice)
  next
    case (cell a ws i n ts as1)
    obtain ws' m1 bs where c: "copy_all c (take n (drop i ws)) m = (ws', m1)"
        "reads_all m1 (replicate n T) ws' ts bs" "copied m m1 bs"
      using copy_all_deep [OF assms cell(6)] by blast
    have "length ws' = n"
      using reads_all_length [OF c(2)] by simp
    then have "reads (m1 @ [Elements ws']) (SliceOf T) (Slice (length m1) 0 n) t (length m1 # bs)"
      unfolding cell(2) by (intro elements [of _ _ ws']) (simp_all add: reads_append(2) c(2))
    moreover have "slice c v m = (Slice (length m1) 0 n, m1 @ [Elements ws'])"
      using cell(1,4) c(1) by (simp add: slice_def new_cell_def)
    ultimately show ?thesis
      using copied_cell [OF c(3)] by blast
  qed
qed

lemma deep_copies_table:
  assumes "deep_copies T c"
  shows "deep_copies (MapOf T) (table c)"
proof (rule deep_copiesI)
  fix m v t as
  assume "reads m (MapOf T) v t as"
  then show "\<exists>v' m' bs. table c v m = (v', m') \<and> reads m' (MapOf T) v' t bs \<and> copied m m' bs"
  proof (cases rule: reads_map_cases)
    case nil
    then show ?thesis
      by (intro exI [of _ NilRef] exI [of _ m] exI [of _ "[]"])
        (simp add: table_def nil_map)
  next
    case (cell a es ts as1)
    obtain ws' m1 bs where c: "copy_all c (map snd es) m = (ws', m1)"
        "reads_all m1 (replicate (length es) T) ws' ts bs" "copied m m1 bs"
      using copy_all_deep [OF assms cell(5)] by blast
    let ?es = "zip (map fst es) ws'"
    have n: "length ws' = length es"
      using reads_all_length [OF c(2)] by simp
    have "reads (m1 @ [Entries ?es]) (MapOf T) (Ref (length m1)) (Keyed (zip (map fst ?es) ts))
        (length m1 # bs)"
      by (rule entries) (simp_all add: n reads_append(2) c(2))
    then have "reads (m1 @ [Entries ?es]) (MapOf T) (Ref (length m1)) t (length m1 # bs)"
      unfolding cell(2) by (simp add: n)
    moreover have "table c v m = (Ref (length m1), m1 @ [Entries ?es])"
      using cell(1,4) c(1) by (simp add: table_def new_cell_def)
    ultimately show ?thesis
      using copied_cell [OF c(3)] by blast
  qed
qed

text \<open>
  A struct is copied deeply when each of its fields is: those with a statement by the copier
  named there, the others by the assignment of the whole struct, which is enough when they hold
  no address (\<open>flat\<close>).  The statements come in the order of the fields.
\<close>

fun flat :: "go_type \<Rightarrow> bool" where
  "flat ScalarT \<longleftrightarrow> True"
| "flat (StructOf fs) \<longleftrightarrow> (\<forall>p\<in>set fs. flat (snd p))"
| "flat _ \<longleftrightarrow> False"

fun covers :: "(string \<times> go_type) list \<Rightarrow> (string \<times> copier) list \<Rightarrow> bool" where
  "covers [] ps \<longleftrightarrow> ps = []"
| "covers ((f, T) # fs) ((g, c) # ps) \<longleftrightarrow> f \<notin> fst ` set fs \<and>
     (if f = g then deep_copies T c \<and> covers fs ps else flat T \<and> covers fs ((g, c) # ps))"
| "covers ((f, T) # fs) [] \<longleftrightarrow> f \<notin> fst ` set fs \<and> flat T \<and> covers fs []"

lemma statements_skip:
  "f \<notin> fst ` set ps \<Longrightarrow>
     statements ps ((f, v) # vs) m =
       (let (vs', m') = statements ps vs m in ((f, v) # vs', m'))"
  by (induction ps vs m rule: statements.induct) (auto simp: Let_def split: prod.splits)

lemma covers_names: "covers fs ps \<Longrightarrow> fst ` set ps \<subseteq> fst ` set fs"
  by (induction fs ps rule: covers.induct) (auto split: if_splits)

lemma reads_flat:
  shows "reads m T v t as \<Longrightarrow> flat T \<Longrightarrow> as = []"
    and "reads_all m Ts vs ts as \<Longrightarrow> \<forall>T\<in>set Ts. flat T \<Longrightarrow> as = []"
  by (induction rule: reads_reads_all.inducts) auto

lemma deep_copies_plain: "flat T \<Longrightarrow> deep_copies T plain"
  using reads_flat(1) by (fastforce simp: deep_copies_def plain_def)

lemma covers_flat: "covers fs [] \<Longrightarrow> \<forall>T\<in>set (map snd fs). flat T"
  by (induction fs "[] :: (string \<times> copier) list" rule: covers.induct) auto

lemma statements_deep:
  assumes "covers fs ps" and "map fst vs = map fst fs"
    and "reads_all m (map snd fs) (map snd vs) ts as"
  shows "\<exists>vs' m' bs. statements ps vs m = (vs', m') \<and> map fst vs' = map fst fs \<and>
           reads_all m' (map snd fs) (map snd vs') ts bs \<and> copied m m' bs"
  using assms
proof (induction fs ps arbitrary: vs m ts as rule: covers.induct)
  case (1 ps)
  then show ?case by auto
next
  case (2 f T fs g c ps)
  from 2(4,5) obtain v vs1 t ts1 as1 as2 where
    eqs: "vs = (f, v) # vs1" "map fst vs1 = map fst fs" "ts = t # ts1"
    and v: "reads m T v t as1" and rest: "reads_all m (map snd fs) (map snd vs1) ts1 as2"
    by (cases vs) (auto simp: reads_all_cons)
  show ?case
  proof (cases "f = g")
    case True
    then have d: "deep_copies T c" and cov: "covers fs ps" and new: "g \<notin> fst ` set ps"
      using 2(3) covers_names [of fs ps] by auto
    obtain v' m1 bs1 where c: "c v m = (v', m1)" "reads m1 T v' t bs1" "copied m m1 bs1"
      using deep_copiesE [OF d v] by blast
    obtain vs' m2 bs2 where r: "statements ps vs1 m1 = (vs', m2)" "map fst vs' = map fst fs"
        "reads_all m2 (map snd fs) (map snd vs') ts1 bs2" "copied m1 m2 bs2"
      using 2(1) [OF True cov eqs(2) reads_copied(2) [OF c(3) rest]] by blast
    have "reads_all m2 (T # map snd fs) (v' # map snd vs') (t # ts1) (bs1 @ bs2)"
      by (intro one_more reads_copied(1) [OF r(4)] c(2) r(3))
    then show ?thesis
      using True c(1) r(1,2) copied_trans [OF c(3) r(4)]
      by (intro exI [of _ "(f, v') # vs'"] exI [of _ m2] exI [of _ "bs1 @ bs2"])
        (simp add: eqs statements_skip [OF new])
  next
    case False
    then have fl: "flat T" and cov: "covers fs ((g, c) # ps)" and new: "f \<notin> fst ` set ((g, c) # ps)"
      using 2(3) covers_names [of fs "(g, c) # ps"] by auto
    obtain vs' m2 bs2 where r: "statements ((g, c) # ps) vs1 m = (vs', m2)" "map fst vs' = map fst fs"
        "reads_all m2 (map snd fs) (map snd vs') ts1 bs2" "copied m m2 bs2"
      using 2(2) [OF False cov eqs(2) rest] by blast
    have "reads_all m2 (T # map snd fs) (v # map snd vs') (t # ts1) (as1 @ bs2)"
      by (intro one_more reads_copied(1) [OF r(4)] v r(3))
    then show ?thesis
      using r reads_flat(1) [OF v fl]
      by (auto simp: eqs statements_skip [OF new] simp del: statements.simps
          intro!: exI [of _ "(f, v) # vs'"])
  qed
next
  case (3 f T fs)
  then show ?case
    using reads_flat(2) [OF 3(4)] covers_flat [OF 3(2)]
    by (intro exI [of _ vs] exI [of _ m] exI [of _ "[]"]) (simp add: comp_def)
qed

lemma deep_copies_members:
  assumes "covers fs ps"
  shows "deep_copies (StructOf fs) (members ps)"
proof (rule deep_copiesI)
  fix m v t as
  assume "reads m (StructOf fs) v t as"
  then show "\<exists>v' m' bs. members ps v m = (v', m') \<and> reads m' (StructOf fs) v' t bs \<and> copied m m' bs"
  proof (cases rule: reads_struct_cases)
    case (parts vs ts)
    obtain vs' m' bs where r: "statements ps vs m = (vs', m')" "map fst vs' = map fst fs"
        "reads_all m' (map snd fs) (map snd vs') ts bs" "copied m m' bs"
      using statements_deep [OF assms parts(3,4)] by blast
    have "reads m' (StructOf fs) (Struct vs') t bs"
      unfolding parts(2) using r(2,3) by (rule reads_reads_all.parts)
    then show ?thesis
      using r(1,4) by (auto simp: parts(1) members_def)
  qed
qed

lemmas deep_copies_rules =
  deep_copies_plain deep_copies_pointer deep_copies_slice deep_copies_table deep_copies_members

section \<open>The copy a type describes\<close>

text \<open>Every type has a deep copy: one that follows it.\<close>

definition fieldwise :: "copier list \<Rightarrow> copier" where
  "fieldwise cs v m =
     (case v of
        Struct vs \<Rightarrow>
          (let (ws, m1) = copy_each (zip cs (map snd vs)) m in (Struct (zip (map fst vs) ws), m1))
      | _ \<Rightarrow> (v, m))"

fun copy_of_type :: "go_type \<Rightarrow> copier" where
  "copy_of_type ScalarT = plain"
| "copy_of_type (PointerTo T) = pointer (copy_of_type T)"
| "copy_of_type (SliceOf T) = slice (copy_of_type T)"
| "copy_of_type (MapOf T) = table (copy_of_type T)"
| "copy_of_type (StructOf fs) = fieldwise (map (\<lambda>p. copy_of_type (snd p)) fs)"

lemma deep_copies_fieldwise:
  assumes "list_all2 deep_copies (map snd fs) cs"
  shows "deep_copies (StructOf fs) (fieldwise cs)"
proof (rule deep_copiesI)
  fix m v t as
  assume "reads m (StructOf fs) v t as"
  then show "\<exists>v' m' bs. fieldwise cs v m = (v', m') \<and> reads m' (StructOf fs) v' t bs \<and> copied m m' bs"
  proof (cases rule: reads_struct_cases)
    case (parts vs ts)
    obtain ws m' bs where r: "copy_each (zip cs (map snd vs)) m = (ws, m')"
        "reads_all m' (map snd fs) ws ts bs" "copied m m' bs"
      using copy_each_deep [OF assms parts(4)] by blast
    have "length ws = length fs"
      using reads_all_length [OF r(2)] by simp
    then have "reads m' (StructOf fs) (Struct (zip (map fst vs) ws)) t bs"
      unfolding parts(2,3) using r(2) by (intro reads_reads_all.parts) simp_all
    then show ?thesis
      using r(1,3) by (auto simp: parts(1) fieldwise_def)
  qed
qed

lemma deep_copies_of_type: "deep_copies T (copy_of_type T)"
proof (induction T rule: copy_of_type.induct)
  case (5 fs)
  then have "list_all2 deep_copies (map snd fs) (map (\<lambda>p. copy_of_type (snd p)) fs)"
    by (simp add: list_all2_conv_all_nth)
  then show ?case
    by (simp add: deep_copies_fieldwise)
qed (simp_all add: deep_copies_rules)

end
