(* ===== verification/GoTypes.thy ===== *)
theory GoTypes
  imports GoMemory
begin

text \<open>
  The Go types of the API package (\<open>src/api/v2alpha1\<close>) as descriptions: for each struct its fields
  in order with their types, pointers, slices and maps included.  \<open>AgentApi\<close> has the same structs as
  the values the operator computes with; here they are what the copy functions have to follow.
  The types of the Kubernetes libraries that have copy functions of their own are a parameter
  \<open>lt\<close>, by their name; two structs of strings, which the code assigns, are written out.
\<close>

definition TypeMeta_type :: go_type where
  "TypeMeta_type = StructOf [(''Kind'', ScalarT), (''APIVersion'', ScalarT)]"

definition LocalObjectReference_type :: go_type where
  "LocalObjectReference_type = StructOf [(''Name'', ScalarT)]"

definition AgentComponentSpec_type :: go_type where
  "AgentComponentSpec_type =
     StructOf [(''Enabled'', ScalarT), (''CustomImageFullName'', ScalarT)]"

definition InitContainerSecuritySpec_type :: go_type where
  "InitContainerSecuritySpec_type =
     StructOf [(''RunAsNonRoot'', PointerTo ScalarT), (''RunAsUser'', PointerTo ScalarT)]"

definition LabelSelectorRequirement_type :: go_type where
  "LabelSelectorRequirement_type =
     StructOf [(''Key'', ScalarT), (''Operator'', ScalarT), (''Values'', SliceOf ScalarT)]"

definition NamespaceSelector_type :: go_type where
  "NamespaceSelector_type =
     StructOf
       [(''MatchNames'', SliceOf ScalarT), (''MatchLabels'', MapOf ScalarT),
        (''MatchExpressions'', SliceOf LabelSelectorRequirement_type)]"

definition PodSelector_type :: go_type where
  "PodSelector_type =
     StructOf
       [(''MatchLabels'', MapOf ScalarT),
        (''MatchExpressions'', SliceOf LabelSelectorRequirement_type)]"

definition ConfigMapRef_type :: go_type where
  "ConfigMapRef_type =
     StructOf [(''Name'', ScalarT)]"

definition ConfigSpec_type :: go_type where
  "ConfigSpec_type =
     StructOf
       [(''Mode'', ScalarT), (''ConfigMapRef'', PointerTo ConfigMapRef_type),
        (''VolumeName'', ScalarT), (''MountPath'', ScalarT),
        (''PluginConfigMapRef'', PointerTo ConfigMapRef_type)]"

definition TargetSpec_type :: "(string \<Rightarrow> go_type) \<Rightarrow> go_type" where
  "TargetSpec_type lt =
     StructOf
       [(''Name'', ScalarT), (''Enabled'', ScalarT), (''Language'', ScalarT),
        (''WhatapApmVersions'', MapOf ScalarT), (''CustomImageFullName'', ScalarT),
        (''CustomImageName'', ScalarT), (''AdditionalArgs'', MapOf ScalarT),
        (''Envs'', SliceOf (lt ''v1.EnvVar'')), (''NamespaceSelector'', NamespaceSelector_type),
        (''PodSelector'', PodSelector_type), (''Config'', ConfigSpec_type),
        (''InitContainerSecurity'', PointerTo InitContainerSecuritySpec_type),
        (''InitContainerResources'', PointerTo (lt ''v1.ResourceRequirements'')),
        (''ImagePullSecrets'', SliceOf LocalObjectReference_type)]"

definition InstrumentationSpec_type :: "(string \<Rightarrow> go_type) \<Rightarrow> go_type" where
  "InstrumentationSpec_type lt =
     StructOf
       [(''Enabled'', ScalarT),
        (''InitContainerSecurity'', PointerTo InitContainerSecuritySpec_type),
        (''InitContainerResources'', PointerTo (lt ''v1.ResourceRequirements'')),
        (''Targets'', SliceOf (TargetSpec_type lt))]"

definition ApmSpec_type :: "(string \<Rightarrow> go_type) \<Rightarrow> go_type" where
  "ApmSpec_type lt =
     StructOf [(''Instrumentation'', InstrumentationSpec_type lt)]"

definition SecretKeySelector_type :: go_type where
  "SecretKeySelector_type =
     StructOf [(''Name'', ScalarT), (''Key'', ScalarT), (''Namespace'', ScalarT)]"

definition AuthorizationConfig_type :: go_type where
  "AuthorizationConfig_type =
     StructOf
       [(''Type'', ScalarT), (''Credentials'', ScalarT), (''CredentialsEnv'', ScalarT),
        (''CredentialsFile'', ScalarT), (''CredentialsSecret'', PointerTo SecretKeySelector_type)]"

definition BasicAuthConfig_type :: go_type where
  "BasicAuthConfig_type =
     StructOf
       [(''Username'', PointerTo SecretKeySelector_type),
        (''Password'', PointerTo SecretKeySelector_type)]"

definition ContainerSpec_type :: "(string \<Rightarrow> go_type) \<Rightarrow> go_type" where
  "ContainerSpec_type lt =
     StructOf
       [(''Image'', ScalarT), (''Resources'', lt ''v1.ResourceRequirements''),
        (''Envs'', SliceOf (lt ''v1.EnvVar'')),
        (''SecurityContext'', PointerTo (lt ''v1.SecurityContext''))]"

definition DcgmHostEngineSpec_type :: "(string \<Rightarrow> go_type) \<Rightarrow> go_type" where
  "DcgmHostEngineSpec_type lt =
     StructOf
       [(''Enabled'', ScalarT), (''CustomImageFullName'', ScalarT), (''Port'', ScalarT),
        (''Resources'', lt ''v1.ResourceRequirements'')]"

definition TLSConfig_type :: go_type where
  "TLSConfig_type =
     StructOf
       [(''InsecureSkipVerify'', ScalarT), (''CASecret'', PointerTo SecretKeySelector_type),
        (''CertSecret'', PointerTo SecretKeySelector_type),
        (''KeySecret'', PointerTo SecretKeySelector_type), (''CAFile'', ScalarT),
        (''CertFile'', ScalarT), (''KeyFile'', ScalarT), (''ServerName'', ScalarT)]"

definition MetricRelabelConfig_type :: go_type where
  "MetricRelabelConfig_type =
     StructOf
       [(''SourceLabels'', SliceOf ScalarT), (''Separator'', ScalarT), (''Regex'', ScalarT),
        (''Modulus'', ScalarT), (''TargetLabel'', ScalarT), (''Replacement'', ScalarT),
        (''Action'', ScalarT)]"

definition OpenAgentEndpoint_type :: go_type where
  "OpenAgentEndpoint_type =
     StructOf
       [(''Port'', ScalarT), (''Address'', ScalarT), (''Path'', ScalarT),
        (''Interval'', ScalarT), (''Scheme'', ScalarT),
        (''TLSConfig'', PointerTo TLSConfig_type),
        (''BasicAuth'', PointerTo BasicAuthConfig_type),
        (''Authorization'', PointerTo AuthorizationConfig_type),
        (''MetricRelabelConfigs'', SliceOf MetricRelabelConfig_type),
        (''Params'', MapOf (SliceOf ScalarT)), (''AddNodeLabel'', ScalarT)]"

definition OpenAgentTargetSpec_type :: go_type where
  "OpenAgentTargetSpec_type =
     StructOf
       [(''TargetName'', ScalarT), (''Type'', ScalarT),
        (''NamespaceSelector'', NamespaceSelector_type), (''Selector'', PodSelector_type),
        (''RelabelConfigs'', SliceOf MetricRelabelConfig_type),
        (''Endpoints'', SliceOf OpenAgentEndpoint_type), (''Enabled'', ScalarT)]"

definition OpenAgentSpec_type :: "(string \<Rightarrow> go_type) \<Rightarrow> go_type" where
  "OpenAgentSpec_type lt =
     StructOf
       [(''Enabled'', ScalarT), (''Targets'', SliceOf OpenAgentTargetSpec_type),
        (''ImageName'', ScalarT), (''ImageVersion'', ScalarT),
        (''CustomImageFullName'', ScalarT), (''Labels'', MapOf ScalarT),
        (''Annotations'', MapOf ScalarT), (''PodLabels'', MapOf ScalarT),
        (''PodAnnotations'', MapOf ScalarT),
        (''ImagePullSecrets'', SliceOf LocalObjectReference_type),
        (''PriorityClassName'', ScalarT), (''NodeSelector'', MapOf ScalarT),
        (''Affinity'', PointerTo (lt ''v1.Affinity'')),
        (''Tolerations'', SliceOf (lt ''v1.Toleration'')), (''NodeName'', ScalarT),
        (''PodSecurityContext'', PointerTo (lt ''v1.PodSecurityContext'')),
        (''Envs'', SliceOf (lt ''v1.EnvVar'')), (''DisableForeground'', ScalarT)]"

definition MasterAgentComponentSpec_type :: "(string \<Rightarrow> go_type) \<Rightarrow> go_type" where
  "MasterAgentComponentSpec_type lt =
     StructOf
       [(''Enabled'', ScalarT), (''Resources'', lt ''v1.ResourceRequirements''),
        (''Envs'', SliceOf (lt ''v1.EnvVar'')),
        (''Tolerations'', SliceOf (lt ''v1.Toleration'')),
        (''Affinity'', PointerTo (lt ''v1.Affinity'')), (''NodeSelector'', MapOf ScalarT),
        (''ImagePullSecrets'', SliceOf LocalObjectReference_type),
        (''PriorityClassName'', ScalarT), (''Labels'', MapOf ScalarT),
        (''Annotations'', MapOf ScalarT), (''PodLabels'', MapOf ScalarT),
        (''PodAnnotations'', MapOf ScalarT),
        (''PodSecurityContext'', PointerTo (lt ''v1.PodSecurityContext'')),
        (''RuntimeClassName'', ScalarT), (''HostPID'', ScalarT),
        (''MasterAgentContainer'', PointerTo (ContainerSpec_type lt))]"

definition NodeAgentComponentSpec_type :: "(string \<Rightarrow> go_type) \<Rightarrow> go_type" where
  "NodeAgentComponentSpec_type lt =
     StructOf
       [(''Enabled'', ScalarT), (''Resources'', lt ''v1.ResourceRequirements''),
        (''Envs'', SliceOf (lt ''v1.EnvVar'')),
        (''Tolerations'', SliceOf (lt ''v1.Toleration'')),
        (''Affinity'', PointerTo (lt ''v1.Affinity'')), (''NodeSelector'', MapOf ScalarT),
        (''ImagePullSecrets'', SliceOf LocalObjectReference_type),
        (''PriorityClassName'', ScalarT), (''Labels'', MapOf ScalarT),
        (''Annotations'', MapOf ScalarT), (''PodLabels'', MapOf ScalarT),
        (''PodAnnotations'', MapOf ScalarT),
        (''PodSecurityContext'', PointerTo (lt ''v1.PodSecurityContext'')),
        (''NodeAgentContainer'', PointerTo (ContainerSpec_type lt)),
        (''NodeHelperContainer'', PointerTo (ContainerSpec_type lt)), (''Runtime'', ScalarT),
        (''RuntimeSocketPath'', ScalarT), (''HostNetwork'', PointerTo ScalarT),
        (''RuntimeClassName'', ScalarT), (''HostPID'', ScalarT)]"

definition GpuMonitoringServiceSpec_type :: go_type where
  "GpuMonitoringServiceSpec_type =
     StructOf
       [(''Enabled'', ScalarT), (''Type'', ScalarT), (''NodePort'', ScalarT), (''Port'', ScalarT)]"

definition GpuMonitoringSpec_type :: "(string \<Rightarrow> go_type) \<Rightarrow> go_type" where
  "GpuMonitoringSpec_type lt =
     StructOf
       [(''Enabled'', ScalarT), (''CustomImageFullName'', ScalarT),
        (''Service'', PointerTo GpuMonitoringServiceSpec_type),
        (''Resources'', lt ''v1.ResourceRequirements''), (''Envs'', SliceOf (lt ''v1.EnvVar'')),
        (''NodeSelector'', MapOf ScalarT), (''Affinity'', PointerTo (lt ''v1.Affinity'')),
        (''Interval'', ScalarT), (''RelabelConfigs'', SliceOf MetricRelabelConfig_type),
        (''MetricRelabelConfigs'', SliceOf MetricRelabelConfig_type), (''GroupLabel'', ScalarT),
        (''GroupLabelAllowlistRegex'', ScalarT), (''ClusterName'', ScalarT),
        (''Devices'', ScalarT), (''RemoteHostEngineInfo'', ScalarT),
        (''HostEngine'', PointerTo (DcgmHostEngineSpec_type lt))]"

definition K8sAgentSpec_type :: "(string \<Rightarrow> go_type) \<Rightarrow> go_type" where
  "K8sAgentSpec_type lt =
     StructOf
       [(''Namespace'', ScalarT), (''AgentImageName'', ScalarT),
        (''AgentImageVersion'', ScalarT), (''CustomImageFullName'', ScalarT),
        (''CustomAgentImageFullName'', ScalarT),
        (''ImagePullSecrets'', SliceOf LocalObjectReference_type),
        (''MasterAgent'', MasterAgentComponentSpec_type lt),
        (''NodeAgent'', NodeAgentComponentSpec_type lt),
        (''GpuMonitoring'', GpuMonitoringSpec_type lt),
        (''ApiserverMonitoring'', AgentComponentSpec_type),
        (''EtcdMonitoring'', AgentComponentSpec_type),
        (''SchedulerMonitoring'', AgentComponentSpec_type)]"

definition FeaturesSpec_type :: "(string \<Rightarrow> go_type) \<Rightarrow> go_type" where
  "FeaturesSpec_type lt =
     StructOf
       [(''Apm'', ApmSpec_type lt), (''OpenAgent'', OpenAgentSpec_type lt),
        (''K8sAgent'', K8sAgentSpec_type lt)]"

definition WhatapAgentSpec_type :: "(string \<Rightarrow> go_type) \<Rightarrow> go_type" where
  "WhatapAgentSpec_type lt =
     StructOf
       [(''License'', ScalarT), (''Host'', ScalarT), (''Port'', ScalarT),
        (''Features'', FeaturesSpec_type lt)]"

definition WhatapAgentStatus_type :: "(string \<Rightarrow> go_type) \<Rightarrow> go_type" where
  "WhatapAgentStatus_type lt =
     StructOf
       [(''Conditions'', SliceOf (lt ''metav1.Condition'')), (''ObservedGeneration'', ScalarT)]"

definition WhatapAgent_type :: "(string \<Rightarrow> go_type) \<Rightarrow> go_type" where
  "WhatapAgent_type lt =
     StructOf
       [(''TypeMeta'', TypeMeta_type), (''ObjectMeta'', lt ''metav1.ObjectMeta''),
        (''Spec'', WhatapAgentSpec_type lt), (''Status'', WhatapAgentStatus_type lt)]"

definition WhatapAgentList_type :: "(string \<Rightarrow> go_type) \<Rightarrow> go_type" where
  "WhatapAgentList_type lt =
     StructOf
       [(''TypeMeta'', TypeMeta_type), (''ListMeta'', lt ''metav1.ListMeta''),
        (''Items'', SliceOf (WhatapAgent_type lt))]"

definition WhatapPodMonitorSpec_type :: "(string \<Rightarrow> go_type) \<Rightarrow> go_type" where
  "WhatapPodMonitorSpec_type lt =
     StructOf
       [(''Selector'', lt ''metav1.LabelSelector''),
        (''NamespaceSelector'', PointerTo NamespaceSelector_type),
        (''Endpoints'', SliceOf OpenAgentEndpoint_type),
        (''RelabelConfigs'', SliceOf MetricRelabelConfig_type), (''JobLabel'', ScalarT)]"

definition WhatapPodMonitorStatus_type :: go_type where
  "WhatapPodMonitorStatus_type =
     StructOf []"

definition WhatapPodMonitor_type :: "(string \<Rightarrow> go_type) \<Rightarrow> go_type" where
  "WhatapPodMonitor_type lt =
     StructOf
       [(''TypeMeta'', TypeMeta_type), (''ObjectMeta'', lt ''metav1.ObjectMeta''),
        (''Spec'', WhatapPodMonitorSpec_type lt), (''Status'', WhatapPodMonitorStatus_type)]"

definition WhatapPodMonitorList_type :: "(string \<Rightarrow> go_type) \<Rightarrow> go_type" where
  "WhatapPodMonitorList_type lt =
     StructOf
       [(''TypeMeta'', TypeMeta_type), (''ListMeta'', lt ''metav1.ListMeta''),
        (''Items'', SliceOf (WhatapPodMonitor_type lt))]"

definition WhatapServiceMonitorSpec_type :: "(string \<Rightarrow> go_type) \<Rightarrow> go_type" where
  "WhatapServiceMonitorSpec_type lt =
     StructOf
       [(''Selector'', lt ''metav1.LabelSelector''),
        (''NamespaceSelector'', PointerTo NamespaceSelector_type),
        (''Endpoints'', SliceOf OpenAgentEndpoint_type),
        (''RelabelConfigs'', SliceOf MetricRelabelConfig_type), (''JobLabel'', ScalarT)]"

definition WhatapServiceMonitorStatus_type :: go_type where
  "WhatapServiceMonitorStatus_type =
     StructOf []"

definition WhatapServiceMonitor_type :: "(string \<Rightarrow> go_type) \<Rightarrow> go_type" where
  "WhatapServiceMonitor_type lt =
     StructOf
       [(''TypeMeta'', TypeMeta_type), (''ObjectMeta'', lt ''metav1.ObjectMeta''),
        (''Spec'', WhatapServiceMonitorSpec_type lt),
        (''Status'', WhatapServiceMonitorStatus_type)]"

definition WhatapServiceMonitorList_type :: "(string \<Rightarrow> go_type) \<Rightarrow> go_type" where
  "WhatapServiceMonitorList_type lt =
     StructOf
       [(''TypeMeta'', TypeMeta_type), (''ListMeta'', lt ''metav1.ListMeta''),
        (''Items'', SliceOf (WhatapServiceMonitor_type lt))]"

definition WhatapStaticEndpointSpec_type :: go_type where
  "WhatapStaticEndpointSpec_type =
     StructOf
       [(''Endpoints'', SliceOf OpenAgentEndpoint_type),
        (''RelabelConfigs'', SliceOf MetricRelabelConfig_type), (''JobLabel'', ScalarT)]"

definition WhatapStaticEndpointStatus_type :: go_type where
  "WhatapStaticEndpointStatus_type =
     StructOf []"

definition WhatapStaticEndpoint_type :: "(string \<Rightarrow> go_type) \<Rightarrow> go_type" where
  "WhatapStaticEndpoint_type lt =
     StructOf
       [(''TypeMeta'', TypeMeta_type), (''ObjectMeta'', lt ''metav1.ObjectMeta''),
        (''Spec'', WhatapStaticEndpointSpec_type), (''Status'', WhatapStaticEndpointStatus_type)]"

definition WhatapStaticEndpointList_type :: "(string \<Rightarrow> go_type) \<Rightarrow> go_type" where
  "WhatapStaticEndpointList_type lt =
     StructOf
       [(''TypeMeta'', TypeMeta_type), (''ListMeta'', lt ''metav1.ListMeta''),
        (''Items'', SliceOf (WhatapStaticEndpoint_type lt))]"

lemmas flat_type_defs =
  TypeMeta_type_def LocalObjectReference_type_def AgentComponentSpec_type_def ConfigMapRef_type_def SecretKeySelector_type_def GpuMonitoringServiceSpec_type_def WhatapPodMonitorStatus_type_def WhatapServiceMonitorStatus_type_def WhatapStaticEndpointStatus_type_def

lemma flat_types [simp]:
  "flat TypeMeta_type"
  "flat LocalObjectReference_type"
  "flat AgentComponentSpec_type"
  "flat ConfigMapRef_type"
  "flat SecretKeySelector_type"
  "flat GpuMonitoringServiceSpec_type"
  "flat WhatapPodMonitorStatus_type"
  "flat WhatapServiceMonitorStatus_type"
  "flat WhatapStaticEndpointStatus_type"
  by (simp_all add: flat_type_defs)

end
