(* ===== verification/DeepCopy.thy ===== *)
theory DeepCopy
  imports GoTypes
begin

text \<open>
  The generated deep copies (\<open>src/api/v2alpha1/zz_generated.deepcopy.go\<close>): for each type the function
  that copies into a struct, statement by statement, the one that allocates the copy, and for the
  four kinds and their lists the one the runtime calls.  The copy functions of the Kubernetes
  libraries are a parameter \<open>lc\<close>, by the name of their type.  The theorems say that every copy
  is deep: it reads as the original and shares no cell with it, so that nothing written to the one
  shows in the other.
\<close>

section \<open>The functions\<close>

text \<open>An interface value is nil or a pointer with the name of its type.\<close>

type_synonym interface = "(string \<times> go_value) option"

definition as_object :: "string \<Rightarrow> copier \<Rightarrow> go_value \<Rightarrow> memory \<Rightarrow> interface \<times> memory" where
  "as_object n copy v m =
     (let (c, m') = copy v m in (if c \<noteq> NilRef then Some (n, c) else None, m'))"

definition AgentComponentSpec_DeepCopyInto :: copier where
  "AgentComponentSpec_DeepCopyInto =
     members []"

definition AgentComponentSpec_DeepCopy :: copier where
  "AgentComponentSpec_DeepCopy = pointer AgentComponentSpec_DeepCopyInto"

definition InitContainerSecuritySpec_DeepCopyInto :: copier where
  "InitContainerSecuritySpec_DeepCopyInto =
     members [(''RunAsNonRoot'', pointer plain), (''RunAsUser'', pointer plain)]"

definition InitContainerSecuritySpec_DeepCopy :: copier where
  "InitContainerSecuritySpec_DeepCopy = pointer InitContainerSecuritySpec_DeepCopyInto"

definition LabelSelectorRequirement_DeepCopyInto :: copier where
  "LabelSelectorRequirement_DeepCopyInto =
     members [(''Values'', slice plain)]"

definition LabelSelectorRequirement_DeepCopy :: copier where
  "LabelSelectorRequirement_DeepCopy = pointer LabelSelectorRequirement_DeepCopyInto"

definition NamespaceSelector_DeepCopyInto :: copier where
  "NamespaceSelector_DeepCopyInto =
     members
       [(''MatchNames'', slice plain), (''MatchLabels'', table plain),
        (''MatchExpressions'', slice LabelSelectorRequirement_DeepCopyInto)]"

definition NamespaceSelector_DeepCopy :: copier where
  "NamespaceSelector_DeepCopy = pointer NamespaceSelector_DeepCopyInto"

definition PodSelector_DeepCopyInto :: copier where
  "PodSelector_DeepCopyInto =
     members
       [(''MatchLabels'', table plain),
        (''MatchExpressions'', slice LabelSelectorRequirement_DeepCopyInto)]"

definition PodSelector_DeepCopy :: copier where
  "PodSelector_DeepCopy = pointer PodSelector_DeepCopyInto"

definition ConfigMapRef_DeepCopyInto :: copier where
  "ConfigMapRef_DeepCopyInto =
     members []"

definition ConfigMapRef_DeepCopy :: copier where
  "ConfigMapRef_DeepCopy = pointer ConfigMapRef_DeepCopyInto"

definition ConfigSpec_DeepCopyInto :: copier where
  "ConfigSpec_DeepCopyInto =
     members [(''ConfigMapRef'', pointer plain), (''PluginConfigMapRef'', pointer plain)]"

definition ConfigSpec_DeepCopy :: copier where
  "ConfigSpec_DeepCopy = pointer ConfigSpec_DeepCopyInto"

definition TargetSpec_DeepCopyInto :: "(string \<Rightarrow> copier) \<Rightarrow> copier" where
  "TargetSpec_DeepCopyInto lc =
     members
       [(''WhatapApmVersions'', table plain), (''AdditionalArgs'', table plain),
        (''Envs'', slice (lc ''v1.EnvVar'')),
        (''NamespaceSelector'', NamespaceSelector_DeepCopyInto),
        (''PodSelector'', PodSelector_DeepCopyInto), (''Config'', ConfigSpec_DeepCopyInto),
        (''InitContainerSecurity'', pointer InitContainerSecuritySpec_DeepCopyInto),
        (''InitContainerResources'', pointer (lc ''v1.ResourceRequirements'')),
        (''ImagePullSecrets'', slice plain)]"

definition TargetSpec_DeepCopy :: "(string \<Rightarrow> copier) \<Rightarrow> copier" where
  "TargetSpec_DeepCopy lc = pointer (TargetSpec_DeepCopyInto lc)"

definition InstrumentationSpec_DeepCopyInto :: "(string \<Rightarrow> copier) \<Rightarrow> copier" where
  "InstrumentationSpec_DeepCopyInto lc =
     members
       [(''InitContainerSecurity'', pointer InitContainerSecuritySpec_DeepCopyInto),
        (''InitContainerResources'', pointer (lc ''v1.ResourceRequirements'')),
        (''Targets'', slice (TargetSpec_DeepCopyInto lc))]"

definition InstrumentationSpec_DeepCopy :: "(string \<Rightarrow> copier) \<Rightarrow> copier" where
  "InstrumentationSpec_DeepCopy lc = pointer (InstrumentationSpec_DeepCopyInto lc)"

definition ApmSpec_DeepCopyInto :: "(string \<Rightarrow> copier) \<Rightarrow> copier" where
  "ApmSpec_DeepCopyInto lc =
     members [(''Instrumentation'', InstrumentationSpec_DeepCopyInto lc)]"

definition ApmSpec_DeepCopy :: "(string \<Rightarrow> copier) \<Rightarrow> copier" where
  "ApmSpec_DeepCopy lc = pointer (ApmSpec_DeepCopyInto lc)"

definition SecretKeySelector_DeepCopyInto :: copier where
  "SecretKeySelector_DeepCopyInto =
     members []"

definition SecretKeySelector_DeepCopy :: copier where
  "SecretKeySelector_DeepCopy = pointer SecretKeySelector_DeepCopyInto"

definition AuthorizationConfig_DeepCopyInto :: copier where
  "AuthorizationConfig_DeepCopyInto =
     members [(''CredentialsSecret'', pointer plain)]"

definition AuthorizationConfig_DeepCopy :: copier where
  "AuthorizationConfig_DeepCopy = pointer AuthorizationConfig_DeepCopyInto"

definition BasicAuthConfig_DeepCopyInto :: copier where
  "BasicAuthConfig_DeepCopyInto =
     members [(''Username'', pointer plain), (''Password'', pointer plain)]"

definition BasicAuthConfig_DeepCopy :: copier where
  "BasicAuthConfig_DeepCopy = pointer BasicAuthConfig_DeepCopyInto"

definition ContainerSpec_DeepCopyInto :: "(string \<Rightarrow> copier) \<Rightarrow> copier" where
  "ContainerSpec_DeepCopyInto lc =
     members
       [(''Resources'', lc ''v1.ResourceRequirements''), (''Envs'', slice (lc ''v1.EnvVar'')),
        (''SecurityContext'', pointer (lc ''v1.SecurityContext''))]"

definition ContainerSpec_DeepCopy :: "(string \<Rightarrow> copier) \<Rightarrow> copier" where
  "ContainerSpec_DeepCopy lc = pointer (ContainerSpec_DeepCopyInto lc)"

definition DcgmHostEngineSpec_DeepCopyInto :: "(string \<Rightarrow> copier) \<Rightarrow> copier" where
  "DcgmHostEngineSpec_DeepCopyInto lc =
     members [(''Resources'', lc ''v1.ResourceRequirements'')]"

definition DcgmHostEngineSpec_DeepCopy :: "(string \<Rightarrow> copier) \<Rightarrow> copier" where
  "DcgmHostEngineSpec_DeepCopy lc = pointer (DcgmHostEngineSpec_DeepCopyInto lc)"

definition TLSConfig_DeepCopyInto :: copier where
  "TLSConfig_DeepCopyInto =
     members
       [(''CASecret'', pointer plain), (''CertSecret'', pointer plain),
        (''KeySecret'', pointer plain)]"

definition TLSConfig_DeepCopy :: copier where
  "TLSConfig_DeepCopy = pointer TLSConfig_DeepCopyInto"

definition MetricRelabelConfig_DeepCopyInto :: copier where
  "MetricRelabelConfig_DeepCopyInto =
     members [(''SourceLabels'', slice plain)]"

definition MetricRelabelConfig_DeepCopy :: copier where
  "MetricRelabelConfig_DeepCopy = pointer MetricRelabelConfig_DeepCopyInto"

definition OpenAgentEndpoint_DeepCopyInto :: copier where
  "OpenAgentEndpoint_DeepCopyInto =
     members
       [(''TLSConfig'', pointer TLSConfig_DeepCopyInto),
        (''BasicAuth'', pointer BasicAuthConfig_DeepCopyInto),
        (''Authorization'', pointer AuthorizationConfig_DeepCopyInto),
        (''MetricRelabelConfigs'', slice MetricRelabelConfig_DeepCopyInto),
        (''Params'', table (slice plain))]"

definition OpenAgentEndpoint_DeepCopy :: copier where
  "OpenAgentEndpoint_DeepCopy = pointer OpenAgentEndpoint_DeepCopyInto"

definition OpenAgentTargetSpec_DeepCopyInto :: copier where
  "OpenAgentTargetSpec_DeepCopyInto =
     members
       [(''NamespaceSelector'', NamespaceSelector_DeepCopyInto),
        (''Selector'', PodSelector_DeepCopyInto),
        (''RelabelConfigs'', slice MetricRelabelConfig_DeepCopyInto),
        (''Endpoints'', slice OpenAgentEndpoint_DeepCopyInto)]"

definition OpenAgentTargetSpec_DeepCopy :: copier where
  "OpenAgentTargetSpec_DeepCopy = pointer OpenAgentTargetSpec_DeepCopyInto"

definition OpenAgentSpec_DeepCopyInto :: "(string \<Rightarrow> copier) \<Rightarrow> copier" where
  "OpenAgentSpec_DeepCopyInto lc =
     members
       [(''Targets'', slice OpenAgentTargetSpec_DeepCopyInto), (''Labels'', table plain),
        (''Annotations'', table plain), (''PodLabels'', table plain),
        (''PodAnnotations'', table plain), (''ImagePullSecrets'', slice plain),
        (''NodeSelector'', table plain), (''Affinity'', pointer (lc ''v1.Affinity'')),
        (''Tolerations'', slice (lc ''v1.Toleration'')),
        (''PodSecurityContext'', pointer (lc ''v1.PodSecurityContext'')),
        (''Envs'', slice (lc ''v1.EnvVar''))]"

definition OpenAgentSpec_DeepCopy :: "(string \<Rightarrow> copier) \<Rightarrow> copier" where
  "OpenAgentSpec_DeepCopy lc = pointer (OpenAgentSpec_DeepCopyInto lc)"

definition MasterAgentComponentSpec_DeepCopyInto :: "(string \<Rightarrow> copier) \<Rightarrow> copier" where
  "MasterAgentComponentSpec_DeepCopyInto lc =
     members
       [(''Resources'', lc ''v1.ResourceRequirements''), (''Envs'', slice (lc ''v1.EnvVar'')),
        (''Tolerations'', slice (lc ''v1.Toleration'')),
        (''Affinity'', pointer (lc ''v1.Affinity'')), (''NodeSelector'', table plain),
        (''ImagePullSecrets'', slice plain), (''Labels'', table plain),
        (''Annotations'', table plain), (''PodLabels'', table plain),
        (''PodAnnotations'', table plain),
        (''PodSecurityContext'', pointer (lc ''v1.PodSecurityContext'')),
        (''MasterAgentContainer'', pointer (ContainerSpec_DeepCopyInto lc))]"

definition MasterAgentComponentSpec_DeepCopy :: "(string \<Rightarrow> copier) \<Rightarrow> copier" where
  "MasterAgentComponentSpec_DeepCopy lc = pointer (MasterAgentComponentSpec_DeepCopyInto lc)"

definition NodeAgentComponentSpec_DeepCopyInto :: "(string \<Rightarrow> copier) \<Rightarrow> copier" where
  "NodeAgentComponentSpec_DeepCopyInto lc =
     members
       [(''Resources'', lc ''v1.ResourceRequirements''), (''Envs'', slice (lc ''v1.EnvVar'')),
        (''Tolerations'', slice (lc ''v1.Toleration'')),
        (''Affinity'', pointer (lc ''v1.Affinity'')), (''NodeSelector'', table plain),
        (''ImagePullSecrets'', slice plain), (''Labels'', table plain),
        (''Annotations'', table plain), (''PodLabels'', table plain),
        (''PodAnnotations'', table plain),
        (''PodSecurityContext'', pointer (lc ''v1.PodSecurityContext'')),
        (''NodeAgentContainer'', pointer (ContainerSpec_DeepCopyInto lc)),
        (''NodeHelperContainer'', pointer (ContainerSpec_DeepCopyInto lc)),
        (''HostNetwork'', pointer plain)]"

definition NodeAgentComponentSpec_DeepCopy :: "(string \<Rightarrow> copier) \<Rightarrow> copier" where
  "NodeAgentComponentSpec_DeepCopy lc = pointer (NodeAgentComponentSpec_DeepCopyInto lc)"

definition GpuMonitoringServiceSpec_DeepCopyInto :: copier where
  "GpuMonitoringServiceSpec_DeepCopyInto =
     members []"

definition GpuMonitoringServiceSpec_DeepCopy :: copier where
  "GpuMonitoringServiceSpec_DeepCopy = pointer GpuMonitoringServiceSpec_DeepCopyInto"

definition GpuMonitoringSpec_DeepCopyInto :: "(string \<Rightarrow> copier) \<Rightarrow> copier" where
  "GpuMonitoringSpec_DeepCopyInto lc =
     members
       [(''Service'', pointer plain), (''Resources'', lc ''v1.ResourceRequirements''),
        (''Envs'', slice (lc ''v1.EnvVar'')), (''NodeSelector'', table plain),
        (''Affinity'', pointer (lc ''v1.Affinity'')),
        (''RelabelConfigs'', slice MetricRelabelConfig_DeepCopyInto),
        (''MetricRelabelConfigs'', slice MetricRelabelConfig_DeepCopyInto),
        (''HostEngine'', pointer (DcgmHostEngineSpec_DeepCopyInto lc))]"

definition GpuMonitoringSpec_DeepCopy :: "(string \<Rightarrow> copier) \<Rightarrow> copier" where
  "GpuMonitoringSpec_DeepCopy lc = pointer (GpuMonitoringSpec_DeepCopyInto lc)"

definition K8sAgentSpec_DeepCopyInto :: "(string \<Rightarrow> copier) \<Rightarrow> copier" where
  "K8sAgentSpec_DeepCopyInto lc =
     members
       [(''ImagePullSecrets'', slice plain),
        (''MasterAgent'', MasterAgentComponentSpec_DeepCopyInto lc),
        (''NodeAgent'', NodeAgentComponentSpec_DeepCopyInto lc),
        (''GpuMonitoring'', GpuMonitoringSpec_DeepCopyInto lc), (''ApiserverMonitoring'', plain),
        (''EtcdMonitoring'', plain), (''SchedulerMonitoring'', plain)]"

definition K8sAgentSpec_DeepCopy :: "(string \<Rightarrow> copier) \<Rightarrow> copier" where
  "K8sAgentSpec_DeepCopy lc = pointer (K8sAgentSpec_DeepCopyInto lc)"

definition FeaturesSpec_DeepCopyInto :: "(string \<Rightarrow> copier) \<Rightarrow> copier" where
  "FeaturesSpec_DeepCopyInto lc =
     members
       [(''Apm'', ApmSpec_DeepCopyInto lc), (''OpenAgent'', OpenAgentSpec_DeepCopyInto lc),
        (''K8sAgent'', K8sAgentSpec_DeepCopyInto lc)]"

definition FeaturesSpec_DeepCopy :: "(string \<Rightarrow> copier) \<Rightarrow> copier" where
  "FeaturesSpec_DeepCopy lc = pointer (FeaturesSpec_DeepCopyInto lc)"

definition WhatapAgentSpec_DeepCopyInto :: "(string \<Rightarrow> copier) \<Rightarrow> copier" where
  "WhatapAgentSpec_DeepCopyInto lc =
     members [(''Features'', FeaturesSpec_DeepCopyInto lc)]"

definition WhatapAgentSpec_DeepCopy :: "(string \<Rightarrow> copier) \<Rightarrow> copier" where
  "WhatapAgentSpec_DeepCopy lc = pointer (WhatapAgentSpec_DeepCopyInto lc)"

definition WhatapAgentStatus_DeepCopyInto :: "(string \<Rightarrow> copier) \<Rightarrow> copier" where
  "WhatapAgentStatus_DeepCopyInto lc =
     members [(''Conditions'', slice (lc ''metav1.Condition''))]"

definition WhatapAgentStatus_DeepCopy :: "(string \<Rightarrow> copier) \<Rightarrow> copier" where
  "WhatapAgentStatus_DeepCopy lc = pointer (WhatapAgentStatus_DeepCopyInto lc)"

definition WhatapAgent_DeepCopyInto :: "(string \<Rightarrow> copier) \<Rightarrow> copier" where
  "WhatapAgent_DeepCopyInto lc =
     members
       [(''TypeMeta'', plain), (''ObjectMeta'', lc ''metav1.ObjectMeta''),
        (''Spec'', WhatapAgentSpec_DeepCopyInto lc),
        (''Status'', WhatapAgentStatus_DeepCopyInto lc)]"

definition WhatapAgent_DeepCopy :: "(string \<Rightarrow> copier) \<Rightarrow> copier" where
  "WhatapAgent_DeepCopy lc = pointer (WhatapAgent_DeepCopyInto lc)"

definition WhatapAgent_DeepCopyObject ::
  "(string \<Rightarrow> copier) \<Rightarrow> go_value \<Rightarrow> memory \<Rightarrow> interface \<times> memory" where
  "WhatapAgent_DeepCopyObject lc = as_object ''WhatapAgent'' (WhatapAgent_DeepCopy lc)"

definition WhatapAgentList_DeepCopyInto :: "(string \<Rightarrow> copier) \<Rightarrow> copier" where
  "WhatapAgentList_DeepCopyInto lc =
     members
       [(''TypeMeta'', plain), (''ListMeta'', lc ''metav1.ListMeta''),
        (''Items'', slice (WhatapAgent_DeepCopyInto lc))]"

definition WhatapAgentList_DeepCopy :: "(string \<Rightarrow> copier) \<Rightarrow> copier" where
  "WhatapAgentList_DeepCopy lc = pointer (WhatapAgentList_DeepCopyInto lc)"

definition WhatapAgentList_DeepCopyObject ::
  "(string \<Rightarrow> copier) \<Rightarrow> go_value \<Rightarrow> memory \<Rightarrow> interface \<times> memory" where
  "WhatapAgentList_DeepCopyObject lc = as_object ''WhatapAgentList'' (WhatapAgentList_DeepCopy lc)"

definition WhatapPodMonitorSpec_DeepCopyInto :: "(string \<Rightarrow> copier) \<Rightarrow> copier" where
  "WhatapPodMonitorSpec_DeepCopyInto lc =
     members
       [(''Selector'', lc ''metav1.LabelSelector''),
        (''NamespaceSelector'', pointer NamespaceSelector_DeepCopyInto),
        (''Endpoints'', slice OpenAgentEndpoint_DeepCopyInto),
        (''RelabelConfigs'', slice MetricRelabelConfig_DeepCopyInto)]"

definition WhatapPodMonitorSpec_DeepCopy :: "(string \<Rightarrow> copier) \<Rightarrow> copier" where
  "WhatapPodMonitorSpec_DeepCopy lc = pointer (WhatapPodMonitorSpec_DeepCopyInto lc)"

definition WhatapPodMonitorStatus_DeepCopyInto :: copier where
  "WhatapPodMonitorStatus_DeepCopyInto =
     members []"

definition WhatapPodMonitorStatus_DeepCopy :: copier where
  "WhatapPodMonitorStatus_DeepCopy = pointer WhatapPodMonitorStatus_DeepCopyInto"

definition WhatapPodMonitor_DeepCopyInto :: "(string \<Rightarrow> copier) \<Rightarrow> copier" where
  "WhatapPodMonitor_DeepCopyInto lc =
     members
       [(''TypeMeta'', plain), (''ObjectMeta'', lc ''metav1.ObjectMeta''),
        (''Spec'', WhatapPodMonitorSpec_DeepCopyInto lc), (''Status'', plain)]"

definition WhatapPodMonitor_DeepCopy :: "(string \<Rightarrow> copier) \<Rightarrow> copier" where
  "WhatapPodMonitor_DeepCopy lc = pointer (WhatapPodMonitor_DeepCopyInto lc)"

definition WhatapPodMonitor_DeepCopyObject ::
  "(string \<Rightarrow> copier) \<Rightarrow> go_value \<Rightarrow> memory \<Rightarrow> interface \<times> memory" where
  "WhatapPodMonitor_DeepCopyObject lc = as_object ''WhatapPodMonitor'' (WhatapPodMonitor_DeepCopy lc)"

definition WhatapPodMonitorList_DeepCopyInto :: "(string \<Rightarrow> copier) \<Rightarrow> copier" where
  "WhatapPodMonitorList_DeepCopyInto lc =
     members
       [(''TypeMeta'', plain), (''ListMeta'', lc ''metav1.ListMeta''),
        (''Items'', slice (WhatapPodMonitor_DeepCopyInto lc))]"

definition WhatapPodMonitorList_DeepCopy :: "(string \<Rightarrow> copier) \<Rightarrow> copier" where
  "WhatapPodMonitorList_DeepCopy lc = pointer (WhatapPodMonitorList_DeepCopyInto lc)"

definition WhatapPodMonitorList_DeepCopyObject ::
  "(string \<Rightarrow> copier) \<Rightarrow> go_value \<Rightarrow> memory \<Rightarrow> interface \<times> memory" where
  "WhatapPodMonitorList_DeepCopyObject lc = as_object ''WhatapPodMonitorList'' (WhatapPodMonitorList_DeepCopy lc)"

definition WhatapServiceMonitorSpec_DeepCopyInto :: "(string \<Rightarrow> copier) \<Rightarrow> copier" where
  "WhatapServiceMonitorSpec_DeepCopyInto lc =
     members
       [(''Selector'', lc ''metav1.LabelSelector''),
        (''NamespaceSelector'', pointer NamespaceSelector_DeepCopyInto),
        (''Endpoints'', slice OpenAgentEndpoint_DeepCopyInto),
        (''RelabelConfigs'', slice MetricRelabelConfig_DeepCopyInto)]"

definition WhatapServiceMonitorSpec_DeepCopy :: "(string \<Rightarrow> copier) \<Rightarrow> copier" where
  "WhatapServiceMonitorSpec_DeepCopy lc = pointer (WhatapServiceMonitorSpec_DeepCopyInto lc)"

definition WhatapServiceMonitorStatus_DeepCopyInto :: copier where
  "WhatapServiceMonitorStatus_DeepCopyInto =
     members []"

definition WhatapServiceMonitorStatus_DeepCopy :: copier where
  "WhatapServiceMonitorStatus_DeepCopy = pointer WhatapServiceMonitorStatus_DeepCopyInto"

definition WhatapServiceMonitor_DeepCopyInto :: "(string \<Rightarrow> copier) \<Rightarrow> copier" where
  "WhatapServiceMonitor_DeepCopyInto lc =
     members
       [(''TypeMeta'', plain), (''ObjectMeta'', lc ''metav1.ObjectMeta''),
        (''Spec'', WhatapServiceMonitorSpec_DeepCopyInto lc), (''Status'', plain)]"

definition WhatapServiceMonitor_DeepCopy :: "(string \<Rightarrow> copier) \<Rightarrow> copier" where
  "WhatapServiceMonitor_DeepCopy lc = pointer (WhatapServiceMonitor_DeepCopyInto lc)"

definition WhatapServiceMonitor_DeepCopyObject ::
  "(string \<Rightarrow> copier) \<Rightarrow> go_value \<Rightarrow> memory \<Rightarrow> interface \<times> memory" where
  "WhatapServiceMonitor_DeepCopyObject lc = as_object ''WhatapServiceMonitor'' (WhatapServiceMonitor_DeepCopy lc)"

definition WhatapServiceMonitorList_DeepCopyInto :: "(string \<Rightarrow> copier) \<Rightarrow> copier" where
  "WhatapServiceMonitorList_DeepCopyInto lc =
     members
       [(''TypeMeta'', plain), (''ListMeta'', lc ''metav1.ListMeta''),
        (''Items'', slice (WhatapServiceMonitor_DeepCopyInto lc))]"

definition WhatapServiceMonitorList_DeepCopy :: "(string \<Rightarrow> copier) \<Rightarrow> copier" where
  "WhatapServiceMonitorList_DeepCopy lc = pointer (WhatapServiceMonitorList_DeepCopyInto lc)"

definition WhatapServiceMonitorList_DeepCopyObject ::
  "(string \<Rightarrow> copier) \<Rightarrow> go_value \<Rightarrow> memory \<Rightarrow> interface \<times> memory" where
  "WhatapServiceMonitorList_DeepCopyObject lc = as_object ''WhatapServiceMonitorList'' (WhatapServiceMonitorList_DeepCopy lc)"

definition WhatapStaticEndpointSpec_DeepCopyInto :: copier where
  "WhatapStaticEndpointSpec_DeepCopyInto =
     members
       [(''Endpoints'', slice OpenAgentEndpoint_DeepCopyInto),
        (''RelabelConfigs'', slice MetricRelabelConfig_DeepCopyInto)]"

definition WhatapStaticEndpointSpec_DeepCopy :: copier where
  "WhatapStaticEndpointSpec_DeepCopy = pointer WhatapStaticEndpointSpec_DeepCopyInto"

definition WhatapStaticEndpointStatus_DeepCopyInto :: copier where
  "WhatapStaticEndpointStatus_DeepCopyInto =
     members []"

definition WhatapStaticEndpointStatus_DeepCopy :: copier where
  "WhatapStaticEndpointStatus_DeepCopy = pointer WhatapStaticEndpointStatus_DeepCopyInto"

definition WhatapStaticEndpoint_DeepCopyInto :: "(string \<Rightarrow> copier) \<Rightarrow> copier" where
  "WhatapStaticEndpoint_DeepCopyInto lc =
     members
       [(''TypeMeta'', plain), (''ObjectMeta'', lc ''metav1.ObjectMeta''),
        (''Spec'', WhatapStaticEndpointSpec_DeepCopyInto), (''Status'', plain)]"

definition WhatapStaticEndpoint_DeepCopy :: "(string \<Rightarrow> copier) \<Rightarrow> copier" where
  "WhatapStaticEndpoint_DeepCopy lc = pointer (WhatapStaticEndpoint_DeepCopyInto lc)"

definition WhatapStaticEndpoint_DeepCopyObject ::
  "(string \<Rightarrow> copier) \<Rightarrow> go_value \<Rightarrow> memory \<Rightarrow> interface \<times> memory" where
  "WhatapStaticEndpoint_DeepCopyObject lc = as_object ''WhatapStaticEndpoint'' (WhatapStaticEndpoint_DeepCopy lc)"

definition WhatapStaticEndpointList_DeepCopyInto :: "(string \<Rightarrow> copier) \<Rightarrow> copier" where
  "WhatapStaticEndpointList_DeepCopyInto lc =
     members
       [(''TypeMeta'', plain), (''ListMeta'', lc ''metav1.ListMeta''),
        (''Items'', slice (WhatapStaticEndpoint_DeepCopyInto lc))]"

definition WhatapStaticEndpointList_DeepCopy :: "(string \<Rightarrow> copier) \<Rightarrow> copier" where
  "WhatapStaticEndpointList_DeepCopy lc = pointer (WhatapStaticEndpointList_DeepCopyInto lc)"

definition WhatapStaticEndpointList_DeepCopyObject ::
  "(string \<Rightarrow> copier) \<Rightarrow> go_value \<Rightarrow> memory \<Rightarrow> interface \<times> memory" where
  "WhatapStaticEndpointList_DeepCopyObject lc = as_object ''WhatapStaticEndpointList'' (WhatapStaticEndpointList_DeepCopy lc)"

section \<open>Every copy is deep\<close>

text \<open>
  What is asked of the libraries: the copy function of each of their types is a deep copy of it,
  as the contract of \<open>DeepCopyInto\<close> has it.
\<close>

locale library_copies =
  fixes lt :: "string \<Rightarrow> go_type"
    and lc :: "string \<Rightarrow> copier"
  assumes library_deep: "deep_copies (lt n) (lc n)"
begin

lemma AgentComponentSpec_deep: "deep_copies AgentComponentSpec_type AgentComponentSpec_DeepCopyInto"
  by (simp add: AgentComponentSpec_type_def AgentComponentSpec_DeepCopyInto_def deep_copies_rules)

lemma InitContainerSecuritySpec_deep:
  "deep_copies InitContainerSecuritySpec_type InitContainerSecuritySpec_DeepCopyInto"
  by (simp add: InitContainerSecuritySpec_type_def InitContainerSecuritySpec_DeepCopyInto_def deep_copies_rules)

lemma LabelSelectorRequirement_deep:
  "deep_copies LabelSelectorRequirement_type LabelSelectorRequirement_DeepCopyInto"
  by (simp add: LabelSelectorRequirement_type_def LabelSelectorRequirement_DeepCopyInto_def deep_copies_rules)

lemma NamespaceSelector_deep: "deep_copies NamespaceSelector_type NamespaceSelector_DeepCopyInto"
  by (simp add: NamespaceSelector_type_def NamespaceSelector_DeepCopyInto_def deep_copies_rules
      LabelSelectorRequirement_deep)

lemma PodSelector_deep: "deep_copies PodSelector_type PodSelector_DeepCopyInto"
  by (simp add: PodSelector_type_def PodSelector_DeepCopyInto_def deep_copies_rules
      LabelSelectorRequirement_deep)

lemma ConfigMapRef_deep: "deep_copies ConfigMapRef_type ConfigMapRef_DeepCopyInto"
  by (simp add: ConfigMapRef_type_def ConfigMapRef_DeepCopyInto_def deep_copies_rules)

lemma ConfigSpec_deep: "deep_copies ConfigSpec_type ConfigSpec_DeepCopyInto"
  by (simp add: ConfigSpec_type_def ConfigSpec_DeepCopyInto_def deep_copies_rules)

lemma TargetSpec_deep: "deep_copies (TargetSpec_type lt) (TargetSpec_DeepCopyInto lc)"
  by (simp add: TargetSpec_type_def TargetSpec_DeepCopyInto_def deep_copies_rules
      library_deep NamespaceSelector_deep PodSelector_deep ConfigSpec_deep InitContainerSecuritySpec_deep)

lemma InstrumentationSpec_deep: "deep_copies (InstrumentationSpec_type lt) (InstrumentationSpec_DeepCopyInto lc)"
  by (simp add: InstrumentationSpec_type_def InstrumentationSpec_DeepCopyInto_def deep_copies_rules
      InitContainerSecuritySpec_deep library_deep TargetSpec_deep)

lemma ApmSpec_deep: "deep_copies (ApmSpec_type lt) (ApmSpec_DeepCopyInto lc)"
  by (simp add: ApmSpec_type_def ApmSpec_DeepCopyInto_def deep_copies_rules
      InstrumentationSpec_deep)

lemma SecretKeySelector_deep: "deep_copies SecretKeySelector_type SecretKeySelector_DeepCopyInto"
  by (simp add: SecretKeySelector_type_def SecretKeySelector_DeepCopyInto_def deep_copies_rules)

lemma AuthorizationConfig_deep: "deep_copies AuthorizationConfig_type AuthorizationConfig_DeepCopyInto"
  by (simp add: AuthorizationConfig_type_def AuthorizationConfig_DeepCopyInto_def deep_copies_rules)

lemma BasicAuthConfig_deep: "deep_copies BasicAuthConfig_type BasicAuthConfig_DeepCopyInto"
  by (simp add: BasicAuthConfig_type_def BasicAuthConfig_DeepCopyInto_def deep_copies_rules)

lemma ContainerSpec_deep: "deep_copies (ContainerSpec_type lt) (ContainerSpec_DeepCopyInto lc)"
  by (simp add: ContainerSpec_type_def ContainerSpec_DeepCopyInto_def deep_copies_rules
      library_deep)

lemma DcgmHostEngineSpec_deep: "deep_copies (DcgmHostEngineSpec_type lt) (DcgmHostEngineSpec_DeepCopyInto lc)"
  by (simp add: DcgmHostEngineSpec_type_def DcgmHostEngineSpec_DeepCopyInto_def deep_copies_rules
      library_deep)

lemma TLSConfig_deep: "deep_copies TLSConfig_type TLSConfig_DeepCopyInto"
  by (simp add: TLSConfig_type_def TLSConfig_DeepCopyInto_def deep_copies_rules)

lemma MetricRelabelConfig_deep: "deep_copies MetricRelabelConfig_type MetricRelabelConfig_DeepCopyInto"
  by (simp add: MetricRelabelConfig_type_def MetricRelabelConfig_DeepCopyInto_def deep_copies_rules)

lemma OpenAgentEndpoint_deep: "deep_copies OpenAgentEndpoint_type OpenAgentEndpoint_DeepCopyInto"
  by (simp add: OpenAgentEndpoint_type_def OpenAgentEndpoint_DeepCopyInto_def deep_copies_rules
      TLSConfig_deep BasicAuthConfig_deep AuthorizationConfig_deep MetricRelabelConfig_deep)

lemma OpenAgentTargetSpec_deep: "deep_copies OpenAgentTargetSpec_type OpenAgentTargetSpec_DeepCopyInto"
  by (simp add: OpenAgentTargetSpec_type_def OpenAgentTargetSpec_DeepCopyInto_def deep_copies_rules
      NamespaceSelector_deep PodSelector_deep MetricRelabelConfig_deep OpenAgentEndpoint_deep)

lemma OpenAgentSpec_deep: "deep_copies (OpenAgentSpec_type lt) (OpenAgentSpec_DeepCopyInto lc)"
  by (simp add: OpenAgentSpec_type_def OpenAgentSpec_DeepCopyInto_def deep_copies_rules
      OpenAgentTargetSpec_deep library_deep)

lemma MasterAgentComponentSpec_deep:
  "deep_copies (MasterAgentComponentSpec_type lt) (MasterAgentComponentSpec_DeepCopyInto lc)"
  by (simp add: MasterAgentComponentSpec_type_def MasterAgentComponentSpec_DeepCopyInto_def deep_copies_rules
      library_deep ContainerSpec_deep)

lemma NodeAgentComponentSpec_deep:
  "deep_copies (NodeAgentComponentSpec_type lt) (NodeAgentComponentSpec_DeepCopyInto lc)"
  by (simp add: NodeAgentComponentSpec_type_def NodeAgentComponentSpec_DeepCopyInto_def deep_copies_rules
      library_deep ContainerSpec_deep)

lemma GpuMonitoringServiceSpec_deep:
  "deep_copies GpuMonitoringServiceSpec_type GpuMonitoringServiceSpec_DeepCopyInto"
  by (simp add: GpuMonitoringServiceSpec_type_def GpuMonitoringServiceSpec_DeepCopyInto_def deep_copies_rules)

lemma GpuMonitoringSpec_deep: "deep_copies (GpuMonitoringSpec_type lt) (GpuMonitoringSpec_DeepCopyInto lc)"
  by (simp add: GpuMonitoringSpec_type_def GpuMonitoringSpec_DeepCopyInto_def deep_copies_rules
      library_deep MetricRelabelConfig_deep DcgmHostEngineSpec_deep)

lemma K8sAgentSpec_deep: "deep_copies (K8sAgentSpec_type lt) (K8sAgentSpec_DeepCopyInto lc)"
  by (simp add: K8sAgentSpec_type_def K8sAgentSpec_DeepCopyInto_def deep_copies_rules
      MasterAgentComponentSpec_deep NodeAgentComponentSpec_deep GpuMonitoringSpec_deep)

lemma FeaturesSpec_deep: "deep_copies (FeaturesSpec_type lt) (FeaturesSpec_DeepCopyInto lc)"
  by (simp add: FeaturesSpec_type_def FeaturesSpec_DeepCopyInto_def deep_copies_rules
      ApmSpec_deep OpenAgentSpec_deep K8sAgentSpec_deep)

lemma WhatapAgentSpec_deep: "deep_copies (WhatapAgentSpec_type lt) (WhatapAgentSpec_DeepCopyInto lc)"
  by (simp add: WhatapAgentSpec_type_def WhatapAgentSpec_DeepCopyInto_def deep_copies_rules
      FeaturesSpec_deep)

lemma WhatapAgentStatus_deep: "deep_copies (WhatapAgentStatus_type lt) (WhatapAgentStatus_DeepCopyInto lc)"
  by (simp add: WhatapAgentStatus_type_def WhatapAgentStatus_DeepCopyInto_def deep_copies_rules
      library_deep)

lemma WhatapAgent_deep: "deep_copies (WhatapAgent_type lt) (WhatapAgent_DeepCopyInto lc)"
  by (simp add: WhatapAgent_type_def WhatapAgent_DeepCopyInto_def deep_copies_rules
      library_deep WhatapAgentSpec_deep WhatapAgentStatus_deep)

lemma WhatapAgentList_deep: "deep_copies (WhatapAgentList_type lt) (WhatapAgentList_DeepCopyInto lc)"
  by (simp add: WhatapAgentList_type_def WhatapAgentList_DeepCopyInto_def deep_copies_rules
      library_deep WhatapAgent_deep)

lemma WhatapPodMonitorSpec_deep:
  "deep_copies (WhatapPodMonitorSpec_type lt) (WhatapPodMonitorSpec_DeepCopyInto lc)"
  by (simp add: WhatapPodMonitorSpec_type_def WhatapPodMonitorSpec_DeepCopyInto_def deep_copies_rules
      library_deep NamespaceSelector_deep OpenAgentEndpoint_deep MetricRelabelConfig_deep)

lemma WhatapPodMonitorStatus_deep:
  "deep_copies WhatapPodMonitorStatus_type WhatapPodMonitorStatus_DeepCopyInto"
  by (simp add: WhatapPodMonitorStatus_type_def WhatapPodMonitorStatus_DeepCopyInto_def deep_copies_rules)

lemma WhatapPodMonitor_deep: "deep_copies (WhatapPodMonitor_type lt) (WhatapPodMonitor_DeepCopyInto lc)"
  by (simp add: WhatapPodMonitor_type_def WhatapPodMonitor_DeepCopyInto_def deep_copies_rules
      library_deep WhatapPodMonitorSpec_deep)

lemma WhatapPodMonitorList_deep:
  "deep_copies (WhatapPodMonitorList_type lt) (WhatapPodMonitorList_DeepCopyInto lc)"
  by (simp add: WhatapPodMonitorList_type_def WhatapPodMonitorList_DeepCopyInto_def deep_copies_rules
      library_deep WhatapPodMonitor_deep)

lemma WhatapServiceMonitorSpec_deep:
  "deep_copies (WhatapServiceMonitorSpec_type lt) (WhatapServiceMonitorSpec_DeepCopyInto lc)"
  by (simp add: WhatapServiceMonitorSpec_type_def WhatapServiceMonitorSpec_DeepCopyInto_def deep_copies_rules
      library_deep NamespaceSelector_deep OpenAgentEndpoint_deep MetricRelabelConfig_deep)

lemma WhatapServiceMonitorStatus_deep:
  "deep_copies WhatapServiceMonitorStatus_type WhatapServiceMonitorStatus_DeepCopyInto"
  by (simp add: WhatapServiceMonitorStatus_type_def WhatapServiceMonitorStatus_DeepCopyInto_def deep_copies_rules)

lemma WhatapServiceMonitor_deep:
  "deep_copies (WhatapServiceMonitor_type lt) (WhatapServiceMonitor_DeepCopyInto lc)"
  by (simp add: WhatapServiceMonitor_type_def WhatapServiceMonitor_DeepCopyInto_def deep_copies_rules
      library_deep WhatapServiceMonitorSpec_deep)

lemma WhatapServiceMonitorList_deep:
  "deep_copies (WhatapServiceMonitorList_type lt) (WhatapServiceMonitorList_DeepCopyInto lc)"
  by (simp add: WhatapServiceMonitorList_type_def WhatapServiceMonitorList_DeepCopyInto_def deep_copies_rules
      library_deep WhatapServiceMonitor_deep)

lemma WhatapStaticEndpointSpec_deep:
  "deep_copies WhatapStaticEndpointSpec_type WhatapStaticEndpointSpec_DeepCopyInto"
  by (simp add: WhatapStaticEndpointSpec_type_def WhatapStaticEndpointSpec_DeepCopyInto_def deep_copies_rules
      OpenAgentEndpoint_deep MetricRelabelConfig_deep)

lemma WhatapStaticEndpointStatus_deep:
  "deep_copies WhatapStaticEndpointStatus_type WhatapStaticEndpointStatus_DeepCopyInto"
  by (simp add: WhatapStaticEndpointStatus_type_def WhatapStaticEndpointStatus_DeepCopyInto_def deep_copies_rules)

lemma WhatapStaticEndpoint_deep:
  "deep_copies (WhatapStaticEndpoint_type lt) (WhatapStaticEndpoint_DeepCopyInto lc)"
  by (simp add: WhatapStaticEndpoint_type_def WhatapStaticEndpoint_DeepCopyInto_def deep_copies_rules
      library_deep WhatapStaticEndpointSpec_deep)

lemma WhatapStaticEndpointList_deep:
  "deep_copies (WhatapStaticEndpointList_type lt) (WhatapStaticEndpointList_DeepCopyInto lc)"
  by (simp add: WhatapStaticEndpointList_type_def WhatapStaticEndpointList_DeepCopyInto_def deep_copies_rules
      library_deep WhatapStaticEndpoint_deep)

end


section \<open>The library the copies are made with\<close>

text \<open>Whatever its types are, a library can keep the contract: by copying what the types describe.\<close>

interpretation by_type: library_copies lt "\<lambda>n. copy_of_type (lt n)" for lt :: "string \<Rightarrow> go_type"
  by unfold_locales (rule deep_copies_of_type)

text \<open>
  A library with two types of its own, metadata with a map and resources with two, and scalars
  for the rest.
\<close>

definition small_lib_type :: "string \<Rightarrow> go_type" where
  "small_lib_type n =
     (if n = ''metav1.ObjectMeta'' then StructOf [(''Name'', ScalarT), (''Labels'', MapOf ScalarT)]
      else if n = ''v1.ResourceRequirements''
      then StructOf [(''Limits'', MapOf ScalarT), (''Requests'', MapOf ScalarT)]
      else ScalarT)"

definition small_lib_copy :: "string \<Rightarrow> copier" where
  "small_lib_copy n =
     (if n = ''metav1.ObjectMeta'' then members [(''Labels'', table plain)]
      else if n = ''v1.ResourceRequirements''
      then members [(''Limits'', table plain), (''Requests'', table plain)]
      else plain)"

interpretation small: library_copies small_lib_type small_lib_copy
  by unfold_locales
    (simp add: small_lib_type_def small_lib_copy_def deep_copies_rules)

section \<open>What the copies are for\<close>

text \<open>All the functions that allocate a copy, with the type they copy.\<close>

definition copy_functions ::
    "(string \<Rightarrow> go_type) \<Rightarrow> (string \<Rightarrow> copier) \<Rightarrow> (string \<times> go_type \<times> copier) list" where
  "copy_functions lt lc =
     [(''AgentComponentSpec'', AgentComponentSpec_type, AgentComponentSpec_DeepCopy),
      (''InitContainerSecuritySpec'', InitContainerSecuritySpec_type, InitContainerSecuritySpec_DeepCopy),
      (''LabelSelectorRequirement'', LabelSelectorRequirement_type, LabelSelectorRequirement_DeepCopy),
      (''NamespaceSelector'', NamespaceSelector_type, NamespaceSelector_DeepCopy),
      (''PodSelector'', PodSelector_type, PodSelector_DeepCopy),
      (''ConfigMapRef'', ConfigMapRef_type, ConfigMapRef_DeepCopy),
      (''ConfigSpec'', ConfigSpec_type, ConfigSpec_DeepCopy),
      (''TargetSpec'', TargetSpec_type lt, TargetSpec_DeepCopy lc),
      (''InstrumentationSpec'', InstrumentationSpec_type lt, InstrumentationSpec_DeepCopy lc),
      (''ApmSpec'', ApmSpec_type lt, ApmSpec_DeepCopy lc),
      (''SecretKeySelector'', SecretKeySelector_type, SecretKeySelector_DeepCopy),
      (''AuthorizationConfig'', AuthorizationConfig_type, AuthorizationConfig_DeepCopy),
      (''BasicAuthConfig'', BasicAuthConfig_type, BasicAuthConfig_DeepCopy),
      (''ContainerSpec'', ContainerSpec_type lt, ContainerSpec_DeepCopy lc),
      (''DcgmHostEngineSpec'', DcgmHostEngineSpec_type lt, DcgmHostEngineSpec_DeepCopy lc),
      (''TLSConfig'', TLSConfig_type, TLSConfig_DeepCopy),
      (''MetricRelabelConfig'', MetricRelabelConfig_type, MetricRelabelConfig_DeepCopy),
      (''OpenAgentEndpoint'', OpenAgentEndpoint_type, OpenAgentEndpoint_DeepCopy),
      (''OpenAgentTargetSpec'', OpenAgentTargetSpec_type, OpenAgentTargetSpec_DeepCopy),
      (''OpenAgentSpec'', OpenAgentSpec_type lt, OpenAgentSpec_DeepCopy lc),
      (''MasterAgentComponentSpec'', MasterAgentComponentSpec_type lt, MasterAgentComponentSpec_DeepCopy lc),
      (''NodeAgentComponentSpec'', NodeAgentComponentSpec_type lt, NodeAgentComponentSpec_DeepCopy lc),
      (''GpuMonitoringServiceSpec'', GpuMonitoringServiceSpec_type, GpuMonitoringServiceSpec_DeepCopy),
      (''GpuMonitoringSpec'', GpuMonitoringSpec_type lt, GpuMonitoringSpec_DeepCopy lc),
      (''K8sAgentSpec'', K8sAgentSpec_type lt, K8sAgentSpec_DeepCopy lc),
      (''FeaturesSpec'', FeaturesSpec_type lt, FeaturesSpec_DeepCopy lc),
      (''WhatapAgentSpec'', WhatapAgentSpec_type lt, WhatapAgentSpec_DeepCopy lc),
      (''WhatapAgentStatus'', WhatapAgentStatus_type lt, WhatapAgentStatus_DeepCopy lc),
      (''WhatapAgent'', WhatapAgent_type lt, WhatapAgent_DeepCopy lc),
      (''WhatapAgentList'', WhatapAgentList_type lt, WhatapAgentList_DeepCopy lc),
      (''WhatapPodMonitorSpec'', WhatapPodMonitorSpec_type lt, WhatapPodMonitorSpec_DeepCopy lc),
      (''WhatapPodMonitorStatus'', WhatapPodMonitorStatus_type, WhatapPodMonitorStatus_DeepCopy),
      (''WhatapPodMonitor'', WhatapPodMonitor_type lt, WhatapPodMonitor_DeepCopy lc),
      (''WhatapPodMonitorList'', WhatapPodMonitorList_type lt, WhatapPodMonitorList_DeepCopy lc),
      (''WhatapServiceMonitorSpec'', WhatapServiceMonitorSpec_type lt, WhatapServiceMonitorSpec_DeepCopy lc),
      (''WhatapServiceMonitorStatus'', WhatapServiceMonitorStatus_type, WhatapServiceMonitorStatus_DeepCopy),
      (''WhatapServiceMonitor'', WhatapServiceMonitor_type lt, WhatapServiceMonitor_DeepCopy lc),
      (''WhatapServiceMonitorList'', WhatapServiceMonitorList_type lt, WhatapServiceMonitorList_DeepCopy lc),
      (''WhatapStaticEndpointSpec'', WhatapStaticEndpointSpec_type, WhatapStaticEndpointSpec_DeepCopy),
      (''WhatapStaticEndpointStatus'', WhatapStaticEndpointStatus_type, WhatapStaticEndpointStatus_DeepCopy),
      (''WhatapStaticEndpoint'', WhatapStaticEndpoint_type lt, WhatapStaticEndpoint_DeepCopy lc),
      (''WhatapStaticEndpointList'', WhatapStaticEndpointList_type lt, WhatapStaticEndpointList_DeepCopy lc)]"

text \<open>The ones the runtime calls on the registered kinds.\<close>

definition object_functions ::
    "(string \<Rightarrow> go_type) \<Rightarrow> (string \<Rightarrow> copier) \<Rightarrow>
     (string \<times> go_type \<times> (go_value \<Rightarrow> memory \<Rightarrow> interface \<times> memory)) list" where
  "object_functions lt lc =
     [(''WhatapAgent'', WhatapAgent_type lt, WhatapAgent_DeepCopyObject lc),
      (''WhatapAgentList'', WhatapAgentList_type lt, WhatapAgentList_DeepCopyObject lc),
      (''WhatapPodMonitor'', WhatapPodMonitor_type lt, WhatapPodMonitor_DeepCopyObject lc),
      (''WhatapPodMonitorList'', WhatapPodMonitorList_type lt, WhatapPodMonitorList_DeepCopyObject lc),
      (''WhatapServiceMonitor'', WhatapServiceMonitor_type lt, WhatapServiceMonitor_DeepCopyObject lc),
      (''WhatapServiceMonitorList'', WhatapServiceMonitorList_type lt, WhatapServiceMonitorList_DeepCopyObject lc),
      (''WhatapStaticEndpoint'', WhatapStaticEndpoint_type lt, WhatapStaticEndpoint_DeepCopyObject lc),
      (''WhatapStaticEndpointList'', WhatapStaticEndpointList_type lt, WhatapStaticEndpointList_DeepCopyObject lc)]"

context library_copies
begin

lemmas all_deep =
  AgentComponentSpec_deep InitContainerSecuritySpec_deep LabelSelectorRequirement_deep
  NamespaceSelector_deep PodSelector_deep ConfigMapRef_deep ConfigSpec_deep TargetSpec_deep
  InstrumentationSpec_deep ApmSpec_deep SecretKeySelector_deep AuthorizationConfig_deep
  BasicAuthConfig_deep ContainerSpec_deep DcgmHostEngineSpec_deep TLSConfig_deep
  MetricRelabelConfig_deep OpenAgentEndpoint_deep OpenAgentTargetSpec_deep OpenAgentSpec_deep
  MasterAgentComponentSpec_deep NodeAgentComponentSpec_deep GpuMonitoringServiceSpec_deep
  GpuMonitoringSpec_deep K8sAgentSpec_deep FeaturesSpec_deep WhatapAgentSpec_deep
  WhatapAgentStatus_deep WhatapAgent_deep WhatapAgentList_deep WhatapPodMonitorSpec_deep
  WhatapPodMonitorStatus_deep WhatapPodMonitor_deep WhatapPodMonitorList_deep
  WhatapServiceMonitorSpec_deep WhatapServiceMonitorStatus_deep WhatapServiceMonitor_deep
  WhatapServiceMonitorList_deep WhatapStaticEndpointSpec_deep WhatapStaticEndpointStatus_deep
  WhatapStaticEndpoint_deep WhatapStaticEndpointList_deep

lemma copy_functions_deep:
  assumes "(n, T, copy) \<in> set (copy_functions lt lc)"
  shows "deep_copies (PointerTo T) copy"
proof -
  have "\<forall>(n, T, copy)\<in>set (copy_functions lt lc). deep_copies (PointerTo T) copy"
    by (simp add: copy_functions_def AgentComponentSpec_DeepCopy_def InitContainerSecuritySpec_DeepCopy_def
        LabelSelectorRequirement_DeepCopy_def NamespaceSelector_DeepCopy_def
        PodSelector_DeepCopy_def ConfigMapRef_DeepCopy_def ConfigSpec_DeepCopy_def
        TargetSpec_DeepCopy_def InstrumentationSpec_DeepCopy_def ApmSpec_DeepCopy_def
        SecretKeySelector_DeepCopy_def AuthorizationConfig_DeepCopy_def
        BasicAuthConfig_DeepCopy_def ContainerSpec_DeepCopy_def DcgmHostEngineSpec_DeepCopy_def
        TLSConfig_DeepCopy_def MetricRelabelConfig_DeepCopy_def OpenAgentEndpoint_DeepCopy_def
        OpenAgentTargetSpec_DeepCopy_def OpenAgentSpec_DeepCopy_def
        MasterAgentComponentSpec_DeepCopy_def NodeAgentComponentSpec_DeepCopy_def
        GpuMonitoringServiceSpec_DeepCopy_def GpuMonitoringSpec_DeepCopy_def
        K8sAgentSpec_DeepCopy_def FeaturesSpec_DeepCopy_def WhatapAgentSpec_DeepCopy_def
        WhatapAgentStatus_DeepCopy_def WhatapAgent_DeepCopy_def WhatapAgentList_DeepCopy_def
        WhatapPodMonitorSpec_DeepCopy_def WhatapPodMonitorStatus_DeepCopy_def
        WhatapPodMonitor_DeepCopy_def WhatapPodMonitorList_DeepCopy_def
        WhatapServiceMonitorSpec_DeepCopy_def WhatapServiceMonitorStatus_DeepCopy_def
        WhatapServiceMonitor_DeepCopy_def WhatapServiceMonitorList_DeepCopy_def
        WhatapStaticEndpointSpec_DeepCopy_def WhatapStaticEndpointStatus_DeepCopy_def
        WhatapStaticEndpoint_DeepCopy_def WhatapStaticEndpointList_DeepCopy_def deep_copies_pointer all_deep)
  then show ?thesis
    using assms by fast
qed

lemma object_functions_copy:
  assumes "(n, T, obj) \<in> set (object_functions lt lc)"
  obtains copy where "deep_copies (PointerTo T) (pointer copy)" and "obj = as_object n (pointer copy)"
proof -
  have "\<forall>(n, T, obj)\<in>set (object_functions lt lc).
      \<exists>copy. deep_copies (PointerTo T) (pointer copy) \<and> obj = as_object n (pointer copy)"
    unfolding object_functions_def list.set ball_simps prod.case
    by (intro conjI exI)
      (simp_all add: WhatapAgent_DeepCopy_def WhatapAgent_DeepCopyObject_def WhatapAgentList_DeepCopy_def
        WhatapAgentList_DeepCopyObject_def WhatapPodMonitor_DeepCopy_def
        WhatapPodMonitor_DeepCopyObject_def WhatapPodMonitorList_DeepCopy_def
        WhatapPodMonitorList_DeepCopyObject_def WhatapServiceMonitor_DeepCopy_def
        WhatapServiceMonitor_DeepCopyObject_def WhatapServiceMonitorList_DeepCopy_def
        WhatapServiceMonitorList_DeepCopyObject_def WhatapStaticEndpoint_DeepCopy_def
        WhatapStaticEndpoint_DeepCopyObject_def WhatapStaticEndpointList_DeepCopy_def
        WhatapStaticEndpointList_DeepCopyObject_def
        deep_copies_pointer all_deep)
  then show thesis
    using assms that by blast
qed

end

text \<open>
  C13. Every generated \<open>DeepCopy\<close> makes an independent copy: the copy reads as the same tree as the
  original, cell by cell it lies in memory that was allocated for it, no part of it is referred to
  twice, and no cell that was there before has changed.
\<close>

theorem deep_copy_independent:
  assumes "library_copies lt lc"
    and "(n, T, copy) \<in> set (copy_functions lt lc)"
    and "reads m (PointerTo T) p t as"
  shows "\<exists>q new bs. copy p m = (q, m @ new) \<and> reads (m @ new) (PointerTo T) q t bs \<and>
           distinct bs \<and> set bs \<inter> set as = {} \<and> set bs \<subseteq> {length m..<length (m @ new)}"
proof -
  have "deep_copies (PointerTo T) copy"
    using library_copies.copy_functions_deep [OF assms(1,2)] .
  then obtain q m' bs where "copy p m = (q, m')" "reads m' (PointerTo T) q t bs" "copied m m' bs"
    by (rule deep_copiesE [OF _ assms(3)])
  moreover have "set as \<subseteq> {..<length m}"
    using reads_allocated(1) [OF assms(3)] .
  ultimately show ?thesis
    by (fastforce simp: copied_def)
qed

text \<open>
  C14. What the runtime is given as a copy of a registered object is a copy in its own right: a nil
  object gives a nil interface and not a typed nil; otherwise, whatever is written to the copy
  and to memory allocated since, the object in the cache reads as before, and whatever happens to
  the object in the cache, the copy reads as it did.
\<close>

theorem object_copy_isolated:
  assumes "library_copies lt lc"
    and "(n, T, copy_object) \<in> set (object_functions lt lc)"
    and "reads m (PointerTo T) p t as"
  shows "case copy_object p m of
           (None, m') \<Rightarrow> p = NilRef \<and> m' = m
         | (Some (k, q), m') \<Rightarrow> k = n \<and> p \<noteq> NilRef \<and>
             (\<forall>later. take (length m) later = take (length m) m' \<longrightarrow>
                reads later (PointerTo T) p t as) \<and>
             (\<exists>bs. reads m' (PointerTo T) q t bs \<and>
                (\<forall>later. (\<forall>a\<ge>length m. cell_at later a = cell_at m' a) \<longrightarrow>
                   reads later (PointerTo T) q t bs))"
proof -
  obtain copy where deep: "deep_copies (PointerTo T) (pointer copy)"
    and obj: "copy_object = as_object n (pointer copy)"
    using library_copies.object_functions_copy [OF assms(1,2)] .
  obtain q m' bs where c: "pointer copy p m = (q, m')" "reads m' (PointerTo T) q t bs" "copied m m' bs"
    by (rule deep_copiesE [OF deep assms(3)])
  have p: "reads later (PointerTo T) p t as" if "take (length m) later = take (length m) m'" for later
    using that c(3) by (intro reads_prefix [OF assms(3)]) (auto simp: copied_def)
  have q: "reads later (PointerTo T) q t bs" if "\<forall>a\<ge>length m. cell_at later a = cell_at m' a" for later
    using that c(3) by (intro reads_frame(1) [OF c(2)]) (auto simp: copied_def)
  have nil: "q = NilRef \<longleftrightarrow> p = NilRef" "p = NilRef \<Longrightarrow> m' = m"
    using c(1) reads_nil_iff [OF assms(3)] reads_nil_iff [OF c(2)] by simp_all
  show ?thesis
    using p q c(1,2) nil by (auto simp: obj as_object_def)
qed

text \<open>Two fields that share one secret reference, and a static endpoint with labels and a rule.\<close>

definition shared_secret :: memory where
  "shared_secret =
     [Pointee (Struct [(''Username'', Ref 1), (''Password'', Ref 1)]),
      Pointee (Struct [(''Name'', Scalar ''db''), (''Key'', Scalar ''user''),
        (''Namespace'', Scalar '''')])]"

abbreviation (input) secret_tree :: go_tree where
  "secret_tree \<equiv>
     Pointed (Parts [(''Name'', Atom ''db''), (''Key'', Atom ''user''), (''Namespace'', Atom '''')])"

lemma shared_secret_reads:
  "\<exists>as. reads shared_secret (PointerTo BasicAuthConfig_type) (Ref 0)
     (Pointed (Parts [(''Username'', secret_tree), (''Password'', secret_tree)])) as"
  unfolding BasicAuthConfig_type_def SecretKeySelector_type_def
  by (rule exI) (rule reads_intros | simp add: shared_secret_def cell_at_def)+

theorem deep_copy_independent_witness:
  "\<exists>q new bs. BasicAuthConfig_DeepCopy (Ref 0) shared_secret = (q, shared_secret @ new) \<and>
     reads (shared_secret @ new) (PointerTo BasicAuthConfig_type) q
       (Pointed (Parts [(''Username'', secret_tree), (''Password'', secret_tree)])) bs \<and>
     distinct bs"
proof -
  have "(''BasicAuthConfig'', BasicAuthConfig_type, BasicAuthConfig_DeepCopy)
      \<in> set (copy_functions small_lib_type small_lib_copy)"
    by (simp add: copy_functions_def)
  then show ?thesis
    using shared_secret_reads deep_copy_independent [OF small.library_copies_axioms] by blast
qed

definition cached_endpoint :: memory where
  "cached_endpoint =
     [Pointee (Struct
        [(''TypeMeta'', Struct [(''Kind'', Scalar ''WhatapStaticEndpoint''),
            (''APIVersion'', Scalar ''monitoring.whatap.com/v2alpha1'')]),
         (''ObjectMeta'', Struct [(''Name'', Scalar ''db''), (''Labels'', Ref 1)]),
         (''Spec'', Struct [(''Endpoints'', NilRef), (''RelabelConfigs'', Slice 2 1 1),
            (''JobLabel'', Scalar '''')]),
         (''Status'', Struct [])]),
      Entries [(''app'', Scalar ''db'')],
      Elements [NilRef,
        Struct [(''SourceLabels'', NilRef), (''Separator'', Scalar '';''), (''Regex'', Scalar ''a''),
          (''Modulus'', Scalar ''0''), (''TargetLabel'', Scalar ''t''),
          (''Replacement'', Scalar ''b''), (''Action'', Scalar ''replace'')]]]"

definition endpoint_tree :: go_tree where
  "endpoint_tree =
     Pointed (Parts
       [(''TypeMeta'', Parts [(''Kind'', Atom ''WhatapStaticEndpoint''),
           (''APIVersion'', Atom ''monitoring.whatap.com/v2alpha1'')]),
        (''ObjectMeta'', Parts [(''Name'', Atom ''db''), (''Labels'', Keyed [(''app'', Atom ''db'')])]),
        (''Spec'', Parts [(''Endpoints'', Absent),
           (''RelabelConfigs'', Many
              [Parts [(''SourceLabels'', Absent), (''Separator'', Atom '';''), (''Regex'', Atom ''a''),
                 (''Modulus'', Atom ''0''), (''TargetLabel'', Atom ''t''),
                 (''Replacement'', Atom ''b''), (''Action'', Atom ''replace'')]]),
           (''JobLabel'', Atom '''')]),
        (''Status'', Parts [])])"

lemma cached_endpoint_reads:
  "\<exists>as. reads cached_endpoint (PointerTo (WhatapStaticEndpoint_type small_lib_type)) (Ref 0)
     endpoint_tree as"
  unfolding WhatapStaticEndpoint_type_def WhatapStaticEndpointSpec_type_def endpoint_tree_def
    MetricRelabelConfig_type_def flat_type_defs
  by (rule exI)
    (rule reads_intros | simp add: cached_endpoint_def cell_at_def small_lib_type_def)+

theorem object_copy_isolated_witness:
  "\<exists>q m' as bs.
     WhatapStaticEndpoint_DeepCopyObject small_lib_copy (Ref 0) cached_endpoint =
       (Some (''WhatapStaticEndpoint'', q), m') \<and>
     reads (m'[3 := Entries []]) (PointerTo (WhatapStaticEndpoint_type small_lib_type)) (Ref 0)
       endpoint_tree as \<and>
     reads (m'[0 := Pointee NilRef, 1 := Entries []])
       (PointerTo (WhatapStaticEndpoint_type small_lib_type)) q endpoint_tree bs"
proof -
  obtain as where r: "reads cached_endpoint
      (PointerTo (WhatapStaticEndpoint_type small_lib_type)) (Ref 0) endpoint_tree as"
    using cached_endpoint_reads by blast
  have mem: "(''WhatapStaticEndpoint'', WhatapStaticEndpoint_type small_lib_type,
      WhatapStaticEndpoint_DeepCopyObject small_lib_copy)
      \<in> set (object_functions small_lib_type small_lib_copy)"
    by (simp add: object_functions_def)
  obtain i m' where c: "WhatapStaticEndpoint_DeepCopyObject small_lib_copy (Ref 0) cached_endpoint = (i, m')"
    by fastforce
  note iso = object_copy_isolated [OF small.library_copies_axioms mem r, unfolded c prod.case]
  then obtain q where q: "i = Some (''WhatapStaticEndpoint'', q)"
    by (auto split: option.splits)
  have n: "length cached_endpoint = 3"
    by (simp add: cached_endpoint_def)
  obtain bs where late:
    "\<And>later. take 3 later = take 3 m' \<Longrightarrow>
       reads later (PointerTo (WhatapStaticEndpoint_type small_lib_type)) (Ref 0) endpoint_tree as"
    "\<And>later. \<forall>a\<ge>3. cell_at later a = cell_at m' a \<Longrightarrow>
       reads later (PointerTo (WhatapStaticEndpoint_type small_lib_type)) q endpoint_tree bs"
    using iso by (auto simp: q n)
  have "take 3 (m'[3 := Entries []]) = take 3 m'"
    by simp
  moreover have "\<forall>a\<ge>3. cell_at (m'[0 := Pointee NilRef, 1 := Entries []]) a = cell_at m' a"
    by (simp add: cell_at_def)
  ultimately show ?thesis
    using late c q by blast
qed

end
