(* ===== verification/MainProgram.thy ===== *)
theory MainProgram
  imports SampleWorld
begin

text \<open>
  Process start-up (\<open>src/cmd/main.go\<close>): the namespace the operator works in, its switches,
  the webhook's certificate, and the steps up to the running manager.  Keys and signatures are
  the functions of a record \<open>crypto\<close>; which step fails is an argument.  A failing step ends the
  process with code 1.
\<close>

section \<open>Namespace and switches\<close>

text \<open>\<open>strings.TrimSpace\<close> of a file of ASCII characters.\<close>

definition white_space :: "char \<Rightarrow> bool" where
  "white_space c \<longleftrightarrow> c = CHR '' '' \<or> (9 \<le> (of_char c :: nat) \<and> (of_char c :: nat) \<le> 13)"

definition trim_space :: "string \<Rightarrow> string" where
  "trim_space s = rev (dropWhile white_space (rev (dropWhile white_space s)))"

text \<open>\<open>file\<close>: the service account's namespace file, if it can be read.\<close>

definition default_namespace :: "env_config \<Rightarrow> string option \<Rightarrow> string" where
  "default_namespace cfg file =
     (let ns = ec_default_namespace cfg;
          ns = (if ns = '''' then (case file of Some b \<Rightarrow> trim_space b | None \<Rightarrow> ns) else ns)
      in if ns = '''' then ''whatap-monitoring'' else ns)"

text \<open>\<open>strconv.ParseBool\<close>.\<close>

definition parse_bool :: "string \<Rightarrow> bool option" where
  "parse_bool s =
     (if s \<in> set [''1'', ''t'', ''T'', ''true'', ''TRUE'', ''True''] then Some True
      else if s \<in> set [''0'', ''f'', ''F'', ''false'', ''FALSE'', ''False''] then Some False
      else None)"

definition switch :: "string \<Rightarrow> bool" where
  "switch val = (val \<noteq> '''' \<and> (case parse_bool val of Some b \<Rightarrow> b | None \<Rightarrow> False))"

text \<open>The flags on the command line, \<open>None\<close> if absent, and what they are after \<open>flag.Parse\<close>.\<close>

record flags =
  fl_metrics_addr :: "string option"
  fl_probe_addr :: "string option"
  fl_leader_elect :: "bool option"
  fl_metrics_secure :: "bool option"
  fl_enable_http2 :: "bool option"
  fl_gpu_check :: "bool option"

record settings =
  sg_metrics_addr :: string
  sg_probe_addr :: string
  sg_leader_elect :: bool
  sg_metrics_secure :: bool
  sg_enable_http2 :: bool
  sg_gpu_check :: bool
  sg_dev_mode :: bool

definition given :: "'a \<Rightarrow> 'a option \<Rightarrow> 'a" where
  "given d x = (case x of None \<Rightarrow> d | Some v \<Rightarrow> v)"

definition parse_settings :: "env_config \<Rightarrow> (string \<rightharpoonup> string) \<Rightarrow> flags \<Rightarrow> settings" where
  "parse_settings cfg os fl =
     \<lparr>sg_metrics_addr = given ''0'' (fl_metrics_addr fl),
      sg_probe_addr = given '':8081'' (fl_probe_addr fl),
      sg_leader_elect = given False (fl_leader_elect fl),
      sg_metrics_secure = given True (fl_metrics_secure fl),
      sg_enable_http2 = given False (fl_enable_http2 fl),
      sg_gpu_check =
        given (switch (getenv os ''ENABLED_WHATAP_DCGM_EXPORTER_MEMORY_CHECK'')) (fl_gpu_check fl),
      sg_dev_mode = switch (ec_debug_mode cfg)\<rparr>"

section \<open>The webhook's certificate\<close>

record cert_template =
  cx_common_name :: string
  cx_is_ca :: bool
  cx_signs_certs :: bool
  cx_server_auth :: bool
  cx_dns_names :: "string list"

text \<open>\<open>cy_create template parent public signer\<close> is \<open>x509.CreateCertificate\<close>, \<open>cy_key n\<close> the n-th
  \<open>rsa.GenerateKey\<close>.\<close>

record crypto =
  cy_key :: "nat \<Rightarrow> string + string"
  cy_public :: "string \<Rightarrow> string"
  cy_create :: "cert_template \<Rightarrow> cert_template \<Rightarrow> string \<Rightarrow> string \<Rightarrow> string + string"
  cy_parse :: "string \<Rightarrow> cert_template"
  cy_pem :: "string \<Rightarrow> string \<Rightarrow> string"
  cy_marshal_key :: "string \<Rightarrow> string"

record cert_files =
  cf_ca_cert :: string
  cf_ca_key :: string
  cf_server_cert :: string
  cf_server_key :: string

definition ca_template :: cert_template where
  "ca_template = \<lparr>cx_common_name = ''whatap-webhook-ca'', cx_is_ca = True, cx_signs_certs = True,
     cx_server_auth = False, cx_dns_names = []\<rparr>"

definition server_template :: "string \<Rightarrow> string \<Rightarrow> cert_template" where
  "server_template serviceName namespace =
     \<lparr>cx_common_name = serviceName @ ''.'' @ namespace @ ''.svc'', cx_is_ca = False,
      cx_signs_certs = False, cx_server_auth = True,
      cx_dns_names = [serviceName @ ''.'' @ namespace @ ''.svc'',
                      serviceName @ ''.'' @ namespace @ ''.svc.cluster.local'']\<rparr>"

definition generateSelfSignedCert :: "crypto \<Rightarrow> string \<Rightarrow> string \<Rightarrow> string + cert_files" where
  "generateSelfSignedCert cy serviceName namespace =
     (case cy_key cy 0 of Inl e \<Rightarrow> Inl e | Inr caKey \<Rightarrow>
      (case cy_create cy ca_template ca_template (cy_public cy caKey) caKey of Inl e \<Rightarrow> Inl e | Inr caDER \<Rightarrow>
       (case cy_key cy 1 of Inl e \<Rightarrow> Inl e | Inr srvKey \<Rightarrow>
        (case cy_create cy (server_template serviceName namespace) (cy_parse cy caDER)
                (cy_public cy srvKey) caKey of
           Inl e \<Rightarrow> Inl e
         | Inr serverDER \<Rightarrow>
             Inr \<lparr>cf_ca_cert = cy_pem cy ''CERTIFICATE'' caDER,
                  cf_ca_key = cy_pem cy ''RSA PRIVATE KEY'' (cy_marshal_key cy caKey),
                  cf_server_cert = cy_pem cy ''CERTIFICATE'' serverDER,
                  cf_server_key = cy_pem cy ''RSA PRIVATE KEY'' (cy_marshal_key cy srvKey)\<rparr>))))"

section \<open>From the certificate to the running manager\<close>

record manager_options =
  mo_metrics_addr :: string
  mo_metrics_secure :: bool
  mo_metrics_auth :: bool
  mo_tls_opts :: "(string list \<Rightarrow> string list) list"
  mo_webhook_port :: nat
  mo_cert_dir :: string
  mo_cert_name :: string
  mo_key_name :: string
  mo_probe_addr :: string
  mo_leader_elect :: bool
  mo_leader_id :: string

text \<open>A TLS option changes the server's configuration, of which \<open>NextProtos\<close> is kept.\<close>

definition disableHTTP2 :: "string list \<Rightarrow> string list" where
  "disableHTTP2 protos = [''http/1.1'']"

definition tls_opts :: "settings \<Rightarrow> (string list \<Rightarrow> string list) list" where
  "tls_opts sg = (if \<not> sg_enable_http2 sg then [disableHTTP2] else [])"

record reconciler =
  rc_namespace :: string
  rc_ca_bundle :: string
  rc_ca_key :: string
  rc_server_cert :: string
  rc_server_key :: string

text \<open>File modes and intervals (seconds) are numbers.\<close>

datatype boot_step =
    MakeDir string nat
  | WriteFile string string nat
  | NewManager manager_options
  | SetupController reconciler
  | SetupWebhook
  | AddHealthzCheck
  | AddReadyzCheck
  | NewClientset
  | AddGpuMemChecker nat
  | StartManager

text \<open>The handlers \<open>SetupWebhook\<close> registers, by their paths; the first error ends it.\<close>

datatype handler = WhatapAgentCustomDefaulter | WhatapAgentCustomValidator

definition SetupWhatapAgentWebhookWithManager :: "(string \<times> handler) list" where
  "SetupWhatapAgentWebhookWithManager =
     [(''/whatap-injection--v1-pod'', WhatapAgentCustomDefaulter),
      (''/whatap-validation--v2alpha1-whatapagent'', WhatapAgentCustomValidator)]"

definition boot_steps :: "env_config \<Rightarrow> settings \<Rightarrow> string \<Rightarrow> cert_files \<Rightarrow> boot_step list" where
  "boot_steps cfg sg ns files =
     [MakeDir ''/etc/webhook/certs'' 448,
      WriteFile ''/etc/webhook/certs/ca.crt'' (cf_ca_cert files) 420,
      WriteFile ''/etc/webhook/certs/ca.key'' (cf_ca_key files) 420,
      WriteFile ''/etc/webhook/certs/tls.crt'' (cf_server_cert files) 384,
      WriteFile ''/etc/webhook/certs/tls.key'' (cf_server_key files) 420,
      NewManager \<lparr>mo_metrics_addr = sg_metrics_addr sg, mo_metrics_secure = sg_metrics_secure sg,
        mo_metrics_auth = sg_metrics_secure sg, mo_tls_opts = tls_opts sg, mo_webhook_port = 9443,
        mo_cert_dir = ''/etc/webhook/certs'', mo_cert_name = ''tls.crt'', mo_key_name = ''tls.key'',
        mo_probe_addr = sg_probe_addr sg, mo_leader_elect = sg_leader_elect sg,
        mo_leader_id = ''19e8a60c.whatap.com''\<rparr>,
      SetupController \<lparr>rc_namespace = ns, rc_ca_bundle = cf_ca_cert files, rc_ca_key = cf_ca_key files,
        rc_server_cert = cf_server_cert files, rc_server_key = cf_server_key files\<rparr>] @
     (if ec_enable_webhooks cfg \<noteq> ''false'' then [SetupWebhook] else []) @
     [AddHealthzCheck, AddReadyzCheck] @
     (if sg_gpu_check sg then [NewClientset, AddGpuMemChecker 30] else []) @
     [StartManager]"

lemma http2_off:
  "foldl (\<lambda>protos f. f protos) protos (tls_opts sg) =
     (if sg_enable_http2 sg then protos else [''http/1.1''])"
  by (simp add: tls_opts_def disableHTTP2_def)

text \<open>The steps taken, the failed one included, and the exit code.\<close>

fun run_steps :: "(boot_step \<Rightarrow> bool) \<Rightarrow> boot_step list \<Rightarrow> boot_step list \<times> nat" where
  "run_steps ok [] = ([], 0)"
| "run_steps ok (s # rest) =
     (if ok s then (case run_steps ok rest of (taken, code) \<Rightarrow> (s # taken, code)) else ([s], 1))"

definition main ::
  "env_config \<Rightarrow> (string \<rightharpoonup> string) \<Rightarrow> string option \<Rightarrow> flags \<Rightarrow> crypto \<Rightarrow> (boot_step \<Rightarrow> bool) \<Rightarrow>
     boot_step list \<times> nat" where
  "main cfg os file fl cy ok =
     (let ns = default_namespace cfg file
      in case generateSelfSignedCert cy ''whatap-admission-controller'' ns of
           Inl e \<Rightarrow> ([], 1)
         | Inr files \<Rightarrow> run_steps ok (boot_steps cfg (parse_settings cfg os fl) ns files))"

lemma run_steps_prefix: "\<exists>rest. steps = fst (run_steps ok steps) @ rest"
  by (induction steps) (auto split: prod.split)

lemma default_namespace_cases:
  "default_namespace cfg file \<noteq> ''''"
  "ec_default_namespace cfg \<noteq> '''' \<Longrightarrow> default_namespace cfg file = ec_default_namespace cfg"
  by (simp_all add: default_namespace_def Let_def)

lemma prefix_split:
  assumes "taken @ rest = pre @ a # later" and "b \<in> set taken" and "b \<notin> set pre" and "b \<notin> set later"
  shows "b = a \<and> (\<exists>post. taken = pre @ a # post)"
  using assms by (auto simp: append_eq_append_conv2 append_eq_Cons_conv)

definition reconciler_of :: "string \<Rightarrow> cert_files \<Rightarrow> reconciler" where
  "reconciler_of ns files =
     \<lparr>rc_namespace = ns, rc_ca_bundle = cf_ca_cert files, rc_ca_key = cf_ca_key files,
      rc_server_cert = cf_server_cert files, rc_server_key = cf_server_key files\<rparr>"

lemma boot_steps_split:
  "\<exists>pre later mo. boot_steps cfg sg ns files = pre @ SetupController (reconciler_of ns files) # later \<and>
     pre = take 5 (boot_steps cfg sg ns files) @ [NewManager mo] \<and>
     SetupController r \<notin> set pre \<and> SetupController r \<notin> set later"
  by (rule exI [of _ "take 6 (boot_steps cfg sg ns files)"],
      rule exI [of _ "drop 7 (boot_steps cfg sg ns files)"])
    (simp add: boot_steps_def reconciler_of_def)

lemma webhook_target:
  assumes "mutate_webhooks w cr existing = Inr y" and "wh \<in> set (wh_webhooks y)"
  shows "mw_ca_bundle wh = w_ca_bundle w" and "mw_service_name wh = ''whatap-admission-controller''"
    and "mw_service_namespace wh = w_namespace w"
    and "mw_path wh \<in> fst ` set SetupWhatapAgentWebhookWithManager"
  using assms
  by (auto simp: mutate_webhooks_def owned_meta_def pod_webhook_def agent_webhook_def Let_def
      SetupWhatapAgentWebhookWithManager_def split: sum.splits)

text \<open>C18. The API server can reach and verify the webhook: in every run of the program that gets as far as the
  controller, and for every webhook the controller then configures, the CA bundle of the
  configuration is the certificate of a CA whose key signed the server certificate, that
  certificate is issued for the DNS name of the service and namespace the configuration points
  at, and it and its key were written to the webhook server's files before; and the configured
  path is one a handler is registered for.\<close>

theorem webhook_certificate_matches:
  assumes "SetupController r \<in> set (fst (main cfg os file fl cy ok))"
    and "w_namespace w = rc_namespace r" and "w_ca_bundle w = rc_ca_bundle r"
    and "mutate_webhooks w cr existing = Inr y" and "wh \<in> set (wh_webhooks y)"
  shows "\<exists>caKey caDER srvKey srvDER template pre post.
           mw_ca_bundle wh = cy_pem cy ''CERTIFICATE'' caDER \<and>
           cy_create cy ca_template ca_template (cy_public cy caKey) caKey = Inr caDER \<and>
           cy_create cy template (cy_parse cy caDER) (cy_public cy srvKey) caKey = Inr srvDER \<and>
           mw_service_name wh @ ''.'' @ mw_service_namespace wh @ ''.svc'' \<in> set (cx_dns_names template) \<and>
           mw_path wh \<in> fst ` set SetupWhatapAgentWebhookWithManager \<and>
           fst (main cfg os file fl cy ok) = pre @ SetupController r # post \<and>
           {WriteFile ''/etc/webhook/certs/tls.crt'' (cy_pem cy ''CERTIFICATE'' srvDER) 384,
            WriteFile ''/etc/webhook/certs/tls.key''
              (cy_pem cy ''RSA PRIVATE KEY'' (cy_marshal_key cy srvKey)) 420} \<subseteq> set pre"
proof -
  let ?ns = "default_namespace cfg file"
  obtain files where files: "generateSelfSignedCert cy ''whatap-admission-controller'' ?ns = Inr files"
    using assms(1) by (auto simp: main_def Let_def split: sum.splits)
  then obtain caKey caDER srvKey srvDER where keys:
    "cy_create cy ca_template ca_template (cy_public cy caKey) caKey = Inr caDER"
    "cy_create cy (server_template ''whatap-admission-controller'' ?ns) (cy_parse cy caDER)
       (cy_public cy srvKey) caKey = Inr srvDER"
    "cf_ca_cert files = cy_pem cy ''CERTIFICATE'' caDER"
    "cf_server_cert files = cy_pem cy ''CERTIFICATE'' srvDER"
    "cf_server_key files = cy_pem cy ''RSA PRIVATE KEY'' (cy_marshal_key cy srvKey)"
    unfolding generateSelfSignedCert_def by (auto split: sum.splits)
  let ?steps = "boot_steps cfg (parse_settings cfg os fl) ?ns files"
  have main: "fst (main cfg os file fl cy ok) = fst (run_steps ok ?steps)"
    by (simp add: main_def files)
  obtain rest where rest: "fst (run_steps ok ?steps) @ rest = ?steps"
    using run_steps_prefix by metis
  obtain pre later mo where steps: "?steps = pre @ SetupController (reconciler_of ?ns files) # later"
    "pre = take 5 ?steps @ [NewManager mo]"
    "SetupController r \<notin> set pre" "SetupController r \<notin> set later"
    using boot_steps_split by blast
  obtain post where post: "r = reconciler_of ?ns files"
    "fst (run_steps ok ?steps) = pre @ SetupController r # post"
    using prefix_split [of "fst (run_steps ok ?steps)" rest pre "SetupController (reconciler_of ?ns files)"
        later "SetupController r"] rest steps(1,3,4) assms(1) main by auto
  have written: "{WriteFile ''/etc/webhook/certs/tls.crt'' (cy_pem cy ''CERTIFICATE'' srvDER) 384,
      WriteFile ''/etc/webhook/certs/tls.key''
        (cy_pem cy ''RSA PRIVATE KEY'' (cy_marshal_key cy srvKey)) 420} \<subseteq> set pre"
    unfolding steps(2) by (simp add: boot_steps_def keys(4,5))
  have wh: "mw_ca_bundle wh = cf_ca_cert files" "mw_service_name wh = ''whatap-admission-controller''"
    "mw_service_namespace wh = ?ns"
    using webhook_target [OF assms(4,5)] assms(2,3) by (simp_all add: post(1) reconciler_of_def)
  have "mw_service_name wh @ ''.'' @ mw_service_namespace wh @ ''.svc'' \<in>
      set (cx_dns_names (server_template ''whatap-admission-controller'' ?ns))"
    by (simp only: wh server_template_def cert_template.simps list.set insertI1)
  then show ?thesis
    using keys wh(1) post(2) written main webhook_target(4) [OF assms(4,5)] by metis
qed

text \<open>A run in which everything succeeds, and one that finds the webhooks switched off.\<close>

definition sample_crypto :: crypto where
  "sample_crypto =
     \<lparr>cy_key = (\<lambda>n. Inr (if n = 0 then ''k0'' else ''k1'')), cy_public = id,
      cy_create = (\<lambda>t parent pub signer. Inr (cx_common_name t @ signer)), cy_parse = (\<lambda>_. ca_template),
      cy_pem = (\<lambda>kind der. der), cy_marshal_key = id\<rparr>"

definition sample_flags :: flags where
  "sample_flags = \<lparr>fl_metrics_addr = None, fl_probe_addr = None, fl_leader_elect = None,
     fl_metrics_secure = None, fl_enable_http2 = None, fl_gpu_check = None\<rparr>"

lemma run_all: "run_steps (\<lambda>_. True) steps = (steps, 0)"
  by (induction steps) simp_all

definition sample_files :: cert_files where
  "sample_files = \<lparr>cf_ca_cert = ''whatap-webhook-cak0'', cf_ca_key = ''k0'',
     cf_server_cert = ''whatap-admission-controller.whatap-monitoring.svck0'', cf_server_key = ''k1''\<rparr>"

lemma sample_main:
  "fst (main sample_config Map.empty None sample_flags sample_crypto (\<lambda>_. True)) =
     boot_steps sample_config (parse_settings sample_config Map.empty sample_flags)
       ''whatap-monitoring'' sample_files"
proof -
  have "default_namespace sample_config None = ''whatap-monitoring''"
    by (simp add: default_namespace_def sample_config_def)
  moreover have "generateSelfSignedCert sample_crypto ''whatap-admission-controller'' ''whatap-monitoring'' =
      Inr sample_files"
    by (simp add: generateSelfSignedCert_def sample_crypto_def ca_template_def server_template_def
        sample_files_def)
  ultimately show ?thesis by (simp add: main_def run_all)
qed

lemma webhook_certificate_matches_witness:
  "\<exists>srvDER pre post.
     fst (main sample_config Map.empty None sample_flags sample_crypto (\<lambda>_. True)) =
       pre @ SetupController (reconciler_of ''whatap-monitoring'' sample_files) # post \<and>
     WriteFile ''/etc/webhook/certs/tls.crt'' (cy_pem sample_crypto ''CERTIFICATE'' srvDER) 384 \<in> set pre"
proof -
  let ?r = "reconciler_of ''whatap-monitoring'' sample_files"
  let ?w = "(sample_world grant_all edited)\<lparr>w_namespace := rc_namespace ?r, w_ca_bundle := rc_ca_bundle ?r\<rparr>"
  have r: "SetupController ?r \<in> set (fst (main sample_config Map.empty None sample_flags sample_crypto (\<lambda>_. True)))"
    unfolding sample_main boot_steps_def reconciler_of_def by simp
  obtain y where y: "mutate_webhooks ?w zero_agent None = Inr y"
    by (simp add: mutate_webhooks_def owned_meta_def sample_world_def Let_def)
  then have "pod_webhook ?w (findWebhook [] ''mpod.kb.io'') \<in> set (wh_webhooks y)"
    by (auto simp: mutate_webhooks_def owned_meta_def Let_def split: sum.splits)
  from webhook_certificate_matches [OF r _ _ y this] show ?thesis by fastforce
qed

end
