(* ===== verification/Spec2Isabelle.thy ===== *)
theory Spec2Isabelle
  imports Admission GpuMemCheck GpuMonitoring GpuMetrics ControlLoop ScrapeFormat DeepCopy
    MainProgram
begin

text \<open>
  The WhaTap Kubernetes operator: what its webhook does to a pod, what its controller makes of
  the custom resource \<open>WhatapAgent\<close>, and how the process that runs both comes up.

  \<^bold>\<open>The program.\<close>  The operator is one process (\<open>src/cmd/main.go\<close>) with two halves that meet in the
  custom resource.  The admission half (\<open>src/internal/webhook/v2alpha1\<close>) receives every pod on
  creation, looks for the first target of \<open>features.apm.instrumentation\<close> that selects it, and
  patches it: an init container copies the language agent to a shared volume, the containers get
  environment variables.  The controller half (\<open>src/internal/controller\<close>) installs the webhook's
  Service, Secret and configuration, renders the master agent (Deployment), the node agent (one or
  two DaemonSets, with the GPU exporter and its Service) and the open agent (Deployment with a
  scrape configuration) and updates what is in the cluster; a periodic check deletes pods whose
  GPU exporter runs out of memory.

  \<^bold>\<open>Foundations.\<close>
  \<^item> \<open>WhatapPrelude\<close>: Go maps, lists of named entries and the loops over them.
  \<^item> \<open>KubeTypes\<close>, \<open>AgentApi\<close>: the structs of the Kubernetes API and of \<open>src/api/v2alpha1\<close>, a
    record per struct.
  \<^item> \<open>EnvConfig\<close>, \<open>AgentConstants\<close>, \<open>Samples\<close>: the operator's environment
    (\<open>src/internal/config/env.go\<close>), the webhook's constants, and zero values for examples.

  \<^bold>\<open>The webhook.\<close>
  \<^item> \<open>EnvVars\<close>, \<open>Selectors\<close>, \<open>Injectors\<close>, \<open>PodPatch\<close>, \<open>Admission\<close>: from the helpers of \<open>utils.go\<close>
    over the language injectors and \<open>patchPodTemplateSpec\<close> to the handlers of
    \<open>whatapagent_webhook.go\<close>.  The lemmas say who wins for each environment variable, that the
    patched pod is well formed, and that the handler patches with the first matching target, once.

  \<^bold>\<open>What the controller renders.\<close>
  \<^item> \<open>NodeAffinity\<close>, \<open>ContainerMerge\<close>, \<open>AgentSpecs\<close>: the placement of the node agents, the update
    of an existing pod template and the rendered master and node agents.
  \<^item> \<open>ScrapeConfig\<close>: \<open>generateScrapeConfig\<close> with its converters, the target added for the GPU
    exporter and the ordering of maps before they are marshalled; the lemmas show that the text
    does not depend on the order in which Go iterates a map.
  \<^item> \<open>ScrapeFormat\<close>: the format of the scrape configuration as a typing relation, and a reader that
    gets the user's targets back from what was rendered.
  \<^item> \<open>OpenAgent\<close>: the open agent's Deployment and the TLS secrets it mounts for the files the
    scrape configuration names.

  \<^bold>\<open>What the controller does.\<close>
  \<^item> \<open>ApiCalls\<close>: requests to the API server as a state monad over the trace of requests and
    answers.  The server, the cache and the client libraries are the record \<open>world\<close>: an answer is
    any function of the trace, so every theorem holds for every cluster and every interleaving
    with other clients.  \<open>emits\<close> and \<open>at_most\<close> are the two predicates on computations that the
    bounds are proved with, by rules that follow the structure of the code.
  \<^item> \<open>Installers\<close>: the functions of \<open>install_agents.go\<close> that write, each with the mutate function
    it hands to \<open>CreateOrUpdate\<close>.
  \<^item> \<open>Reconciler\<close>: \<open>whatapagent_controller.go\<close>, from the webhook's objects and the clean-up to
    \<open>Reconcile\<close>.
  \<^item> \<open>ReconcilePass\<close>, \<open>PassOutcome\<close>: which objects a pass may touch, how many requests it makes,
    what it reports, and what it does when every request is granted.
  \<^item> \<open>SteadyState\<close>: every mutate function of a pass is idempotent.
  \<^item> \<open>ApiServer\<close>: the server's side, a cluster of stored objects; the laws a server keeps are the
    locale \<open>api_server\<close>, in which every kind of request has a rule for its effect, with a reference
    server as its interpretation.
  \<^item> \<open>Convergence\<close>: the plan, a specification of the changes a custom resource asks for, and in
    the locale \<open>steady_agent\<close> (a server, and a custom resource nobody edits) the theorems that a
    pass makes the plan come true, that failed passes leave nothing half done, that the
    controller recovers and rests, and what a deletion leaves.
  \<^item> \<open>Watches\<close>: \<open>SetupWithManager\<close>, which events enqueue which request; an object of the operator that
    is changed or deleted is noticed and repaired.
  \<^item> \<open>ControlLoop\<close>: the controller under its work queue as a step relation, with edits, writes of
    others and passes of whatever outcome; its invariant says that nothing is amiss while the
    controller sleeps.
  \<^item> \<open>GpuMonitoring\<close>: the DaemonSets, the exporter's Service and the scrape target together.
  \<^item> \<open>GpuMetrics\<close>: the exporter's table of metrics (\<open>src/internal/gpu/csv.go\<close>).
  \<^item> \<open>GpuMemCheck\<close>: the memory check of \<open>gpu_mem_check.go\<close>, its counters 64-bit words, its test a
    division of doubles written out with their rounding.
  \<^item> \<open>MainProgram\<close>: namespace, switches, certificate and start-up sequence; the webhook's
    certificate fits the configuration the controller writes.
  \<^item> \<open>SampleWorld\<close>: concrete worlds for the witnesses.

  \<^bold>\<open>Sharing in memory.\<close>
  \<^item> \<open>GoMemory\<close>: pointers, slices and maps as references to cells, what a value of a Go type reads
    as (\<open>reads\<close>, an inductive relation that also collects the cells it goes through), the forms of
    statement a copy function is made of, and the contract \<open>deep_copies\<close> with a rule for each form.
  \<^item> \<open>GoTypes\<close>, \<open>DeepCopy\<close>: the Go type of each struct of the API package and the 92 generated copy
    functions of \<open>src/api/v2alpha1/zz_generated.deepcopy.go\<close>; the copy functions of the Kubernetes
    libraries are the parameter of the locale \<open>library_copies\<close>.  Every copy is deep.

  \<^bold>\<open>Conventions.\<close>  A Go map is its list of entries, in the order an iteration would visit them; a
  theorem over all lists is a theorem over all orders, and where the code's result depends on the
  order that is what is proved.  A nil map is \<open>None\<close>.  A pointer of the custom resource that two
  calls write through (the node agent's affinity) is passed on explicitly: \<open>after_first_agent\<close> is
  the custom resource after the first of the two.  An error is a value; logging is left out.
  \<open>UpdateStatus\<close> carries the whole object; the server takes the status only.

  \<^bold>\<open>Bounds.\<close>  The retry loop of the open agent's Deployment makes at most three attempts
  (\<open>deploy_loop\<close>, total by its measure).  \<open>RetryOnConflict\<close> is \<open>tries n\<close>, \<open>n\<close> repetitions after a
  conflict; its default backoff allows four.  No definition uses fuel.

  Cells of memory are never freed, and addresses are natural numbers without a bound.

  \<^bold>\<open>Not modelled.\<close>  Logging (but for two functions that do nothing else, \<open>logResult\<close> and
  \<open>populateCredentialsFromEnv\<close>, and \<open>getKind\<close>, which names an object in a log line); the work queue
  and the cache of the controller library, beyond what \<open>ControlLoop\<close> states of them; passes that
  overlap with edits, which start the next pass; the registration of types with the scheme
  (\<open>src/api/v2alpha1/groupversion_info.go\<close> and the \<open>init\<close> functions); defaulting by the API server,
  so that an object that settles here may still be completed by the server; the parsing of
  command-line flags, beyond their defaults; interior pointers, into a struct or an array,
  which the custom resource's types have no use for; the helpers of the end-to-end tests.
\<close>

end
